(* ===== verification/Prelude.thy ===== *)
theory Prelude
  imports
    Main
    "HOL-Library.Word"
    "HOL-Library.Finite_Map"
    "HOL-Library.Multiset"
    "HOL-Library.List_Lexorder"
    "HOL-Library.Char_ord"
begin

text \<open>
  What every theory of the development shares: the Go types the sources use, the part of
  Go's standard library that works on strings and numbers (\<open>strings.Join\<close>,
  \<open>strings.Split\<close>, \<open>strconv.FormatInt\<close>, \<open>strconv.ParseInt\<close>, \<open>sort.Slice\<close>), the outcome
  of a Go call that may panic, and the lemma collections that carry the component proofs.

  Conventions. A Go \<open>string\<close> and a \<open>[]byte\<close> are byte lists (type \<^typ>\<open>string\<close>, whose
  characters are bytes, compared bytewise as Go compares strings). A non-nil Go map is a
  finite map, a Go map that may be nil an option of one. A Go \<open>int64\<close> is a 64-bit word read
  by \<^const>\<open>sint\<close>. A function with results \<open>(T, error)\<close> returns a sum, \<^const>\<open>Inl\<close> the
  error; where the caller can see the mutated argument of a failing call, the argument is
  returned too.
\<close>

section \<open>Types and lemma collections\<close>

type_synonym bytes = string
type_synonym int64 = "64 word"
type_synonym labels = "(string, string) fmap"

named_theorems fs_simps \<open>equations of the operating-system file model\<close>
named_theorems ctl_defs \<open>definitions of the reconcilers' steps\<close>

text \<open>The outcome of a Go call: it returns, or it panics (a nil pointer dereference).\<close>

datatype 'a go = Panic string | Ret 'a

section \<open>Lists and finite maps\<close>

lemma find_snoc:
  "find P (xs @ [x]) = (case find P xs of None \<Rightarrow> (if P x then Some x else None) | Some y \<Rightarrow> Some y)"
  by (induction xs) auto

lemma find_None_list_ex: "\<not> list_ex P xs \<Longrightarrow> find P xs = None"
  by (auto simp: find_None_iff list_ex_iff)

lemma fmap_empty_iff_dom: "m = fmempty \<longleftrightarrow> fmdom m = {||}"
  by (metis fmdom_empty fmrestrict_fset_dom fmrestrict_fset_null)

lemma fmap_ext_all: "fmlookup m = fmlookup n \<Longrightarrow> m = n"
  by (rule fmap_ext) simp

lemma fmlookup_add_right: "fmlookup n k = Some v \<Longrightarrow> fmlookup (m ++\<^sub>f n) k = Some v"
  by (simp add: fmdomI)

lemma fmlookup_add_left: "fmlookup n k = None \<Longrightarrow> fmlookup (m ++\<^sub>f n) k = fmlookup m k"
  by (auto simp: fmlookup_dom_iff)

text \<open>One order in which the keys of a map may be enumerated; the witnesses use it.\<close>

definition key_order :: "(string, 'v) fmap \<Rightarrow> string list" where
  "key_order m = sorted_list_of_fset (fmdom m)"

lemma key_order_set: "set (key_order m) = fset (fmdom m)"
  by (simp add: key_order_def)

lemma key_order_distinct: "distinct (key_order m)"
  by (simp add: key_order_def sorted_list_of_fset.rep_eq)

section \<open>Strings\<close>

text \<open>\<open>strings.Join(elems, sep)\<close>.\<close>

fun strings_Join :: "string list \<Rightarrow> string \<Rightarrow> string" where
  "strings_Join [] sep = []"
| "strings_Join [x] sep = x"
| "strings_Join (x # y # xs) sep = x @ sep @ strings_Join (y # xs) sep"

text \<open>\<open>strings.Split(s, c)\<close> for a separator of one byte.\<close>

fun strings_Split :: "string \<Rightarrow> char \<Rightarrow> string list" where
  "strings_Split [] c = [[]]"
| "strings_Split (x # xs) c =
     (if x = c then [] # strings_Split xs c
      else (case strings_Split xs c of [] \<Rightarrow> [[x]] | w # ws \<Rightarrow> (x # w) # ws))"

lemma strings_Split_nonempty [simp]: "strings_Split s c \<noteq> []"
  by (induction s) (auto split: list.splits)

lemma strings_Split_no_sep: "w \<in> set (strings_Split s c) \<Longrightarrow> c \<notin> set w"
proof (induction s arbitrary: w)
  case Nil
  then show ?case by simp
next
  case (Cons x s)
  then show ?case by (cases "strings_Split s c") (auto split: if_splits)
qed

lemma strings_Split_append:
  "strings_Split (s @ c # t) c = strings_Split s c @ strings_Split t c"
  by (induction s) (auto split: list.splits)

lemma strings_Split_plain: "c \<notin> set w \<Longrightarrow> strings_Split w c = [w]"
  by (induction w) auto

lemma strings_Split_Join:
  assumes "\<And>w. w \<in> set ws \<Longrightarrow> c \<notin> set w" and "ws \<noteq> []"
  shows "strings_Split (strings_Join ws [c]) c = ws"
  using assms
proof (induction ws "[c]" rule: strings_Join.induct)
  case (3 x y xs)
  then show ?case
    by (simp add: strings_Split_append strings_Split_plain)
qed (simp_all add: strings_Split_plain)

text \<open>\<open>strings.HasPrefix\<close> and \<open>strings.HasSuffix\<close>.\<close>

definition strings_HasPrefix :: "string \<Rightarrow> string \<Rightarrow> bool" where
  "strings_HasPrefix s p \<longleftrightarrow> take (length p) s = p"

definition strings_HasSuffix :: "string \<Rightarrow> string \<Rightarrow> bool" where
  "strings_HasSuffix s p \<longleftrightarrow> strings_HasPrefix (rev s) (rev p)"

lemma strings_HasPrefix_append [simp]: "strings_HasPrefix (p @ s) p"
  by (simp add: strings_HasPrefix_def)

lemma strings_HasPrefix_iff: "strings_HasPrefix s p \<longleftrightarrow> (\<exists>t. s = p @ t)"
  unfolding strings_HasPrefix_def by (metis append_take_drop_id append_eq_conv_conj)

text \<open>The bytes \<open>bytes.TrimSpace\<close> strips (its ASCII table), and the trimming itself.\<close>

definition is_space :: "char \<Rightarrow> bool" where
  "is_space c \<longleftrightarrow> c \<in> {CHR 0x09, CHR 0x0A, CHR 0x0B, CHR 0x0C, CHR 0x0D, CHR 0x20}"

definition bytes_TrimSpace :: "bytes \<Rightarrow> bytes" where
  "bytes_TrimSpace b = rev (dropWhile is_space (rev (dropWhile is_space b)))"

section \<open>Numbers as text\<close>

definition digit_char :: "nat \<Rightarrow> char" where
  "digit_char d = char_of (48 + d)"

definition is_digit :: "char \<Rightarrow> bool" where
  "is_digit c \<longleftrightarrow> 48 \<le> (of_char c :: nat) \<and> (of_char c :: nat) \<le> 57"

definition digit_val :: "char \<Rightarrow> nat" where
  "digit_val c = of_char c - 48"

lemma of_digit_char: "d < 10 \<Longrightarrow> (of_char (digit_char d) :: nat) = 48 + d"
  by (simp add: digit_char_def)

lemma is_digit_digit_char [simp]: "d < 10 \<Longrightarrow> is_digit (digit_char d)"
  by (simp add: is_digit_def of_digit_char)

lemma digit_val_digit_char [simp]: "d < 10 \<Longrightarrow> digit_val (digit_char d) = d"
  by (simp add: digit_val_def of_digit_char)

fun nat_decimal :: "nat \<Rightarrow> string" where
  "nat_decimal n =
     (if n < 10 then [digit_char n] else nat_decimal (n div 10) @ [digit_char (n mod 10)])"

declare nat_decimal.simps [simp del]

definition decimal_val :: "string \<Rightarrow> nat" where
  "decimal_val s = foldl (\<lambda>a c. 10 * a + digit_val c) 0 s"

lemma decimal_val_snoc: "decimal_val (s @ [c]) = 10 * decimal_val s + digit_val c"
  by (simp add: decimal_val_def)

lemma decimal_val_nat_decimal [simp]: "decimal_val (nat_decimal n) = n"
proof (induction n rule: nat_decimal.induct)
  case (1 n)
  show ?case
  proof (cases "n < 10")
    case True
    then show ?thesis by (simp add: nat_decimal.simps [of n] decimal_val_def)
  next
    case False
    then show ?thesis
      by (simp add: nat_decimal.simps [of n] decimal_val_snoc "1.IH")
  qed
qed

lemma nat_decimal_digits: "list_all is_digit (nat_decimal n)"
proof (induction n rule: nat_decimal.induct)
  case (1 n)
  then show ?case by (cases "n < 10") (simp_all add: nat_decimal.simps [of n])
qed

lemma nat_decimal_not_Nil [simp]: "nat_decimal n \<noteq> []"
  by (subst nat_decimal.simps) simp

text \<open>\<open>strconv.Itoa\<close> and \<open>strconv.FormatInt(i, 10)\<close>.\<close>

definition strconv_Itoa :: "int \<Rightarrow> string" where
  "strconv_Itoa i = (if i < 0 then CHR ''-'' # nat_decimal (nat (- i)) else nat_decimal (nat i))"

datatype num_error = ErrSyntax | ErrRange

text \<open>
  \<open>strconv.ParseUint(s, 10, w)\<close> and \<open>strconv.ParseInt(s, 10, 64)\<close>: the value returned next
  to the error is 0 on a syntax error and the nearest bound on a range error.
\<close>

definition strconv_ParseUint :: "string \<Rightarrow> nat \<Rightarrow> nat \<times> num_error option" where
  "strconv_ParseUint s w =
     (if s = [] \<or> \<not> list_all is_digit s then (0, Some ErrSyntax)
      else if decimal_val s < 2 ^ w then (decimal_val s, None)
      else (2 ^ w - 1, Some ErrRange))"

definition strconv_ParseInt :: "string \<Rightarrow> int \<times> num_error option" where
  "strconv_ParseInt s =
     (let neg = (s \<noteq> [] \<and> hd s = CHR ''-'');
          body = (if s \<noteq> [] \<and> (hd s = CHR ''-'' \<or> hd s = CHR ''+'') then tl s else s)
      in if body = [] \<or> \<not> list_all is_digit body then (0, Some ErrSyntax)
         else if \<not> neg \<and> decimal_val body \<ge> 2 ^ 63 then (2 ^ 63 - 1, Some ErrRange)
         else if neg \<and> decimal_val body > 2 ^ 63 then (- (2 ^ 63), Some ErrRange)
         else if neg then (- int (decimal_val body), None)
         else (int (decimal_val body), None))"

text \<open>\<open>strconv.Atoi\<close> on a 64-bit platform.\<close>

definition strconv_Atoi :: "string \<Rightarrow> int \<times> num_error option" where
  "strconv_Atoi s = strconv_ParseInt s"

lemma hd_nat_decimal: "is_digit (hd (nat_decimal n))"
  using nat_decimal_digits [of n] by (cases "nat_decimal n") simp_all

lemma not_digit_sign [simp]: "\<not> is_digit CHR ''-''" "\<not> is_digit CHR ''+''"
  by (simp_all add: is_digit_def)

lemma strconv_ParseInt_Itoa:
  assumes "- (2 ^ 63) \<le> i" and "i < 2 ^ 63"
  shows "strconv_ParseInt (strconv_Itoa i) = (i, None)"
proof (cases "i < 0")
  case True
  with assms show ?thesis
    by (simp add: strconv_ParseInt_def strconv_Itoa_def nat_decimal_digits Let_def)
next
  case False
  have "hd (nat_decimal (nat i)) \<noteq> CHR ''-''" "hd (nat_decimal (nat i)) \<noteq> CHR ''+''"
    using hd_nat_decimal [of "nat i"] by auto
  moreover have "nat i < 2 ^ 63" using assms False by (simp add: nat_less_iff)
  ultimately show ?thesis
    using False by (simp add: strconv_ParseInt_def strconv_Itoa_def nat_decimal_digits Let_def)
qed

text \<open>Two integers have the same decimal text only when they are equal.\<close>

lemma nat_decimal_inject [simp]: "nat_decimal m = nat_decimal n \<longleftrightarrow> m = n"
  by (metis decimal_val_nat_decimal)

section \<open>Sorting\<close>

text \<open>
  \<open>sort.Slice(xs, less)\<close> with \<open>less\<close> comparing a key: Go promises a permutation sorted by
  the key and nothing about elements with equal keys. The model is the stable sort (what
  Go's insertion sort does on slices of up to twelve elements); the locale states the
  promise alone, and shows that with distinct keys it determines the result.
\<close>

locale slice_sort =
  fixes sorter :: "('a \<Rightarrow> 'k::linorder) \<Rightarrow> 'a list \<Rightarrow> 'a list"
  assumes sorter_perm: "mset (sorter f xs) = mset xs"
    and sorter_sorted: "sorted (map f (sorter f xs))"
begin

lemma sorter_set: "set (sorter f xs) = set xs"
  using sorter_perm by (metis set_mset_mset)

lemma sorter_length: "length (sorter f xs) = length xs"
  using sorter_perm by (metis size_mset)

lemma sorter_unique:
  assumes "distinct (map f xs)" and "mset ys = mset xs" and "sorted (map f ys)"
  shows "sorter f xs = ys"
proof (rule map_sorted_distinct_set_unique)
  have "distinct (map f zs)" if "mset zs = mset xs" for zs
    using assms(1) that by (metis distinct_count_atmost_1 mset_map set_mset_mset)
  then show "distinct (map f (sorter f xs))" "distinct (map f ys)"
    using sorter_perm assms(2) by blast+
  show "inj_on f (set (sorter f xs) \<union> set ys)"
    using assms(1) sorter_set mset_eq_setD [OF assms(2)] by (simp add: distinct_map)
  show "set (sorter f xs) = set ys"
    using sorter_set mset_eq_setD [OF assms(2)] by simp
qed (simp_all add: sorter_sorted assms)

end

definition sort_Slice :: "('a \<Rightarrow> 'k::linorder) \<Rightarrow> 'a list \<Rightarrow> 'a list" where
  "sort_Slice f xs = sort_key f xs"

interpretation go_sort: slice_sort sort_Slice
  by unfold_locales (simp_all add: sort_Slice_def)

end
