(* ===== verification/Errors.thy ===== *)
theory Errors
  imports Prelude
begin

text \<open>
  The Go \<open>error\<close> values of the program, one datatype per package that declares error types:
  \<open>res_error\<close> for \<open>internal/errors\<close>, \<open>dcr_error\<close> for \<open>internal/datacenterresource\<close> and
  \<open>cfg_error\<close> for \<open>internal/configuration\<close>. Errors the program receives (from the operating
  system, the Kubernetes API, the network and the YAML, JSON and template libraries) are
  \<open>sys_error\<close>: which of the tests the sources use they answer to, and their text.
  Each \<open>_Error\<close> function is the \<open>Error()\<close> method. The last section models
  \<open>errors.Is\<close>, \<open>errors.As\<close> and \<open>errors.Join\<close> on the chains the program builds.
\<close>

section \<open>Errors received from outside\<close>

datatype sys_error =
    NotExist string     \<comment> \<open>\<open>errors.Is(err, fs.ErrNotExist)\<close>\<close>
  | OsError string
  | ApiNotFound string  \<comment> \<open>\<open>apierrors.IsNotFound(err)\<close>\<close>
  | ApiError string
  | NetError string
  | LibError string

fun sys_error_Error :: "sys_error \<Rightarrow> string" where
  "sys_error_Error (NotExist t) = t"
| "sys_error_Error (OsError t) = t"
| "sys_error_Error (ApiNotFound t) = t"
| "sys_error_Error (ApiError t) = t"
| "sys_error_Error (NetError t) = t"
| "sys_error_Error (LibError t) = t"

section \<open>Formatting verbs\<close>

text \<open>
  The verb \<open>%q\<close> on ASCII text (the names and keys it is applied to are ASCII by the API
  server's validation): quotes, backslashes and control characters are escaped.
\<close>

definition hex_digit :: "nat \<Rightarrow> char" where
  "hex_digit d = (if d < 10 then char_of (48 + d) else char_of (87 + d))"

definition quote_char :: "char \<Rightarrow> string" where
  "quote_char c =
     (let n = (of_char c :: nat); esc = CHR 0x5C in
      if c = CHR 0x22 \<or> c = CHR 0x5C then [esc, c]
      else if n = 7 then [esc, CHR ''a''] else if n = 8 then [esc, CHR ''b'']
      else if n = 9 then [esc, CHR ''t''] else if n = 10 then [esc, CHR ''n'']
      else if n = 11 then [esc, CHR ''v''] else if n = 12 then [esc, CHR ''f'']
      else if n = 13 then [esc, CHR ''r'']
      else if n < 32 \<or> n = 127 then [esc, CHR ''x'', hex_digit (n div 16), hex_digit (n mod 16)]
      else [c])"

definition strconv_Quote :: "string \<Rightarrow> string" where
  "strconv_Quote s = CHR 0x22 # concat (map quote_char s) @ [CHR 0x22]"

text \<open>The verb \<open>%v\<close> on a slice of strings.\<close>

definition format_slice :: "string list \<Rightarrow> string" where
  "format_slice xs = ''['' @ strings_Join xs '' '' @ '']''"

section \<open>Package errors\<close>

definition KindConfigMap :: string where
  "KindConfigMap = ''configmap''"

definition KindSecret :: string where
  "KindSecret = ''secret''"

datatype res_error =
    GetError string string sys_error
  | MissingKeyError string string string
  | MissingOptionError string "string list"
  | NotImplementedError

fun res_error_Error :: "res_error \<Rightarrow> string" where
  "res_error_Error (GetError kind name err) =
     ''get '' @ kind @ '' '' @ strconv_Quote name @ '': '' @ sys_error_Error err"
| "res_error_Error (MissingKeyError kind name key) =
     kind @ '' '' @ strconv_Quote name @ '' does not contain key '' @ strconv_Quote key"
| "res_error_Error (MissingOptionError parent options) =
     parent @ '' must specify one of: '' @ format_slice options"
| "res_error_Error NotImplementedError = ''not implemented''"

section \<open>Package datacenterresource\<close>

datatype dcr_error =
    ErrorResourceNotFound string
  | ErrorCycleDetected string
  | ErrorUnknownType string
  | ErrorServiceDefinedOnParent string
  | ErrorInvalidLabelName string

fun dcr_error_Error :: "dcr_error \<Rightarrow> string" where
  "dcr_error_Error (ErrorResourceNotFound r) = ''could not locate resource: '' @ r"
| "dcr_error_Error (ErrorCycleDetected r) =
     ''cyclic loop detected in data center resources from child '' @ r"
| "dcr_error_Error (ErrorUnknownType t) = ''unknown type: '' @ t"
| "dcr_error_Error (ErrorServiceDefinedOnParent r) =
     ''service ID must not be defined on '' @ r @ '' with children (no leaf node)''"
| "dcr_error_Error (ErrorInvalidLabelName l) = ''invalid additional label name: '' @ l"

section \<open>Package configuration\<close>

datatype ConnectErrorType = ConnectErrorTypeHost | ConnectErrorTypePort | ConnectErrorTypeAddress

fun ConnectErrorType_text :: "ConnectErrorType \<Rightarrow> string" where
  "ConnectErrorType_text ConnectErrorTypeHost = ''host''"
| "ConnectErrorType_text ConnectErrorTypePort = ''port''"
| "ConnectErrorType_text ConnectErrorTypeAddress = ''address''"

datatype cfg_error =
    UnsetError string
  | EmptyError string
  | InvalidError string string string "sys_error option"
  | ConnectError ConnectErrorType "string list" string string "sys_error option"

text \<open>The verb \<open>%s\<close> prints a nil error as \<open>%!s(<nil>)\<close>.\<close>

fun cfg_error_Error :: "cfg_error \<Rightarrow> string" where
  "cfg_error_Error (UnsetError v) = ''environment variable '' @ v @ '' is not set''"
| "cfg_error_Error (EmptyError v) = ''environment variable '' @ v @ '' is an empty string''"
| "cfg_error_Error (InvalidError v value reason err) =
     (let msg = ''environment variable '' @ v @ '' ('' @ [CHR 0x27] @ value @ [CHR 0x27]
                  @ '') is not valid: '' @ reason
      in case err of None \<Rightarrow> msg | Some e \<Rightarrow> msg @ ''. '' @ sys_error_Error e)"
| "cfg_error_Error (ConnectError t vs value reason err) =
     ''cannot connect to '' @ ConnectErrorType_text t @ '' '' @ value
       @ '' (from environment variable '' @ format_slice vs @ ''): ''
       @ (case err of None \<Rightarrow> ''%!s(<nil>)'' | Some e \<Rightarrow> sys_error_Error e) @ ''. '' @ reason"

section \<open>The error interface\<close>

text \<open>
  \<open>Errorf\<close> is \<open>fmt.Errorf\<close> without \<open>%w\<close>; \<open>Wrapf p e\<close> is \<open>fmt.Errorf("p: %w", e)\<close>, the only
  shape in which the sources wrap; \<open>JoinErr\<close> is a joined error.
\<close>

datatype gerror =
    SysErr sys_error
  | ResErr res_error
  | DcrErr dcr_error
  | CfgErr cfg_error
  | Errorf string
  | Wrapf string gerror
  | JoinErr "gerror list"

fun gerror_Error :: "gerror \<Rightarrow> string" where
  "gerror_Error (SysErr e) = sys_error_Error e"
| "gerror_Error (ResErr e) = res_error_Error e"
| "gerror_Error (DcrErr e) = dcr_error_Error e"
| "gerror_Error (CfgErr e) = cfg_error_Error e"
| "gerror_Error (Errorf t) = t"
| "gerror_Error (Wrapf p e) = p @ '': '' @ gerror_Error e"
| "gerror_Error (JoinErr es) = strings_Join (map gerror_Error es) [CHR 0x0A]"

fun sys_is_not_exist :: "sys_error \<Rightarrow> bool" where
  "sys_is_not_exist (NotExist _) = True"
| "sys_is_not_exist _ = False"

fun sys_is_api_not_found :: "sys_error \<Rightarrow> bool" where
  "sys_is_api_not_found (ApiNotFound _) = True"
| "sys_is_api_not_found _ = False"

text \<open>
  \<open>errors.Is(err, fs.ErrNotExist)\<close>, which unwraps \<open>GetError\<close>, \<open>InvalidError\<close>,
  \<open>ConnectError\<close>, wrapped and joined errors.
\<close>

fun errors_Is_NotExist :: "gerror \<Rightarrow> bool" where
  "errors_Is_NotExist (SysErr e) = sys_is_not_exist e"
| "errors_Is_NotExist (ResErr (GetError _ _ e)) = sys_is_not_exist e"
| "errors_Is_NotExist (ResErr _) = False"
| "errors_Is_NotExist (DcrErr _) = False"
| "errors_Is_NotExist (CfgErr (InvalidError _ _ _ (Some e))) = sys_is_not_exist e"
| "errors_Is_NotExist (CfgErr (ConnectError _ _ _ _ (Some e))) = sys_is_not_exist e"
| "errors_Is_NotExist (CfgErr _) = False"
| "errors_Is_NotExist (Errorf _) = False"
| "errors_Is_NotExist (Wrapf _ e) = errors_Is_NotExist e"
| "errors_Is_NotExist (JoinErr es) = list_ex errors_Is_NotExist es"

text \<open>\<open>errors.As(err, &missingResource)\<close> for the target type \<open>ErrorResourceNotFound\<close>.\<close>

fun errors_As_ResourceNotFound :: "gerror \<Rightarrow> bool" where
  "errors_As_ResourceNotFound (DcrErr (ErrorResourceNotFound _)) = True"
| "errors_As_ResourceNotFound (Wrapf _ e) = errors_As_ResourceNotFound e"
| "errors_As_ResourceNotFound (JoinErr es) = list_ex errors_As_ResourceNotFound es"
| "errors_As_ResourceNotFound _ = False"

text \<open>\<open>errors.Join\<close>: nil errors are dropped, and the result is nil when all are.\<close>

definition errors_Join :: "gerror option list \<Rightarrow> gerror option" where
  "errors_Join es = (let js = List.map_filter (\<lambda>e. e) es in if js = [] then None else Some (JoinErr js))"

lemma errors_Join_None_iff: "errors_Join es = None \<longleftrightarrow> set es \<subseteq> {None}"
  by (auto simp: errors_Join_def Let_def List.map_filter_def filter_empty_conv)

end
