(* ===== verification/Paths.thy ===== *)
theory Paths
  imports Prelude
begin

text \<open>
  Go's \<open>path/filepath\<close> on Unix, as far as the program uses it: \<open>Clean\<close>, \<open>Join\<close>, \<open>Dir\<close>,
  \<open>Base\<close>, \<open>Ext\<close> and \<open>Rel\<close>. Every path denotes a normal form \<^term>\<open>(rooted, components)\<close>;
  the file model is indexed by it, so two spellings of one path are one file. The lemmas
  say that \<open>Clean\<close> keeps the denotation, that joining a base with plain components
  appends them, and that \<open>Dir\<close> drops the last one.
\<close>

type_synonym fpath = "bool \<times> string list"

definition is_rooted :: "string \<Rightarrow> bool" where
  "is_rooted p = (case p of [] \<Rightarrow> False | c # _ \<Rightarrow> c = CHR ''/'')"

text \<open>One component of \<open>Clean\<close>'s scan; the stack holds the components so far, last first.\<close>

definition path_push :: "bool \<Rightarrow> string list \<Rightarrow> string \<Rightarrow> string list" where
  "path_push rooted st c =
     (if c = [] \<or> c = ''.'' then st
      else if c = ''..'' then
        (case st of
           [] \<Rightarrow> (if rooted then [] else [''..''])
         | t # ts \<Rightarrow> (if t = ''..'' then ''..'' # st else ts))
      else c # st)"

definition path_norm :: "string \<Rightarrow> fpath" where
  "path_norm p =
     (is_rooted p, rev (foldl (path_push (is_rooted p)) [] (strings_Split p CHR ''/'')))"

definition path_text :: "fpath \<Rightarrow> string" where
  "path_text fp =
     (case fp of (rooted, cs) \<Rightarrow>
        if rooted then CHR ''/'' # strings_Join cs ''/''
        else if cs = [] then ''.'' else strings_Join cs ''/'')"

definition filepath_Clean :: "string \<Rightarrow> string" where
  "filepath_Clean p = path_text (path_norm p)"

definition filepath_Join :: "string list \<Rightarrow> string" where
  "filepath_Join es =
     (let es' = dropWhile (\<lambda>e. e = []) es in
      if es' = [] then [] else filepath_Clean (strings_Join es' ''/''))"

definition filepath_Dir :: "string \<Rightarrow> string" where
  "filepath_Dir p = filepath_Clean (rev (dropWhile (\<lambda>c. c \<noteq> CHR ''/'') (rev p)))"

definition filepath_Base :: "string \<Rightarrow> string" where
  "filepath_Base p =
     (if p = [] then ''.''
      else let q = rev (dropWhile (\<lambda>c. c = CHR ''/'') (rev p)) in
           if q = [] then ''/'' else last (strings_Split q CHR ''/''))"

definition filepath_Ext :: "string \<Rightarrow> string" where
  "filepath_Ext p =
     (let b = last (strings_Split p CHR ''/'') in
      if CHR ''.'' \<in> set b then CHR ''.'' # last (strings_Split b CHR ''.'') else [])"

fun drop_common :: "string list \<Rightarrow> string list \<Rightarrow> string list \<times> string list" where
  "drop_common (b # bs) (t # ts) = (if b = t then drop_common bs ts else (b # bs, t # ts))"
| "drop_common bs ts = (bs, ts)"

text \<open>\<open>filepath.Rel(base, targ)\<close>; \<^const>\<open>None\<close> is its error.\<close>

definition filepath_Rel :: "string \<Rightarrow> string \<Rightarrow> string option" where
  "filepath_Rel base targ =
     (let (br, bs) = path_norm base; (tr, ts) = path_norm targ; (bs', ts') = drop_common bs ts in
      if br \<noteq> tr then None
      else if bs' \<noteq> [] \<and> hd bs' = ''..'' then None
      else Some (path_text (False, replicate (length bs') ''..'' @ ts')))"

section \<open>Plain components\<close>

definition plain_name :: "string \<Rightarrow> bool" where
  "plain_name n \<longleftrightarrow> n \<noteq> [] \<and> n \<noteq> ''.'' \<and> n \<noteq> ''..'' \<and> CHR ''/'' \<notin> set n"

text \<open>A relative path of plain components; empty components (doubled or trailing slashes) are dropped.\<close>

definition rel_comps :: "string \<Rightarrow> string list" where
  "rel_comps e = filter (\<lambda>c. c \<noteq> []) (strings_Split e CHR ''/'')"

definition plain_rel :: "string \<Rightarrow> bool" where
  "plain_rel e \<longleftrightarrow> \<not> is_rooted e \<and> list_all plain_name (rel_comps e)"

lemma rel_comps_plain_name: "plain_name n \<Longrightarrow> rel_comps n = [n]"
  by (simp add: rel_comps_def plain_name_def strings_Split_plain)

lemma plain_rel_plain_name: "plain_name n \<Longrightarrow> plain_rel n"
  by (auto simp: plain_rel_def rel_comps_plain_name)
    (auto simp: plain_name_def is_rooted_def split: list.splits)

lemma path_push_plain [simp]: "plain_name c \<Longrightarrow> path_push r st c = c # st"
  by (simp add: path_push_def plain_name_def)

lemma path_push_Nil [simp]: "path_push r st [] = st"
  by (simp add: path_push_def)

lemma foldl_path_push_plain:
  assumes "\<And>c. c \<in> set cs \<Longrightarrow> c = [] \<or> plain_name c"
  shows "foldl (path_push r) st cs = rev (filter (\<lambda>c. c \<noteq> []) cs) @ st"
  using assms
proof (induction cs arbitrary: st)
  case (Cons c cs)
  then have "foldl (path_push r) (path_push r st c) cs
      = rev (filter (\<lambda>c. c \<noteq> []) cs) @ path_push r st c" by simp
  with Cons.prems [of c] show ?case by auto
qed simp

lemma foldl_path_push_plain_rel:
  assumes "plain_rel e"
  shows "foldl (path_push r) st (strings_Split e CHR ''/'') = rev (rel_comps e) @ st"
proof -
  have "c = [] \<or> plain_name c" if "c \<in> set (strings_Split e CHR ''/'')" for c
    using assms that by (auto simp: plain_rel_def rel_comps_def list_all_iff)
  then show ?thesis by (simp add: foldl_path_push_plain rel_comps_def)
qed

section \<open>Normal forms\<close>

text \<open>What a normal form satisfies: dot-dot components only in front of a relative path.\<close>

definition wf_comp :: "string \<Rightarrow> bool" where
  "wf_comp c \<longleftrightarrow> c \<noteq> [] \<and> c \<noteq> ''.'' \<and> CHR ''/'' \<notin> set c"

text \<open>The stack is the path reversed, so below a dot-dot there are only dot-dots.\<close>

fun wf_stack :: "bool \<Rightarrow> string list \<Rightarrow> bool" where
  "wf_stack r [] = True"
| "wf_stack r (c # st) =
     (wf_comp c \<and> wf_stack r st \<and> (c = ''..'' \<longrightarrow> \<not> r \<and> list_all (\<lambda>d. d = ''..'') st))"

definition wf_fpath :: "fpath \<Rightarrow> bool" where
  "wf_fpath fp \<longleftrightarrow> wf_stack (fst fp) (rev (snd fp))"

lemma wf_stack_comps: "wf_stack r st \<Longrightarrow> c \<in> set st \<Longrightarrow> wf_comp c"
  by (induction st) auto

lemma wf_stack_push:
  assumes "wf_stack r st" and "CHR ''/'' \<notin> set c"
  shows "wf_stack r (path_push r st c)"
  using assms by (cases st) (auto simp: path_push_def wf_comp_def)

lemma wf_stack_foldl:
  assumes "wf_stack r st" and "\<And>c. c \<in> set cs \<Longrightarrow> CHR ''/'' \<notin> set c"
  shows "wf_stack r (foldl (path_push r) st cs)"
  using assms by (induction cs arbitrary: st) (simp_all add: wf_stack_push)

lemma wf_path_norm [simp]: "wf_fpath (path_norm p)"
proof -
  have "wf_stack (is_rooted p) (foldl (path_push (is_rooted p)) [] (strings_Split p CHR ''/''))"
    by (rule wf_stack_foldl) (auto dest: strings_Split_no_sep)
  then show ?thesis by (simp add: wf_fpath_def path_norm_def)
qed

text \<open>Scanning a normal form pushes every component.\<close>

lemma foldl_path_push_wf:
  assumes "wf_stack r (rev cs @ st)"
  shows "foldl (path_push r) st cs = rev cs @ st"
  using assms
proof (induction cs arbitrary: st)
  case (Cons c cs)
  have st: "wf_stack r (c # st)"
    using Cons.prems by (induction cs rule: rev_induct) auto
  have "path_push r st c = c # st"
  proof (cases "c = ''..''")
    case True
    with st show ?thesis by (cases st) (auto simp: path_push_def)
  next
    case False
    with st show ?thesis by (auto simp: path_push_def wf_comp_def)
  qed
  with Cons show ?case by simp
qed simp

lemma path_norm_text:
  assumes "wf_fpath fp"
  shows "path_norm (path_text fp) = fp"
proof (cases fp)
  case (Pair r cs)
  have comps: "wf_comp c" if "c \<in> set cs" for c
    using assms wf_stack_comps [of r "rev cs" c] that by (simp add: Pair wf_fpath_def)
  then have nosep: "\<And>c. c \<in> set cs \<Longrightarrow> CHR ''/'' \<notin> set c" by (simp add: wf_comp_def)
  have scan: "foldl (path_push r) [] cs = rev cs"
    using assms foldl_path_push_wf [of r cs "[]"] by (simp add: Pair wf_fpath_def)
  show ?thesis
  proof (cases "cs = []")
    case True
    then show ?thesis
      by (simp add: Pair path_text_def path_norm_def is_rooted_def path_push_def)
  next
    case False
    then have split: "strings_Split (strings_Join cs ''/'') CHR ''/'' = cs"
      using nosep by (simp add: strings_Split_Join)
    have "\<not> is_rooted (strings_Join cs ''/'')"
    proof (cases "hd cs")
      case Nil
      with comps False show ?thesis by (metis hd_in_set wf_comp_def)
    next
      case (Cons a as)
      with nosep [OF hd_in_set [OF False]] have "a \<noteq> CHR ''/''" by auto
      moreover have "\<exists>t. strings_Join cs ''/'' = hd cs @ t"
        by (cases "(cs, ''/'')" rule: strings_Join.cases) (use False in auto)
      ultimately show ?thesis by (auto simp: is_rooted_def Cons)
    qed
    with False split scan show ?thesis
      by (cases r) (simp_all add: Pair path_text_def path_norm_def, simp_all add: is_rooted_def)
  qed
qed

lemma path_norm_Clean [simp]: "path_norm (filepath_Clean p) = path_norm p"
  by (simp add: filepath_Clean_def path_norm_text)

lemma filepath_Clean_idem [simp]: "filepath_Clean (filepath_Clean p) = filepath_Clean p"
  by (simp add: filepath_Clean_def path_norm_text)

section \<open>Join and Dir\<close>

lemma strings_Split_Join_concat:
  "es \<noteq> [] \<Longrightarrow> strings_Split (strings_Join es [c]) c = concat (map (\<lambda>e. strings_Split e c) es)"
  by (induction es "[c]" rule: strings_Join.induct) (simp_all add: strings_Split_append)

lemma is_rooted_append: "v \<noteq> [] \<Longrightarrow> is_rooted (v @ t) = is_rooted v"
  by (cases v) (simp_all add: is_rooted_def)

lemma is_rooted_Join: "v \<noteq> [] \<Longrightarrow> is_rooted (strings_Join (v # es) sep) = is_rooted v"
  by (cases es) (simp_all add: is_rooted_append)

lemma foldl_path_push_concat:
  assumes "\<And>e. e \<in> set es \<Longrightarrow> plain_rel e"
  shows "foldl (path_push r) st (concat (map (\<lambda>e. strings_Split e CHR ''/'') es))
      = rev (concat (map rel_comps es)) @ st"
  using assms by (induction es arbitrary: st) (simp_all add: foldl_path_push_plain_rel)

lemma rel_comps_Nil [simp]: "rel_comps [] = []"
  by (simp add: rel_comps_def)

lemma path_norm_Nil [simp]: "path_norm [] = (False, [])"
  by (simp add: path_norm_def is_rooted_def)

lemma path_norm_Join_nonempty:
  assumes "v \<noteq> []" and "\<And>e. e \<in> set es \<Longrightarrow> plain_rel e"
  shows "path_norm (strings_Join (v # es) ''/'')
      = (fst (path_norm v), snd (path_norm v) @ concat (map rel_comps es))"
  using assms
  by (simp add: path_norm_def is_rooted_Join strings_Split_Join_concat foldl_path_push_concat)

lemma path_norm_Join:
  assumes "\<And>e. e \<in> set es \<Longrightarrow> plain_rel e"
  shows "path_norm (filepath_Join (v # es))
      = (fst (path_norm v), snd (path_norm v) @ concat (map rel_comps es))"
proof (cases "v = []")
  case False
  with assms show ?thesis by (simp add: filepath_Join_def path_norm_Join_nonempty)
next
  case True
  define es' where "es' = dropWhile (\<lambda>e. e = []) es"
  have drop: "concat (map rel_comps es') = concat (map rel_comps es)"
    unfolding es'_def by (induction es) auto
  show ?thesis
  proof (cases es')
    case Nil
    then have "\<forall>x \<in> set es. x = []" by (simp add: es'_def)
    with True show ?thesis by (auto simp: filepath_Join_def)
  next
    case (Cons w ws)
    have w: "w \<noteq> []" "plain_rel w" and ws: "\<And>e. e \<in> set ws \<Longrightarrow> plain_rel e"
      using assms Cons set_dropWhileD [of _ "\<lambda>e. e = []" es] hd_dropWhile [of "\<lambda>e. e = []" es]
      by (auto simp: es'_def)
    have "path_norm w = (False, rel_comps w)"
      using w by (simp add: path_norm_def foldl_path_push_plain_rel) (simp add: plain_rel_def)
    with True drop Cons path_norm_Join_nonempty [OF w(1) ws] show ?thesis
      by (simp add: filepath_Join_def es'_def)
  qed
qed

text \<open>A volume path, a directory of the volume and a file name.\<close>

lemma path_norm_Join_file:
  assumes "plain_rel d" and "plain_name n"
  shows "path_norm (filepath_Join [v, d, n])
      = (fst (path_norm v), snd (path_norm v) @ rel_comps d @ [n])"
proof -
  have "plain_rel e" if "e \<in> set [d, n]" for e
    using that assms plain_rel_plain_name by auto
  from path_norm_Join [of "[d, n]" v, OF this] assms(2) show ?thesis by (simp add: rel_comps_plain_name)
qed

lemma path_norm_Join_empty_root: "path_norm (filepath_Join [[], p]) = path_norm p"
  by (simp add: filepath_Join_def)

lemma filepath_Join_Clean: "es \<noteq> [] \<Longrightarrow> hd es \<noteq> [] \<Longrightarrow> filepath_Clean (filepath_Join es) = filepath_Join es"
  by (cases es) (simp_all add: filepath_Join_def)

lemma Join_snoc: "cs \<noteq> [] \<Longrightarrow> strings_Join (cs @ [c]) sep = strings_Join cs sep @ sep @ c"
  by (induction cs sep rule: strings_Join.induct) simp_all

lemma dropWhile_rev_last:
  "CHR ''/'' \<notin> set c \<Longrightarrow>
   rev (dropWhile (\<lambda>x. x \<noteq> CHR ''/'') (rev (s @ CHR ''/'' # c))) = s @ ''/''"
  by (simp add: dropWhile_append3 dropWhile_append)

lemma path_norm_trailing: "s \<noteq> [] \<Longrightarrow> path_norm (s @ ''/'') = path_norm s"
  by (simp add: path_norm_def is_rooted_append strings_Split_append [where t = "[]", simplified])

lemma path_norm_Dir:
  assumes "wf_fpath (r, cs @ [c])" and "r \<or> cs \<noteq> []"
  shows "path_norm (filepath_Dir (path_text (r, cs @ [c]))) = (r, cs)"
proof -
  have c: "CHR ''/'' \<notin> set c" and wf: "wf_fpath (r, cs)"
    using assms(1) by (auto simp: wf_fpath_def wf_comp_def)
  show ?thesis
  proof (cases "cs = []")
    case True
    with assms(2) c show ?thesis
      using dropWhile_rev_last [OF c, of "[]"]
      by (simp add: filepath_Dir_def path_text_def) (simp add: path_norm_def is_rooted_def)
  next
    case False
    have "path_text (r, cs @ [c]) = path_text (r, cs) @ CHR ''/'' # c"
      using False by (simp add: path_text_def Join_snoc)
    moreover have "path_text (r, cs) \<noteq> []"
      using path_norm_text [OF wf] False by (metis path_norm_Nil prod.inject)
    ultimately show ?thesis
      using dropWhile_rev_last [OF c, of "path_text (r, cs)"]
      by (simp add: filepath_Dir_def path_norm_trailing path_norm_text [OF wf])
  qed
qed

text \<open>Joining one more component to a path only depends on the normal form of the path.\<close>

lemma path_norm_append:
  "a \<noteq> [] \<Longrightarrow> path_norm (a @ CHR ''/'' # x) =
     (fst (path_norm a),
      rev (foldl (path_push (fst (path_norm a))) (rev (snd (path_norm a))) (strings_Split x CHR ''/'')))"
  by (simp add: path_norm_def is_rooted_append strings_Split_append)

lemma filepath_Clean_not_Nil: "filepath_Clean p \<noteq> []"
proof -
  have "strings_Join cs ''/'' \<noteq> []" if "cs \<noteq> []" "\<forall>c \<in> set cs. wf_comp c" for cs
    using that by (cases cs; cases "tl cs") (auto simp: wf_comp_def)
  moreover have "\<forall>c \<in> set (snd (path_norm p)). wf_comp c"
    using wf_path_norm [of p] wf_stack_comps by (auto simp: wf_fpath_def)
  ultimately show ?thesis
    by (auto simp: filepath_Clean_def path_text_def split: prod.splits if_splits)
qed

lemma strings_Join_not_Nil: "es \<noteq> [] \<Longrightarrow> hd es \<noteq> [] \<Longrightarrow> strings_Join es sep \<noteq> []"
  by (cases "(es, sep)" rule: strings_Join.cases) auto

lemma path_norm_Join_snoc:
  assumes "\<exists>e \<in> set es. e \<noteq> []"
  shows "path_norm (filepath_Join [filepath_Join es, x]) = path_norm (filepath_Join (es @ [x]))"
proof -
  let ?es = "dropWhile (\<lambda>e. e = []) es"
  have ne: "?es \<noteq> []" "hd ?es \<noteq> []" "dropWhile (\<lambda>e. e = []) (es @ [x]) = ?es @ [x]"
    using assms hd_dropWhile [of "\<lambda>e. e = []" es] by (auto simp: dropWhile_append)
  have "path_norm (filepath_Join [filepath_Join es, x]) =
      path_norm (filepath_Clean (strings_Join ?es ''/'') @ CHR ''/'' # x)"
    using assms ne by (auto simp: filepath_Join_def filepath_Clean_not_Nil)
  also have "\<dots> = path_norm (strings_Join ?es ''/'' @ CHR ''/'' # x)"
    by (simp add: path_norm_append filepath_Clean_not_Nil strings_Join_not_Nil [OF ne(1,2)])
  also have "\<dots> = path_norm (filepath_Join (es @ [x]))"
    using ne by (simp add: filepath_Join_def Join_snoc)
  finally show ?thesis .
qed

lemma path_norm_Join_Join:
  assumes "d \<noteq> []"
  shows "path_norm (filepath_Join [filepath_Join [v, d], x]) = path_norm (filepath_Join [v, d, x])"
  using path_norm_Join_snoc [of "[v, d]" x] assms by simp

end
