(* ===== verification/Os_Files.thy ===== *)
theory Os_Files
  imports Errors Paths
begin

text \<open>
  The files of the data volume, and the operations of Go's \<open>os\<close> package the program calls on
  them. The state holds regular files and directories by normal form of their path (there
  are no symbolic links on the volume). Input/output faults are a schedule: \<open>fs_fault n\<close>
  says whether the \<open>n\<close>-th operation fails and with which text, so a theorem about every
  schedule covers every way the volume can fail. A fault of \<open>os.WriteFile\<close> may come before
  the file is opened or after some bytes were written over the truncated file; a fault of
  \<open>os.MkdirAll\<close> after some of the directories were made.
\<close>

datatype os_fault = Fault string "nat option"

record osfs =
  fs_files :: "(fpath, bytes) fmap"
  fs_dirs :: "fpath fset"
  fs_fault :: "nat \<Rightarrow> os_fault option"
  fs_clock :: nat

definition os_tick :: "osfs \<Rightarrow> osfs" where
  "os_tick s = s\<lparr>fs_clock := Suc (fs_clock s)\<rparr>"

definition next_fault :: "osfs \<Rightarrow> os_fault option" where
  "next_fault s = fs_fault s (fs_clock s)"

definition is_dir :: "osfs \<Rightarrow> fpath \<Rightarrow> bool" where
  "is_dir s fp \<longleftrightarrow> snd fp = [] \<or> fp |\<in>| fs_dirs s"

definition is_file :: "osfs \<Rightarrow> fpath \<Rightarrow> bool" where
  "is_file s fp \<longleftrightarrow> fp |\<in>| fmdom (fs_files s)"

definition parent :: "fpath \<Rightarrow> fpath" where
  "parent fp = (fst fp, butlast (snd fp))"

text \<open>The path and its ancestors, the root of the path left out.\<close>

definition prefixes :: "fpath \<Rightarrow> fpath list" where
  "prefixes fp = map (\<lambda>k. (fst fp, take (Suc k) (snd fp))) [0..<length (snd fp)]"

definition strict_prefix_file :: "osfs \<Rightarrow> fpath \<Rightarrow> bool" where
  "strict_prefix_file s fp = list_ex (is_file s) (prefixes (parent fp))"

definition path_error :: "string \<Rightarrow> string \<Rightarrow> string \<Rightarrow> string" where
  "path_error op p why = op @ '' '' @ p @ '': '' @ why"

text \<open>The error of a path that names nothing: \<open>ENOTDIR\<close> below a regular file, else \<open>ENOENT\<close>.\<close>

definition missing_error :: "osfs \<Rightarrow> string \<Rightarrow> string \<Rightarrow> sys_error" where
  "missing_error s op p =
     (if strict_prefix_file s (path_norm p) then OsError (path_error op p ''not a directory'')
      else NotExist (path_error op p ''no such file or directory''))"

section \<open>Reading\<close>

text \<open>\<open>os.Open\<close>; the handle is the normal form of the path.\<close>

definition os_Open :: "string \<Rightarrow> osfs \<Rightarrow> (sys_error + fpath) \<times> osfs" where
  "os_Open p s =
     (case next_fault s of
        Some (Fault t _) \<Rightarrow> (Inl (OsError t), os_tick s)
      | None \<Rightarrow>
          (if is_file s (path_norm p) \<or> is_dir s (path_norm p) then (Inr (path_norm p), os_tick s)
           else (Inl (missing_error s ''open'' p), os_tick s)))"

definition io_ReadAll :: "fpath \<Rightarrow> osfs \<Rightarrow> (sys_error + bytes) \<times> osfs" where
  "io_ReadAll fp s =
     (case next_fault s of
        Some (Fault t _) \<Rightarrow> (Inl (OsError t), os_tick s)
      | None \<Rightarrow>
          (case fmlookup (fs_files s) fp of
             Some b \<Rightarrow> (Inr b, os_tick s)
           | None \<Rightarrow> (Inl (OsError (path_error ''read'' (path_text fp) ''is a directory'')), os_tick s)))"

definition os_ReadFile :: "string \<Rightarrow> osfs \<Rightarrow> (sys_error + bytes) \<times> osfs" where
  "os_ReadFile p s =
     (case os_Open p s of
        (Inl e, s1) \<Rightarrow> (Inl e, s1)
      | (Inr fp, s1) \<Rightarrow> io_ReadAll fp s1)"

text \<open>\<open>os.Stat\<close>, reduced to \<open>FileInfo.IsDir\<close>.\<close>

definition os_Stat :: "string \<Rightarrow> osfs \<Rightarrow> (sys_error + bool) \<times> osfs" where
  "os_Stat p s =
     (case next_fault s of
        Some (Fault t _) \<Rightarrow> (Inl (OsError t), os_tick s)
      | None \<Rightarrow>
          (if is_dir s (path_norm p) then (Inr True, os_tick s)
           else if is_file s (path_norm p) then (Inr False, os_tick s)
           else (Inl (missing_error s ''stat'' p), os_tick s)))"

section \<open>Writing and removing\<close>

definition put_file :: "fpath \<Rightarrow> bytes \<Rightarrow> osfs \<Rightarrow> osfs" where
  "put_file fp b s = s\<lparr>fs_files := fmupd fp b (fs_files s)\<rparr>"

definition os_WriteFile :: "string \<Rightarrow> bytes \<Rightarrow> osfs \<Rightarrow> sys_error option \<times> osfs" where
  "os_WriteFile p b s =
     (let fp = path_norm p in
      case next_fault s of
        Some (Fault t None) \<Rightarrow> (Some (OsError t), os_tick s)
      | f \<Rightarrow>
          (if is_dir s fp then (Some (OsError (path_error ''open'' p ''is a directory'')), os_tick s)
           else if \<not> is_dir s (parent fp) then (Some (missing_error s ''open'' p), os_tick s)
           else (case f of
                   Some (Fault t (Some k)) \<Rightarrow> (Some (OsError t), put_file fp (take k b) (os_tick s))
                 | _ \<Rightarrow> (None, put_file fp b (os_tick s)))))"

definition os_Remove :: "string \<Rightarrow> osfs \<Rightarrow> sys_error option \<times> osfs" where
  "os_Remove p s =
     (let fp = path_norm p in
      case next_fault s of
        Some (Fault t _) \<Rightarrow> (Some (OsError t), os_tick s)
      | None \<Rightarrow>
          (if is_file s fp then (None, (os_tick s)\<lparr>fs_files := fmdrop fp (fs_files s)\<rparr>)
           else if is_dir s fp then
             (if snd fp = [] \<or> fBex (fmdom (fs_files s) |\<union>| fs_dirs s) (\<lambda>q. snd q \<noteq> [] \<and> parent q = fp)
              then (Some (OsError (path_error ''remove'' p ''directory not empty'')), os_tick s)
              else (None, (os_tick s)\<lparr>fs_dirs := fs_dirs s |-| {|fp|}\<rparr>))
           else (Some (missing_error s ''remove'' p), os_tick s)))"

definition make_dirs :: "fpath list \<Rightarrow> osfs \<Rightarrow> osfs" where
  "make_dirs ps s = s\<lparr>fs_dirs := fs_dirs s |\<union>| fset_of_list ps\<rparr>"

definition os_MkdirAll :: "string \<Rightarrow> osfs \<Rightarrow> sys_error option \<times> osfs" where
  "os_MkdirAll p s =
     (let ps = prefixes (path_norm p) in
      if list_ex (is_file s) ps then (Some (OsError (path_error ''mkdir'' p ''not a directory'')), os_tick s)
      else case next_fault s of
        Some (Fault t k) \<Rightarrow>
          (Some (OsError t), make_dirs (take (case k of None \<Rightarrow> 0 | Some n \<Rightarrow> n) ps) (os_tick s))
      | None \<Rightarrow> (None, make_dirs ps (os_tick s)))"

section \<open>What every operation keeps\<close>

text \<open>The tree is well formed: what is stored has a directory above it, and no path is both.\<close>

definition wf_osfs :: "osfs \<Rightarrow> bool" where
  "wf_osfs s \<longleftrightarrow>
     fBall (fmdom (fs_files s)) (\<lambda>fp. \<not> is_dir s fp \<and> is_dir s (parent fp))
   \<and> fBall (fs_dirs s) (\<lambda>fp. is_dir s (parent fp))"

lemma os_tick_simps [simp]:
  "fs_files (os_tick s) = fs_files s"
  "fs_dirs (os_tick s) = fs_dirs s"
  "fs_fault (os_tick s) = fs_fault s"
  "is_dir (os_tick s) = is_dir s"
  "is_file (os_tick s) = is_file s"
  "wf_osfs (os_tick s) = wf_osfs s"
  by (simp_all add: os_tick_def is_dir_def is_file_def wf_osfs_def fun_eq_iff)

lemma put_file_simps [simp]:
  "fs_files (put_file fp b s) = fmupd fp b (fs_files s)"
  "fs_dirs (put_file fp b s) = fs_dirs s"
  "fs_fault (put_file fp b s) = fs_fault s"
  "is_dir (put_file fp b s) = is_dir s"
  by (simp_all add: put_file_def is_dir_def fun_eq_iff)

lemma make_dirs_simps [simp]:
  "fs_files (make_dirs ps s) = fs_files s"
  "fs_fault (make_dirs ps s) = fs_fault s"
  "is_dir (make_dirs ps s) fp \<longleftrightarrow> is_dir s fp \<or> fp \<in> set ps"
  by (auto simp: make_dirs_def is_dir_def fset_of_list_elem)

lemma os_Open_files:
  assumes "os_Open p s = (r, s')"
  shows "fs_files s' = fs_files s" "fs_dirs s' = fs_dirs s" "fs_fault s' = fs_fault s"
  using assms by (auto simp: os_Open_def split: option.splits os_fault.splits if_splits)

lemma io_ReadAll_files:
  assumes "io_ReadAll fp s = (r, s')"
  shows "fs_files s' = fs_files s" "fs_dirs s' = fs_dirs s" "fs_fault s' = fs_fault s"
  using assms by (auto simp: io_ReadAll_def split: option.splits os_fault.splits if_splits)

lemma os_ReadFile_files:
  assumes "os_ReadFile p s = (r, s')"
  shows "fs_files s' = fs_files s" "fs_dirs s' = fs_dirs s" "fs_fault s' = fs_fault s"
proof -
  obtain r1 s1 where open1: "os_Open p s = (r1, s1)" by fastforce
  with assms have "(\<exists>e. r1 = Inl e \<and> s' = s1) \<or> (\<exists>fp. r1 = Inr fp \<and> io_ReadAll fp s1 = (r, s'))"
    by (auto simp: os_ReadFile_def split: sum.splits)
  then show "fs_files s' = fs_files s" "fs_dirs s' = fs_dirs s" "fs_fault s' = fs_fault s"
    using os_Open_files [OF open1] by (metis io_ReadAll_files)+
qed

lemma os_ReadFile_Inr:
  assumes "os_ReadFile p s = (Inr b, s')"
  shows "fmlookup (fs_files s) (path_norm p) = Some b"
  using assms
  by (auto simp: os_ReadFile_def os_Open_def io_ReadAll_def
      split: prod.splits sum.splits option.splits os_fault.splits if_splits)

lemma missing_error_NotExist: "sys_is_not_exist (missing_error s op p) \<Longrightarrow> \<not> strict_prefix_file s (path_norm p)"
  by (auto simp: missing_error_def split: if_splits)

lemma os_ReadFile_NotExist:
  assumes "os_ReadFile p s = (Inl e, s')" and "sys_is_not_exist e"
  shows "fmlookup (fs_files s) (path_norm p) = None"
  using assms
  by (auto simp: os_ReadFile_def os_Open_def io_ReadAll_def is_file_def fmlookup_dom_iff
      split: prod.splits sum.splits option.splits os_fault.splits if_splits)

text \<open>A removal changes at most the file it names; when it succeeds, or the file was not there, it is gone.\<close>

lemma os_Remove_files:
  assumes "os_Remove p s = (r, s')"
  shows "fs_files s' = fs_files s \<or> fs_files s' = fmdrop (path_norm p) (fs_files s)"
    and "r = None \<or> (\<exists>e. r = Some e \<and> sys_is_not_exist e) \<Longrightarrow> fmlookup (fs_files s') (path_norm p) = None"
    and "fs_fault s' = fs_fault s"
  using assms
  by (auto simp: os_Remove_def Let_def is_file_def fmlookup_dom_iff
      split: option.splits os_fault.splits if_splits)

lemma os_Remove_other:
  assumes "os_Remove p s = (r, s')" and "q \<noteq> path_norm p"
  shows "fmlookup (fs_files s') q = fmlookup (fs_files s) q"
  using os_Remove_files(1) [OF assms(1)] assms(2) by auto

lemma os_WriteFile_other:
  assumes "os_WriteFile p b s = (r, s')" and "q \<noteq> path_norm p"
  shows "fmlookup (fs_files s') q = fmlookup (fs_files s) q"
  using assms
  by (auto simp: os_WriteFile_def Let_def split: option.splits os_fault.splits if_splits)

lemma os_WriteFile_ok:
  assumes "os_WriteFile p b s = (None, s')"
  shows "fmlookup (fs_files s') (path_norm p) = Some b"
  using assms
  by (auto simp: os_WriteFile_def Let_def split: option.splits os_fault.splits if_splits)

lemma os_WriteFile_fault: "os_WriteFile p b s = (r, s') \<Longrightarrow> fs_fault s' = fs_fault s"
  by (auto simp: os_WriteFile_def Let_def split: option.splits os_fault.splits if_splits)

lemma os_MkdirAll_files:
  assumes "os_MkdirAll p s = (r, s')"
  shows "fs_files s' = fs_files s" "fs_fault s' = fs_fault s"
  using assms by (auto simp: os_MkdirAll_def Let_def split: option.splits os_fault.splits if_splits)

lemma in_prefixes: "fp \<in> set (prefixes q) \<longleftrightarrow> fst fp = fst q \<and> (\<exists>k < length (snd q). snd fp = take (Suc k) (snd q))"
  by (cases fp) (auto simp: prefixes_def)

lemma prefixes_self: "snd q \<noteq> [] \<Longrightarrow> q \<in> set (prefixes q)"
  by (cases q) (auto simp: in_prefixes intro!: exI [of _ "length (snd q) - 1"])

lemma os_MkdirAll_ok:
  assumes "os_MkdirAll p s = (None, s')"
  shows "is_dir s' (path_norm p)"
  using assms prefixes_self [of "path_norm p"]
  by (auto simp: os_MkdirAll_def Let_def is_dir_def [of s] split: option.splits os_fault.splits if_splits)

section \<open>The tree stays well formed\<close>

lemma wf_osfsD:
  assumes "wf_osfs s"
  shows "fp |\<in>| fmdom (fs_files s) \<Longrightarrow> \<not> is_dir s fp"
    and "fp |\<in>| fmdom (fs_files s) \<Longrightarrow> is_dir s (parent fp)"
    and "fp |\<in>| fs_dirs s \<Longrightarrow> is_dir s (parent fp)"
  using assms unfolding wf_osfs_def by auto

lemma wf_put_file:
  "wf_osfs s \<Longrightarrow> \<not> is_dir s fp \<Longrightarrow> is_dir s (parent fp) \<Longrightarrow> wf_osfs (put_file fp b s)"
  by (simp add: wf_osfs_def)

lemma os_WriteFile_wf: "wf_osfs s \<Longrightarrow> os_WriteFile p b s = (r, s') \<Longrightarrow> wf_osfs s'"
  by (auto simp: os_WriteFile_def Let_def intro!: wf_put_file
      split: option.splits os_fault.splits if_splits)

lemma parent_in_prefixes:
  assumes "k < length (prefixes q)"
  shows "snd (parent (prefixes q ! k)) = [] \<or> (0 < k \<and> parent (prefixes q ! k) = prefixes q ! (k - 1))"
proof (cases k)
  case 0
  with assms show ?thesis by (auto simp: prefixes_def parent_def take_Suc)
next
  case (Suc j)
  with assms have "j < length (snd q)" "Suc j < length (snd q)" by (auto simp: prefixes_def)
  then show ?thesis
    by (auto simp: Suc prefixes_def parent_def butlast_take)
qed

lemma wf_make_dirs:
  assumes wf: "wf_osfs s" and nofile: "\<not> list_ex (is_file s) (prefixes q)"
  shows "wf_osfs (make_dirs (take n (prefixes q)) s)"
proof -
  let ?s = "make_dirs (take n (prefixes q)) s"
  have "\<not> is_dir ?s fp" "is_dir ?s (parent fp)" if "fp |\<in>| fmdom (fs_files s)" for fp
    using wf_osfsD(1,2) [OF wf that] nofile that
    by (auto simp: list_ex_iff is_file_def dest: in_set_takeD)
  moreover have "is_dir ?s (parent fp)" if "fp |\<in>| fs_dirs ?s" for fp
  proof (cases "fp |\<in>| fs_dirs s")
    case True
    then show ?thesis using wf_osfsD(3) [OF wf] by simp
  next
    case False
    with that have "fp \<in> set (take n (prefixes q))"
      by (simp add: make_dirs_def fset_of_list_elem)
    then obtain k where k: "k < length (prefixes q)" "k < n" "fp = prefixes q ! k"
      by (auto simp: in_set_conv_nth)
    from parent_in_prefixes [OF k(1)] k show ?thesis
      by (auto simp: is_dir_def [of s] in_set_conv_nth intro!: exI [of _ "k - 1"])
  qed
  ultimately show ?thesis by (simp add: wf_osfs_def)
qed

lemma os_MkdirAll_wf:
  assumes "wf_osfs s" and "os_MkdirAll p s = (r, s')"
  shows "wf_osfs s'"
proof -
  let ?ps = "prefixes (path_norm p)"
  have "s' = os_tick s \<or> (\<not> list_ex (is_file s) ?ps \<and> (\<exists>n. s' = make_dirs (take n ?ps) (os_tick s)))"
    using assms(2) take_all [of ?ps "length ?ps"]
    by (auto simp: os_MkdirAll_def Let_def split: option.splits os_fault.splits if_splits)
      (metis order_refl take_0 take_all)+
  then show ?thesis using assms(1) wf_make_dirs [of "os_tick s" "path_norm p"] by auto
qed

lemma os_Remove_wf:
  assumes wf: "wf_osfs s" and rm: "os_Remove p s = (r, s')"
  shows "wf_osfs s'"
proof -
  let ?fp = "path_norm p"
  consider "s' = os_tick s"
    | "s' = (os_tick s)\<lparr>fs_files := fmdrop ?fp (fs_files s)\<rparr>"
    | "s' = (os_tick s)\<lparr>fs_dirs := fs_dirs s |-| {|?fp|}\<rparr>" "snd ?fp \<noteq> []"
      "\<not> fBex (fmdom (fs_files s) |\<union>| fs_dirs s) (\<lambda>q. snd q \<noteq> [] \<and> parent q = ?fp)"
    using rm by (auto simp: os_Remove_def Let_def split: option.splits os_fault.splits if_splits)
  then show ?thesis
  proof cases
    case 1
    with wf show ?thesis by simp
  next
    case 2
    with wf show ?thesis by (auto simp: wf_osfs_def is_dir_def)
  next
    case 3
    have nonroot: "snd q \<noteq> []" if "q |\<in>| fmdom (fs_files s)" for q
      using wf_osfsD(1) [OF wf that] by (simp add: is_dir_def)
    have "is_dir s' (parent q)" if "q |\<in>| fmdom (fs_files s) |\<union>| fs_dirs s" for q
      using that 3 wf_osfsD(2,3) [OF wf, of q] nonroot [of q]
      by (cases "snd q = []") (auto simp: is_dir_def parent_def)
    with 3 wf show ?thesis by (auto simp: wf_osfs_def is_dir_def)
  qed
qed

end
