(* ===== verification/File_Store.thy ===== *)
theory File_Store
  imports Os_Files
begin

text \<open>
  Package \<open>internal/filestore\<close>: the interface \<open>FileStore\<close> (a record of its operations, and the
  locale \<open>file_store\<close> for what its clients rely on) and its implementation
  \<open>VolumeFileStore\<close> over the file model. The atomic write comes from the third-party package
  \<open>renameio\<close> and is a parameter; \<open>renameio_api\<close> states what that package documents: a write
  replaces the whole file or leaves the old one. The sublocale shows that
  \<open>VolumeFileStore\<close> over any such package keeps the interface's promise.
\<close>

type_synonym renameio = "string \<Rightarrow> bytes \<Rightarrow> osfs \<Rightarrow> sys_error option \<times> osfs"

section \<open>The interface\<close>

record FileStore =
  fsWrite :: "string \<Rightarrow> bytes \<Rightarrow> osfs \<Rightarrow> gerror option \<times> osfs"
  fsReadAll :: "string \<Rightarrow> osfs \<Rightarrow> (gerror + bytes) \<times> osfs"
  fsCollectSubFiles :: "string \<Rightarrow> osfs \<Rightarrow> (gerror + string list) \<times> osfs"
  fsResolve :: "string list \<Rightarrow> string"
  fsRemove :: "string \<Rightarrow> osfs \<Rightarrow> gerror option \<times> osfs"

locale file_store =
  fixes store_write :: "string \<Rightarrow> bytes \<Rightarrow> 's \<Rightarrow> gerror option \<times> 's"
    and store_read :: "string \<Rightarrow> 's \<Rightarrow> (gerror + bytes) \<times> 's"
    and store_remove :: "string \<Rightarrow> 's \<Rightarrow> gerror option \<times> 's"
    and key :: "string \<Rightarrow> 'k"
    and content :: "'s \<Rightarrow> 'k \<Rightarrow> bytes option"
  assumes write_ok: "store_write p b s = (None, s') \<Longrightarrow> content s' = (content s)(key p \<mapsto> b)"
    and write_error: "store_write p b s = (Some e, s') \<Longrightarrow> content s' = content s"
    and read_keeps: "store_read p s = (r, s') \<Longrightarrow> content s' = content s"
    and read_ok: "store_read p s = (Inr b, s') \<Longrightarrow> content s (key p) = Some b"
    and read_missing:
      "store_read p s = (Inl e, s') \<Longrightarrow> errors_Is_NotExist e \<Longrightarrow> content s (key p) = None"
    and remove_keeps: "store_remove p s = (d, s') \<Longrightarrow> k \<noteq> key p \<Longrightarrow> content s' k = content s k"
    and remove_ok: "store_remove p s = (None, s') \<Longrightarrow> content s' (key p) = None"
    and remove_missing:
      "store_remove p s = (Some e, s') \<Longrightarrow> errors_Is_NotExist e \<Longrightarrow> content s' (key p) = None"
begin

text \<open>Reading back what was written: the bytes, or an error other than a missing file.\<close>

lemma write_then_read:
  assumes "store_write p b s = (None, s1)" and "store_read q s1 = (r, s2)" and "key q = key p"
  shows "r = Inr b \<or> (\<exists>e. r = Inl e \<and> \<not> errors_Is_NotExist e)"
proof (cases r)
  case (Inl e)
  have "content s1 (key q) = Some b" using assms(1,3) by (simp add: write_ok)
  with Inl assms(2) read_missing show ?thesis by fastforce
next
  case (Inr c)
  with assms read_ok [of q s1 c s2] show ?thesis by (simp add: write_ok)
qed

text \<open>A write changes no other file, whether it succeeds or not.\<close>

lemma write_keeps:
  assumes "store_write p b s = (r, s')" and "k \<noteq> key p"
  shows "content s' k = content s k"
  using assms by (cases r) (auto simp: write_ok write_error)

text \<open>
  The read, compare and write idiom of the reconcilers: after reading \<open>p\<close>, nothing needs to be
  written exactly when the bytes are already there, and otherwise a successful write puts them.
\<close>

lemma ensure_content:
  assumes rd: "store_read p s = (r, s1)"
    and out: "(r = Inr b \<and> s2 = s1) \<or> store_write q b s1 = (None, s2)" and k: "key q = key p"
  shows "content s2 = (content s)(key p \<mapsto> b)"
  using out
proof
  assume "r = Inr b \<and> s2 = s1"
  with rd read_ok read_keeps show ?thesis by (metis fun_upd_triv)
next
  assume "store_write q b s1 = (None, s2)"
  with rd k show ?thesis by (simp add: write_ok read_keeps)
qed

end

section \<open>The atomic write of renameio\<close>

locale renameio_api =
  fixes rio :: renameio
  assumes rio_ok: "rio p b s = (None, s') \<Longrightarrow>
      fs_files s' = fmupd (path_norm p) b (fs_files s)
      \<and> \<not> is_dir s (path_norm p) \<and> is_dir s (parent (path_norm p))"
    and rio_error: "rio p b s = (Some e, s') \<Longrightarrow> fs_files s' = fs_files s"
    and rio_frame: "rio p b s = (r, s') \<Longrightarrow> fs_dirs s' = fs_dirs s \<and> fs_fault s' = fs_fault s"

text \<open>One function that keeps the documented contract: the write of the file model, all or nothing.\<close>

definition rio_reference :: renameio where
  "rio_reference p b s =
     (let fp = path_norm p in
      case next_fault s of
        Some (Fault t _) \<Rightarrow> (Some (OsError t), os_tick s)
      | None \<Rightarrow>
          (if is_dir s fp then (Some (OsError (path_error ''rename'' p ''file exists'')), os_tick s)
           else if \<not> is_dir s (parent fp) then (Some (missing_error s ''open'' p), os_tick s)
           else (None, put_file fp b (os_tick s))))"

interpretation rio_ref: renameio_api rio_reference
  by unfold_locales
    (auto simp: rio_reference_def Let_def split: option.splits os_fault.splits if_splits)

section \<open>VolumeFileStore\<close>

definition VolumeFileStore_Resolve :: "string \<Rightarrow> string list \<Rightarrow> string" where
  "VolumeFileStore_Resolve root subpaths = filepath_Join (root # subpaths)"

definition VolumeFileStore_Write ::
    "renameio \<Rightarrow> string \<Rightarrow> string \<Rightarrow> bytes \<Rightarrow> osfs \<Rightarrow> gerror option \<times> osfs" where
  "VolumeFileStore_Write rio root path data s =
     (let dir = filepath_Dir (VolumeFileStore_Resolve root [path]) in
      case (if dir \<noteq> ''.'' then os_MkdirAll dir s else (None, s)) of
        (Some e, s1) \<Rightarrow> (Some (SysErr e), s1)
      | (None, s1) \<Rightarrow>
          (case rio (VolumeFileStore_Resolve root [path]) data s1 of
             (r, s2) \<Rightarrow> (map_option SysErr r, s2)))"

definition VolumeFileStore_Read :: "string \<Rightarrow> string \<Rightarrow> osfs \<Rightarrow> (sys_error + fpath) \<times> osfs" where
  "VolumeFileStore_Read root path s = os_Open (VolumeFileStore_Resolve root [path]) s"

definition VolumeFileStore_ReadAll :: "string \<Rightarrow> string \<Rightarrow> osfs \<Rightarrow> (gerror + bytes) \<times> osfs" where
  "VolumeFileStore_ReadAll root path s =
     (case VolumeFileStore_Read root path s of
        (Inl e, s1) \<Rightarrow> (Inl (SysErr e), s1)
      | (Inr rc, s1) \<Rightarrow>
          (case io_ReadAll rc s1 of (r, s2) \<Rightarrow> (map_sum SysErr (\<lambda>b. b) r, s2)))"

definition VolumeFileStore_Remove :: "string \<Rightarrow> string \<Rightarrow> osfs \<Rightarrow> gerror option \<times> osfs" where
  "VolumeFileStore_Remove root path s =
     (case os_Remove (VolumeFileStore_Resolve root [path]) s of (r, s1) \<Rightarrow> (map_option SysErr r, s1))"

text \<open>
  \<open>CollectSubFiles\<close>: \<open>filepath.WalkDir\<close> visits the files below a directory in lexical order;
  each is returned relative to the root of the store. A fault stops the walk with its error.
\<close>

definition files_under :: "osfs \<Rightarrow> fpath \<Rightarrow> fpath list" where
  "files_under s d =
     map (Pair (fst d))
       (sorted_list_of_fset
         (snd |`| ffilter (\<lambda>q. fst q = fst d \<and> take (length (snd d)) (snd q) = snd d)
                    (fmdom (fs_files s))))"

fun relative_all :: "string \<Rightarrow> fpath list \<Rightarrow> gerror + string list" where
  "relative_all root [] = Inr []"
| "relative_all root (q # qs) =
     (case filepath_Rel root (path_text q) of
        None \<Rightarrow> Inl (Errorf (''Rel: can''@[CHR 0x27]@''t make '' @ path_text q @ '' relative to '' @ root))
      | Some rel \<Rightarrow>
          (case relative_all root qs of Inl e \<Rightarrow> Inl e | Inr rels \<Rightarrow> Inr (rel # rels)))"

definition VolumeFileStore_CollectSubFiles ::
    "string \<Rightarrow> string \<Rightarrow> osfs \<Rightarrow> (gerror + string list) \<times> osfs" where
  "VolumeFileStore_CollectSubFiles root path s =
     (let p = VolumeFileStore_Resolve root [path] in
      case next_fault s of
        Some (Fault t _) \<Rightarrow> (Inl (SysErr (OsError t)), os_tick s)
      | None \<Rightarrow>
          (if is_file s (path_norm p) \<or> is_dir s (path_norm p)
           then (relative_all root (files_under s (path_norm p)), os_tick s)
           else (Inl (SysErr (missing_error s ''lstat'' p)), os_tick s)))"

definition VolumeFileStore :: "renameio \<Rightarrow> string \<Rightarrow> FileStore" where
  "VolumeFileStore rio root =
     \<lparr>fsWrite = VolumeFileStore_Write rio root,
      fsReadAll = VolumeFileStore_ReadAll root,
      fsCollectSubFiles = VolumeFileStore_CollectSubFiles root,
      fsResolve = VolumeFileStore_Resolve root,
      fsRemove = VolumeFileStore_Remove root\<rparr>"

section \<open>VolumeFileStore keeps the promise of the interface\<close>

definition volume_key :: "string \<Rightarrow> string \<Rightarrow> fpath" where
  "volume_key root p = path_norm (VolumeFileStore_Resolve root [p])"

lemma VolumeFileStore_Write_cases:
  assumes "VolumeFileStore_Write rio root p b s = (r, s')"
  obtains (mkdir) e s1 where "r = Some (SysErr e)" "s' = s1"
      "os_MkdirAll (filepath_Dir (VolumeFileStore_Resolve root [p])) s = (Some e, s1)"
    | (put) r2 s1 where "map_option SysErr r2 = r"
      "rio (VolumeFileStore_Resolve root [p]) b s1 = (r2, s')"
      "s1 = s \<or> os_MkdirAll (filepath_Dir (VolumeFileStore_Resolve root [p])) s = (None, s1)"
  using assms
  by (auto simp: VolumeFileStore_Write_def Let_def split: if_splits prod.splits option.splits)

lemma VolumeFileStore_ReadAll_ReadFile:
  "VolumeFileStore_ReadAll root p s =
     (case os_ReadFile (VolumeFileStore_Resolve root [p]) s of
        (r, s1) \<Rightarrow> (map_sum SysErr (\<lambda>b. b) r, s1))"
  by (auto simp: VolumeFileStore_ReadAll_def VolumeFileStore_Read_def os_ReadFile_def
      split: prod.splits sum.splits)

lemma map_sum_SysErr_simps:
  "map_sum SysErr (\<lambda>b. b) r = Inr c \<longleftrightarrow> r = Inr c"
  "map_sum SysErr (\<lambda>b. b) r = Inl e \<longleftrightarrow> (\<exists>d. r = Inl d \<and> e = SysErr d)"
  by (cases r; auto)+

lemma vfs_read_keeps:
  "VolumeFileStore_ReadAll root p s = (r, s') \<Longrightarrow> fs_files s' = fs_files s"
  by (auto simp: VolumeFileStore_ReadAll_ReadFile dest: os_ReadFile_files split: prod.splits)

lemma vfs_read_ok:
  "VolumeFileStore_ReadAll root p s = (Inr b, s') \<Longrightarrow>
     fmlookup (fs_files s) (volume_key root p) = Some b"
  by (auto simp: VolumeFileStore_ReadAll_ReadFile map_sum_SysErr_simps volume_key_def
      dest: os_ReadFile_Inr split: prod.splits)

lemma vfs_read_missing:
  "VolumeFileStore_ReadAll root p s = (Inl e, s') \<Longrightarrow> errors_Is_NotExist e \<Longrightarrow>
     fmlookup (fs_files s) (volume_key root p) = None"
  by (auto simp: VolumeFileStore_ReadAll_ReadFile map_sum_SysErr_simps volume_key_def
      dest: os_ReadFile_NotExist split: prod.splits)

lemma vfs_remove:
  assumes "VolumeFileStore_Remove root p s = (r, s')"
  shows "k \<noteq> volume_key root p \<Longrightarrow> fmlookup (fs_files s') k = fmlookup (fs_files s) k"
    and "r = None \<Longrightarrow> fmlookup (fs_files s') (volume_key root p) = None"
    and "r = Some e \<Longrightarrow> errors_Is_NotExist e \<Longrightarrow> fmlookup (fs_files s') (volume_key root p) = None"
  using assms
  by (auto simp: VolumeFileStore_Remove_def volume_key_def dest: os_Remove_other
      intro: os_Remove_files(2) split: prod.splits)

context renameio_api
begin

lemma vfs_write_ok:
  assumes "VolumeFileStore_Write rio root p b s = (None, s')"
  shows "fs_files s' = fmupd (volume_key root p) b (fs_files s)"
  using assms
  by (cases rule: VolumeFileStore_Write_cases)
    (auto simp: volume_key_def rio_ok dest: os_MkdirAll_files(1))

lemma vfs_write_error:
  assumes "VolumeFileStore_Write rio root p b s = (Some e, s')"
  shows "fs_files s' = fs_files s"
  using assms
  by (cases rule: VolumeFileStore_Write_cases) (auto dest!: rio_error os_MkdirAll_files(1))

lemma vfs_write_wf:
  assumes "VolumeFileStore_Write rio root p b s = (r, s')" and wf: "wf_osfs s"
  shows "wf_osfs s'"
  using assms(1)
proof (cases rule: VolumeFileStore_Write_cases)
  case (mkdir e s1)
  then show ?thesis using os_MkdirAll_wf [OF wf] by blast
next
  case (put r2 s1)
  have s1: "wf_osfs s1" using put(3) wf os_MkdirAll_wf by blast
  have same: "fs_dirs s' = fs_dirs s1" using rio_frame put(2) by blast
  show ?thesis
  proof (cases r2)
    case None
    with put(2) rio_ok have "fs_files s' = fs_files (put_file (path_norm (VolumeFileStore_Resolve root [p])) b s1)"
      by fastforce
    moreover have "wf_osfs (put_file (path_norm (VolumeFileStore_Resolve root [p])) b s1)"
      using None put(2) rio_ok s1 by (blast intro: wf_put_file)
    ultimately show ?thesis using same by (simp add: wf_osfs_def is_dir_def)
  next
    case (Some e)
    with put(2) rio_error have "fs_files s' = fs_files s1" by blast
    with same s1 show ?thesis by (simp add: wf_osfs_def is_dir_def)
  qed
qed

end

sublocale renameio_api \<subseteq> vfs: file_store "VolumeFileStore_Write rio root"
    "VolumeFileStore_ReadAll root" "VolumeFileStore_Remove root" "volume_key root"
    "\<lambda>s. fmlookup (fs_files s)" for root
  by unfold_locales
    (auto simp: vfs_write_ok vfs_write_error fun_eq_iff vfs_read_ok vfs_read_missing
      dest: vfs_read_keeps vfs_remove)

text \<open>The store as the clients get it, a record of operations, keeps the promise.\<close>

lemma VolumeFileStore_contract:
  assumes "renameio_api rio"
  shows "file_store (fsWrite (VolumeFileStore rio root)) (fsReadAll (VolumeFileStore rio root))
    (fsRemove (VolumeFileStore rio root)) (volume_key root) (\<lambda>s. fmlookup (fs_files s))"
  unfolding VolumeFileStore_def FileStore.simps
  by unfold_locales
    (auto simp: renameio_api.vfs_write_ok [OF assms] renameio_api.vfs_write_error [OF assms] fun_eq_iff
      vfs_read_ok vfs_read_missing dest: vfs_read_keeps vfs_remove)

end
