(* ===== verification/Store_Spec.thy ===== *)
theory Store_Spec
  imports File_Store
begin

text \<open>
  The abstract specification of a file store, a map from keys to contents, and the refinement: every
  sequence of operations on \<open>VolumeFileStore\<close>, with its replies, is a sequence of steps of the specification.
\<close>

section \<open>The specification\<close>

text \<open>
  What the store promises, as steps of a map from keys to contents: each operation, its reply and
  the map after it. A failed operation may leave a file as it was; a removal that fails for another
  reason than a missing file may have removed it.
\<close>

datatype store_op = OpWrite string bytes | OpReadAll string | OpRemove string

datatype store_reply = Finished "gerror option" | Data "gerror + bytes"

inductive store_spec ::
    "(string \<Rightarrow> 'k) \<Rightarrow> ('k \<Rightarrow> bytes option) \<Rightarrow> store_op \<Rightarrow> store_reply \<Rightarrow> ('k \<Rightarrow> bytes option) \<Rightarrow> bool"
  for key :: "string \<Rightarrow> 'k" where
  written: "store_spec key m (OpWrite p b) (Finished None) (m(key p \<mapsto> b))"
| not_written: "store_spec key m (OpWrite p b) (Finished (Some e)) m"
| read_data: "m (key p) = Some b \<Longrightarrow> store_spec key m (OpReadAll p) (Data (Inr b)) m"
| read_nothing: "m (key p) = None \<Longrightarrow> store_spec key m (OpReadAll p) (Data (Inl e)) m"
| read_failed: "\<not> errors_Is_NotExist e \<Longrightarrow> store_spec key m (OpReadAll p) (Data (Inl e)) m"
| removed: "store_spec key m (OpRemove p) (Finished d) (m(key p := None))"
| not_removed: "\<not> errors_Is_NotExist e \<Longrightarrow> store_spec key m (OpRemove p) (Finished (Some e)) m"

inductive_cases spec_writeE: "store_spec key m (OpWrite p b) r m'"
inductive_cases spec_readE: "store_spec key m (OpReadAll p) r m'"
inductive_cases spec_removeE: "store_spec key m (OpRemove p) r m'"

fun spec_trace ::
    "(string \<Rightarrow> 'k) \<Rightarrow> ('k \<Rightarrow> bytes option) \<Rightarrow> store_op list \<Rightarrow> store_reply list \<Rightarrow> ('k \<Rightarrow> bytes option) \<Rightarrow> bool" where
  "spec_trace key m [] [] m' = (m' = m)"
| "spec_trace key m (op # ops) (r # rs) m' = (\<exists>m1. store_spec key m op r m1 \<and> spec_trace key m1 ops rs m')"
| "spec_trace key m _ _ m' = False"

fun store_exec :: "FileStore \<Rightarrow> store_op \<Rightarrow> osfs \<Rightarrow> store_reply \<times> osfs" where
  "store_exec F (OpWrite p b) s = (case fsWrite F p b s of (r, s1) \<Rightarrow> (Finished r, s1))"
| "store_exec F (OpReadAll p) s = (case fsReadAll F p s of (r, s1) \<Rightarrow> (Data r, s1))"
| "store_exec F (OpRemove p) s = (case fsRemove F p s of (r, s1) \<Rightarrow> (Finished r, s1))"

fun store_trace :: "FileStore \<Rightarrow> store_op list \<Rightarrow> osfs \<Rightarrow> store_reply list \<times> osfs" where
  "store_trace F [] s = ([], s)"
| "store_trace F (op # ops) s =
     (case store_exec F op s of (r, s1) \<Rightarrow> (case store_trace F ops s1 of (rs, s2) \<Rightarrow> (r # rs, s2)))"

lemma store_exec_refines:
  assumes "file_store (fsWrite F) (fsReadAll F) (fsRemove F) key content" and "store_exec F op s = (r, s')"
    and removal: "\<And>p e s s'. fsRemove F p s = (Some e, s') \<Longrightarrow> \<not> errors_Is_NotExist e \<Longrightarrow>
      content s' (key p) = content s (key p) \<or> content s' (key p) = None"
  shows "store_spec key (content s) op r (content s')"
proof (cases op)
  case (OpWrite p b)
  with assms(2) file_store.write_ok [OF assms(1), of p b s s'] file_store.write_error [OF assms(1), of p b s _ s']
  show ?thesis by (cases "fst (fsWrite F p b s)") (auto intro: store_spec.intros split: prod.splits)
next
  case (OpReadAll p)
  with assms(2) obtain d where d: "fsReadAll F p s = (d, s')" "r = Data d" by (auto split: prod.splits)
  have same: "content s' = content s" using file_store.read_keeps [OF assms(1) d(1)] .
  show ?thesis
  proof (cases d)
    case (Inl e)
    with d file_store.read_missing [OF assms(1), of p s e s'] OpReadAll show ?thesis
      by (cases "errors_Is_NotExist e") (auto simp: same intro: store_spec.intros)
  next
    case (Inr b)
    with d file_store.read_ok [OF assms(1), of p s b s'] OpReadAll show ?thesis
      by (auto simp: same intro: store_spec.intros)
  qed
next
  case (OpRemove p)
  with assms(2) obtain d where d: "fsRemove F p s = (d, s')" "r = Finished d" by (auto split: prod.splits)
  have other: "content s' k = content s k" if "k \<noteq> key p" for k
    using file_store.remove_keeps [OF assms(1) d(1)] that by simp
  then have gone: "content s' = (content s)(key p := None)" if "content s' (key p) = None" using that by auto
  from other have kept: "content s' = content s" if "content s' (key p) = content s (key p)"
    using that by (intro ext) metis
  show ?thesis
  proof (cases "content s' (key p) = None")
    case True
    with d OpRemove gone show ?thesis by (simp add: store_spec.removed)
  next
    case False
    then obtain e where e: "d = Some e" "\<not> errors_Is_NotExist e"
      using d file_store.remove_ok [OF assms(1), of p s s'] file_store.remove_missing [OF assms(1), of p s _ s']
      by (cases d) fastforce+
    with False removal d have "content s' = content s" by (intro kept) metis
    with d e OpRemove show ?thesis by (simp add: store_spec.not_removed)
  qed
qed

lemma volume_exec_refines:
  assumes "renameio_api rio" and "store_exec (VolumeFileStore rio root) op s = (r, s')"
  shows "store_spec (volume_key root) (fmlookup (fs_files s)) op r (fmlookup (fs_files s'))"
proof (rule store_exec_refines [OF VolumeFileStore_contract [OF assms(1)] assms(2)])
  fix p e and t t' :: osfs
  assume "fsRemove (VolumeFileStore rio root) p t = (Some e, t')"
  then obtain x where "os_Remove (VolumeFileStore_Resolve root [p]) t = (x, t')"
    by (auto simp: VolumeFileStore_def VolumeFileStore_Remove_def split: prod.splits)
  from os_Remove_files(1) [OF this]
  show "fmlookup (fs_files t') (volume_key root p) = fmlookup (fs_files t) (volume_key root p)
      \<or> fmlookup (fs_files t') (volume_key root p) = None"
    by (auto simp: volume_key_def)
qed

lemma volume_trace_refines:
  "renameio_api rio \<Longrightarrow> store_trace (VolumeFileStore rio root) ops s = (rs, s') \<Longrightarrow>
     spec_trace (volume_key root) (fmlookup (fs_files s)) ops rs (fmlookup (fs_files s'))"
proof (induction ops arbitrary: s rs)
  case (Cons op ops)
  then show ?case
    by (fastforce dest: volume_exec_refines split: prod.splits)
qed simp

text \<open>
  Property C14: the volume store refines a map from paths to contents. Whatever reads, writes and removals are made,
  and whichever of them fail, their replies are those of a map that a successful write updates, a
  failed write leaves alone, and a read returns or reports missing; the files on the volume at the end are that map.
\<close>

theorem VolumeFileStore_refines_map:
  assumes "renameio_api rio" and "store_trace (VolumeFileStore rio root) ops s = (rs, s')"
  shows "spec_trace (volume_key root) (fmlookup (fs_files s)) ops rs (fmlookup (fs_files s'))"
  using assms by (rule volume_trace_refines)

definition ex_store_fs :: osfs where
  "ex_store_fs = \<lparr>fs_files = fmempty, fs_dirs = {|path_norm ''/data''|}, fs_fault = (\<lambda>n. None), fs_clock = 0\<rparr>"

theorem VolumeFileStore_refines_map_witness:
  "\<exists>rs s'. store_trace (VolumeFileStore rio_reference ''/data'') [OpWrite ''a'' ''xy'', OpReadAll ''a'', OpRemove ''a'', OpReadAll ''a'']
       ex_store_fs = (rs, s')
     \<and> spec_trace (volume_key ''/data'') (\<lambda>k. None)
         [OpWrite ''a'' ''xy'', OpReadAll ''a'', OpRemove ''a'', OpReadAll ''a''] rs (fmlookup (fs_files s'))"
proof -
  obtain rs s' where run: "store_trace (VolumeFileStore rio_reference ''/data'')
      [OpWrite ''a'' ''xy'', OpReadAll ''a'', OpRemove ''a'', OpReadAll ''a''] ex_store_fs = (rs, s')"
    by fastforce
  have "fmlookup (fs_files ex_store_fs) = (\<lambda>k. None)" by (simp add: ex_store_fs_def fun_eq_iff)
  with VolumeFileStore_refines_map [OF rio_ref.renameio_api_axioms run] run show ?thesis by metis
qed

end
