(* ===== verification/Kube_Values.thy ===== *)
theory Kube_Values
  imports Errors
begin

text \<open>
  Package \<open>internal/k8s\<close>: selectors that take a string from a literal, a ConfigMap or a
  Secret, and templates over such values. Reading a ConfigMap or a Secret and Go's
  \<open>text/template\<close> are parameters (record \<open>values_env\<close>); \<open>'w\<close> is the state of the
  cluster as the client sees it. A nil pointer the code dereferences is a panic.
\<close>

section \<open>Types\<close>

record KeySelector =
  ref_Name :: string
  ref_Key :: string

record ValueSource =
  ConfigMapKeyRef :: "KeySelector option"
  SecretKeyRef :: "KeySelector option"

record SecretConfigMapSelector =
  sel_Value :: string
  sel_ValueFrom :: "ValueSource option"

record TemplateParameter =
  param_Name :: string
  param_Selector :: SecretConfigMapSelector

record TemplateFrom =
  tf_Selector :: SecretConfigMapSelector
  TemplateParameters :: "TemplateParameter list"

record 'w values_env =
  get_ConfigMap :: "'w \<Rightarrow> string \<Rightarrow> string \<Rightarrow> sys_error + labels"
  get_Secret :: "'w \<Rightarrow> string \<Rightarrow> string \<Rightarrow> sys_error + labels"
  parse_template :: "string \<Rightarrow> sys_error + (labels \<Rightarrow> sys_error + string)"

section \<open>Selectors\<close>

definition fetchFromConfigMap ::
    "('w, 'a) values_env_scheme \<Rightarrow> 'w \<Rightarrow> string \<Rightarrow> KeySelector \<Rightarrow> gerror + string" where
  "fetchFromConfigMap E w namespace ref =
     (case get_ConfigMap E w namespace (ref_Name ref) of
        Inl err \<Rightarrow> Inl (ResErr (GetError KindConfigMap (ref_Name ref) err))
      | Inr data \<Rightarrow>
          (case fmlookup data (ref_Key ref) of
             None \<Rightarrow> Inl (ResErr (MissingKeyError KindConfigMap (ref_Name ref) (ref_Key ref)))
           | Some v \<Rightarrow> Inr v))"

definition fetchFromSecret ::
    "('w, 'a) values_env_scheme \<Rightarrow> 'w \<Rightarrow> string \<Rightarrow> KeySelector \<Rightarrow> gerror + string" where
  "fetchFromSecret E w namespace ref =
     (case get_Secret E w namespace (ref_Name ref) of
        Inl err \<Rightarrow> Inl (ResErr (GetError KindSecret (ref_Name ref) err))
      | Inr data \<Rightarrow>
          (case fmlookup data (ref_Key ref) of
             None \<Rightarrow> Inl (ResErr (MissingKeyError KindSecret (ref_Name ref) (ref_Key ref)))
           | Some v \<Rightarrow> Inr v))"

definition ValueSource_Resolve ::
    "('w, 'a) values_env_scheme \<Rightarrow> 'w \<Rightarrow> string \<Rightarrow> ValueSource \<Rightarrow> gerror + string" where
  "ValueSource_Resolve E w namespace s =
     (case ConfigMapKeyRef s of
        Some ref \<Rightarrow> fetchFromConfigMap E w namespace ref
      | None \<Rightarrow>
          (case SecretKeyRef s of
             Some ref \<Rightarrow> fetchFromSecret E w namespace ref
           | None \<Rightarrow>
               Inl (ResErr (MissingOptionError ''ValueSource'' [''ConfigMapKeyRef'', ''SecretKeyRef'']))))"

definition Selector_Resolve ::
    "('w, 'a) values_env_scheme \<Rightarrow> 'w \<Rightarrow> string \<Rightarrow> SecretConfigMapSelector \<Rightarrow> gerror + string" where
  "Selector_Resolve E w namespace s =
     (case sel_ValueFrom s of
        None \<Rightarrow> Inr (sel_Value s)
      | Some vf \<Rightarrow> ValueSource_Resolve E w namespace vf)"

definition TemplateParameter_Resolve ::
    "('w, 'a) values_env_scheme \<Rightarrow> 'w \<Rightarrow> string \<Rightarrow> TemplateParameter \<Rightarrow> gerror + string" where
  "TemplateParameter_Resolve E w namespace p = Selector_Resolve E w namespace (param_Selector p)"

section \<open>Templates\<close>

definition nil_deref :: string where
  "nil_deref = ''runtime error: invalid memory address or nil pointer dereference''"

text \<open>The receiver is a pointer: \<^const>\<open>None\<close> is nil.\<close>

definition ResolveTemplate ::
    "('w, 'a) values_env_scheme \<Rightarrow> 'w \<Rightarrow> string \<Rightarrow> TemplateFrom option \<Rightarrow> (gerror + string) go" where
  "ResolveTemplate E w namespace p =
     (case p of
        None \<Rightarrow> Panic nil_deref
      | Some tf \<Rightarrow>
          (if sel_Value (tf_Selector tf) \<noteq> [] then Ret (Inr (sel_Value (tf_Selector tf)))
           else (case sel_ValueFrom (tf_Selector tf) of
                   None \<Rightarrow> Panic nil_deref
                 | Some vf \<Rightarrow> Ret (ValueSource_Resolve E w namespace vf))))"

fun resolve_params ::
    "('w, 'a) values_env_scheme \<Rightarrow> 'w \<Rightarrow> string \<Rightarrow> TemplateParameter list \<Rightarrow> labels \<Rightarrow> gerror + labels" where
  "resolve_params E w namespace [] result = Inr result"
| "resolve_params E w namespace (param # params) result =
     (case TemplateParameter_Resolve E w namespace param of
        Inl err \<Rightarrow> Inl err
      | Inr v \<Rightarrow> resolve_params E w namespace params (fmupd (param_Name param) v result))"

definition ResolveTemplateParameters ::
    "('w, 'a) values_env_scheme \<Rightarrow> 'w \<Rightarrow> string \<Rightarrow> TemplateFrom \<Rightarrow> gerror + labels" where
  "ResolveTemplateParameters E w namespace p =
     resolve_params E w namespace (TemplateParameters p) fmempty"

definition TemplateFrom_Render ::
    "('w, 'a) values_env_scheme \<Rightarrow> 'w \<Rightarrow> string \<Rightarrow> TemplateFrom option \<Rightarrow> (gerror + string) go" where
  "TemplateFrom_Render E w namespace tf =
     (case ResolveTemplate E w namespace tf of
        Panic m \<Rightarrow> Panic m
      | Ret (Inl err) \<Rightarrow> Ret (Inl err)
      | Ret (Inr templateText) \<Rightarrow>
          (case ResolveTemplateParameters E w namespace (the tf) of
             Inl err \<Rightarrow> Ret (Inl err)
           | Inr parameters \<Rightarrow>
               (if fmdom parameters = {||} then Ret (Inr templateText)
                else (case parse_template E templateText of
                        Inl err \<Rightarrow> Ret (Inl (Wrapf ''parse template'' (SysErr err)))
                      | Inr tmpl \<Rightarrow>
                          (case tmpl parameters of
                             Inl err \<Rightarrow> Ret (Inl (Wrapf ''render template'' (SysErr err)))
                           | Inr rendered \<Rightarrow> Ret (Inr rendered))))))"

section \<open>Behaviour\<close>

text \<open>The parameters resolve to a map from the parameter names, the last entry of a name winning.\<close>

lemma resolve_params_lookup:
  assumes "resolve_params E w ns ps acc = Inr m"
  shows "fmlookup m x =
    (case find (\<lambda>p. param_Name p = x) (rev ps) of
       None \<Rightarrow> fmlookup acc x
     | Some p \<Rightarrow> (case TemplateParameter_Resolve E w ns p of Inl _ \<Rightarrow> None | Inr v \<Rightarrow> Some v))"
  using assms
proof (induction ps arbitrary: acc)
  case Nil
  then show ?case by simp
next
  case (Cons p ps)
  then obtain v where v: "TemplateParameter_Resolve E w ns p = Inr v"
    and rest: "resolve_params E w ns ps (fmupd (param_Name p) v acc) = Inr m"
    by (auto split: sum.splits)
  have "find (\<lambda>p. param_Name p = x) (rev ps @ [p]) =
      (case find (\<lambda>p. param_Name p = x) (rev ps) of
         None \<Rightarrow> (if param_Name p = x then Some p else None) | Some q \<Rightarrow> Some q)"
    by (simp add: find_snoc)
  with Cons.IH [OF rest] v show ?case by (auto split: option.splits)
qed

lemma resolve_params_dom:
  "resolve_params E w ns ps acc = Inr m \<Longrightarrow> fset (fmdom m) = fset (fmdom acc) \<union> param_Name ` set ps"
  by (induction ps arbitrary: acc) (auto split: sum.splits)

lemma resolve_params_Inr_iff:
  "(\<exists>m. resolve_params E w ns ps acc = Inr m) \<longleftrightarrow>
     (\<forall>p \<in> set ps. \<exists>v. TemplateParameter_Resolve E w ns p = Inr v)"
  by (induction ps arbitrary: acc) (auto split: sum.splits)

text \<open>A template panics exactly when there is no template text to take and no source to take it from.\<close>

lemma TemplateFrom_Render_panics:
  "(\<exists>m. TemplateFrom_Render E w ns tf = Panic m) \<longleftrightarrow>
     (case tf of None \<Rightarrow> True
      | Some t \<Rightarrow> sel_Value (tf_Selector t) = [] \<and> sel_ValueFrom (tf_Selector t) = None)"
  by (auto simp: TemplateFrom_Render_def ResolveTemplate_def Let_def
      split: option.splits sum.splits if_splits)

text \<open>Without parameters the text is taken as it is; the template engine is not involved.\<close>

lemma TemplateFrom_Render_literal:
  assumes "TemplateParameters t = []" and "sel_Value (tf_Selector t) \<noteq> []"
  shows "TemplateFrom_Render E w ns (Some t) = Ret (Inr (sel_Value (tf_Selector t)))"
  using assms by (simp add: TemplateFrom_Render_def ResolveTemplate_def ResolveTemplateParameters_def)

end
