(* ===== verification/Api.thy ===== *)
theory Api
  imports Kube_Values
begin

text \<open>
  Package \<open>api/v1alpha1\<close>: the three custom resources, their status conditions and finalizers.
  The helpers of \<open>k8s.io/apimachinery\<close> and \<open>controller-runtime\<close> that maintain conditions
  and finalizer lists are parameters (record \<open>klib\<close>); the locale \<open>kube_lib\<close> states what they
  document, and \<open>condition_object\<close> what the three resources have in common.
\<close>

section \<open>Conditions\<close>

datatype ConditionStatus = ConditionTrue | ConditionFalse | ConditionUnknown

record Condition =
  cond_Type :: string
  cond_Status :: ConditionStatus
  cond_Reason :: string
  cond_Message :: string
  cond_ObservedGeneration :: int64

datatype ConditionType = ConditionReady | ConditionValidated | ConditionGenerated | ConditionApplied

fun ConditionType_string :: "ConditionType \<Rightarrow> string" where
  "ConditionType_string ConditionReady = ''Ready''"
| "ConditionType_string ConditionValidated = ''Validated''"
| "ConditionType_string ConditionGenerated = ''Generated''"
| "ConditionType_string ConditionApplied = ''Applied''"

datatype ConditionReason =
    ReasonReconciling | ReasonReconciled | ReasonInvalidSpec | ReasonDependencyUnavailable
  | ReasonGenerationPending | ReasonGenerationFailed | ReasonApplyFailed | ReasonCleanupFailed
  | ReasonReloadFailed | ReasonTemplateResolutionFailed

fun ConditionReason_string :: "ConditionReason \<Rightarrow> string" where
  "ConditionReason_string ReasonReconciling = ''Reconciling''"
| "ConditionReason_string ReasonReconciled = ''Reconciled''"
| "ConditionReason_string ReasonInvalidSpec = ''InvalidSpec''"
| "ConditionReason_string ReasonDependencyUnavailable = ''DependencyUnavailable''"
| "ConditionReason_string ReasonGenerationPending = ''GenerationPending''"
| "ConditionReason_string ReasonGenerationFailed = ''GenerationFailed''"
| "ConditionReason_string ReasonApplyFailed = ''ApplyFailed''"
| "ConditionReason_string ReasonCleanupFailed = ''CleanupFailed''"
| "ConditionReason_string ReasonReloadFailed = ''ReloadFailed''"
| "ConditionReason_string ReasonTemplateResolutionFailed = ''TemplateResolutionFailed''"

lemma ConditionType_string_inject [simp]:
  "ConditionType_string a = ConditionType_string b \<longleftrightarrow> a = b"
  by (cases a; cases b) simp_all

definition FindStatusCondition :: "Condition list \<Rightarrow> string \<Rightarrow> Condition option" where
  "FindStatusCondition cs t = find (\<lambda>c. cond_Type c = t) cs"

definition cond_is :: "Condition list \<Rightarrow> ConditionType \<Rightarrow> ConditionStatus \<Rightarrow> bool" where
  "cond_is cs t s =
     (case FindStatusCondition cs (ConditionType_string t) of
        None \<Rightarrow> False | Some c \<Rightarrow> cond_Status c = s)"

section \<open>The library helpers\<close>

record klib =
  SetStatusCondition :: "Condition list \<Rightarrow> Condition \<Rightarrow> Condition list"
  IsStatusConditionFalse :: "Condition list \<Rightarrow> string \<Rightarrow> bool"
  ContainsFinalizer :: "string list \<Rightarrow> string \<Rightarrow> bool"
  AddFinalizer :: "string list \<Rightarrow> string \<Rightarrow> string list"
  RemoveFinalizer :: "string list \<Rightarrow> string \<Rightarrow> string list"

locale kube_lib =
  fixes L :: klib
  assumes find_SetStatusCondition:
      "FindStatusCondition (SetStatusCondition L cs c) t =
         (if t = cond_Type c then Some c else FindStatusCondition cs t)"
    and IsStatusConditionFalse_iff:
      "IsStatusConditionFalse L cs t \<longleftrightarrow>
         (\<exists>c. FindStatusCondition cs t = Some c \<and> cond_Status c = ConditionFalse)"
    and ContainsFinalizer_iff: "ContainsFinalizer L fs f \<longleftrightarrow> f \<in> set fs"
    and set_AddFinalizer: "set (AddFinalizer L fs f) = insert f (set fs)"
    and set_RemoveFinalizer: "set (RemoveFinalizer L fs f) = set fs - {f}"

text \<open>One library that behaves as documented; the witnesses run on it.\<close>

definition klib_reference :: klib where
  "klib_reference =
     \<lparr>SetStatusCondition =
        (\<lambda>cs c. if list_ex (\<lambda>d. cond_Type d = cond_Type c) cs
                then map (\<lambda>d. if cond_Type d = cond_Type c then c else d) cs else cs @ [c]),
      IsStatusConditionFalse =
        (\<lambda>cs t. case FindStatusCondition cs t of None \<Rightarrow> False | Some c \<Rightarrow> cond_Status c = ConditionFalse),
      ContainsFinalizer = (\<lambda>fs f. f \<in> set fs),
      AddFinalizer = (\<lambda>fs f. if f \<in> set fs then fs else fs @ [f]),
      RemoveFinalizer = (\<lambda>fs f. removeAll f fs)\<rparr>"

lemma find_map_replace:
  "find (\<lambda>d. cond_Type d = t) (map (\<lambda>d. if cond_Type d = cond_Type c then c else d) cs) =
     (if t = cond_Type c then (if list_ex (\<lambda>d. cond_Type d = cond_Type c) cs then Some c else None)
      else find (\<lambda>d. cond_Type d = t) cs)"
  by (induction cs) auto

interpretation klib_ref: kube_lib klib_reference
  by unfold_locales
    (auto simp: klib_reference_def FindStatusCondition_def find_map_replace find_snoc
      find_None_list_ex split: option.splits)

section \<open>Object metadata\<close>

record ObjectMeta =
  meta_Name :: string
  meta_Namespace :: string
  meta_UID :: string
  meta_Generation :: int64
  meta_DeletionTimestamp :: "int option"
  meta_Finalizers :: "string list"

section \<open>DataCenterResource\<close>

record ParentRef =
  pref_Name :: string
  pref_Coefficient :: string
  pref_CoefficientFrom :: "TemplateFrom option"

record DataCenterResourceSpec =
  dspec_Type :: string
  dspec_PhysicalMeasurements :: "string list"
  dspec_Parents :: "ParentRef list"
  dspec_EnergyMetric :: string
  dspec_EnergyMetricFrom :: "TemplateFrom option"
  dspec_AdditionalLabels :: "labels option"

record DataCenterResourceStatus =
  dstat_ObservedGeneration :: int64
  dstat_InvolvedResource :: string
  dstat_Conditions :: "Condition list"

record DataCenterResource =
  dcr_Meta :: ObjectMeta
  dcr_Spec :: DataCenterResourceSpec
  dcr_Status :: DataCenterResourceStatus

abbreviation dcr_Name :: "DataCenterResource \<Rightarrow> string" where
  "dcr_Name d \<equiv> meta_Name (dcr_Meta d)"

definition DataCenterResourceGraphFinalizer :: string where
  "DataCenterResourceGraphFinalizer = ''datacenterresource.finalizer.chantico-project.github.io/graph''"

definition dcr_GetConditions :: "DataCenterResource \<Rightarrow> Condition list" where
  "dcr_GetConditions m = dstat_Conditions (dcr_Status m)"

definition new_condition ::
    "ConditionType \<Rightarrow> ConditionStatus \<Rightarrow> ConditionReason \<Rightarrow> string \<Rightarrow> int64 \<Rightarrow> Condition" where
  "new_condition t s reason msg gen =
     \<lparr>cond_Type = ConditionType_string t, cond_Status = s,
      cond_Reason = ConditionReason_string reason, cond_Message = msg,
      cond_ObservedGeneration = gen\<rparr>"

definition dcr_UpdateStatusCondition ::
    "klib \<Rightarrow> ConditionType \<Rightarrow> ConditionStatus \<Rightarrow> ConditionReason \<Rightarrow> string
      \<Rightarrow> DataCenterResource \<Rightarrow> DataCenterResource" where
  "dcr_UpdateStatusCondition L t s reason msg m =
     m\<lparr>dcr_Status := (dcr_Status m)\<lparr>dstat_Conditions :=
         SetStatusCondition L (dcr_GetConditions m)
           (new_condition t s reason msg (meta_Generation (dcr_Meta m)))\<rparr>\<rparr>"

definition ParentNames :: "DataCenterResourceSpec \<Rightarrow> string list" where
  "ParentNames s = (if dspec_Parents s = [] then [] else map pref_Name (dspec_Parents s))"

lemma ParentNames_map [simp]: "ParentNames s = map pref_Name (dspec_Parents s)"
  by (simp add: ParentNames_def)

section \<open>PhysicalMeasurement\<close>

definition PhysicalMeasurementTypeSNMP :: string where
  "PhysicalMeasurementTypeSNMP = ''snmp''"

definition PhysicalMeasurementTypePrometheusExporter :: string where
  "PhysicalMeasurementTypePrometheusExporter = ''prometheus-exporter''"

record PhysicalMeasurementSpec =
  pspec_Type :: string
  pspec_Ip :: string
  pspec_MeasurementDevice :: string
  pspec_AdditionalLabels :: "labels option"

record PhysicalMeasurementStatus =
  pstat_ObservedGeneration :: int64
  pstat_Conditions :: "Condition list"

record PhysicalMeasurement =
  pm_Meta :: ObjectMeta
  pm_Spec :: PhysicalMeasurementSpec
  pm_Status :: PhysicalMeasurementStatus

abbreviation pm_Name :: "PhysicalMeasurement \<Rightarrow> string" where
  "pm_Name m \<equiv> meta_Name (pm_Meta m)"

definition PhysicalMeasurementFinalizer :: string where
  "PhysicalMeasurementFinalizer = ''physicalmeasurement.chantico-project.github.io/finalizer''"

text \<open>Durations are in seconds.\<close>

definition EndpointRequeueDelay :: int where
  "EndpointRequeueDelay = 30"

definition pm_GetConditions :: "PhysicalMeasurement \<Rightarrow> Condition list" where
  "pm_GetConditions m = pstat_Conditions (pm_Status m)"

definition pm_UpdateStatusCondition ::
    "klib \<Rightarrow> ConditionType \<Rightarrow> ConditionStatus \<Rightarrow> ConditionReason \<Rightarrow> string
      \<Rightarrow> PhysicalMeasurement \<Rightarrow> PhysicalMeasurement" where
  "pm_UpdateStatusCondition L t s reason msg m =
     m\<lparr>pm_Status := (pm_Status m)\<lparr>pstat_Conditions :=
         SetStatusCondition L (pm_GetConditions m)
           (new_condition t s reason msg (meta_Generation (pm_Meta m)))\<rparr>\<rparr>"

section \<open>MeasurementDevice\<close>

record MeasurementDeviceSpec =
  mspec_Walks :: "string list"
  mspec_AuthFrom :: "SecretConfigMapSelector option"

record MeasurementDeviceStatus =
  mstat_ObservedGeneration :: int64
  mstat_ConfigHash :: string
  mstat_Conditions :: "Condition list"

record MeasurementDevice =
  md_Meta :: ObjectMeta
  md_Spec :: MeasurementDeviceSpec
  md_Status :: MeasurementDeviceStatus

abbreviation md_Name :: "MeasurementDevice \<Rightarrow> string" where
  "md_Name m \<equiv> meta_Name (md_Meta m)"

abbreviation md_UID :: "MeasurementDevice \<Rightarrow> string" where
  "md_UID m \<equiv> meta_UID (md_Meta m)"

definition SNMPUpdateFinalizer :: string where
  "SNMPUpdateFinalizer = ''measurementdevice.finalizer.chantico-project.github.io/snmp-update''"

definition md_GetConditions :: "MeasurementDevice \<Rightarrow> Condition list" where
  "md_GetConditions m = mstat_Conditions (md_Status m)"

definition md_UpdateStatusCondition ::
    "klib \<Rightarrow> ConditionType \<Rightarrow> ConditionStatus \<Rightarrow> ConditionReason \<Rightarrow> string
      \<Rightarrow> MeasurementDevice \<Rightarrow> MeasurementDevice" where
  "md_UpdateStatusCondition L t s reason msg m =
     m\<lparr>md_Status := (md_Status m)\<lparr>mstat_Conditions :=
         SetStatusCondition L (md_GetConditions m)
           (new_condition t s reason msg (meta_Generation (md_Meta m)))\<rparr>\<rparr>"

section \<open>What the resources share\<close>

text \<open>
  Every resource has conditions and metadata, and \<open>UpdateStatusCondition\<close> sets one condition,
  stamped with the generation the resource has. What a reconciler reads back follows.
\<close>

locale condition_object =
  fixes conds :: "'o \<Rightarrow> Condition list"
    and objmeta :: "'o \<Rightarrow> ObjectMeta"
    and update :: "klib \<Rightarrow> ConditionType \<Rightarrow> ConditionStatus \<Rightarrow> ConditionReason \<Rightarrow> string \<Rightarrow> 'o \<Rightarrow> 'o"
  assumes conds_update:
      "conds (update L t s r msg x) =
         SetStatusCondition L (conds x) (new_condition t s r msg (meta_Generation (objmeta x)))"
    and meta_update [simp]: "objmeta (update L t s r msg x) = objmeta x"
begin

lemma find_update:
  assumes "kube_lib L"
  shows "FindStatusCondition (conds (update L t s r msg x)) (ConditionType_string t') =
    (if t' = t then Some (new_condition t s r msg (meta_Generation (objmeta x)))
     else FindStatusCondition (conds x) (ConditionType_string t'))"
  by (simp add: conds_update kube_lib.find_SetStatusCondition [OF assms] new_condition_def)

lemma cond_is_update:
  assumes "kube_lib L"
  shows "cond_is (conds (update L t s r msg x)) t' s' \<longleftrightarrow>
    (if t' = t then s' = s else cond_is (conds x) t' s')"
  by (auto simp: cond_is_def find_update [OF assms] new_condition_def)

end

interpretation dcr: condition_object dcr_GetConditions dcr_Meta dcr_UpdateStatusCondition
  by unfold_locales (simp_all add: dcr_UpdateStatusCondition_def dcr_GetConditions_def)

interpretation pm: condition_object pm_GetConditions pm_Meta pm_UpdateStatusCondition
  by unfold_locales (simp_all add: pm_UpdateStatusCondition_def pm_GetConditions_def)

interpretation md: condition_object md_GetConditions md_Meta md_UpdateStatusCondition
  by unfold_locales (simp_all add: md_UpdateStatusCondition_def md_GetConditions_def)

lemma dcr_UpdateStatusCondition_simps [simp]:
  "dcr_Spec (dcr_UpdateStatusCondition L t s r msg d) = dcr_Spec d"
  "dcr_Meta (dcr_UpdateStatusCondition L t s r msg d) = dcr_Meta d"
  "dstat_InvolvedResource (dcr_Status (dcr_UpdateStatusCondition L t s r msg d))
     = dstat_InvolvedResource (dcr_Status d)"
  by (simp_all add: dcr_UpdateStatusCondition_def)

lemma pm_UpdateStatusCondition_simps [simp]:
  "pm_Spec (pm_UpdateStatusCondition L t s r msg d) = pm_Spec d"
  "pm_Meta (pm_UpdateStatusCondition L t s r msg d) = pm_Meta d"
  by (simp_all add: pm_UpdateStatusCondition_def)

lemma md_UpdateStatusCondition_simps [simp]:
  "md_Spec (md_UpdateStatusCondition L t s r msg d) = md_Spec d"
  "md_Meta (md_UpdateStatusCondition L t s r msg d) = md_Meta d"
  "mstat_ConfigHash (md_Status (md_UpdateStatusCondition L t s r msg d))
     = mstat_ConfigHash (md_Status d)"
  by (simp_all add: md_UpdateStatusCondition_def)

end
