(* ===== verification/Dcr_Validate.thy ===== *)
theory Dcr_Validate
  imports Api
begin

text \<open>
  \<open>internal/datacenterresource/validate.go\<close>: the breadth-first walk over the parents of a
  resource that rejects missing parents and cycles, the checks of its type and labels, and
  \<open>Validate\<close>. The specification is reachability along parent references: a resource is
  accepted exactly when all its ancestors exist and it is not among them.
\<close>

section \<open>The model\<close>

definition DataCenterResourceTypePDU :: string where
  "DataCenterResourceTypePDU = ''pdu''"

definition DataCenterResourceTypeBaremetal :: string where
  "DataCenterResourceTypeBaremetal = ''baremetal''"

definition DataCenterResourceTypeVM :: string where
  "DataCenterResourceTypeVM = ''vm''"

definition DataCenterResourceTypeKubernetes :: string where
  "DataCenterResourceTypeKubernetes = ''kubernetes''"

definition DataCenterResourceTypeHeat :: string where
  "DataCenterResourceTypeHeat = ''heat''"

type_synonym resource_map = "(string, DataCenterResource) fmap"

text \<open>The zero value a Go map returns for a missing key.\<close>

definition zero_ObjectMeta :: ObjectMeta where
  "zero_ObjectMeta =
     \<lparr>meta_Name = [], meta_Namespace = [], meta_UID = [], meta_Generation = 0,
      meta_DeletionTimestamp = None, meta_Finalizers = []\<rparr>"

definition zero_DataCenterResource :: DataCenterResource where
  "zero_DataCenterResource =
     \<lparr>dcr_Meta = zero_ObjectMeta,
      dcr_Spec = \<lparr>dspec_Type = [], dspec_PhysicalMeasurements = [], dspec_Parents = [],
                  dspec_EnergyMetric = [], dspec_EnergyMetricFrom = None, dspec_AdditionalLabels = None\<rparr>,
      dcr_Status = \<lparr>dstat_ObservedGeneration = 0, dstat_InvolvedResource = [], dstat_Conditions = []\<rparr>\<rparr>"

definition GetFromMap :: "resource_map \<Rightarrow> string list \<Rightarrow> DataCenterResource list" where
  "GetFromMap resourcesMap nodes =
     map (\<lambda>node. case fmlookup resourcesMap node of None \<Rightarrow> zero_DataCenterResource | Some d \<Rightarrow> d) nodes"

fun format_from :: "string \<Rightarrow> nat \<Rightarrow> DataCenterResource list \<Rightarrow> string" where
  "format_from text index [] = text"
| "format_from text index (resource # resources) =
     format_from (if index = 0 then dcr_Name resource else text @ '', '' @ dcr_Name resource)
       (Suc index) resources"

definition FormatResources :: "DataCenterResource list \<Rightarrow> string" where
  "FormatResources resources = format_from [] 0 resources"

fun live_map :: "DataCenterResource list \<Rightarrow> resource_map \<Rightarrow> resource_map" where
  "live_map [] resourcesMap = resourcesMap"
| "live_map (resource # resources) resourcesMap =
     live_map resources
       (if meta_DeletionTimestamp (dcr_Meta resource) = None
        then fmupd (dcr_Name resource) resource resourcesMap else resourcesMap)"

function graph_loop ::
    "resource_map \<Rightarrow> string \<Rightarrow> string list \<Rightarrow> string fset \<Rightarrow> nat
      \<Rightarrow> DataCenterResource list \<times> string \<times> dcr_error option" where
  "graph_loop resourcesMap self queue visitedSet visited =
     (if length queue > visited then
        (if queue ! visited |\<in>| visitedSet then
           graph_loop resourcesMap self (take visited queue @ drop (visited + 1) queue) visitedSet visited
         else
           (case fmlookup resourcesMap (queue ! visited) of
              None \<Rightarrow> (GetFromMap resourcesMap (take visited queue), queue ! visited,
                        Some (ErrorResourceNotFound (queue ! visited)))
            | Some current \<Rightarrow>
                (if self \<in> set (ParentNames (dcr_Spec current)) then
                   (GetFromMap resourcesMap (take visited queue), queue ! visited,
                    Some (ErrorCycleDetected (queue ! visited)))
                 else
                   graph_loop resourcesMap self (queue @ ParentNames (dcr_Spec current))
                     (finsert (queue ! visited) visitedSet) (visited + 1))))
      else (GetFromMap resourcesMap (take visited queue), [], None))"
  by pat_completeness auto

termination
proof (relation "inv_image (less_than <*lex*> less_than)
    (\<lambda>(m, self, q, vs, v). (fcard (fmdom m |-| vs), length q - v))", goal_cases)
  case 1
  show ?case by (simp add: wf_inv_image wf_lex_prod)
next
  case (2 m self q vs v)
  then show ?case by simp
next
  case (3 m self q vs v current)
  then have "q ! v |\<in>| fmdom m |-| vs" by (simp add: fmdomI)
  moreover have "fmdom m |-| finsert (q ! v) vs = (fmdom m |-| vs) |-| {|q ! v|}" by auto
  ultimately have "fcard (fmdom m |-| finsert (q ! v) vs) < fcard (fmdom m |-| vs)"
    by (metis fcard_fminus1_less)
  then show ?case by simp
qed

declare graph_loop.simps [simp del]

definition validateGraph ::
    "DataCenterResource \<Rightarrow> DataCenterResource list \<Rightarrow> PhysicalMeasurement list
      \<Rightarrow> DataCenterResource list \<times> string \<times> dcr_error option" where
  "validateGraph dataCenterResource dataCenterResources physicalMeasurements =
     graph_loop (live_map dataCenterResources fmempty) (dcr_Name dataCenterResource)
       (ParentNames (dcr_Spec dataCenterResource)) {||} 0"

definition validateResourceType :: "DataCenterResource \<Rightarrow> dcr_error option" where
  "validateResourceType d =
     (if dspec_Type (dcr_Spec d) \<in> {[], DataCenterResourceTypePDU, DataCenterResourceTypeBaremetal,
           DataCenterResourceTypeVM, DataCenterResourceTypeKubernetes, DataCenterResourceTypeHeat}
      then None else Some (ErrorUnknownType (dspec_Type (dcr_Spec d))))"

text \<open>
  \<open>valid\<close> is Prometheus' test of a label name and \<open>order\<close> the order in which Go's \<open>range\<close>
  enumerates the keys of a map.
\<close>

definition validateAdditionalLabelNames ::
    "(string \<Rightarrow> bool) \<Rightarrow> (labels \<Rightarrow> string list) \<Rightarrow> DataCenterResource \<Rightarrow> dcr_error option" where
  "validateAdditionalLabelNames valid order d =
     (case dspec_AdditionalLabels (dcr_Spec d) of
        None \<Rightarrow> None
      | Some ls \<Rightarrow>
          (case find (\<lambda>l. \<not> valid l) (order ls) of
             None \<Rightarrow> None | Some l \<Rightarrow> Some (ErrorInvalidLabelName l)))"

definition validators ::
    "(string \<Rightarrow> bool) \<Rightarrow> (labels \<Rightarrow> string list) \<Rightarrow> (DataCenterResource \<Rightarrow> dcr_error option) list" where
  "validators valid order = [validateResourceType, validateAdditionalLabelNames valid order]"

fun first_error :: "('a \<Rightarrow> 'e option) list \<Rightarrow> 'a \<Rightarrow> 'e option" where
  "first_error [] x = None"
| "first_error (v # vs) x = (case v x of None \<Rightarrow> first_error vs x | Some e \<Rightarrow> Some e)"

definition Validate ::
    "(string \<Rightarrow> bool) \<Rightarrow> (labels \<Rightarrow> string list) \<Rightarrow> DataCenterResource
      \<Rightarrow> DataCenterResource list \<Rightarrow> PhysicalMeasurement list
      \<Rightarrow> DataCenterResource list \<times> string \<times> dcr_error option" where
  "Validate valid order d ds pms =
     (case validateGraph d ds pms of
        (involved, name, Some err) \<Rightarrow> (involved, name, Some err)
      | (involved, name, None) \<Rightarrow> (involved, [], first_error (validators valid order) d))"

section \<open>Reachability along parent references\<close>

definition parents_in :: "resource_map \<Rightarrow> string \<Rightarrow> string list" where
  "parents_in m x = (case fmlookup m x of None \<Rightarrow> [] | Some d \<Rightarrow> ParentNames (dcr_Spec d))"

definition parent_edges :: "resource_map \<Rightarrow> (string \<times> string) set" where
  "parent_edges m = {(c, p). p \<in> set (parents_in m c)}"

definition ancestors :: "resource_map \<Rightarrow> string list \<Rightarrow> string set" where
  "ancestors m ps = (parent_edges m)\<^sup>* `` set ps"

lemma in_parent_edges [simp]: "(c, p) \<in> parent_edges m \<longleftrightarrow> p \<in> set (parents_in m c)"
  by (simp add: parent_edges_def)

lemma ancestors_base: "set ps \<subseteq> ancestors m ps"
  by (auto simp: ancestors_def)

lemma ancestors_step: "x \<in> ancestors m ps \<Longrightarrow> p \<in> set (parents_in m x) \<Longrightarrow> p \<in> ancestors m ps"
  unfolding ancestors_def by (metis Image_iff in_parent_edges rtrancl_into_rtrancl)

lemma ancestors_least:
  assumes "set ps \<subseteq> A" and closed: "\<And>x. x \<in> A \<Longrightarrow> set (parents_in m x) \<subseteq> A"
  shows "ancestors m ps \<subseteq> A"
proof
  fix y
  assume "y \<in> ancestors m ps"
  then obtain x where "x \<in> set ps" and "(x, y) \<in> (parent_edges m)\<^sup>*" by (auto simp: ancestors_def)
  from this(2) show "y \<in> A"
  proof (induction rule: rtrancl_induct)
    case base
    show ?case using \<open>x \<in> set ps\<close> assms(1) by blast
  next
    case (step y z)
    then show ?case using closed by auto
  qed
qed

section \<open>The walk computes the ancestors\<close>

text \<open>
  The invariant of the loop: the front of the queue is the set of visited names, each of them
  exists, does not name the resource as a parent and has its parents in the queue, and the
  queue holds ancestors only.
\<close>

definition graph_inv :: "resource_map \<Rightarrow> string \<Rightarrow> string list \<Rightarrow> string list \<Rightarrow> string fset \<Rightarrow> nat \<Rightarrow> bool" where
  "graph_inv m self ps q vs v \<longleftrightarrow>
     v \<le> length q \<and> distinct (take v q) \<and> set (take v q) = fset vs
   \<and> (\<forall>x \<in> fset vs. x |\<in>| fmdom m \<and> self \<notin> set (parents_in m x) \<and> set (parents_in m x) \<subseteq> set q)
   \<and> set ps \<subseteq> set q \<and> set q \<subseteq> ancestors m ps"

definition graph_post ::
    "resource_map \<Rightarrow> string \<Rightarrow> string list \<Rightarrow> DataCenterResource list \<times> string \<times> dcr_error option \<Rightarrow> bool" where
  "graph_post m self ps out \<longleftrightarrow>
     (\<exists>names. fst out = GetFromMap m names \<and> distinct names \<and> set names \<subseteq> ancestors m ps \<and>
       (case snd out of
          (x, None) \<Rightarrow> x = [] \<and> set names = ancestors m ps
            \<and> (\<forall>a \<in> ancestors m ps. a |\<in>| fmdom m \<and> self \<notin> set (parents_in m a))
        | (x, Some (ErrorResourceNotFound y)) \<Rightarrow> x = y \<and> y \<in> ancestors m ps \<and> y |\<notin>| fmdom m
        | (x, Some (ErrorCycleDetected y)) \<Rightarrow>
            x = y \<and> y \<in> ancestors m ps \<and> y |\<in>| fmdom m \<and> self \<in> set (parents_in m y)
        | _ \<Rightarrow> False))"

lemma graph_inv_skip:
  assumes inv: "graph_inv m self ps q vs v" and v: "v < length q" and seen: "q ! v |\<in>| vs"
  shows "graph_inv m self ps (take v q @ drop (v + 1) q) vs v"
proof -
  have q: "q = take v q @ q ! v # drop (v + 1) q" using v by (simp add: id_take_nth_drop)
  have "q ! v \<in> set (take v q)" using inv seen by (simp add: graph_inv_def)
  then have "set (take v q @ drop (v + 1) q) = set q" by (subst (3) q) auto
  with inv v show ?thesis by (simp add: graph_inv_def)
qed

lemma graph_inv_visit:
  assumes inv: "graph_inv m self ps q vs v" and v: "v < length q" and new: "q ! v |\<notin>| vs"
    and cur: "fmlookup m (q ! v) = Some d" and ok: "self \<notin> set (ParentNames (dcr_Spec d))"
  shows "graph_inv m self ps (q @ ParentNames (dcr_Spec d)) (finsert (q ! v) vs) (v + 1)"
proof -
  have par: "parents_in m (q ! v) = ParentNames (dcr_Spec d)" by (simp add: parents_in_def cur)
  have anc: "q ! v \<in> ancestors m ps" using inv v by (auto simp: graph_inv_def)
  have "set (ParentNames (dcr_Spec d)) \<subseteq> ancestors m ps"
    using ancestors_step [OF anc] par by auto
  moreover have "take (v + 1) (q @ ParentNames (dcr_Spec d)) = take v q @ [q ! v]"
    using v by (simp add: take_Suc_conv_app_nth)
  moreover have "q ! v \<notin> set (take v q)" using inv new by (simp add: graph_inv_def)
  ultimately show ?thesis
    using inv v par ok cur by (auto simp: graph_inv_def fmdomI)
qed

lemma graph_inv_done:
  assumes inv: "graph_inv m self ps q vs v" and v: "\<not> v < length q"
  shows "fset vs = ancestors m ps" and "take v q = q" and "set q = fset vs"
proof -
  from inv v show tk: "take v q = q" by (simp add: graph_inv_def)
  with inv show q: "set q = fset vs" by (simp add: graph_inv_def)
  have "ancestors m ps \<subseteq> set q"
    by (rule ancestors_least) (use inv q in \<open>auto simp: graph_inv_def\<close>)
  with inv q show "fset vs = ancestors m ps" by (auto simp: graph_inv_def)
qed

lemma graph_loop_correct:
  "graph_inv m self ps q vs v \<Longrightarrow> graph_post m self ps (graph_loop m self q vs v)"
proof (induction m self q vs v rule: graph_loop.induct)
  case (1 m self q vs v)
  note inv = "1.prems"
  show ?case
  proof (cases "v < length q")
    case False
    with graph_inv_done [OF inv False] inv show ?thesis
      by (subst graph_loop.simps) (auto simp: graph_post_def graph_inv_def)
  next
    case v: True
    have anc: "q ! v \<in> ancestors m ps" using inv v by (auto simp: graph_inv_def)
    have front: "distinct (take v q)" "set (take v q) \<subseteq> ancestors m ps"
      using inv set_take_subset [of v q] by (auto simp: graph_inv_def)
    show ?thesis
    proof (cases "q ! v |\<in>| vs")
      case True
      with "1.IH"(1) [OF v True graph_inv_skip [OF inv v True]] v show ?thesis
        by (subst graph_loop.simps) simp
    next
      case new: False
      show ?thesis
      proof (cases "fmlookup m (q ! v)")
        case None
        with v new anc front show ?thesis
          by (subst graph_loop.simps) (auto simp: graph_post_def fmdom_notI intro!: exI [of _ "take v q"])
      next
        case (Some d)
        show ?thesis
        proof (cases "self \<in> set (ParentNames (dcr_Spec d))")
          case True
          with Some v new anc front show ?thesis
            by (subst graph_loop.simps) (auto simp: graph_post_def parents_in_def fmdomI)
        next
          case False
          from "1.IH"(2) [OF v new Some False graph_inv_visit [OF inv v new Some False]]
          show ?thesis using v new Some False by (subst graph_loop.simps) simp
        qed
      qed
    qed
  qed
qed

lemma validateGraph_post:
  "graph_post (live_map ds fmempty) (dcr_Name d) (ParentNames (dcr_Spec d)) (validateGraph d ds pms)"
  unfolding validateGraph_def
  by (rule graph_loop_correct) (auto simp: graph_inv_def ancestors_def)

section \<open>The graph with the resource in it\<close>

definition live :: "DataCenterResource list \<Rightarrow> resource_map" where
  "live ds = live_map ds fmempty"

definition with_resource :: "resource_map \<Rightarrow> DataCenterResource \<Rightarrow> resource_map" where
  "with_resource m d = fmupd (dcr_Name d) d m"

text \<open>The list the walk runs on has the resource with the parents it is validated with, or not at all.\<close>

definition self_current :: "DataCenterResource \<Rightarrow> DataCenterResource list \<Rightarrow> bool" where
  "self_current d ds =
     (case fmlookup (live ds) (dcr_Name d) of
        None \<Rightarrow> True | Some e \<Rightarrow> ParentNames (dcr_Spec e) = ParentNames (dcr_Spec d))"

lemma live_map_lookup:
  "fmlookup (live_map ds acc) x = Some e \<Longrightarrow>
     fmlookup acc x = Some e \<or> (e \<in> set ds \<and> dcr_Name e = x \<and> meta_DeletionTimestamp (dcr_Meta e) = None)"
  by (induction ds arbitrary: acc) (fastforce split: if_splits)+

lemma live_lookup:
  assumes "fmlookup (live ds) x = Some e"
  shows "e \<in> set ds" "dcr_Name e = x" "meta_DeletionTimestamp (dcr_Meta e) = None"
  using live_map_lookup [of ds fmempty x e] assms by (simp_all add: live_def)

lemma parents_in_with:
  "parents_in (with_resource m d) c = (if c = dcr_Name d then ParentNames (dcr_Spec d) else parents_in m c)"
  by (simp add: parents_in_def with_resource_def)

lemma parents_in_with_current:
  assumes "self_current d ds" and "c |\<in>| fmdom (live ds)"
  shows "parents_in (with_resource (live ds) d) c = parents_in (live ds) c"
proof (cases "c = dcr_Name d")
  case True
  with assms show ?thesis
    by (auto simp: self_current_def parents_in_def with_resource_def elim!: fmdomE)
next
  case False
  then show ?thesis by (simp add: parents_in_with)
qed

lemma parents_in_dom: "p \<in> set (parents_in m c) \<Longrightarrow> c |\<in>| fmdom m"
  by (cases "fmlookup m c") (auto simp: parents_in_def intro: fmdomI)

lemma edge_with_self: "(dcr_Name d, p) \<in> parent_edges (with_resource m d) \<longleftrightarrow> p \<in> set (ParentNames (dcr_Spec d))"
  by (simp only: in_parent_edges parents_in_with if_True refl)

lemma edge_with_other:
  "c \<noteq> dcr_Name d \<Longrightarrow> (c, p) \<in> parent_edges (with_resource m d) \<longleftrightarrow> p \<in> set (parents_in m c)"
  by (simp only: in_parent_edges parents_in_with if_False)

text \<open>What the resource reaches in the graph with it are its ancestors.\<close>

lemma reach_self_iff:
  assumes cur: "self_current d ds"
  shows "(dcr_Name d, x) \<in> (parent_edges (with_resource (live ds) d))\<^sup>+ \<longleftrightarrow>
    x \<in> ancestors (live ds) (ParentNames (dcr_Spec d))" (is "_ \<in> ?E\<^sup>+ \<longleftrightarrow> x \<in> ?A")
proof
  assume "(dcr_Name d, x) \<in> ?E\<^sup>+"
  then show "x \<in> ?A"
  proof (induction rule: trancl_induct)
    case (base y)
    then have "y \<in> set (ParentNames (dcr_Spec d))" by (simp only: edge_with_self)
    then show ?case using ancestors_base by blast
  next
    case (step y z)
    show ?case
    proof (cases "y = dcr_Name d")
      case True
      with step.hyps(2) have "z \<in> set (ParentNames (dcr_Spec d))"
        by (simp only: edge_with_self)
      then show ?thesis using ancestors_base by blast
    next
      case False
      with step.hyps(2) have "z \<in> set (parents_in (live ds) y)"
        using edge_with_other [OF False] by blast
      with step.IH show ?thesis by (rule ancestors_step)
    qed
  qed
next
  have "?A \<subseteq> {x. (dcr_Name d, x) \<in> ?E\<^sup>+}"
  proof (rule ancestors_least)
    show "set (ParentNames (dcr_Spec d)) \<subseteq> {x. (dcr_Name d, x) \<in> ?E\<^sup>+}"
      by (auto simp only: edge_with_self mem_Collect_eq intro!: r_into_trancl)
    fix y
    assume y: "y \<in> {x. (dcr_Name d, x) \<in> ?E\<^sup>+}"
    show "set (parents_in (live ds) y) \<subseteq> {x. (dcr_Name d, x) \<in> ?E\<^sup>+}"
    proof
      fix p
      assume p: "p \<in> set (parents_in (live ds) y)"
      then have "(y, p) \<in> ?E"
        using parents_in_with_current [OF cur parents_in_dom [OF p]] by simp
      with y show "p \<in> {x. (dcr_Name d, x) \<in> ?E\<^sup>+}" by (auto intro: trancl_into_trancl)
    qed
  qed
  then show "x \<in> ?A \<Longrightarrow> (dcr_Name d, x) \<in> ?E\<^sup>+" by blast
qed

lemma self_ancestor_iff:
  assumes cur: "self_current d ds"
    and all: "\<forall>a \<in> ancestors (live ds) (ParentNames (dcr_Spec d)). a |\<in>| fmdom (live ds)"
  shows "dcr_Name d \<in> ancestors (live ds) (ParentNames (dcr_Spec d)) \<longleftrightarrow>
    (\<exists>a \<in> ancestors (live ds) (ParentNames (dcr_Spec d)). dcr_Name d \<in> set (parents_in (live ds) a))"
    (is "?n \<in> ?A \<longleftrightarrow> ?R")
proof
  assume n: "?n \<in> ?A"
  then have "(?n, ?n) \<in> (parent_edges (with_resource (live ds) d))\<^sup>+" by (simp only: reach_self_iff [OF cur])
  then show ?R
  proof (cases rule: tranclE)
    case base
    then have "?n \<in> set (parents_in (live ds) ?n)"
      using parents_in_with_current [OF cur] n all by simp
    with n show ?thesis by blast
  next
    case (step a)
    then have "a \<in> ?A" by (simp only: reach_self_iff [OF cur])
    with step(2) all parents_in_with_current [OF cur] show ?thesis by (metis in_parent_edges)
  qed
next
  assume ?R
  then show "?n \<in> ?A" by (auto intro: ancestors_step)
qed

lemma validateGraph_accepts:
  assumes cur: "self_current d ds"
  shows "snd (snd (validateGraph d ds pms)) = None \<longleftrightarrow>
    (\<forall>a \<in> ancestors (live ds) (ParentNames (dcr_Spec d)). a |\<in>| fmdom (live ds)) \<and>
    dcr_Name d \<notin> ancestors (live ds) (ParentNames (dcr_Spec d))" (is "?L \<longleftrightarrow> ?all \<and> ?n \<notin> ?A")
proof -
  obtain vs x err where out: "validateGraph d ds pms = (vs, x, err)" by (metis prod_cases3)
  have post: "graph_post (live ds) ?n (ParentNames (dcr_Spec d)) (vs, x, err)"
    using validateGraph_post [of ds d pms] by (simp only: out live_def)
  show ?thesis
  proof (cases err)
    case None
    then have "?all" and "\<forall>a \<in> ?A. ?n \<notin> set (parents_in (live ds) a)"
      using post by (auto simp: graph_post_def)
    with None out self_ancestor_iff [OF cur] show ?thesis by auto
  next
    case (Some e)
    then have "\<not> ?all \<or> (\<exists>a \<in> ?A. ?n \<in> set (parents_in (live ds) a))"
      using post by (cases e) (auto simp: graph_post_def)
    with Some out show ?thesis by (auto intro: ancestors_step)
  qed
qed

lemma edge_dropped:
  assumes "c \<noteq> dcr_Name d" and "(c, p) \<in> parent_edges (with_resource m d)"
  shows "(c, p) \<in> parent_edges (fmdrop (dcr_Name d) m)"
  using assms edge_with_other [OF assms(1)] by (simp add: parents_in_def)

text \<open>A cycle of the graph with the resource avoids the resource or passes through it.\<close>

lemma cycle_with_resource:
  assumes "(x, y) \<in> (parent_edges (with_resource m d))\<^sup>+"
  shows "(x, y) \<in> (parent_edges (fmdrop (dcr_Name d) m))\<^sup>+ \<or>
    ((x, dcr_Name d) \<in> (parent_edges (with_resource m d))\<^sup>* \<and>
     (dcr_Name d, y) \<in> (parent_edges (with_resource m d))\<^sup>+)" (is "_ \<in> ?D\<^sup>+ \<or> _ \<in> ?E\<^sup>* \<and> _")
  using assms
proof (induction rule: trancl_induct)
  case (base y)
  show ?case
  proof (cases "x = dcr_Name d")
    case True
    with base show ?thesis by blast
  next
    case False
    from edge_dropped [OF this base] have "(x, y) \<in> ?D" .
    then show ?thesis by blast
  qed
next
  case (step y z)
  show ?case
  proof (cases "y = dcr_Name d")
    case True
    with step.hyps show ?thesis by (metis r_into_trancl trancl_into_rtrancl)
  next
    case False
    from edge_dropped [OF this step.hyps(2)] have "(y, z) \<in> ?D" .
    with step.IH step.hyps(2) show ?thesis by (metis trancl_into_trancl)
  qed
qed

lemma GetFromMap_live: "set ns \<subseteq> fset (fmdom (live ds)) \<Longrightarrow> set (GetFromMap (live ds) ns) \<subseteq> set ds"
  by (induction ns) (auto simp: GetFromMap_def elim!: fmdomE intro: live_lookup(1))

lemma GetFromMap_names: "set ns \<subseteq> fset (fmdom (live ds)) \<Longrightarrow> map dcr_Name (GetFromMap (live ds) ns) = ns"
  by (induction ns) (auto simp: GetFromMap_def live_lookup split: option.splits)

lemma first_error_None_iff: "first_error vs x = None \<longleftrightarrow> (\<forall>v \<in> set vs. v x = None)"
  by (induction vs) (auto split: option.splits)

lemma find_Some_ex: "find P xs = Some x \<Longrightarrow> x \<in> set xs \<and> P x"
  by (induction xs) (auto split: if_splits)

lemma validateAdditionalLabelNames_None_iff:
  assumes "\<And>m. set (order m) = fset (fmdom m)"
  shows "validateAdditionalLabelNames valid order d = None \<longleftrightarrow>
    (\<forall>ls. dspec_AdditionalLabels (dcr_Spec d) = Some ls \<longrightarrow> (\<forall>l. l |\<in>| fmdom ls \<longrightarrow> valid l))"
  using assms by (fastforce simp: validateAdditionalLabelNames_def find_None_iff
      dest: find_Some_ex split: option.splits)

lemma validateResourceType_None_iff:
  "validateResourceType d = None \<longleftrightarrow>
     dspec_Type (dcr_Spec d) \<in> {'''', ''pdu'', ''baremetal'', ''vm'', ''kubernetes'', ''heat''}"
  by (simp add: validateResourceType_def DataCenterResourceTypePDU_def
      DataCenterResourceTypeBaremetal_def DataCenterResourceTypeVM_def
      DataCenterResourceTypeKubernetes_def DataCenterResourceTypeHeat_def)

section \<open>Example resources\<close>

definition ex_meta :: "string \<Rightarrow> ObjectMeta" where
  "ex_meta n = zero_ObjectMeta\<lparr>meta_Name := n, meta_Namespace := ''default'', meta_Generation := 1\<rparr>"

definition ex_pdu :: DataCenterResource where
  "ex_pdu = zero_DataCenterResource\<lparr>dcr_Meta := ex_meta ''pdu-1'',
     dcr_Spec := (dcr_Spec zero_DataCenterResource)\<lparr>dspec_Type := ''pdu'', dspec_EnergyMetric := ''pdu_energy''\<rparr>\<rparr>"

definition ex_server :: DataCenterResource where
  "ex_server = zero_DataCenterResource\<lparr>dcr_Meta := ex_meta ''server-1'',
     dcr_Spec := (dcr_Spec zero_DataCenterResource)\<lparr>dspec_Type := ''baremetal'',
       dspec_Parents := [\<lparr>pref_Name = ''pdu-1'', pref_Coefficient = ''0.5'', pref_CoefficientFrom = None\<rparr>]\<rparr>\<rparr>"

lemmas ex_defs = ex_meta_def ex_pdu_def ex_server_def zero_DataCenterResource_def zero_ObjectMeta_def

lemma ex_live: "live [ex_pdu, ex_server] = fmupd ''server-1'' ex_server (fmupd ''pdu-1'' ex_pdu fmempty)"
  by (simp add: live_def ex_defs)

lemma ex_server_current: "self_current ex_server [ex_pdu, ex_server]"
  unfolding self_current_def ex_live by (simp add: ex_defs)

lemma ex_server_accepted: "validateGraph ex_server [ex_pdu, ex_server] [] = ([ex_pdu], [], None)"
proof -
  have "dspec_Parents (dcr_Spec ex_server) =
      [\<lparr>pref_Name = ''pdu-1'', pref_Coefficient = ''0.5'', pref_CoefficientFrom = None\<rparr>]"
    "dspec_Parents (dcr_Spec ex_pdu) = []" "dcr_Name ex_server = ''server-1''"
    by (simp_all add: ex_defs)
  then show ?thesis
    unfolding validateGraph_def live_def [symmetric] ex_live
    by (simp add: graph_loop.simps GetFromMap_def)
qed

section \<open>Properties of the validation\<close>

text \<open>
  A resource is accepted by \<open>validateGraph\<close> exactly when every ancestor it
  reaches exists (and is not being deleted) and the graph with the resource in it has no
  cycle through the resource.
\<close>

theorem validateGraph_decides:
  assumes "self_current d ds"
  shows "snd (snd (validateGraph d ds pms)) = None \<longleftrightarrow>
    ancestors (live ds) (ParentNames (dcr_Spec d)) \<subseteq> fset (fmdom (live ds)) \<and>
    (dcr_Name d, dcr_Name d) \<notin> (parent_edges (with_resource (live ds) d))\<^sup>+"
  using validateGraph_accepts [OF assms] reach_self_iff [OF assms] by (simp add: subset_eq)

theorem validateGraph_decides_witness:
  "ancestors (live [ex_pdu, ex_server]) (ParentNames (dcr_Spec ex_server))
      \<subseteq> fset (fmdom (live [ex_pdu, ex_server])) \<and>
   (dcr_Name ex_server, dcr_Name ex_server)
      \<notin> (parent_edges (with_resource (live [ex_pdu, ex_server]) ex_server))\<^sup>+"
  using validateGraph_decides [OF ex_server_current, of "[]"] ex_server_accepted by simp

text \<open>
  Property C9: accepting a resource keeps the parent relation acyclic: when the graph of the
  other resources has no cycle and \<open>validateGraph\<close> accepts the resource, the graph with the
  resource in it has none either.
\<close>

theorem validateGraph_keeps_acyclic:
  assumes "self_current d ds"
    and "acyclic (parent_edges (fmdrop (dcr_Name d) (live ds)))"
    and "snd (snd (validateGraph d ds pms)) = None"
  shows "acyclic (parent_edges (with_resource (live ds) d))"
proof (rule acyclicI, intro allI notI)
  fix x
  assume "(x, x) \<in> (parent_edges (with_resource (live ds) d))\<^sup>+"
  then have "(dcr_Name d, dcr_Name d) \<in> (parent_edges (with_resource (live ds) d))\<^sup>+"
    using cycle_with_resource [of x x "live ds" d] assms(2) by (auto simp: acyclic_def)
  with assms(3) show False
    using validateGraph_accepts [OF assms(1)] reach_self_iff [OF assms(1)] by blast
qed

theorem validateGraph_keeps_acyclic_witness:
  "acyclic (parent_edges (with_resource (live [ex_pdu, ex_server]) ex_server))"
proof (rule validateGraph_keeps_acyclic [OF ex_server_current, of "[]"])
  have "parent_edges (fmdrop (dcr_Name ex_server) (live [ex_pdu, ex_server])) = {}"
    unfolding ex_live by (auto simp: parent_edges_def parents_in_def ex_defs split: if_splits)
  then show "acyclic (parent_edges (fmdrop (dcr_Name ex_server) (live [ex_pdu, ex_server])))"
    by (simp add: acyclic_def)
qed (simp add: ex_server_accepted)

text \<open>
  Property C26: the walk returns exactly the ancestors, each once, when it accepts; when it
  rejects, it names an ancestor that does not exist, or one that has the resource among
  its parents, and returns no other error.
\<close>

theorem validateGraph_exact:
  "case validateGraph d ds pms of
     (involved, name, None) \<Rightarrow>
       name = [] \<and> distinct (map dcr_Name involved) \<and>
       dcr_Name ` set involved = ancestors (live ds) (ParentNames (dcr_Spec d)) \<and>
       set involved \<subseteq> set ds
   | (involved, name, Some e) \<Rightarrow>
       name \<in> ancestors (live ds) (ParentNames (dcr_Spec d)) \<and>
       (e = ErrorResourceNotFound name \<and> name |\<notin>| fmdom (live ds) \<or>
        e = ErrorCycleDetected name \<and> dcr_Name d \<in> set (parents_in (live ds) name))"
proof -
  obtain vs x err where out: "validateGraph d ds pms = (vs, x, err)" by (metis prod_cases3)
  obtain ns where post: "vs = GetFromMap (live ds) ns" "distinct ns"
    "case (x, err) of
          (x, None) \<Rightarrow> x = [] \<and> set ns = ancestors (live ds) (ParentNames (dcr_Spec d))
            \<and> (\<forall>a \<in> ancestors (live ds) (ParentNames (dcr_Spec d)).
                  a |\<in>| fmdom (live ds) \<and> dcr_Name d \<notin> set (parents_in (live ds) a))
        | (x, Some (ErrorResourceNotFound y)) \<Rightarrow>
            x = y \<and> y \<in> ancestors (live ds) (ParentNames (dcr_Spec d)) \<and> y |\<notin>| fmdom (live ds)
        | (x, Some (ErrorCycleDetected y)) \<Rightarrow>
            x = y \<and> y \<in> ancestors (live ds) (ParentNames (dcr_Spec d)) \<and> y |\<in>| fmdom (live ds)
            \<and> dcr_Name d \<in> set (parents_in (live ds) y)
        | _ \<Rightarrow> False"
    using validateGraph_post [of ds d pms] unfolding out live_def [symmetric] graph_post_def by auto
  show ?thesis
  proof (cases err)
    case None
    with post have sub: "set ns \<subseteq> fset (fmdom (live ds))" by auto
    have "set vs \<subseteq> set ds" using GetFromMap_live [OF sub] post(1) by simp
    moreover have "map dcr_Name vs = ns" using GetFromMap_names [OF sub] post(1) by simp
    ultimately show ?thesis using None post out by (auto simp flip: set_map)
  next
    case (Some e)
    with post out show ?thesis by (cases e) auto
  qed
qed

text \<open>
  \<open>Validate\<close> accepts a resource exactly when the graph walk accepts it, its type
  is one of the known ones (or empty) and every additional label has a valid Prometheus name,
  whatever order the labels are enumerated in.
\<close>

theorem Validate_accepts_iff:
  assumes "\<And>m. set (order m) = fset (fmdom m)"
  shows "snd (snd (Validate valid order d ds pms)) = None \<longleftrightarrow>
    snd (snd (validateGraph d ds pms)) = None \<and>
    dspec_Type (dcr_Spec d) \<in> {'''', ''pdu'', ''baremetal'', ''vm'', ''kubernetes'', ''heat''} \<and>
    (\<forall>ls l. dspec_AdditionalLabels (dcr_Spec d) = Some ls \<and> l |\<in>| fmdom ls \<longrightarrow> valid l)"
proof -
  have "snd (snd (Validate valid order d ds pms)) = None \<longleftrightarrow>
      snd (snd (validateGraph d ds pms)) = None \<and> first_error (validators valid order) d = None"
    by (simp add: Validate_def split: prod.splits option.splits)
  also have "first_error (validators valid order) d = None \<longleftrightarrow>
      validateResourceType d = None \<and> validateAdditionalLabelNames valid order d = None"
    by (simp add: validators_def split: option.splits)
  finally show ?thesis
    unfolding validateAdditionalLabelNames_None_iff [OF assms] validateResourceType_None_iff by blast
qed

theorem Validate_accepts_iff_witness:
  "snd (snd (Validate (\<lambda>l. l \<noteq> []) key_order ex_server [ex_pdu, ex_server] [])) = None"
  using Validate_accepts_iff [where order = key_order and valid = "\<lambda>l. l \<noteq> []" and d = ex_server
      and ds = "[ex_pdu, ex_server]" and pms = "[]", OF key_order_set] ex_server_accepted
  by (simp add: ex_defs)

end
