(* ===== verification/Graph_Walk.thy ===== *)
theory Graph_Walk
  imports Dcr_Validate
begin

text \<open>
  The graph walk of \<open>validate.go\<close> iteration by iteration: one step of the loop as a relation on the
  queue, the visited set and the index, the potential that every iteration lowers by one, and the bound on the
  number of iterations that follows.
\<close>

type_synonym walk_state = "string list \<times> string fset \<times> nat"

inductive graph_step :: "resource_map \<Rightarrow> string \<Rightarrow> walk_state \<Rightarrow> walk_state \<Rightarrow> bool"
  for resourcesMap :: resource_map and self :: string where
  skip: "visited < length queue \<Longrightarrow> queue ! visited |\<in>| visitedSet \<Longrightarrow>
    graph_step resourcesMap self (queue, visitedSet, visited)
      (take visited queue @ drop (visited + 1) queue, visitedSet, visited)"
| visit: "visited < length queue \<Longrightarrow> queue ! visited |\<notin>| visitedSet \<Longrightarrow>
    fmlookup resourcesMap (queue ! visited) = Some current \<Longrightarrow>
    self \<notin> set (ParentNames (dcr_Spec current)) \<Longrightarrow>
    graph_step resourcesMap self (queue, visitedSet, visited)
      (queue @ ParentNames (dcr_Spec current), finsert (queue ! visited) visitedSet, visited + 1)"

inductive_simps graph_step_simps: "graph_step m self (q, vs, v) s"

fun walk_result :: "resource_map \<Rightarrow> string \<Rightarrow> walk_state \<Rightarrow> DataCenterResource list \<times> string \<times> dcr_error option" where
  "walk_result m self (q, vs, v) = graph_loop m self q vs v"

lemma graph_step_result: "graph_step m self s t \<Longrightarrow> walk_result m self s = walk_result m self t"
  by (cases rule: graph_step.cases, assumption)
    (simp_all add: graph_loop.simps [of m self] split: if_splits)

definition parent_count :: "resource_map \<Rightarrow> string \<Rightarrow> nat" where
  "parent_count m n = (case fmlookup m n of None \<Rightarrow> 0 | Some d \<Rightarrow> length (ParentNames (dcr_Spec d)))"

fun potential :: "resource_map \<Rightarrow> walk_state \<Rightarrow> nat" where
  "potential m (q, vs, v) = (length q - v) + (\<Sum>n \<in> fset (fmdom m) - fset vs. parent_count m n)"

lemma graph_step_potential:
  assumes "graph_step m self s t"
  shows "potential m s = Suc (potential m t)"
  using assms
proof cases
  case (skip v q vs)
  then show ?thesis by simp
next
  case (visit v q vs current)
  let ?D = "fset (fmdom m) - fset vs" and ?n = "q ! v"
  have n: "?n \<in> ?D" using visit by (auto intro: fmdomI)
  have "(\<Sum>k \<in> ?D. parent_count m k) = parent_count m ?n + (\<Sum>k \<in> ?D - {?n}. parent_count m k)"
    using n by (simp add: sum.remove)
  moreover have "?D - {?n} = fset (fmdom m) - fset (finsert ?n vs)" by auto
  ultimately show ?thesis using visit by (simp add: parent_count_def)
qed

lemma graph_steps_potential:
  "(graph_step m self ^^ k) s t \<Longrightarrow> potential m s = k + potential m t"
proof (induction k arbitrary: t)
  case (Suc k)
  then obtain u where u: "(graph_step m self ^^ k) s u" "graph_step m self u t" by (auto elim: relpowp_Suc_E)
  with Suc.IH [OF u(1)] graph_step_potential [OF u(2)] show ?case by simp
qed simp

lemma walk_ends:
  "\<exists>k t. (graph_step m self ^^ k) s t \<and> (\<nexists>u. graph_step m self t u) \<and> walk_result m self t = walk_result m self s"
proof (induction "potential m s" arbitrary: s rule: less_induct)
  case less
  show ?case
  proof (cases "\<exists>u. graph_step m self s u")
    case False
    then show ?thesis by (intro exI [of _ 0] exI [of _ s]) simp
  next
    case True
    then obtain u where u: "graph_step m self s u" by blast
    from less [of u] graph_step_potential [OF u] obtain k t
      where "(graph_step m self ^^ k) u t" "\<nexists>x. graph_step m self t x" "walk_result m self t = walk_result m self u"
      by auto
    with u show ?thesis by (metis graph_step_result relpowp_Suc_I2)
  qed
qed

text \<open>
  Property C13: the graph walk ends, on any graph, with or without cycles. The loop of \<open>validateGraph\<close> stops after at most
  as many iterations as there are parent references on the resource and on the live resources together,
  and what it returns is what the model computes.
\<close>

theorem validateGraph_terminates:
  "\<exists>k t. (graph_step (live_map ds fmempty) (dcr_Name d) ^^ k) (ParentNames (dcr_Spec d), {||}, 0) t
     \<and> (\<nexists>u. graph_step (live_map ds fmempty) (dcr_Name d) t u)
     \<and> walk_result (live_map ds fmempty) (dcr_Name d) t = validateGraph d ds pms
     \<and> k \<le> length (ParentNames (dcr_Spec d)) +
         (\<Sum>n \<in> fset (fmdom (live_map ds fmempty)). parent_count (live_map ds fmempty) n)"
proof -
  let ?m = "live_map ds fmempty" and ?s = "(ParentNames (dcr_Spec d), {||}, 0) :: walk_state"
  obtain k t where t: "(graph_step ?m (dcr_Name d) ^^ k) ?s t" "\<nexists>u. graph_step ?m (dcr_Name d) t u"
      "walk_result ?m (dcr_Name d) t = walk_result ?m (dcr_Name d) ?s"
    using walk_ends by blast
  moreover have "k \<le> potential ?m ?s" using graph_steps_potential [OF t(1)] by simp
  ultimately show ?thesis by (intro exI [of _ k] exI [of _ t]) (simp add: validateGraph_def)
qed

end
