(* ===== verification/Steps.thy ===== *)
theory Steps
  imports Errors
begin

text \<open>
  Package \<open>internal/steps\<close>: a reconciliation is a list of steps run in order over a resource
  (mutated through a pointer: threaded here with the state \<open>'w\<close> of the world) until one of
  them says not to continue. The locale \<open>step_frame\<close> is the contract shared by the
  steps of a reconciler: what holds between before and after every step holds of the run.
\<close>

datatype Action = ActionContinue | ActionStop | ActionRequeue | ActionError

record StepResult =
  step_Action :: Action
  step_RequeueAfter :: int
  step_Err :: "gerror option"

definition Continue :: StepResult where
  "Continue = \<lparr>step_Action = ActionContinue, step_RequeueAfter = 0, step_Err = None\<rparr>"

definition Stop :: StepResult where
  "Stop = \<lparr>step_Action = ActionStop, step_RequeueAfter = 0, step_Err = None\<rparr>"

definition Error :: "gerror \<Rightarrow> StepResult" where
  "Error err = \<lparr>step_Action = ActionError, step_RequeueAfter = 0, step_Err = Some err\<rparr>"

definition Requeue :: "int \<Rightarrow> StepResult" where
  "Requeue duration = \<lparr>step_Action = ActionRequeue, step_RequeueAfter = duration, step_Err = None\<rparr>"

lemmas step_result_defs = Continue_def Stop_def Error_def Requeue_def

lemma step_Action_simps [simp]:
  "step_Action Continue = ActionContinue" "step_Action Stop = ActionStop"
  "step_Action (Error e) = ActionError" "step_Action (Requeue d) = ActionRequeue"
  "step_Err (Error e) = Some e" "step_RequeueAfter (Requeue d) = d"
  by (simp_all add: step_result_defs)

text \<open>A step function, and what it returns: the outcome, the resource and the world after it.\<close>

type_synonym ('o, 'w) step = "'o \<Rightarrow> 'w \<Rightarrow> StepResult go \<times> 'o \<times> 'w"

text \<open>\<open>ctrl.Result\<close> with the error next to it.\<close>

record Result =
  RequeueAfter :: int

definition empty_Result :: Result where
  "empty_Result = \<lparr>RequeueAfter = 0\<rparr>"

fun Run :: "('o, 'w) step list \<Rightarrow> 'o \<Rightarrow> 'w \<Rightarrow> (Result \<times> gerror option) go \<times> 'o \<times> 'w" where
  "Run [] obj w = (Ret (empty_Result, None), obj, w)"
| "Run (step # steps) obj w =
     (case step obj w of
        (Panic m, obj', w') \<Rightarrow> (Panic m, obj', w')
      | (Ret res, obj', w') \<Rightarrow>
          (case step_Action res of
             ActionContinue \<Rightarrow> Run steps obj' w'
           | ActionStop \<Rightarrow> (Ret (empty_Result, None), obj', w')
           | ActionRequeue \<Rightarrow> (Ret (\<lparr>RequeueAfter = step_RequeueAfter res\<rparr>, None), obj', w')
           | ActionError \<Rightarrow> (Ret (empty_Result, step_Err res), obj', w')))"

text \<open>The steps all continue, and this is the state they leave.\<close>

fun completes :: "('o, 'w) step list \<Rightarrow> 'o \<Rightarrow> 'w \<Rightarrow> ('o \<times> 'w) option" where
  "completes [] obj w = Some (obj, w)"
| "completes (step # steps) obj w =
     (case step obj w of
        (Ret res, obj', w') \<Rightarrow> (if step_Action res = ActionContinue then completes steps obj' w' else None)
      | (Panic _, _, _) \<Rightarrow> None)"

lemma Run_append:
  "Run (xs @ ys) obj w =
     (case completes xs obj w of None \<Rightarrow> Run xs obj w | Some (obj', w') \<Rightarrow> Run ys obj' w')"
  by (induction xs arbitrary: obj w) (auto split: prod.splits go.splits Action.splits option.splits)

lemma Run_completes: "completes xs obj w = Some (obj', w') \<Longrightarrow> Run xs obj w = (Ret (empty_Result, None), obj', w')"
  using Run_append [of xs "[]" obj w] by simp

lemma completes_append:
  "completes (xs @ ys) obj w =
     (case completes xs obj w of None \<Rightarrow> None | Some (obj', w') \<Rightarrow> completes ys obj' w')"
  by (induction xs arbitrary: obj w) (auto split: prod.splits go.splits)

section \<open>The contract of the steps of a reconciler\<close>

locale step_frame =
  fixes steps :: "('o, 'w) step list"
    and R :: "'o \<times> 'w \<Rightarrow> 'o \<times> 'w \<Rightarrow> bool"
  assumes R_refl: "R x x"
    and R_trans: "R x y \<Longrightarrow> R y z \<Longrightarrow> R x z"
    and step_R: "step \<in> set steps \<Longrightarrow> step obj w = (res, obj', w') \<Longrightarrow> R (obj, w) (obj', w')"
begin

lemma Run_sublist_R:
  "set xs \<subseteq> set steps \<Longrightarrow> Run xs obj w = (res, obj', w') \<Longrightarrow> R (obj, w) (obj', w')"
proof (induction xs arbitrary: obj w)
  case Nil
  then show ?case by (simp add: R_refl)
next
  case (Cons step xs)
  obtain r o1 w1 where st: "step obj w = (r, o1, w1)" by (metis prod_cases3)
  have R1: "R (obj, w) (o1, w1)" using Cons.prems(1) st step_R [of step obj w r o1 w1] by simp
  have "(o1, w1) = (obj', w') \<or> Run xs o1 w1 = (res, obj', w')"
    using Cons.prems(2) st by (auto split: go.splits Action.splits)
  with Cons R1 R_trans show ?case by fastforce
qed

lemma Run_R: "Run steps obj w = (res, obj', w') \<Longrightarrow> R (obj, w) (obj', w')"
  using Run_sublist_R [of steps] by simp

end

end
