(* ===== verification/Cluster.thy ===== *)
theory Cluster
  imports Api Os_Files Steps
begin

text \<open>
  What the three reconcilers act on. The state of the world is the data volume (the file model)
  and a state \<open>'k\<close> of everything reached over the network: the Kubernetes API server and the
  services the reconcilers call. Reading the API is a function of that state, writing and HTTP
  requests are transitions of it; both are parameters of the model (records of functions that
  extend \<open>ctl_env\<close> per reconciler). Prometheus and the SNMP exporter read the volume, so an
  HTTP request sees it too.
\<close>

record 'k world =
  w_fs :: osfs
  w_k :: 'k

record URL =
  url_Scheme :: string
  url_Host :: string
  url_Path :: string

text \<open>\<open>net.JoinHostPort\<close>.\<close>

definition net_JoinHostPort :: "string \<Rightarrow> string \<Rightarrow> string" where
  "net_JoinHostPort host port =
     (if CHR '':'' \<in> set host then ''['' @ host @ '']:'' @ port else host @ '':'' @ port)"

text \<open>
  The parameters all reconcilers share: the library helpers, the validated environment and
  \<open>http.Post\<close>, which returns the status code.
\<close>

record 'k ctl_env = "'k values_env" +
  kube :: klib
  VolumeLocation :: string
  PrometheusServiceHost :: string
  PrometheusServicePort :: string
  http_Post :: "URL \<Rightarrow> osfs \<Rightarrow> 'k \<Rightarrow> (sys_error + nat) \<times> 'k"

definition post :: "('k, 'a) ctl_env_scheme \<Rightarrow> URL \<Rightarrow> 'k world \<Rightarrow> (sys_error + nat) \<times> 'k world" where
  "post E u w = (case http_Post E u (w_fs w) (w_k w) of (r, k) \<Rightarrow> (r, w\<lparr>w_k := k\<rparr>))"

lemma post_fs [simp]: "post E u w = (r, w') \<Longrightarrow> w_fs w' = w_fs w"
  by (auto simp: post_def split: prod.splits)

text \<open>The answers of the API: a name is found, or the error says so.\<close>

record NamespacedName =
  req_Namespace :: string
  req_Name :: string

text \<open>\<open>CheckDeploymentAvailability\<close>, on the part of a deployment it reads.\<close>

record deployment_state =
  depl_Generation :: int64
  depl_ObservedGeneration :: int64
  depl_UnavailableReplicas :: "32 word"

definition CheckDeploymentAvailability :: "deployment_state \<Rightarrow> bool" where
  "CheckDeploymentAvailability d =
     (if depl_Generation d \<noteq> depl_ObservedGeneration d then False
      else if depl_UnavailableReplicas d \<noteq> 0 then False
      else True)"

end
