(* ===== verification/Sha256.thy ===== *)
theory Sha256
  imports Prelude
begin

text \<open>
  Go's \<open>crypto/sha256\<close> and \<open>encoding/hex\<close> as the program uses them: the digest of a byte
  sequence and its hexadecimal text. The definitions follow FIPS 180-4 on 32-bit words.
\<close>

unbundle bit_operations_syntax

type_synonym w32 = "32 word"

definition rotr :: "nat \<Rightarrow> w32 \<Rightarrow> w32" where
  "rotr n x = drop_bit n x OR push_bit (32 - n) x"

definition Sigma0 :: "w32 \<Rightarrow> w32" where "Sigma0 x = rotr 2 x XOR rotr 13 x XOR rotr 22 x"

definition Sigma1 :: "w32 \<Rightarrow> w32" where "Sigma1 x = rotr 6 x XOR rotr 11 x XOR rotr 25 x"

definition sigma0 :: "w32 \<Rightarrow> w32" where "sigma0 x = rotr 7 x XOR rotr 18 x XOR drop_bit 3 x"

definition sigma1 :: "w32 \<Rightarrow> w32" where "sigma1 x = rotr 17 x XOR rotr 19 x XOR drop_bit 10 x"

definition ch_sel :: "w32 \<Rightarrow> w32 \<Rightarrow> w32 \<Rightarrow> w32" where
  "ch_sel x y z = (x AND y) XOR (NOT x AND z)"

definition maj_sel :: "w32 \<Rightarrow> w32 \<Rightarrow> w32 \<Rightarrow> w32" where
  "maj_sel x y z = (x AND y) XOR (x AND z) XOR (y AND z)"

definition round_constants :: "w32 list" where
  "round_constants =
    [1116352408, 1899447441, 3049323471, 3921009573, 961987163, 1508970993, 2453635748, 2870763221,
     3624381080, 310598401, 607225278, 1426881987, 1925078388, 2162078206, 2614888103, 3248222580,
     3835390401, 4022224774, 264347078, 604807628, 770255983, 1249150122, 1555081692, 1996064986,
     2554220882, 2821834349, 2952996808, 3210313671, 3336571891, 3584528711, 113926993, 338241895,
     666307205, 773529912, 1294757372, 1396182291, 1695183700, 1986661051, 2177026350, 2456956037,
     2730485921, 2820302411, 3259730800, 3345764771, 3516065817, 3600352804, 4094571909, 275423344,
     430227734, 506948616, 659060556, 883997877, 958139571, 1322822218, 1537002063, 1747873779,
     1955562222, 2024104815, 2227730452, 2361852424, 2428436474, 2756734187, 3204031479, 3329325298]"

definition initial_hash :: "w32 list" where
  "initial_hash =
    [1779033703, 3144134277, 1013904242, 2773480762, 1359893119, 2600822924, 528734635, 1541459225]"

text \<open>Padding: a one bit, zeros, and the length in bits as 64 bits.\<close>

definition be_bytes :: "nat \<Rightarrow> nat \<Rightarrow> bytes" where
  "be_bytes k n = map (\<lambda>i. char_of (n div 256 ^ (k - 1 - i) mod 256)) [0..<k]"

definition pad :: "bytes \<Rightarrow> bytes" where
  "pad b =
     (let z = (119 - length b mod 64) mod 64 in
      b @ [CHR 0x80] @ replicate z (CHR 0x00) @ be_bytes 8 (8 * length b))"

definition be_word :: "bytes \<Rightarrow> w32" where
  "be_word b = word_of_nat (foldl (\<lambda>a c. 256 * a + of_char c) 0 b)"

function chunks :: "nat \<Rightarrow> 'a list \<Rightarrow> 'a list list" where
  "chunks n xs = (if n = 0 \<or> xs = [] then [] else take n xs # chunks n (drop n xs))"
  by pat_completeness auto
termination by (relation "measure (\<lambda>(n, xs). length xs)") auto

declare chunks.simps [simp del]

fun schedule :: "nat \<Rightarrow> w32 list \<Rightarrow> w32 list" where
  "schedule 0 ws = ws"
| "schedule (Suc n) ws =
     (let t = length ws in
      schedule n (ws @ [sigma1 (ws ! (t - 2)) + ws ! (t - 7) + sigma0 (ws ! (t - 15)) + ws ! (t - 16)]))"

fun sha_round :: "w32 list \<Rightarrow> w32 \<times> w32 \<Rightarrow> w32 list" where
  "sha_round [a, b, c, d, e, f, g, h] (k, wt) =
     (let t1 = h + Sigma1 e + ch_sel e f g + k + wt; t2 = Sigma0 a + maj_sel a b c
      in [t1 + t2, a, b, c, d + t1, e, f, g])"
| "sha_round st kw = st"

definition sha_block :: "w32 list \<Rightarrow> bytes \<Rightarrow> w32 list" where
  "sha_block hs blk =
     (let ws = schedule 48 (map be_word (chunks 4 blk));
          st = foldl sha_round hs (zip round_constants ws)
      in map2 (+) hs st)"

definition sha256_Sum256 :: "bytes \<Rightarrow> bytes" where
  "sha256_Sum256 b =
     concat (map (\<lambda>h. be_bytes 4 (unat h)) (foldl sha_block initial_hash (chunks 64 (pad b))))"

definition nibble :: "nat \<Rightarrow> char" where
  "nibble d = (if d < 10 then char_of (48 + d) else char_of (87 + d))"

definition hex_EncodeToString :: "bytes \<Rightarrow> string" where
  "hex_EncodeToString b =
     concat (map (\<lambda>c. [nibble (of_char c div 16), nibble (of_char c mod 16)]) b)"

lemma hex_length: "length (hex_EncodeToString b) = 2 * length b"
  by (induction b) (simp_all add: hex_EncodeToString_def)

text \<open>The padded message is a whole number of blocks.\<close>

lemma pad_blocks: "length (pad b) mod 64 = 0"
proof -
  let ?r = "length b mod 64"
  have "(length b + (9 + (119 - ?r) mod 64)) mod 64 = (?r + (9 + (119 - ?r))) mod 64"
    by (metis mod_add_left_eq mod_add_right_eq)
  also have "?r + (9 + (119 - ?r)) = 128"
  proof -
    have "?r < 64" by simp
    then show ?thesis by linarith
  qed
  finally show ?thesis by (simp add: pad_def Let_def be_bytes_def add.commute add.left_commute)
qed

lemma foldl_round_length: "length st = 8 \<Longrightarrow> length (foldl sha_round st kws) = 8"
proof (induction kws arbitrary: st)
  case (Cons kw kws)
  have "length (sha_round st kw) = length st"
    by (cases "(st, kw)" rule: sha_round.cases) (simp_all add: Let_def)
  with Cons show ?case by simp
qed simp

lemma foldl_block_length: "length hs = 8 \<Longrightarrow> length (foldl sha_block hs bs) = 8"
  by (induction bs arbitrary: hs) (simp_all add: sha_block_def Let_def foldl_round_length)

text \<open>The digest has 32 bytes and its text 64 characters.\<close>

lemma sha256_length: "length (sha256_Sum256 b) = 32"
proof -
  have "length (concat (map (\<lambda>h. be_bytes 4 (unat h)) ws)) = 4 * length ws" for ws :: "w32 list"
    by (induction ws) (simp_all add: be_bytes_def)
  moreover have "length (foldl sha_block initial_hash bs) = 8" for bs
    by (rule foldl_block_length) (simp add: initial_hash_def)
  ultimately show ?thesis by (simp add: sha256_Sum256_def)
qed

end
