(* ===== verification/Snmp.thy ===== *)
theory Snmp
  imports File_Store Sha256
begin

text \<open>
  Package \<open>internal/snmp\<close>: the generator's configuration types and the merge of the
  per-device SNMP configurations into the file the exporter loads. YAML is a parameter (record
  \<open>snmp_yaml\<close>; \<open>'v\<close> is what Go's \<open>any\<close> holds after decoding). The lemmas say which fragment
  each entry of the merged file comes from, that the order in which Go enumerates a map does
  not matter, and which files take part in the merge.
\<close>

section \<open>Types\<close>

record GeneratorAuth =
  ga_Community :: string
  ga_SecurityLevel :: string
  ga_Username :: string
  ga_Password :: string
  ga_AuthProtocol :: string
  ga_PrivProtocol :: string
  ga_PrivPassword :: string
  ga_ContextName :: string
  ga_Version :: int

record GeneratorModule =
  gm_Walk :: "string list"

record GeneratorConfig =
  gc_Auths :: "(string, GeneratorAuth) fmap"
  gc_Modules :: "(string, GeneratorModule) fmap"
  gc_Version :: int

text \<open>A decoded fragment has nil maps where the text has no such section.\<close>

record 'v MergedConfig =
  mc_Auths :: "(string, 'v) fmap option"
  mc_Modules :: "(string, 'v) fmap option"
  mc_Version :: int

record 'v snmp_yaml =
  yaml_Unmarshal_Merged :: "bytes \<Rightarrow> sys_error + 'v MergedConfig"
  yaml_Marshal_Merged :: "'v MergedConfig \<Rightarrow> sys_error + bytes"
  range_files :: "(string, bytes) fmap \<Rightarrow> string list"

section \<open>Merging\<close>

text \<open>\<open>maps.Copy\<close> into a map that is not nil.\<close>

definition maps_Copy :: "(string, 'v) fmap \<Rightarrow> (string, 'v) fmap option \<Rightarrow> (string, 'v) fmap" where
  "maps_Copy dst src = (case src of None \<Rightarrow> dst | Some m \<Rightarrow> dst ++\<^sub>f m)"

definition blank :: "bytes \<Rightarrow> bool" where
  "blank raw \<longleftrightarrow> length (bytes_TrimSpace raw) = 0"

fun merge_loop ::
    "'v snmp_yaml \<Rightarrow> nat \<Rightarrow> bytes list \<Rightarrow> (string, 'v) fmap \<Rightarrow> (string, 'v) fmap
      \<Rightarrow> gerror + (string, 'v) fmap \<times> (string, 'v) fmap" where
  "merge_loop Y i [] auths modules = Inr (auths, modules)"
| "merge_loop Y i (raw # configs) auths modules =
     (if blank raw then merge_loop Y (Suc i) configs auths modules
      else (case yaml_Unmarshal_Merged Y raw of
              Inl err \<Rightarrow> Inl (Wrapf (''fragment '' @ strconv_Itoa (int i)) (SysErr err))
            | Inr frag \<Rightarrow>
                merge_loop Y (Suc i) configs (maps_Copy auths (mc_Auths frag))
                  (maps_Copy modules (mc_Modules frag))))"

definition merge_configs :: "'v snmp_yaml \<Rightarrow> bytes list \<Rightarrow> gerror + bytes" where
  "merge_configs Y configs =
     (case merge_loop Y 0 configs fmempty fmempty of
        Inl err \<Rightarrow> Inl err
      | Inr (auths, modules) \<Rightarrow>
          map_sum SysErr (\<lambda>b. b)
            (yaml_Marshal_Merged Y \<lparr>mc_Auths = Some auths, mc_Modules = Some modules, mc_Version = 0\<rparr>))"

definition snmp_Hash :: "bytes \<Rightarrow> string" where
  "snmp_Hash content = (let sum = sha256_Sum256 content in hex_EncodeToString sum)"

definition sortedConfigs :: "((string, bytes) fmap \<Rightarrow> string list) \<Rightarrow> (string, bytes) fmap option \<Rightarrow> bytes list" where
  "sortedConfigs order filesByName =
     (let m = (case filesByName of None \<Rightarrow> fmempty | Some m \<Rightarrow> m);
          names = sort_Slice (\<lambda>n. n) (order m)
      in map (\<lambda>n. case fmlookup m n of None \<Rightarrow> [] | Some b \<Rightarrow> b) names)"

definition device_file :: "string \<Rightarrow> bool" where
  "device_file name \<longleftrightarrow> strings_HasPrefix (filepath_Base name) ''snmp-'' \<and> filepath_Ext name = ''.yaml''"

fun read_configs ::
    "FileStore \<Rightarrow> string list \<Rightarrow> (string, bytes) fmap \<Rightarrow> osfs
      \<Rightarrow> (gerror + (string, bytes) fmap) \<times> osfs" where
  "read_configs F [] out s = (Inr out, s)"
| "read_configs F (name # entries) out s =
     (if \<not> device_file name then read_configs F entries out s
      else (case fsReadAll F (filepath_Join [name]) s of
              (Inl err, s1) \<Rightarrow> (Inl (Wrapf (''read '' @ name) err), s1)
            | (Inr content, s1) \<Rightarrow>
                (if blank content then read_configs F entries out s1
                 else read_configs F entries (fmupd name content out) s1)))"

definition readPerDeviceSnmpConfigs ::
    "FileStore \<Rightarrow> string \<Rightarrow> osfs \<Rightarrow> (gerror + (string, bytes) fmap option) \<times> osfs" where
  "readPerDeviceSnmpConfigs F dir s =
     (case fsCollectSubFiles F dir s of
        (Inl err, s1) \<Rightarrow>
          (if errors_Is_NotExist err then (Inr None, s1) else (Inl (Wrapf (''list '' @ dir) err), s1))
      | (Inr entries, s1) \<Rightarrow>
          (case read_configs F entries fmempty s1 of
             (Inl err, s2) \<Rightarrow> (Inl err, s2)
           | (Inr out, s2) \<Rightarrow> (Inr (Some out), s2)))"

definition GetMergedSortedSNMPConfig ::
    "'v snmp_yaml \<Rightarrow> FileStore \<Rightarrow> string \<Rightarrow> osfs \<Rightarrow> (gerror + bytes) \<times> osfs" where
  "GetMergedSortedSNMPConfig Y F dir s =
     (case readPerDeviceSnmpConfigs F dir s of
        (Inl err, s1) \<Rightarrow> (Inl err, s1)
      | (Inr filesByName, s1) \<Rightarrow> (merge_configs Y (sortedConfigs (range_files Y) filesByName), s1))"

section \<open>What the merge contains\<close>

definition frag_entry :: "(string, 'v) fmap option \<Rightarrow> string \<Rightarrow> 'v option" where
  "frag_entry m x = (case m of None \<Rightarrow> None | Some f \<Rightarrow> fmlookup f x)"

text \<open>The value of the last fragment that has one.\<close>

fun last_entry :: "('f \<Rightarrow> (string, 'v) fmap option) \<Rightarrow> 'f list \<Rightarrow> string \<Rightarrow> 'v option" where
  "last_entry sel [] x = None"
| "last_entry sel (f # fs) x = (case last_entry sel fs x of None \<Rightarrow> frag_entry (sel f) x | Some v \<Rightarrow> Some v)"

lemma maps_Copy_lookup:
  "fmlookup (maps_Copy m src) x = (case frag_entry src x of None \<Rightarrow> fmlookup m x | Some v \<Rightarrow> Some v)"
  by (auto simp: maps_Copy_def frag_entry_def fmlookup_dom_iff split: option.splits)

lemma merge_loop_Inr:
  "merge_loop Y i configs auths modules = Inr (a, m) \<Longrightarrow>
     \<exists>frags. list_all2 (\<lambda>raw f. yaml_Unmarshal_Merged Y raw = Inr f) (filter (\<lambda>raw. \<not> blank raw) configs) frags
       \<and> (\<forall>x. fmlookup a x = (case last_entry mc_Auths frags x of None \<Rightarrow> fmlookup auths x | Some v \<Rightarrow> Some v))
       \<and> (\<forall>x. fmlookup m x = (case last_entry mc_Modules frags x of None \<Rightarrow> fmlookup modules x | Some v \<Rightarrow> Some v))"
proof (induction Y i configs auths modules rule: merge_loop.induct)
  case (1 Y i auths modules)
  then show ?case by simp
next
  case (2 Y i raw configs auths modules)
  show ?case
  proof (cases "blank raw")
    case True
    with 2 show ?thesis by simp
  next
    case False
    with "2.prems" obtain frag where f: "yaml_Unmarshal_Merged Y raw = Inr frag"
      "merge_loop Y (Suc i) configs (maps_Copy auths (mc_Auths frag)) (maps_Copy modules (mc_Modules frag)) = Inr (a, m)"
      by (auto split: sum.splits)
    from "2.IH"(2) [OF False f] obtain frags where
      "list_all2 (\<lambda>raw f. yaml_Unmarshal_Merged Y raw = Inr f) (filter (\<lambda>raw. \<not> blank raw) configs) frags"
      "\<forall>x. fmlookup a x = (case last_entry mc_Auths frags x of None \<Rightarrow>
          fmlookup (maps_Copy auths (mc_Auths frag)) x | Some v \<Rightarrow> Some v)"
      "\<forall>x. fmlookup m x = (case last_entry mc_Modules frags x of None \<Rightarrow>
          fmlookup (maps_Copy modules (mc_Modules frag)) x | Some v \<Rightarrow> Some v)" by blast
    with False f(1) show ?thesis
      by (intro exI [of _ "frag # frags"]) (simp add: maps_Copy_lookup split: option.splits)
  qed
qed

text \<open>
  The merged SNMP configuration. Every configuration that is not blank was parsed,
  and the authentications and modules of the result are exactly those of the fragments, a name
  that several fragments define taking the value of the last of them.
\<close>

theorem merge_last_fragment_wins:
  assumes "merge_configs Y configs = Inr b"
  shows "\<exists>frags auths modules.
    list_all2 (\<lambda>raw f. yaml_Unmarshal_Merged Y raw = Inr f) (filter (\<lambda>raw. \<not> blank raw) configs) frags
    \<and> yaml_Marshal_Merged Y \<lparr>mc_Auths = Some auths, mc_Modules = Some modules, mc_Version = 0\<rparr> = Inr b
    \<and> fmlookup auths = last_entry mc_Auths frags \<and> fmlookup modules = last_entry mc_Modules frags"
proof -
  from assms obtain auths modules where loop: "merge_loop Y 0 configs fmempty fmempty = Inr (auths, modules)"
    and out: "yaml_Marshal_Merged Y \<lparr>mc_Auths = Some auths, mc_Modules = Some modules, mc_Version = 0\<rparr> = Inr b"
    by (auto simp: merge_configs_def map_sum_SysErr_simps split: sum.splits)
  from merge_loop_Inr [OF loop] obtain frags where frags:
    "list_all2 (\<lambda>raw f. yaml_Unmarshal_Merged Y raw = Inr f) (filter (\<lambda>raw. \<not> blank raw) configs) frags"
    "\<forall>x. fmlookup auths x = (case last_entry mc_Auths frags x of None \<Rightarrow> fmlookup fmempty x | Some v \<Rightarrow> Some v)"
    "\<forall>x. fmlookup modules x = (case last_entry mc_Modules frags x of None \<Rightarrow> fmlookup fmempty x | Some v \<Rightarrow> Some v)"
    by blast
  have "fmlookup auths x = last_entry mc_Auths frags x" "fmlookup modules x = last_entry mc_Modules frags x" for x
    using frags(2,3) by (cases "last_entry mc_Auths frags x"; cases "last_entry mc_Modules frags x"; simp)+
  then have "fmlookup auths = last_entry mc_Auths frags" "fmlookup modules = last_entry mc_Modules frags"
    by (simp_all add: fun_eq_iff)
  with frags(1) out show ?thesis by blast
qed

lemma sorted_configs_order:
  assumes "distinct (order m)" and "set (order m) = fset (fmdom m)"
  shows "sortedConfigs order (Some m) = map (\<lambda>n. the (fmlookup m n)) (sorted_list_of_set (fset (fmdom m)))"
proof -
  have "mset (sorted_list_of_set (fset (fmdom m))) = mset (order m)"
    using assms by (metis distinct_sorted_list_of_set finite_fset set_eq_iff_mset_eq_distinct set_sorted_list_of_set)
  then have "sort_Slice (\<lambda>n. n) (order m) = sorted_list_of_set (fset (fmdom m))"
    using assms by (intro go_sort.sorter_unique) simp_all
  then show ?thesis
    by (auto simp: sortedConfigs_def Let_def fmlookup_dom_iff split: option.splits)
qed

text \<open>
  The order in which Go enumerates the map of files does not matter:
  \<open>sortedConfigs\<close> returns the contents in the order of the file names, each once.
\<close>

theorem sortedConfigs_deterministic:
  assumes "distinct (order m)" and "set (order m) = fset (fmdom m)"
  shows "sortedConfigs order (Some m) = map (\<lambda>n. the (fmlookup m n)) (sorted_list_of_set (fset (fmdom m)))"
  using assms by (rule sorted_configs_order)

text \<open>Which files take part: the contents of the device files that are not blank.\<close>

definition device_content :: "(string \<Rightarrow> fpath) \<Rightarrow> osfs \<Rightarrow> string \<Rightarrow> bytes option" where
  "device_content key s n =
     (if device_file n then
        (case fmlookup (fs_files s) (key (filepath_Join [n])) of
           None \<Rightarrow> None | Some b \<Rightarrow> (if blank b then None else Some b))
      else None)"

lemma read_configs_step:
  assumes "fsReadAll F (filepath_Join [name]) s = (rd, s1)"
  shows "read_configs F (name # entries) out s =
    (if \<not> device_file name then read_configs F entries out s
     else case rd of Inl err \<Rightarrow> (Inl (Wrapf (''read '' @ name) err), s1)
          | Inr b \<Rightarrow> read_configs F entries (if blank b then out else fmupd name b out) s1)"
  unfolding read_configs.simps assms prod.case by (cases rd) simp_all

lemma read_configs_ok:
  assumes fstore: "file_store (fsWrite F) (fsReadAll F) (fsRemove F) key (\<lambda>s. fmlookup (fs_files s))"
  shows "read_configs F entries out s = (r, s') \<Longrightarrow> fs_files s' = fs_files s \<and>
    (\<forall>m n. r = Inr m \<longrightarrow> fmlookup m n =
      (if n \<in> set entries \<and> device_content key s n \<noteq> None then device_content key s n else fmlookup out n))"
proof (induction entries arbitrary: out s)
  case Nil
  then show ?case by auto
next
  case (Cons name entries)
  obtain rd s1 where rd: "fsReadAll F (filepath_Join [name]) s = (rd, s1)" by fastforce
  note step = read_configs_step [OF rd]
  have files: "fs_files s1 = fs_files s"
    using file_store.read_keeps [OF fstore rd] by (rule fmap_ext_all)
  have same: "device_content key s1 = device_content key s" by (simp add: fun_eq_iff device_content_def files)
  show ?case
  proof (cases "device_file name")
    case False
    then have "device_content key s name = None" by (simp add: device_content_def)
    moreover have "read_configs F entries out s = (r, s')" using Cons.prems False step by simp
    ultimately show ?thesis using Cons.IH [of out s] by auto
  next
    case dev: True
    show ?thesis
    proof (cases rd)
      case (Inl e)
      with dev Cons.prems step files show ?thesis by auto
    next
      case (Inr b)
      then have "fmlookup (fs_files s) (key (filepath_Join [name])) = Some b"
        using file_store.read_ok [OF fstore] rd by blast
      then have name: "device_content key s name = (if blank b then None else Some b)"
        using dev by (simp add: device_content_def)
      have "read_configs F entries (if blank b then out else fmupd name b out) s1 = (r, s')"
        using Cons.prems dev Inr step by simp
      from Cons.IH [OF this] name files same show ?thesis by auto
    qed
  qed
qed

lemma CollectSubFiles_keeps:
  "VolumeFileStore_CollectSubFiles root dir s = (r, s') \<Longrightarrow> fs_files s' = fs_files s"
  by (auto simp: VolumeFileStore_CollectSubFiles_def Let_def split: option.splits os_fault.splits if_splits)

text \<open>The names the walk of the SNMP directory found, none when there is no directory.\<close>

definition collected :: "string \<Rightarrow> string \<Rightarrow> osfs \<Rightarrow> string list" where
  "collected root dir s =
     (case fst (VolumeFileStore_CollectSubFiles root dir s) of Inl _ \<Rightarrow> [] | Inr names \<Rightarrow> names)"

lemma GetMerged_volume:
  assumes rio: "renameio_api rio"
    and order: "\<And>m. distinct (range_files Y m) \<and> set (range_files Y m) = fset (fmdom m)"
    and get: "GetMergedSortedSNMPConfig Y (VolumeFileStore rio root) dir s = (r, s')"
  shows "fs_files s' = fs_files s"
    and "r = Inr b \<Longrightarrow> merge_configs Y
      (map (\<lambda>n. the (device_content (volume_key root) s n))
        (sorted_list_of_set {n \<in> set (collected root dir s). device_content (volume_key root) s n \<noteq> None})) = Inr b"
proof -
  let ?F = "VolumeFileStore rio root"
  have fstore: "file_store (fsWrite ?F) (fsReadAll ?F) (fsRemove ?F) (volume_key root) (\<lambda>s. fmlookup (fs_files s))"
    by (rule VolumeFileStore_contract [OF rio])
  obtain c s1 where c: "VolumeFileStore_CollectSubFiles root dir s = (c, s1)" by fastforce
  have files1: "fs_files s1 = fs_files s" using CollectSubFiles_keeps [OF c] .
  have same: "device_content (volume_key root) s1 = device_content (volume_key root) s"
    by (simp add: fun_eq_iff device_content_def files1)
  have "fs_files s' = fs_files s \<and> (\<forall>b. r = Inr b \<longrightarrow> merge_configs Y
      (map (\<lambda>n. the (device_content (volume_key root) s n))
        (sorted_list_of_set {n \<in> set (collected root dir s). device_content (volume_key root) s n \<noteq> None})) = Inr b)"
  proof (cases c)
    case (Inl err)
    have "sortedConfigs (range_files Y) None = []"
      using order [of fmempty] by (simp add: sortedConfigs_def sort_Slice_def)
    with Inl c files1 get show ?thesis
      by (auto simp: GetMergedSortedSNMPConfig_def readPerDeviceSnmpConfigs_def VolumeFileStore_def
          collected_def split: if_splits)
  next
    case (Inr entries)
    obtain rc s2 where rc: "read_configs ?F entries fmempty s1 = (rc, s2)" by fastforce
    note ok = read_configs_ok [OF fstore rc]
    have get2: "(r, s') = (case rc of Inl err \<Rightarrow> (Inl err, s2)
        | Inr m \<Rightarrow> (merge_configs Y (sortedConfigs (range_files Y) (Some m)), s2))"
      using get c Inr rc
      by (cases rc) (auto simp: GetMergedSortedSNMPConfig_def readPerDeviceSnmpConfigs_def VolumeFileStore_def)
    show ?thesis
    proof (cases rc)
      case (Inl e)
      with get2 ok files1 show ?thesis by auto
    next
      case m: (Inr m)
      have look: "fmlookup m n = (if n \<in> set entries then device_content (volume_key root) s n else None)" for n
        using ok m same by auto
      then have dom: "fset (fmdom m) = {n \<in> set (collected root dir s). device_content (volume_key root) s n \<noteq> None}"
        using c Inr by (auto simp: collected_def fmlookup_dom_iff split: if_splits)
      have "sortedConfigs (range_files Y) (Some m) =
          map (\<lambda>n. the (fmlookup m n)) (sorted_list_of_set (fset (fmdom m)))"
        using sorted_configs_order order by blast
      also have "\<dots> = map (\<lambda>n. the (device_content (volume_key root) s n)) (sorted_list_of_set (fset (fmdom m)))"
        using look by (auto simp: fmlookup_dom_iff split: if_splits)
      finally show ?thesis using get2 m ok files1 dom by auto
    qed
  qed
  then show "fs_files s' = fs_files s"
    and "r = Inr b \<Longrightarrow> merge_configs Y
      (map (\<lambda>n. the (device_content (volume_key root) s n))
        (sorted_list_of_set {n \<in> set (collected root dir s). device_content (volume_key root) s n \<noteq> None})) = Inr b"
    by auto
qed


section \<open>An example\<close>

definition ex_yaml :: "string snmp_yaml" where
  "ex_yaml = \<lparr>yaml_Unmarshal_Merged = (\<lambda>raw. Inr \<lparr>mc_Auths = Some (fmupd ''dev'' raw fmempty),
        mc_Modules = None, mc_Version = 0\<rparr>),
     yaml_Marshal_Merged = (\<lambda>c. Inr ''auths''), range_files = key_order\<rparr>"

lemma ex_yaml_order: "distinct (range_files ex_yaml m) \<and> set (range_files ex_yaml m) = fset (fmdom m)"
  by (simp add: ex_yaml_def key_order_set key_order_distinct)

theorem merge_last_fragment_wins_witness:
  "\<exists>frags auths modules.
     list_all2 (\<lambda>raw f. yaml_Unmarshal_Merged ex_yaml raw = Inr f) [''a'', ''b''] frags
     \<and> fmlookup auths = last_entry mc_Auths frags \<and> fmlookup modules = last_entry mc_Modules frags"
proof -
  have "merge_configs ex_yaml [''a'', '' '', ''b''] = Inr ''auths''"
    by (simp add: merge_configs_def ex_yaml_def)
  from merge_last_fragment_wins [OF this] show ?thesis
    by (simp add: blank_def bytes_TrimSpace_def is_space_def) blast
qed

theorem sortedConfigs_deterministic_witness:
  "sortedConfigs key_order (Some (fmupd ''b'' ''2'' (fmupd ''a'' ''1'' fmempty))) = [''1'', ''2'']"
  using sortedConfigs_deterministic [of key_order "fmupd ''b'' ''2'' (fmupd ''a'' ''1'' fmempty)"]
  by (simp add: key_order_set key_order_distinct sorted_list_of_set_insert_remove)


end
