(* ===== verification/Meas_Device.thy ===== *)
theory Meas_Device
  imports Cluster Snmp
begin

text \<open>
  Packages \<open>internal/measurementdevice\<close>, \<open>internal/volumes\<close>, \<open>internal/images\<close> and
  \<open>internal/controller/measurementdevice_controller.go\<close>: the paths of a device on the volume, the
  job that generates its SNMP configuration, and the reconciler that writes the generator's
  input, runs the job, merges the results of all devices and rolls the exporter.
  This theory holds the model; \<open>Md_Run\<close> has the outcomes and properties of a run.
\<close>

section \<open>Paths, volume and images\<close>

definition GenerationAnnotation :: string where
  "GenerationAnnotation = ''chantico-project.github.io/generation''"

definition ConfigHashAnnotation :: string where
  "ConfigHashAnnotation = ''chantico-project.github.io/config-hash''"

definition SnmpSubDir :: string where
  "SnmpSubDir = ''snmp/yml/''"

definition SnmpMergedFile :: string where
  "SnmpMergedFile = ''snmp/yml/snmp.yml''"

definition MibsSubDir :: string where
  "MibsSubDir = ''snmp/mibs/''"

definition GeneratorFile :: "string \<Rightarrow> string" where
  "GeneratorFile uid = ''snmp/generators/generator-'' @ uid @ ''.yaml''"

definition SnmpFile :: "string \<Rightarrow> string" where
  "SnmpFile uid = ''snmp/yml/snmp-'' @ uid @ ''.yaml''"

definition ChanticoVolumeMount :: string where
  "ChanticoVolumeMount = ''chantico-volume-mount''"

definition SnmpGenerator :: string where
  "SnmpGenerator = ''prom/snmp-generator:v0.29.0''"

record Volume =
  vol_Name :: string
  vol_ClaimName :: string

definition GetChanticoVolume :: "string \<Rightarrow> gerror + Volume" where
  "GetChanticoVolume volumeClaim = Inr \<lparr>vol_Name = ChanticoVolumeMount, vol_ClaimName = volumeClaim\<rparr>"

section \<open>Jobs and deployments\<close>

record VolumeMount =
  vm_Name :: string
  vm_MountPath :: string

record Container =
  ctr_Name :: string
  ctr_Image :: string
  ctr_Command :: "string list"
  ctr_Args :: "string list"
  ctr_VolumeMounts :: "VolumeMount list"

record SecurityContext =
  sc_RunAsNonRoot :: bool
  sc_RunAsUser :: int64
  sc_RunAsGroup :: int64
  sc_SeccompProfile :: string

record PodSpec =
  pod_SecurityContext :: SecurityContext
  pod_Containers :: "Container list"
  pod_Volumes :: "Volume list"
  pod_RestartPolicy :: string

record JobCondition =
  jc_Type :: string
  jc_Status :: ConditionStatus

record Job =
  job_Name :: string
  job_Namespace :: string
  job_Annotations :: "labels option"
  job_OwnerUIDs :: "string list"
  job_BackoffLimit :: "32 word"
  job_Pod :: PodSpec
  job_Conditions :: "JobCondition list"

record Deployment =
  dep_Name :: string
  dep_TemplateAnnotations :: "labels option"

text \<open>Reading a key of a Go map that may be nil gives the empty string when it is missing.\<close>

definition map_get :: "labels option \<Rightarrow> string \<Rightarrow> string" where
  "map_get m k = (case m of None \<Rightarrow> [] | Some ls \<Rightarrow> (case fmlookup ls k of None \<Rightarrow> [] | Some v \<Rightarrow> v))"

definition podMountPath :: string where
  "podMountPath = ''/data''"

definition BuildGeneratorJob :: "string \<Rightarrow> int64 \<Rightarrow> int64 \<Rightarrow> MeasurementDevice \<Rightarrow> gerror + Job" where
  "BuildGeneratorJob volumeClaim uid gid m =
     (case GetChanticoVolume volumeClaim of
        Inl err \<Rightarrow> Inl err
      | Inr volume \<Rightarrow>
          (let resolve = (\<lambda>p. VolumeFileStore_Resolve podMountPath [p]);
               generatorPath = resolve (GeneratorFile (md_UID m));
               mibsDir = resolve MibsSubDir;
               outputPath = resolve (SnmpFile (md_UID m))
           in Inr \<lparr>job_Name = md_Name m, job_Namespace = meta_Namespace (md_Meta m),
                job_Annotations =
                  Some (fmupd GenerationAnnotation (strconv_Itoa (sint (meta_Generation (md_Meta m)))) fmempty),
                job_OwnerUIDs = [], job_BackoffLimit = 0,
                job_Pod =
                  \<lparr>pod_SecurityContext = \<lparr>sc_RunAsNonRoot = (uid \<noteq> 0), sc_RunAsUser = uid, sc_RunAsGroup = gid,
                      sc_SeccompProfile = ''RuntimeDefault''\<rparr>,
                   pod_Containers =
                     [\<lparr>ctr_Name = ''snmp-generator'', ctr_Image = SnmpGenerator, ctr_Command = [''/bin/generator''],
                       ctr_Args = [''generate'', ''--output-path'', outputPath, ''--generator-path'',
                                   generatorPath, ''--mibs-dir'', mibsDir],
                       ctr_VolumeMounts = [\<lparr>vm_Name = ChanticoVolumeMount, vm_MountPath = podMountPath\<rparr>]\<rparr>],
                   pod_Volumes = [volume], pod_RestartPolicy = ''Never''\<rparr>,
                job_Conditions = []\<rparr>))"

text \<open>\<open>strconv.ParseInt\<close>'s error is dropped, so a missing or malformed annotation counts as 0.\<close>

definition jobGeneration :: "Job \<Rightarrow> int64" where
  "jobGeneration job = word_of_int (fst (strconv_ParseInt (map_get (job_Annotations job) GenerationAnnotation)))"

fun isJobFailed_in :: "JobCondition list \<Rightarrow> bool" where
  "isJobFailed_in [] = False"
| "isJobFailed_in (c # cs) = ((jc_Type c = ''Failed'' \<and> jc_Status c = ConditionTrue) \<or> isJobFailed_in cs)"

definition isJobFailed :: "Job \<Rightarrow> bool" where
  "isJobFailed job = isJobFailed_in (job_Conditions job)"

fun isJobSuccessful_in :: "JobCondition list \<Rightarrow> bool" where
  "isJobSuccessful_in [] = False"
| "isJobSuccessful_in (c # cs) = ((jc_Type c = ''Complete'' \<and> jc_Status c = ConditionTrue) \<or> isJobSuccessful_in cs)"

definition isJobSuccessful :: "Job \<Rightarrow> bool" where
  "isJobSuccessful job = isJobSuccessful_in (job_Conditions job)"

section \<open>The environment\<close>

record ('v, 'k) md_env = "'k ctl_env" +
  md_Filestore :: FileStore
  md_yaml :: "'v snmp_yaml"
  yaml_Unmarshal_Auth :: "string \<Rightarrow> sys_error + GeneratorAuth"
  yaml_Marshal_Generator :: "GeneratorConfig \<Rightarrow> sys_error + bytes"
  PodNamespace :: string
  VolumeClaim :: string
  os_Getuid :: int64
  os_Getgid :: int64
  get_MD :: "'k \<Rightarrow> NamespacedName \<Rightarrow> MeasurementDevice \<times> sys_error option"
  list_Jobs :: "'k \<Rightarrow> string \<Rightarrow> Job list \<times> sys_error option"
  Delete_Job :: "Job \<Rightarrow> 'k \<Rightarrow> sys_error option \<times> 'k"
  SetControllerReference :: "MeasurementDevice \<Rightarrow> Job \<Rightarrow> sys_error + Job"
  Create_Job :: "Job \<Rightarrow> 'k \<Rightarrow> sys_error option \<times> 'k"
  get_Deployment :: "'k \<Rightarrow> NamespacedName \<Rightarrow> sys_error + Deployment"
  Patch_Deployment :: "Deployment \<Rightarrow> Deployment \<Rightarrow> 'k \<Rightarrow> sys_error option \<times> 'k"
  NewHelper_MD :: "MeasurementDevice \<Rightarrow> sys_error option"
  Patch_MD :: "MeasurementDevice \<Rightarrow> MeasurementDevice \<Rightarrow> 'k \<Rightarrow> sys_error option \<times> 'k"

type_synonym 'k md_step = "(MeasurementDevice, 'k world) step"

definition set_md ::
    "('k, 'a) ctl_env_scheme \<Rightarrow> ConditionType \<Rightarrow> ConditionStatus \<Rightarrow> ConditionReason \<Rightarrow> string
      \<Rightarrow> MeasurementDevice \<Rightarrow> MeasurementDevice" where
  "set_md E = md_UpdateStatusCondition (kube E)"

definition md_finalizers :: "(string list \<Rightarrow> string list) \<Rightarrow> MeasurementDevice \<Rightarrow> MeasurementDevice" where
  "md_finalizers f m = m\<lparr>md_Meta := (md_Meta m)\<lparr>meta_Finalizers := f (meta_Finalizers (md_Meta m))\<rparr>\<rparr>"

text \<open>A failing step: it sets one condition to false and returns the error.\<close>

definition md_fail ::
    "('k, 'a) ctl_env_scheme \<Rightarrow> ConditionType \<Rightarrow> ConditionReason \<Rightarrow> string \<Rightarrow> gerror
      \<Rightarrow> MeasurementDevice \<Rightarrow> 'k world \<Rightarrow> StepResult go \<times> MeasurementDevice \<times> 'k world" where
  "md_fail E t reason msg err m w = (Ret (Error err), set_md E t ConditionFalse reason msg m, w)"

definition with_fs :: "'k world \<Rightarrow> osfs \<Rightarrow> 'k world" where
  "with_fs w fs = w\<lparr>w_fs := fs\<rparr>"

definition with_k :: "'k world \<Rightarrow> 'k \<Rightarrow> 'k world" where
  "with_k w k = w\<lparr>w_k := k\<rparr>"

section \<open>Jobs of a device\<close>

text \<open>A job is appended once for every owner reference with the device's UID.\<close>

definition getOwnedJobs ::
    "('v, 'k, 'a) md_env_scheme \<Rightarrow> MeasurementDevice \<Rightarrow> 'k \<Rightarrow> sys_error + Job list" where
  "getOwnedJobs E m k =
     (case list_Jobs E k (meta_Namespace (md_Meta m)) of
        (_, Some err) \<Rightarrow> Inl err
      | (items, None) \<Rightarrow>
          Inr (concat (map (\<lambda>job. map (\<lambda>_. job) (filter (\<lambda>uid. uid = md_UID m) (job_OwnerUIDs job))) items)))"

definition createGeneratorJob :: "('v, 'k, 'a) md_env_scheme \<Rightarrow> 'k md_step" where
  "createGeneratorJob E m w =
     (case BuildGeneratorJob (VolumeClaim E) (os_Getuid E) (os_Getgid E) m of
        Inl err \<Rightarrow>
          md_fail E ConditionGenerated ReasonGenerationFailed
            (''Failed to build SNMP Generator job: '' @ gerror_Error err) err m w
      | Inr job \<Rightarrow>
          (case SetControllerReference E m job of
             Inl err \<Rightarrow>
               md_fail E ConditionGenerated ReasonGenerationFailed
                 (''Failed to set controller reference for SNMP Generator job: '' @ sys_error_Error err)
                 (SysErr err) m w
           | Inr job' \<Rightarrow>
               (case Create_Job E job' (w_k w) of
                  (Some err, k) \<Rightarrow>
                    md_fail E ConditionGenerated ReasonGenerationFailed
                      (''Failed to create SNMP Generator job: '' @ sys_error_Error err) (SysErr err) m (with_k w k)
                | (None, k) \<Rightarrow>
                    (Ret Stop,
                     set_md E ConditionGenerated ConditionUnknown ReasonGenerationPending
                       ''SNMP Generator Job created'' m, with_k w k))))"

definition evaluateGeneratorJob :: "('v, 'k, 'a) md_env_scheme \<Rightarrow> Job \<Rightarrow> 'k md_step" where
  "evaluateGeneratorJob E job m w =
     (if jobGeneration job \<noteq> meta_Generation (md_Meta m) then
        (case Delete_Job E job (w_k w) of
           (err, k) \<Rightarrow>
             (if err \<noteq> None \<and> \<not> sys_is_api_not_found (the err) then
                md_fail E ConditionGenerated ReasonGenerationFailed
                  (''Failed to delete stale SNMP Generator job '' @ job_Name job @ '': '' @ sys_error_Error (the err))
                  (SysErr (the err)) m (with_k w k)
              else (Ret Stop, m, with_k w k)))
      else if isJobSuccessful job then
        (Ret Continue,
         set_md E ConditionGenerated ConditionUnknown ReasonGenerationPending
           ''SNMP Generator Job succeeded; generated config is being verified'' m, w)
      else if isJobFailed job then
        (Ret Stop,
         set_md E ConditionGenerated ConditionFalse ReasonGenerationFailed ''SNMP Generator Job failed'' m, w)
      else
        (Ret Stop,
         set_md E ConditionGenerated ConditionUnknown ReasonGenerationPending ''SNMP Generator Job is running'' m, w))"

definition reconcileSNMPGeneratorJob :: "('v, 'k, 'a) md_env_scheme \<Rightarrow> 'k md_step" where
  "reconcileSNMPGeneratorJob E m w =
     (case getOwnedJobs E m (w_k w) of
        Inl err \<Rightarrow>
          md_fail E ConditionGenerated ReasonGenerationFailed
            (''Failed to get owned SNMP Generator jobs: '' @ sys_error_Error err) (SysErr err) m w
      | Inr jobs \<Rightarrow>
          (case jobs of
             [] \<Rightarrow> createGeneratorJob E m w
           | [job] \<Rightarrow> evaluateGeneratorJob E job m w
           | _ \<Rightarrow>
               md_fail E ConditionGenerated ReasonGenerationFailed
                 (''Expected at most 1 owned job, found '' @ strconv_Itoa (int (length jobs)))
                 (Errorf (''expected at most 1 owned job, found '' @ strconv_Itoa (int (length jobs)))) m w))"

section \<open>The generator's input\<close>

definition desiredGeneratorConfig ::
    "('v, 'k, 'a) md_env_scheme \<Rightarrow> MeasurementDevice \<Rightarrow> 'k \<Rightarrow> (gerror + bytes) go" where
  "desiredGeneratorConfig E m k =
     (case mspec_AuthFrom (md_Spec m) of
        None \<Rightarrow> Panic nil_deref
      | Some auth \<Rightarrow>
          (case Selector_Resolve E k (meta_Namespace (md_Meta m)) auth of
             Inl err \<Rightarrow> Ret (Inl err)
           | Inr authString \<Rightarrow>
               (case yaml_Unmarshal_Auth E authString of
                  Inl err \<Rightarrow> Ret (Inl (SysErr err))
                | Inr ga \<Rightarrow>
                    Ret (map_sum SysErr (\<lambda>b. b)
                      (yaml_Marshal_Generator E
                        \<lparr>gc_Auths = fmupd (md_Name m) ga fmempty,
                         gc_Modules = fmupd (md_Name m) \<lparr>gm_Walk = mspec_Walks (md_Spec m)\<rparr> fmempty,
                         gc_Version = 0\<rparr>)))))"

definition reconcileGeneratorFile :: "('v, 'k, 'a) md_env_scheme \<Rightarrow> 'k md_step" where
  "reconcileGeneratorFile E m w =
     (let path = GeneratorFile (md_UID m) in
      case fsReadAll (md_Filestore E) path (w_fs w) of
        (Inl err, fs) \<Rightarrow>
          (if errors_Is_NotExist err then
             (case desiredGeneratorConfig E m (w_k w) of
                Panic t \<Rightarrow> (Panic t, m, with_fs w fs)
              | Ret (Inl derr) \<Rightarrow>
                  md_fail E ConditionGenerated ReasonGenerationFailed
                    (''Failed to marshal generator config: '' @ gerror_Error err) derr m (with_fs w fs)
              | Ret (Inr desired) \<Rightarrow>
                  (case fsWrite (md_Filestore E) path desired fs of
                     (Some werr, fs1) \<Rightarrow>
                       md_fail E ConditionGenerated ReasonGenerationFailed
                         (''Failed to marshal generator config: '' @ gerror_Error err) werr m (with_fs w fs1)
                   | (None, fs1) \<Rightarrow>
                       (Ret Continue,
                        set_md E ConditionGenerated ConditionTrue ReasonReconciled
                          ''Generator file has been generated successfully.'' m, with_fs w fs1)))
           else
             md_fail E ConditionGenerated ReasonGenerationFailed
               (''Failed to read generator file '' @ path @ '': '' @ gerror_Error err) err m (with_fs w fs))
      | (Inr observed, fs) \<Rightarrow>
          (case desiredGeneratorConfig E m (w_k w) of
             Panic t \<Rightarrow> (Panic t, m, with_fs w fs)
           | Ret (Inl err) \<Rightarrow>
               md_fail E ConditionGenerated ReasonGenerationFailed
                 (''Failed to marshal generator config: '' @ gerror_Error err) err m (with_fs w fs)
           | Ret (Inr desired) \<Rightarrow>
               (if observed = desired then
                  (Ret Continue,
                   set_md E ConditionGenerated ConditionTrue ReasonReconciled ''Generator file is up to date'' m,
                   with_fs w fs)
                else
                  (case fsWrite (md_Filestore E) path desired fs of
                     (Some err, fs1) \<Rightarrow>
                       md_fail E ConditionGenerated ReasonReconciled
                         (''Failed to write generator file at path: '' @ gerror_Error err) err m (with_fs w fs1)
                   | (None, fs1) \<Rightarrow>
                       (Ret Continue,
                        set_md E ConditionGenerated ConditionTrue ReasonReconciled
                          ''Generator file has been generated successfully'' m, with_fs w fs1)))))"

section \<open>The generated configuration\<close>

definition reconcileSNMPFileContent :: "('v, 'k, 'a) md_env_scheme \<Rightarrow> 'k md_step" where
  "reconcileSNMPFileContent E m w =
     (let path = SnmpFile (md_UID m) in
      case fsReadAll (md_Filestore E) path (w_fs w) of
        (Inl err, fs) \<Rightarrow>
          md_fail E ConditionGenerated ReasonGenerationFailed
            (''Failed to read SNMP file '' @ path @ '': '' @ gerror_Error err) err m (with_fs w fs)
      | (Inr config, fs) \<Rightarrow>
          (let configHash = hex_EncodeToString (sha256_Sum256 config) in
           if mstat_ConfigHash (md_Status m) = configHash then
             (Ret Continue,
              set_md E ConditionGenerated ConditionTrue ReasonReconciled
                ''ConfigHash matches with SNMP configuration'' m, with_fs w fs)
           else
             (Ret Continue,
              set_md E ConditionGenerated ConditionTrue ReasonReconciled
                ''ConfigHash has been updated to match with SNMP configuration''
                (m\<lparr>md_Status := (md_Status m)\<lparr>mstat_ConfigHash := configHash\<rparr>\<rparr>), with_fs w fs)))"

definition reconcileMergedSNMPFile :: "('v, 'k, 'a) md_env_scheme \<Rightarrow> 'k md_step" where
  "reconcileMergedSNMPFile E m w =
     (case GetMergedSortedSNMPConfig (md_yaml E) (md_Filestore E) SnmpSubDir (w_fs w) of
        (Inl err, fs) \<Rightarrow>
          md_fail E ConditionApplied ReasonApplyFailed (''Failed to read SNMP configs: '' @ gerror_Error err) err m
            (with_fs w fs)
      | (Inr merged, fs) \<Rightarrow>
          (case fsReadAll (md_Filestore E) SnmpMergedFile fs of
             (rd, fs1) \<Rightarrow>
               (let existing = (case rd of Inl _ \<Rightarrow> [] | Inr b \<Rightarrow> b) in
                if isl rd \<and> \<not> errors_Is_NotExist (projl rd) then
                  md_fail E ConditionApplied ReasonApplyFailed
                    (''Failed to read merged SNMP file: '' @ gerror_Error (projl rd)) (projl rd) m (with_fs w fs1)
                else if existing = merged then
                  (Ret Continue,
                   set_md E ConditionApplied ConditionUnknown ReasonReconciling
                     ''Merged SNMP file is up to date; exporter reload is being verified'' m, with_fs w fs1)
                else
                  (case fsWrite (md_Filestore E) SnmpMergedFile merged fs1 of
                     (Some err, fs2) \<Rightarrow>
                       md_fail E ConditionApplied ReasonApplyFailed
                         (''Failed to write merged SNMP file '' @ SnmpMergedFile @ '': '' @ gerror_Error err)
                         err m (with_fs w fs2)
                   | (None, fs2) \<Rightarrow>
                       (Ret Continue,
                        set_md E ConditionApplied ConditionUnknown ReasonReconciling
                          ''Merged SNMP file has been written successfully; exporter reload is pending'' m,
                        with_fs w fs2)))))"

definition getSnmpExporterDeployment :: "('v, 'k, 'a) md_env_scheme \<Rightarrow> 'k \<Rightarrow> sys_error + Deployment" where
  "getSnmpExporterDeployment E k =
     get_Deployment E k \<lparr>req_Namespace = PodNamespace E, req_Name = ''chantico-snmp''\<rparr>"

definition annotate :: "string \<Rightarrow> Deployment \<Rightarrow> Deployment" where
  "annotate h d =
     d\<lparr>dep_TemplateAnnotations :=
         Some (fmupd ConfigHashAnnotation h
                (case dep_TemplateAnnotations d of None \<Rightarrow> fmempty | Some ls \<Rightarrow> ls))\<rparr>"

definition reconcileExporterReload :: "('v, 'k, 'a) md_env_scheme \<Rightarrow> 'k md_step" where
  "reconcileExporterReload E m w =
     (case fsReadAll (md_Filestore E) SnmpMergedFile (w_fs w) of
        (Inl err, fs) \<Rightarrow>
          (if errors_Is_NotExist err then
             (Ret Continue,
              set_md E ConditionApplied ConditionUnknown ReasonGenerationPending
                ''Merged SNMP file does not exist yet'' m, with_fs w fs)
           else
             md_fail E ConditionApplied ReasonApplyFailed
               (''Failed to read merged SNMP file: '' @ gerror_Error err) err m (with_fs w fs))
      | (Inr merged, fs) \<Rightarrow>
          (let desiredHash = snmp_Hash merged in
           case getSnmpExporterDeployment E (w_k w) of
             Inl err \<Rightarrow>
               md_fail E ConditionApplied ReasonDependencyUnavailable
                 (''Failed to get SNMP exporter deployment: '' @ sys_error_Error err) (SysErr err) m (with_fs w fs)
           | Inr exporter \<Rightarrow>
               (if map_get (dep_TemplateAnnotations exporter) ConfigHashAnnotation = desiredHash then
                  (Ret Continue,
                   set_md E ConditionApplied ConditionTrue ReasonReconciled
                     ''SNMP exporter is up to date with merged config.'' m, with_fs w fs)
                else
                  (case Patch_Deployment E exporter (annotate desiredHash exporter) (w_k w) of
                     (Some err, k) \<Rightarrow>
                       md_fail E ConditionApplied ReasonApplyFailed
                         (''Failed to patch SNMP exporter deployment '' @ dep_Name exporter @ '': '' @ sys_error_Error err)
                         (SysErr err) m (with_k (with_fs w fs) k)
                   | (None, k) \<Rightarrow>
                       (Ret Continue,
                        set_md E ConditionApplied ConditionTrue ReasonReconciled
                          ''SNMP exporter deployment annotation updated to trigger reload'' m,
                        with_k (with_fs w fs) k)))))"

definition md_reconcileReady :: "('v, 'k, 'a) md_env_scheme \<Rightarrow> 'k md_step" where
  "md_reconcileReady E m w =
     (Ret Continue, set_md E ConditionReady ConditionTrue ReasonReconciled ''Fully reconciled and ready'' m, w)"

section \<open>Deletion\<close>

fun delete_jobs :: "('v, 'k, 'a) md_env_scheme \<Rightarrow> Job list \<Rightarrow> 'k \<Rightarrow> sys_error option \<times> 'k" where
  "delete_jobs E [] k = (None, k)"
| "delete_jobs E (job # jobs) k =
     (case Delete_Job E job k of
        (err, k1) \<Rightarrow>
          (if err \<noteq> None \<and> \<not> sys_is_api_not_found (the err) then (err, k1) else delete_jobs E jobs k1))"

fun remove_files :: "('v, 'k, 'a) md_env_scheme \<Rightarrow> string list \<Rightarrow> osfs \<Rightarrow> gerror option \<times> osfs" where
  "remove_files E [] fs = (None, fs)"
| "remove_files E (path # paths) fs =
     (case fsRemove (md_Filestore E) path fs of
        (err, fs1) \<Rightarrow>
          (if err \<noteq> None \<and> \<not> errors_Is_NotExist (the err) then (err, fs1) else remove_files E paths fs1))"

definition md_reconcileDeletion :: "('v, 'k, 'a) md_env_scheme \<Rightarrow> 'k md_step" where
  "md_reconcileDeletion E m w =
     (if meta_DeletionTimestamp (md_Meta m) = None then (Ret Continue, m, w)
      else if \<not> ContainsFinalizer (kube E) (meta_Finalizers (md_Meta m)) SNMPUpdateFinalizer
      then (Ret Stop, m, w)
      else
        (case getOwnedJobs E m (w_k w) of
           Inl err \<Rightarrow>
             md_fail E ConditionApplied ReasonCleanupFailed
               (''Failed to get owned jobs: '' @ sys_error_Error err) (SysErr err) m w
         | Inr jobs \<Rightarrow>
             (case delete_jobs E jobs (w_k w) of
                (Some err, k) \<Rightarrow>
                  md_fail E ConditionApplied ReasonCleanupFailed
                    (''Failed to delete owned job: '' @ sys_error_Error err) (SysErr err) m (with_k w k)
              | (None, k) \<Rightarrow>
                  (case remove_files E [GeneratorFile (md_UID m), SnmpFile (md_UID m)] (w_fs w) of
                     (Some err, fs) \<Rightarrow>
                       md_fail E ConditionApplied ReasonCleanupFailed
                         (''Error while removing SNMP file: '' @ gerror_Error err) err m (with_fs (with_k w k) fs)
                   | (None, fs) \<Rightarrow>
                       (case reconcileMergedSNMPFile E m (with_fs (with_k w k) fs) of
                          (Panic t, m1, w1) \<Rightarrow> (Panic t, m1, w1)
                        | (Ret res, m1, w1) \<Rightarrow>
                            (if step_Action res = ActionError then (Ret res, m1, w1)
                             else
                               (case reconcileExporterReload E m1 w1 of
                                  (Panic t, m2, w2) \<Rightarrow> (Panic t, m2, w2)
                                | (Ret res2, m2, w2) \<Rightarrow>
                                    (if step_Action res2 = ActionError then (Ret res2, m2, w2)
                                     else (Ret Stop,
                                           md_finalizers (\<lambda>fs. RemoveFinalizer (kube E) fs SNMPUpdateFinalizer) m2,
                                           w2)))))))))"

definition md_ensureFinalizerIsSet :: "('v, 'k, 'a) md_env_scheme \<Rightarrow> 'k md_step" where
  "md_ensureFinalizerIsSet E m w =
     (if ContainsFinalizer (kube E) (meta_Finalizers (md_Meta m)) SNMPUpdateFinalizer then (Ret Continue, m, w)
      else (Ret Stop, md_finalizers (\<lambda>fs. AddFinalizer (kube E) fs SNMPUpdateFinalizer) m, w))"

section \<open>Reconcile\<close>

definition md_steps :: "('v, 'k, 'a) md_env_scheme \<Rightarrow> 'k md_step list" where
  "md_steps E =
     [md_reconcileDeletion E, md_ensureFinalizerIsSet E, reconcileGeneratorFile E, reconcileSNMPGeneratorJob E,
      reconcileSNMPFileContent E, reconcileMergedSNMPFile E, reconcileExporterReload E, md_reconcileReady E]"

definition md_run ::
    "('v, 'k, 'a) md_env_scheme \<Rightarrow> MeasurementDevice \<Rightarrow> 'k world
      \<Rightarrow> (Result \<times> gerror option) go \<times> MeasurementDevice \<times> 'k world" where
  "md_run E m w =
     Run (md_steps E)
       (set_md E ConditionReady ConditionUnknown ReasonReconciling ''Reconciliation is in progress'' m) w"

definition md_Reconcile ::
    "('v, 'k, 'a) md_env_scheme \<Rightarrow> NamespacedName \<Rightarrow> 'k world \<Rightarrow> (Result \<times> gerror option) go \<times> 'k world" where
  "md_Reconcile E req w =
     (case get_MD E (w_k w) req of
        (_, Some err) \<Rightarrow>
          (if sys_is_api_not_found err then (Ret (empty_Result, None), w)
           else (Ret (empty_Result, Some (SysErr err)), w))
      | (m, None) \<Rightarrow>
          (case NewHelper_MD E m of
             Some err \<Rightarrow> (Ret (empty_Result, Some (SysErr err)), w)
           | None \<Rightarrow>
               (case md_run E m w of
                  (out, m', w1) \<Rightarrow>
                    (case Patch_MD E m m' (w_k w1) of
                       (perr, k) \<Rightarrow>
                         (case out of
                            Panic t \<Rightarrow> (Panic t, with_k w1 k)
                          | Ret (result, reterr) \<Rightarrow>
                              (Ret (result, case perr of None \<Rightarrow> reterr
                                            | Some err \<Rightarrow> errors_Join [reterr, Some (SysErr err)]),
                               with_k w1 k))))))"

end
