(* ===== verification/Md_Run.thy ===== *)
theory Md_Run
  imports Meas_Device
begin

text \<open>
  The runs of the MeasurementDevice reconciler: what each step does to the volume and the
  cluster, what \<open>Ready\<close> means, what giving up the finalizer means, which files a run can
  change, and the life of the generator job.
\<close>

section \<open>What the reconciler relies on\<close>

text \<open>
  The file store is the volume with an atomic write, the library helpers behave as documented,
  Go enumerates every key of a map once, and YAML text is never empty.
\<close>

definition md_libs :: "('v, 'k, 'a) md_env_scheme \<Rightarrow> renameio \<Rightarrow> string \<Rightarrow> bool" where
  "md_libs E rio root \<longleftrightarrow>
     kube_lib (kube E) \<and> renameio_api rio \<and> md_Filestore E = VolumeFileStore rio root
   \<and> (\<forall>m. distinct (range_files (md_yaml E) m) \<and> set (range_files (md_yaml E) m) = fset (fmdom m))
   \<and> (\<forall>c b. yaml_Marshal_Merged (md_yaml E) c = Inr b \<longrightarrow> b \<noteq> [])"

abbreviation file_at :: "string \<Rightarrow> string \<Rightarrow> 'k world \<Rightarrow> bytes option" where
  "file_at root path w \<equiv> fmlookup (fs_files (w_fs w)) (volume_key root path)"

lemma md_libs_store:
  assumes "md_libs E rio root"
  shows "file_store (fsWrite (md_Filestore E)) (fsReadAll (md_Filestore E)) (fsRemove (md_Filestore E))
    (volume_key root) (\<lambda>s. fmlookup (fs_files s))"
  using assms VolumeFileStore_contract by (simp add: md_libs_def)

lemma md_libs_lib: "md_libs E rio root \<Longrightarrow> kube_lib (kube E)"
  by (simp add: md_libs_def)

lemma with_simps [simp]:
  "w_fs (with_fs w fs) = fs" "w_k (with_fs w fs) = w_k w"
  "w_k (with_k w k) = k" "w_fs (with_k w k) = w_fs w"
  by (simp_all add: with_fs_def with_k_def)

lemma set_md_simps [simp]:
  "md_Spec (set_md E t s r msg m) = md_Spec m" "md_Meta (set_md E t s r msg m) = md_Meta m"
  "mstat_ConfigHash (md_Status (set_md E t s r msg m)) = mstat_ConfigHash (md_Status m)"
  by (simp_all add: set_md_def)

lemma set_md_cond_is:
  assumes "kube_lib (kube E)"
  shows "cond_is (md_GetConditions (set_md E t s r msg m)) t' s' \<longleftrightarrow>
    (if t' = t then s' = s else cond_is (md_GetConditions m) t' s')"
  by (simp add: set_md_def md.cond_is_update [OF assms])

lemma md_finalizers_simps [simp]:
  "md_Spec (md_finalizers f m) = md_Spec m"
  "meta_Finalizers (md_Meta (md_finalizers f m)) = f (meta_Finalizers (md_Meta m))"
  "md_GetConditions (md_finalizers f m) = md_GetConditions m"
  by (simp_all add: md_finalizers_def md_GetConditions_def)

lemma set_hash_conditions [simp]:
  "md_GetConditions (m\<lparr>md_Status := (md_Status m)\<lparr>mstat_ConfigHash := h\<rparr>\<rparr>) = md_GetConditions m"
  by (simp add: md_GetConditions_def)

section \<open>The steps\<close>

lemma desiredGeneratorConfig_cong:
  assumes "md_Spec m' = md_Spec m" and "md_Meta m' = md_Meta m"
  shows "desiredGeneratorConfig E m' k = desiredGeneratorConfig E m k"
  unfolding desiredGeneratorConfig_def assms ..

lemma generator_step_cases:
  assumes libs: "md_libs E rio root" and step: "reconcileGeneratorFile E m w = (res, m', w')"
  obtains (panic) t where "res = Panic t" "m' = m" "fs_files (w_fs w') = fs_files (w_fs w)" "w_k w' = w_k w"
  | (failed) err reason msg where "res = Ret (Error err)"
      "m' = set_md E ConditionGenerated ConditionFalse reason msg m"
      "fs_files (w_fs w') = fs_files (w_fs w)" "w_k w' = w_k w"
  | (ok) desired msg where "res = Ret Continue"
      "m' = set_md E ConditionGenerated ConditionTrue ReasonReconciled msg m"
      "desiredGeneratorConfig E m (w_k w) = Ret (Inr desired)"
      "fs_files (w_fs w') = fmupd (volume_key root (GeneratorFile (md_UID m))) desired (fs_files (w_fs w))"
      "w_k w' = w_k w"
proof -
  let ?path = "GeneratorFile (md_UID m)"
  note store = md_libs_store [OF libs]
  obtain rd fs where rd: "fsReadAll (md_Filestore E) ?path (w_fs w) = (rd, fs)" by fastforce
  have files: "fs_files fs = fs_files (w_fs w)" using file_store.read_keeps [OF store rd] by (rule fmap_ext_all)
  have up: "fs_files s' = fmupd (volume_key root ?path) b (fs_files (w_fs w))"
    if "rd = Inr b \<and> s' = fs \<or> fsWrite (md_Filestore E) ?path b fs = (None, s')" for b s'
    using file_store.ensure_content [OF store rd that refl]
    by (intro fmap_ext_all) (auto simp: fun_eq_iff)
  have err: "fs_files s' = fs_files (w_fs w)"
    if "fsWrite (md_Filestore E) ?path b fs = (Some e, s')" for s' b e
    using file_store.write_error [OF store that] files by (metis fmap_ext_all)
  show thesis
  proof (cases "desiredGeneratorConfig E m (w_k w)")
    case (Panic t)
    with step rd files panic failed show ?thesis
      by (cases rd) (auto simp: reconcileGeneratorFile_def md_fail_def Let_def split: if_splits)
  next
    case (Ret d)
    show ?thesis
    proof (cases d)
      case (Inl e)
      with Ret step rd files failed show ?thesis
        by (cases rd) (auto simp: reconcileGeneratorFile_def md_fail_def Let_def split: if_splits)
    next
      case (Inr desired)
      obtain we fs1 where wr: "fsWrite (md_Filestore E) ?path desired fs = (we, fs1)" by fastforce
      consider (io) e where "rd = Inl e" "\<not> errors_Is_NotExist e" | (same) "rd = Inr desired"
        | (absent) e where "rd = Inl e" "errors_Is_NotExist e" | (differs) b where "rd = Inr b" "b \<noteq> desired"
        by (cases rd) auto
      then show ?thesis
      proof cases
        case io
        then have "reconcileGeneratorFile E m w = md_fail E ConditionGenerated ReasonGenerationFailed
            (''Failed to read generator file '' @ ?path @ '': '' @ gerror_Error e) e m (with_fs w fs)"
          using rd by (simp add: reconcileGeneratorFile_def Let_def)
        with step files show ?thesis by (intro failed) (auto simp: md_fail_def)
      next
        case same
        then have "reconcileGeneratorFile E m w = (Ret Continue,
            set_md E ConditionGenerated ConditionTrue ReasonReconciled ''Generator file is up to date'' m, with_fs w fs)"
          using rd Ret Inr by (simp add: reconcileGeneratorFile_def Let_def)
        with step Ret Inr same up [of desired fs] show ?thesis by (intro ok) auto
      next
        case absent
        show ?thesis
        proof (cases we)
          case None
          then have "reconcileGeneratorFile E m w = (Ret Continue, set_md E ConditionGenerated ConditionTrue
              ReasonReconciled ''Generator file has been generated successfully.'' m, with_fs w fs1)"
            using rd Ret Inr wr absent by (simp add: reconcileGeneratorFile_def Let_def)
          with step Ret Inr up [of desired fs1] wr None show ?thesis by (intro ok) auto
        next
          case (Some werr)
          then have "reconcileGeneratorFile E m w = md_fail E ConditionGenerated ReasonGenerationFailed
              (''Failed to marshal generator config: '' @ gerror_Error e) werr m (with_fs w fs1)"
            using rd Ret Inr wr absent by (simp add: reconcileGeneratorFile_def Let_def)
          with step err wr Some show ?thesis by (intro failed) (auto simp: md_fail_def)
        qed
      next
        case differs
        show ?thesis
        proof (cases we)
          case None
          then have "reconcileGeneratorFile E m w = (Ret Continue, set_md E ConditionGenerated ConditionTrue
              ReasonReconciled ''Generator file has been generated successfully'' m, with_fs w fs1)"
            using rd Ret Inr wr differs by (simp add: reconcileGeneratorFile_def Let_def)
          with step Ret Inr up [of desired fs1] wr None show ?thesis by (intro ok) auto
        next
          case (Some werr)
          then have "reconcileGeneratorFile E m w = md_fail E ConditionGenerated ReasonReconciled
              (''Failed to write generator file at path: '' @ gerror_Error werr) werr m (with_fs w fs1)"
            using rd Ret Inr wr differs by (simp add: reconcileGeneratorFile_def Let_def)
          with step err wr Some show ?thesis by (intro failed) (auto simp: md_fail_def)
        qed
      qed
    qed
  qed
qed

text \<open>
  The job step goes on only past a finished job of the current generation; it creates a job only
  when the device owns none, and deletes one only when it is the single owned job and stale.
\<close>

lemma job_step_cases:
  assumes step: "reconcileSNMPGeneratorJob E m w = (res, m', w')"
  obtains (done_job) job msg where "res = Ret Continue" "getOwnedJobs E m (w_k w) = Inr [job]"
      "jobGeneration job = meta_Generation (md_Meta m)" "isJobSuccessful job" "w' = w"
      "m' = set_md E ConditionGenerated ConditionUnknown ReasonGenerationPending msg m"
  | (created) job job' r where "getOwnedJobs E m (w_k w) = Inr []"
      "BuildGeneratorJob (VolumeClaim E) (os_Getuid E) (os_Getgid E) m = Inr job"
      "SetControllerReference E m job = Inr job'" "w' = with_k w (snd (Create_Job E job' (w_k w)))"
      "res = Ret r" "step_Action r \<noteq> ActionContinue" "\<exists>s rs msg. m' = set_md E ConditionGenerated s rs msg m"
  | (stale) job r where "getOwnedJobs E m (w_k w) = Inr [job]"
      "jobGeneration job \<noteq> meta_Generation (md_Meta m)" "w' = with_k w (snd (Delete_Job E job (w_k w)))"
      "res = Ret r" "step_Action r \<noteq> ActionContinue" "m' = m \<or> (\<exists>s rs msg. m' = set_md E ConditionGenerated s rs msg m)"
  | (waiting) r where "res = Ret r" "step_Action r \<noteq> ActionContinue" "w' = w"
      "\<exists>s rs msg. m' = set_md E ConditionGenerated s rs msg m"
proof (cases "getOwnedJobs E m (w_k w)")
  case (Inl e)
  with step show ?thesis by (intro waiting) (auto simp: reconcileSNMPGeneratorJob_def md_fail_def)
next
  case (Inr jobs)
  consider "jobs = []" | job where "jobs = [job]" | x y js where "jobs = x # y # js"
    by (cases jobs; cases "tl jobs") auto
  then show ?thesis
  proof cases
    case 1
    obtain job where job: "BuildGeneratorJob (VolumeClaim E) (os_Getuid E) (os_Getgid E) m = Inr job"
      by (simp add: BuildGeneratorJob_def GetChanticoVolume_def Let_def)
    show ?thesis
    proof (cases "SetControllerReference E m job")
      case (Inl e)
      with 1 Inr job step show ?thesis
        by (intro waiting) (auto simp: reconcileSNMPGeneratorJob_def createGeneratorJob_def md_fail_def)
    next
      case job': (Inr job')
      obtain e k where cr: "Create_Job E job' (w_k w) = (e, k)" by fastforce
      have "reconcileSNMPGeneratorJob E m w = createGeneratorJob E m w"
        using 1 Inr by (simp add: reconcileSNMPGeneratorJob_def)
      then have "w' = with_k w k" "\<exists>r. res = Ret r \<and> step_Action r \<noteq> ActionContinue"
        "\<exists>s rs msg. m' = set_md E ConditionGenerated s rs msg m"
        using step job job' cr by (cases e; auto simp: createGeneratorJob_def md_fail_def)+
      with created [OF Inr [unfolded 1] job job'] cr show ?thesis by auto
    qed
  next
    case 2
    have ev: "reconcileSNMPGeneratorJob E m w = evaluateGeneratorJob E job m w"
      using 2 Inr by (simp add: reconcileSNMPGeneratorJob_def)
    show ?thesis
    proof (cases "jobGeneration job = meta_Generation (md_Meta m)")
      case True
      show ?thesis
      proof (cases "isJobSuccessful job")
        case suc: True
        with True ev step show ?thesis
          by (intro done_job [OF _ Inr [unfolded 2] True suc]) (auto simp: evaluateGeneratorJob_def)
      next
        case False
        with True ev step have "\<exists>s rs msg. m' = set_md E ConditionGenerated s rs msg m" "res = Ret Stop" "w' = w"
          by (auto simp: evaluateGeneratorJob_def split: if_splits)
        with waiting [of Stop] show ?thesis by simp
      qed
    next
      case False
      obtain e k where de: "Delete_Job E job (w_k w) = (e, k)" by fastforce
      show ?thesis
      proof (cases "e \<noteq> None \<and> \<not> sys_is_api_not_found (the e)")
        case True
        with False ev step de have "w' = with_k w k" "res = Ret (Error (SysErr (the e)))"
          "\<exists>s rs msg. m' = set_md E ConditionGenerated s rs msg m"
          by (auto simp: evaluateGeneratorJob_def md_fail_def)
        with stale [OF Inr [unfolded 2] False] de show ?thesis by simp
      next
        case ok: False
        with False ev step de have "w' = with_k w k" "res = Ret Stop" "m' = m"
          by (auto simp: evaluateGeneratorJob_def)
        with stale [OF Inr [unfolded 2] False] de show ?thesis by simp
      qed
    qed
  next
    case 3
    with Inr step show ?thesis by (intro waiting) (auto simp: reconcileSNMPGeneratorJob_def md_fail_def)
  qed
qed

lemma content_step_cases:
  assumes libs: "md_libs E rio root" and step: "reconcileSNMPFileContent E m w = (res, m', w')"
  obtains (failed) err msg where "res = Ret (Error err)"
      "m' = set_md E ConditionGenerated ConditionFalse ReasonGenerationFailed msg m"
      "fs_files (w_fs w') = fs_files (w_fs w)" "w_k w' = w_k w"
  | (ok) config m1 msg where "res = Ret Continue" "file_at root (SnmpFile (md_UID m)) w = Some config"
      "m' = set_md E ConditionGenerated ConditionTrue ReasonReconciled msg m1"
      "mstat_ConfigHash (md_Status m') = hex_EncodeToString (sha256_Sum256 config)"
      "md_Spec m1 = md_Spec m" "md_Meta m1 = md_Meta m" "md_GetConditions m1 = md_GetConditions m"
      "fs_files (w_fs w') = fs_files (w_fs w)" "w_k w' = w_k w"
proof -
  note store = md_libs_store [OF libs]
  obtain rd fs where rd: "fsReadAll (md_Filestore E) (SnmpFile (md_UID m)) (w_fs w) = (rd, fs)" by fastforce
  have files: "fs_files fs = fs_files (w_fs w)" using file_store.read_keeps [OF store rd] by (rule fmap_ext_all)
  show thesis
  proof (cases rd)
    case (Inl e)
    with step rd files show ?thesis
      by (intro failed) (auto simp: reconcileSNMPFileContent_def md_fail_def Let_def)
  next
    case (Inr config)
    then have at: "file_at root (SnmpFile (md_UID m)) w = Some config"
      using file_store.read_ok [OF store] rd by blast
    let ?h = "hex_EncodeToString (sha256_Sum256 config)"
    show ?thesis
    proof (cases "mstat_ConfigHash (md_Status m) = ?h")
      case True
      with step rd Inr at files show ?thesis
        by (intro ok [of config _ m]) (auto simp: reconcileSNMPFileContent_def Let_def)
    next
      case False
      with step rd Inr at files show ?thesis
        by (intro ok [of config _ "m\<lparr>md_Status := (md_Status m)\<lparr>mstat_ConfigHash := ?h\<rparr>\<rparr>"])
          (auto simp: reconcileSNMPFileContent_def Let_def)
    qed
  qed
qed

text \<open>The merged file on the volume is the merge of the per-device files.\<close>

definition merge_of :: "('v, 'k, 'a) md_env_scheme \<Rightarrow> string \<Rightarrow> osfs \<Rightarrow> bytes \<Rightarrow> bool" where
  "merge_of E root s merged \<longleftrightarrow>
     merge_configs (md_yaml E)
       (map (\<lambda>n. the (device_content (volume_key root) s n))
         (sorted_list_of_set {n \<in> set (collected root SnmpSubDir s). device_content (volume_key root) s n \<noteq> None}))
     = Inr merged"

lemma merge_configs_marshalled: "merge_configs Y cs = Inr b \<Longrightarrow> \<exists>c. yaml_Marshal_Merged Y c = Inr b"
  by (auto simp: merge_configs_def map_sum_SysErr_simps split: sum.splits)

lemma merged_step_cases:
  assumes libs: "md_libs E rio root" and step: "reconcileMergedSNMPFile E m w = (res, m', w')"
  obtains (failed) err msg where "res = Ret (Error err)"
      "m' = set_md E ConditionApplied ConditionFalse ReasonApplyFailed msg m"
      "fs_files (w_fs w') = fs_files (w_fs w)" "w_k w' = w_k w"
  | (ok) merged msg where "res = Ret Continue"
      "m' = set_md E ConditionApplied ConditionUnknown ReasonReconciling msg m"
      "merge_of E root (w_fs w) merged"
      "fs_files (w_fs w') = fmupd (volume_key root SnmpMergedFile) merged (fs_files (w_fs w))" "w_k w' = w_k w"
proof -
  note store = md_libs_store [OF libs]
  obtain g fs where g: "GetMergedSortedSNMPConfig (md_yaml E) (md_Filestore E) SnmpSubDir (w_fs w) = (g, fs)"
    by fastforce
  have vol: "fs_files fs = fs_files (w_fs w)" "g = Inr b \<Longrightarrow> merge_of E root (w_fs w) b" for b
    using libs g GetMerged_volume [of rio "md_yaml E" root SnmpSubDir "w_fs w" g fs]
    by (auto simp: md_libs_def merge_of_def)
  obtain rd fs1 where rd: "fsReadAll (md_Filestore E) SnmpMergedFile fs = (rd, fs1)" by fastforce
  have files: "fs_files fs1 = fs_files (w_fs w)"
    using file_store.read_keeps [OF store rd] vol(1) by (metis fmap_ext_all)
  show thesis
  proof (cases g)
    case (Inl e)
    with step g vol show ?thesis by (intro failed) (auto simp: reconcileMergedSNMPFile_def md_fail_def)
  next
    case (Inr merged)
    have ne: "merged \<noteq> []"
    proof -
      obtain c where "yaml_Marshal_Merged (md_yaml E) c = Inr merged"
        using merge_configs_marshalled vol(2) [OF Inr] unfolding merge_of_def by blast
      with libs show ?thesis by (auto simp: md_libs_def)
    qed
    obtain we fs2 where wr: "fsWrite (md_Filestore E) SnmpMergedFile merged fs1 = (we, fs2)" by fastforce
    have up: "fs_files s' = fmupd (volume_key root SnmpMergedFile) merged (fs_files (w_fs w))"
      if "rd = Inr merged \<and> s' = fs1 \<or> fsWrite (md_Filestore E) SnmpMergedFile merged fs1 = (None, s')" for s'
      using file_store.ensure_content [OF store rd that refl] vol(1)
      by (intro fmap_ext_all) (auto simp: fun_eq_iff)
    consider (io) e where "rd = Inl e" "\<not> errors_Is_NotExist e" | (same) "rd = Inr merged"
      | (differs) "\<not> (isl rd \<and> \<not> errors_Is_NotExist (projl rd))" "(case rd of Inl _ \<Rightarrow> [] | Inr b \<Rightarrow> b) \<noteq> merged"
      using ne by (cases rd) auto
    then show ?thesis
    proof cases
      case io
      with step g Inr rd files show ?thesis
        by (intro failed) (auto simp: reconcileMergedSNMPFile_def md_fail_def Let_def)
    next
      case same
      then have "reconcileMergedSNMPFile E m w = (Ret Continue, set_md E ConditionApplied ConditionUnknown
          ReasonReconciling ''Merged SNMP file is up to date; exporter reload is being verified'' m, with_fs w fs1)"
        using g Inr rd by (simp add: reconcileMergedSNMPFile_def Let_def)
      with step vol(2) [OF Inr] up [of fs1] same show ?thesis by (intro ok) auto
    next
      case differs
      show ?thesis
      proof (cases we)
        case None
        then have "reconcileMergedSNMPFile E m w = (Ret Continue, set_md E ConditionApplied ConditionUnknown
            ReasonReconciling ''Merged SNMP file has been written successfully; exporter reload is pending'' m,
            with_fs w fs2)"
          using g Inr rd wr differs None by (cases rd) (simp_all add: reconcileMergedSNMPFile_def Let_def)
        with step vol(2) [OF Inr] up [of fs2] wr None show ?thesis by (intro ok) auto
      next
        case (Some e)
        then have "reconcileMergedSNMPFile E m w = md_fail E ConditionApplied ReasonApplyFailed
            (''Failed to write merged SNMP file '' @ SnmpMergedFile @ '': '' @ gerror_Error e) e m (with_fs w fs2)"
          using g Inr rd wr differs Some by (cases rd) (simp_all add: reconcileMergedSNMPFile_def Let_def)
        moreover have "fs_files fs2 = fs_files (w_fs w)"
          using file_store.write_error [OF store] wr Some files by (metis fmap_ext_all)
        ultimately show ?thesis using step by (intro failed) (auto simp: md_fail_def)
      qed
    qed
  qed
qed

text \<open>The exporter's pods carry the hash of this configuration, or were just told to roll to it.\<close>

definition exporter_rolled :: "('v, 'k, 'a) md_env_scheme \<Rightarrow> bytes \<Rightarrow> 'k \<Rightarrow> 'k \<Rightarrow> bool" where
  "exporter_rolled E merged k k' \<longleftrightarrow>
     (\<exists>d. getSnmpExporterDeployment E k = Inr d \<and>
        (map_get (dep_TemplateAnnotations d) ConfigHashAnnotation = snmp_Hash merged \<and> k' = k \<or>
         Patch_Deployment E d (annotate (snmp_Hash merged) d) k = (None, k')))"

lemma reload_step_cases:
  assumes libs: "md_libs E rio root" and step: "reconcileExporterReload E m w = (res, m', w')"
  obtains (failed) err reason msg where "res = Ret (Error err)"
      "m' = set_md E ConditionApplied ConditionFalse reason msg m" "fs_files (w_fs w') = fs_files (w_fs w)"
  | (absent) msg where "res = Ret Continue" "file_at root SnmpMergedFile w = None"
      "m' = set_md E ConditionApplied ConditionUnknown ReasonGenerationPending msg m"
      "fs_files (w_fs w') = fs_files (w_fs w)"
  | (ok) merged msg where "res = Ret Continue" "file_at root SnmpMergedFile w = Some merged"
      "m' = set_md E ConditionApplied ConditionTrue ReasonReconciled msg m"
      "fs_files (w_fs w') = fs_files (w_fs w)" "exporter_rolled E merged (w_k w) (w_k w')"
proof -
  note store = md_libs_store [OF libs]
  obtain rd fs where rd: "fsReadAll (md_Filestore E) SnmpMergedFile (w_fs w) = (rd, fs)" by fastforce
  have files: "fs_files fs = fs_files (w_fs w)" using file_store.read_keeps [OF store rd] by (rule fmap_ext_all)
  show thesis
  proof (cases rd)
    case (Inl e)
    then have "errors_Is_NotExist e \<Longrightarrow> file_at root SnmpMergedFile w = None"
      using file_store.read_missing [OF store] rd by blast
    with Inl step rd files failed absent show ?thesis
      by (cases "errors_Is_NotExist e") (auto simp: reconcileExporterReload_def md_fail_def)
  next
    case (Inr merged)
    then have at: "file_at root SnmpMergedFile w = Some merged"
      using file_store.read_ok [OF store] rd by blast
    show ?thesis
    proof (cases "getSnmpExporterDeployment E (w_k w)")
      case (Inl e)
      with Inr step rd files show ?thesis
        by (intro failed) (auto simp: reconcileExporterReload_def md_fail_def Let_def)
    next
      case d: (Inr d)
      show ?thesis
      proof (cases "map_get (dep_TemplateAnnotations d) ConfigHashAnnotation = snmp_Hash merged")
        case True
        with d Inr step rd files at show ?thesis
          by (intro ok) (auto simp: reconcileExporterReload_def exporter_rolled_def Let_def)
      next
        case False
        obtain e k where pa: "Patch_Deployment E d (annotate (snmp_Hash merged) d) (w_k w) = (e, k)" by fastforce
        show ?thesis
        proof (cases e)
          case None
          with False d Inr step rd files at pa show ?thesis
            by (intro ok) (auto simp: reconcileExporterReload_def exporter_rolled_def Let_def)
        next
          case (Some err)
          with False d Inr step rd files pa show ?thesis
            by (intro failed) (auto simp: reconcileExporterReload_def md_fail_def Let_def)
        qed
      qed
    qed
  qed
qed

section \<open>A run that ends ready ran every step\<close>

definition md_started :: "('k, 'a) ctl_env_scheme \<Rightarrow> MeasurementDevice \<Rightarrow> MeasurementDevice" where
  "md_started E m =
     set_md E ConditionReady ConditionUnknown ReasonReconciling ''Reconciliation is in progress'' m"

lemma md_started_simps [simp]:
  "md_Spec (md_started E m) = md_Spec m" "md_Meta (md_started E m) = md_Meta m"
  by (simp_all add: md_started_def)

definition md_body :: "('v, 'k, 'a) md_env_scheme \<Rightarrow> 'k md_step list" where
  "md_body E =
     [md_reconcileDeletion E, md_ensureFinalizerIsSet E, reconcileGeneratorFile E, reconcileSNMPGeneratorJob E,
      reconcileSNMPFileContent E, reconcileMergedSNMPFile E, reconcileExporterReload E]"

text \<open>
  What every step keeps: the spec, the metadata apart from the finalizers, and every file but
  the device's generator and SNMP file and the merged file. The steps before the last do not
  touch the condition \<open>Ready\<close>.
\<close>

definition md_keys :: "string \<Rightarrow> MeasurementDevice \<Rightarrow> fpath set" where
  "md_keys root m =
     {volume_key root (GeneratorFile (md_UID m)), volume_key root (SnmpFile (md_UID m)), volume_key root SnmpMergedFile}"

definition md_kept :: "('v, 'k, 'a) md_env_scheme \<Rightarrow> string \<Rightarrow> MeasurementDevice \<times> 'k world \<Rightarrow> MeasurementDevice \<times> 'k world \<Rightarrow> bool"
  where
  "md_kept E root x y \<longleftrightarrow>
     md_Spec (fst y) = md_Spec (fst x)
   \<and> (md_Meta (fst y))\<lparr>meta_Finalizers := []\<rparr> = (md_Meta (fst x))\<lparr>meta_Finalizers := []\<rparr>
   \<and> (\<forall>s. cond_is (md_GetConditions (fst y)) ConditionReady s = cond_is (md_GetConditions (fst x)) ConditionReady s)
   \<and> (\<forall>key. key \<notin> md_keys root (fst x) \<longrightarrow>
        fmlookup (fs_files (w_fs (snd y))) key = fmlookup (fs_files (w_fs (snd x))) key)"

definition md_frame ::
    "('v, 'k, 'a) md_env_scheme \<Rightarrow> MeasurementDevice \<times> 'k world \<Rightarrow> MeasurementDevice \<times> 'k world \<Rightarrow> bool" where
  "md_frame E x y \<longleftrightarrow> (\<forall>rio root. md_libs E rio root \<longrightarrow> md_kept E root x y)"

lemma meta_but_finalizers:
  assumes "(a :: ObjectMeta)\<lparr>meta_Finalizers := []\<rparr> = b\<lparr>meta_Finalizers := []\<rparr>"
  shows "meta_UID a = meta_UID b" "meta_Name a = meta_Name b" "meta_Namespace a = meta_Namespace b"
    "meta_Generation a = meta_Generation b" "meta_DeletionTimestamp a = meta_DeletionTimestamp b"
  using assms by (cases a; cases b; simp)+

lemma md_kept_refl: "md_kept E root x x"
  by (simp add: md_kept_def)

lemma md_kept_keys: "md_kept E root x y \<Longrightarrow> md_keys root (fst y) = md_keys root (fst x)"
  using meta_but_finalizers(1) [of "md_Meta (fst y)" "md_Meta (fst x)"] by (simp add: md_kept_def md_keys_def)

lemma md_kept_trans: "md_kept E root x y \<Longrightarrow> md_kept E root y z \<Longrightarrow> md_kept E root x z"
  using md_kept_keys [of E root x y] by (simp add: md_kept_def)

text \<open>A step that sets one condition other than \<open>Ready\<close>.\<close>

lemma md_kept_set:
  assumes "md_libs E rio root" and "t \<noteq> ConditionReady"
    and "\<And>key. key \<notin> md_keys root m \<Longrightarrow> fmlookup (fs_files (w_fs w')) key = fmlookup (fs_files (w_fs w)) key"
  shows "md_kept E root (m, w) (set_md E t s r msg m, w')"
  using assms by (simp add: md_kept_def set_md_cond_is [OF md_libs_lib [OF assms(1)]])

lemma md_kept_obj:
  assumes "\<And>key. key \<notin> md_keys root m \<Longrightarrow> fmlookup (fs_files (w_fs w')) key = fmlookup (fs_files (w_fs w)) key"
  shows "md_kept E root (m, w) (m, w')"
  using assms by (simp add: md_kept_def)

lemma md_kept_finalizers: "md_kept E root (m, w) (md_finalizers f m, w)"
  by (simp add: md_kept_def md_finalizers_def md_GetConditions_def)

lemmas md_kept_intros = md_kept_set md_kept_obj md_kept_finalizers

lemma md_kept_generator:
  assumes "md_libs E rio root" and "reconcileGeneratorFile E m w = (res, m', w')"
  shows "md_kept E root (m, w) (m', w')"
  using assms(2)
  by (rule generator_step_cases [OF assms(1)])
    (auto intro!: md_kept_set [OF assms(1)] md_kept_obj simp: md_keys_def)

lemma md_kept_job:
  assumes "md_libs E rio root" and "reconcileSNMPGeneratorJob E m w = (res, m', w')"
  shows "md_kept E root (m, w) (m', w')"
  using assms(2)
  by (rule job_step_cases) (auto intro!: md_kept_set [OF assms(1)] md_kept_obj)

lemma md_kept_content:
  assumes "md_libs E rio root" and "reconcileSNMPFileContent E m w = (res, m', w')"
  shows "md_kept E root (m, w) (m', w')"
  using assms(2)
proof (rule content_step_cases [OF assms(1)])
  fix err msg assume "m' = set_md E ConditionGenerated ConditionFalse ReasonGenerationFailed msg m"
    "fs_files (w_fs w') = fs_files (w_fs w)"
  then show ?thesis by (simp add: md_kept_set [OF assms(1)])
next
  fix config m1 msg assume m': "m' = set_md E ConditionGenerated ConditionTrue ReasonReconciled msg m1"
    and m1: "md_Spec m1 = md_Spec m" "md_Meta m1 = md_Meta m" "md_GetConditions m1 = md_GetConditions m"
    and "fs_files (w_fs w') = fs_files (w_fs w)"
  then have "md_kept E root (m1, w) (m', w')" by (simp add: md_kept_set [OF assms(1)])
  with m1 show ?thesis by (simp add: md_kept_def md_keys_def)
qed

lemma md_kept_merged:
  assumes "md_libs E rio root" and "reconcileMergedSNMPFile E m w = (res, m', w')"
  shows "md_kept E root (m, w) (m', w')"
  using assms(2)
  by (rule merged_step_cases [OF assms(1)]) (auto intro!: md_kept_set [OF assms(1)] simp: md_keys_def)

lemma md_kept_reload:
  assumes "md_libs E rio root" and "reconcileExporterReload E m w = (res, m', w')"
  shows "md_kept E root (m, w) (m', w')"
  using assms(2)
  by (rule reload_step_cases [OF assms(1)]) (auto intro!: md_kept_set [OF assms(1)])

text \<open>Deletion: the jobs, then the two files, then the merged file without them, then the exporter.\<close>

lemma remove_step:
  assumes libs: "md_libs E rio root" and rm: "fsRemove (md_Filestore E) p fs = (err, fs1)"
  shows "k \<noteq> volume_key root p \<Longrightarrow> fmlookup (fs_files fs1) k = fmlookup (fs_files fs) k"
    and "\<not> (err \<noteq> None \<and> \<not> errors_Is_NotExist (the err)) \<Longrightarrow>
      fs_files fs1 = fmdrop (volume_key root p) (fs_files fs)"
proof -
  note store = md_libs_store [OF libs]
  show other: "fmlookup (fs_files fs1) k = fmlookup (fs_files fs) k" if "k \<noteq> volume_key root p" for k
    using file_store.remove_keeps [OF store rm that] .
  assume "\<not> (err \<noteq> None \<and> \<not> errors_Is_NotExist (the err))"
  then have "fmlookup (fs_files fs1) (volume_key root p) = None"
    using rm file_store.remove_ok [OF store] file_store.remove_missing [OF store] by (cases err) auto
  then show "fs_files fs1 = fmdrop (volume_key root p) (fs_files fs)"
    by (intro fmap_ext) (simp add: other)
qed

lemma remove_files_keeps:
  assumes libs: "md_libs E rio root"
  shows "remove_files E ps fs = (err, fs1) \<Longrightarrow> k \<notin> volume_key root ` set ps \<Longrightarrow>
    fmlookup (fs_files fs1) k = fmlookup (fs_files fs) k"
proof (induction ps arbitrary: fs)
  case (Cons p ps)
  obtain e fs2 where rm: "fsRemove (md_Filestore E) p fs = (e, fs2)" by fastforce
  then have "fmlookup (fs_files fs2) k = fmlookup (fs_files fs) k"
    using remove_step(1) [OF libs rm] Cons.prems(2) by simp
  with Cons rm show ?case by (auto split: if_splits)
qed simp

lemma remove_files_ok:
  assumes libs: "md_libs E rio root"
  shows "remove_files E ps fs = (None, fs1) \<Longrightarrow>
    fs_files fs1 = fold (\<lambda>p. fmdrop (volume_key root p)) ps (fs_files fs)"
proof (induction ps arbitrary: fs)
  case (Cons p ps)
  obtain e fs2 where rm: "fsRemove (md_Filestore E) p fs = (e, fs2)" by fastforce
  with Cons.prems have "\<not> (e \<noteq> None \<and> \<not> errors_Is_NotExist (the e))" "remove_files E ps fs2 = (None, fs1)"
    by (auto split: if_splits)
  with Cons.IH remove_step(2) [OF libs rm] show ?case by simp
qed simp

lemma deletion_step_cases:
  assumes libs: "md_libs E rio root" and step: "md_reconcileDeletion E m w = (res, m', w')"
  obtains (alive) "res = Ret Continue" "meta_DeletionTimestamp (md_Meta m) = None" "m' = m" "w' = w"
  | (not_ours) "res = Ret Stop" "meta_DeletionTimestamp (md_Meta m) \<noteq> None"
      "SNMPUpdateFinalizer \<notin> set (meta_Finalizers (md_Meta m))" "m' = m" "w' = w"
  | (failed) err where "res = Ret (Error err)" "meta_DeletionTimestamp (md_Meta m) \<noteq> None"
      "md_kept E root (m, w) (m', w')" "meta_Finalizers (md_Meta m') = meta_Finalizers (md_Meta m)"
  | (released) jobs k s merged m1 where "res = Ret Stop" "meta_DeletionTimestamp (md_Meta m) \<noteq> None"
      "getOwnedJobs E m (w_k w) = Inr jobs" "delete_jobs E jobs (w_k w) = (None, k)"
      "fs_files s = fmdrop (volume_key root (SnmpFile (md_UID m)))
         (fmdrop (volume_key root (GeneratorFile (md_UID m))) (fs_files (w_fs w)))"
      "merge_of E root s merged" "exporter_rolled E merged k (w_k w')"
      "fs_files (w_fs w') = fmupd (volume_key root SnmpMergedFile) merged (fs_files s)"
      "md_kept E root (m, w) (m1, w')" "meta_Finalizers (md_Meta m1) = meta_Finalizers (md_Meta m)"
      "m' = md_finalizers (\<lambda>fs. RemoveFinalizer (kube E) fs SNMPUpdateFinalizer) m1"
proof (cases "meta_DeletionTimestamp (md_Meta m) = None")
  case True
  with step show ?thesis by (intro alive) (auto simp: md_reconcileDeletion_def)
next
  case del: False
  note lib = md_libs_lib [OF libs]
  have fail: "md_kept E root (m, w) (m', w') \<and> meta_Finalizers (md_Meta m') = meta_Finalizers (md_Meta m) \<and>
      res = Ret (Error e)"
    if "md_fail E ConditionApplied r msg e m w0 = (res, m', w')"
      and "\<And>key. key \<notin> md_keys root m \<Longrightarrow> fmlookup (fs_files (w_fs w0)) key = fmlookup (fs_files (w_fs w)) key"
    for r msg e w0
    using that by (auto simp: md_fail_def intro!: md_kept_set [OF libs])
  show ?thesis
  proof (cases "SNMPUpdateFinalizer \<in> set (meta_Finalizers (md_Meta m))")
    case False
    with del step lib show ?thesis by (intro not_ours) (auto simp: md_reconcileDeletion_def kube_lib_def)
  next
    case True
    then have fin: "ContainsFinalizer (kube E) (meta_Finalizers (md_Meta m)) SNMPUpdateFinalizer"
      using lib by (simp add: kube_lib_def)
    note unf = md_reconcileDeletion_def del fin simp_thms if_False if_True
    show ?thesis
    proof (cases "getOwnedJobs E m (w_k w)")
      case (Inl e)
      with step fail [of _ _ "SysErr e" w] del show ?thesis by (intro failed) (auto simp: unf)
    next
      case jobs: (Inr jobs)
      obtain de k where dj: "delete_jobs E jobs (w_k w) = (de, k)" by fastforce
      show ?thesis
      proof (cases de)
        case (Some e)
        with jobs dj step fail [of _ _ "SysErr e" "with_k w k"] del show ?thesis by (intro failed) (auto simp: unf)
      next
        case de: None
        let ?ps = "[GeneratorFile (md_UID m), SnmpFile (md_UID m)]"
        obtain re fs where rf: "remove_files E ?ps (w_fs w) = (re, fs)" by fastforce
        have keep: "key \<notin> md_keys root m \<Longrightarrow> fmlookup (fs_files fs) key = fmlookup (fs_files (w_fs w)) key" for key
          using remove_files_keeps [OF libs rf, of key] by (simp add: md_keys_def)
        let ?w = "with_fs (with_k w k) fs"
        show ?thesis
        proof (cases re)
          case (Some e)
          with jobs dj de rf step fail [of _ _ e ?w] keep del show ?thesis by (intro failed) (auto simp: unf)
        next
          case re: None
          obtain r1 m1 w1 where me: "reconcileMergedSNMPFile E m ?w = (r1, m1, w1)" by (metis prod_cases3)
          obtain r2 m2 w2 where rl: "reconcileExporterReload E m1 w1 = (r2, m2, w2)" by (metis prod_cases3)
          have k0: "md_kept E root (m, w) (m, ?w)" by (rule md_kept_obj) (simp add: keep)
          have k1: "md_kept E root (m, w) (m1, w1)" using md_kept_trans [OF k0 md_kept_merged [OF libs me]] .
          have k2: "md_kept E root (m, w) (m2, w2)" using md_kept_trans [OF k1 md_kept_reload [OF libs rl]] .
          show ?thesis
          proof (rule merged_step_cases [OF libs me])
            fix err msg
            assume r: "r1 = Ret (Error err)" and m1: "m1 = set_md E ConditionApplied ConditionFalse ReasonApplyFailed msg m"
            then have "res = Ret (Error err)" "m' = m1" "w' = w1"
              using step jobs dj de rf re me by (auto simp: unf)
            with k1 m1 del show ?thesis by (intro failed) auto
          next
            fix merged msg
            assume r: "r1 = Ret Continue" and m1: "m1 = set_md E ConditionApplied ConditionUnknown ReasonReconciling msg m"
              and mo: "merge_of E root (w_fs ?w) merged"
              and fs1: "fs_files (w_fs w1) = fmupd (volume_key root SnmpMergedFile) merged (fs_files (w_fs ?w))"
              and kk: "w_k w1 = w_k ?w"
            have eq: "md_reconcileDeletion E m w = (case r2 of Panic t \<Rightarrow> (Panic t, m2, w2)
                | Ret res2 \<Rightarrow> if step_Action res2 = ActionError then (Ret res2, m2, w2)
                  else (Ret Stop, md_finalizers (\<lambda>fs. RemoveFinalizer (kube E) fs SNMPUpdateFinalizer) m2, w2))"
              using jobs dj de rf re me r rl by (cases r2) (simp_all add: unf)
            note step' = step [unfolded eq]
            show ?thesis
            proof (rule reload_step_cases [OF libs rl])
              fix err reason msg'
              assume r2: "r2 = Ret (Error err)" and m2: "m2 = set_md E ConditionApplied ConditionFalse reason msg' m1"
              with step' have "res = Ret (Error err)" "m' = m2" "w' = w2" by auto
              with k2 m1 m2 del show ?thesis by (intro failed) auto
            next
              fix msg' assume "file_at root SnmpMergedFile w1 = None"
              with fs1 show ?thesis by simp
            next
              fix b msg'
              assume r2: "r2 = Ret Continue" and b: "file_at root SnmpMergedFile w1 = Some b"
                and m2: "m2 = set_md E ConditionApplied ConditionTrue ReasonReconciled msg' m1"
                and fs2: "fs_files (w_fs w2) = fs_files (w_fs w1)" and ex: "exporter_rolled E b (w_k w1) (w_k w2)"
              from step' r2 have out: "res = Ret Stop" "w' = w2"
                "m' = md_finalizers (\<lambda>fs. RemoveFinalizer (kube E) fs SNMPUpdateFinalizer) m2" by auto
              have "b = merged" using b fs1 by simp
              moreover have "fs_files (w_fs ?w) = fmdrop (volume_key root (SnmpFile (md_UID m)))
                  (fmdrop (volume_key root (GeneratorFile (md_UID m))) (fs_files (w_fs w)))"
                using remove_files_ok [OF libs] rf re by fastforce
              ultimately show ?thesis
                using released [of jobs k "w_fs ?w" merged m2] out del jobs dj de mo fs1 fs2 ex kk k2 m1 m2 by simp
            qed
          qed
        qed
      qed
    qed
  qed
qed

lemma ensureFinalizer_cases:
  assumes lib: "kube_lib (kube E)" and step: "md_ensureFinalizerIsSet E m w = (res, m', w')"
  obtains (present) "res = Ret Continue" "SNMPUpdateFinalizer \<in> set (meta_Finalizers (md_Meta m))" "m' = m" "w' = w"
  | (added) "res = Ret Stop" "SNMPUpdateFinalizer \<notin> set (meta_Finalizers (md_Meta m))" "w' = w"
      "m' = md_finalizers (\<lambda>fs. AddFinalizer (kube E) fs SNMPUpdateFinalizer) m"
  using assms by (auto simp: md_ensureFinalizerIsSet_def kube_lib_def split: if_splits)

lemma md_step_kept:
  assumes libs: "md_libs E rio root" and mem: "step \<in> set (md_body E)" and st: "step m w = (res, m', w')"
  shows "md_kept E root (m, w) (m', w')"
proof -
  consider "step = md_reconcileDeletion E" | "step = md_ensureFinalizerIsSet E" | "step = reconcileGeneratorFile E"
    | "step = reconcileSNMPGeneratorJob E" | "step = reconcileSNMPFileContent E" | "step = reconcileMergedSNMPFile E"
    | "step = reconcileExporterReload E"
    using mem by (auto simp: md_body_def)
  then show ?thesis
  proof cases
    case 1
    with st have "md_reconcileDeletion E m w = (res, m', w')" by simp
    then show ?thesis
    proof (rule deletion_step_cases [OF libs])
      fix m1 assume "md_kept E root (m, w) (m1, w')"
        "m' = md_finalizers (\<lambda>fs. RemoveFinalizer (kube E) fs SNMPUpdateFinalizer) m1"
      then show ?thesis using md_kept_trans md_kept_finalizers by fastforce
    qed (simp_all add: md_kept_refl)
  next
    case 2
    with st have "md_ensureFinalizerIsSet E m w = (res, m', w')" by simp
    then show ?thesis
      by (rule ensureFinalizer_cases [OF md_libs_lib [OF libs]]) (simp_all add: md_kept_refl md_kept_finalizers)
  qed (use st md_kept_generator [OF libs] md_kept_job [OF libs] md_kept_content [OF libs] md_kept_merged [OF libs]
      md_kept_reload [OF libs] in simp_all)
qed

interpretation md: step_frame "md_body E" "md_frame E"
proof unfold_locales
  show "md_frame E x x" for x by (simp add: md_frame_def md_kept_refl)
  show "md_frame E x y \<Longrightarrow> md_frame E y z \<Longrightarrow> md_frame E x z" for x y z
    unfolding md_frame_def by (meson md_kept_trans)
  show "step \<in> set (md_body E) \<Longrightarrow> step obj w = (res, obj', w') \<Longrightarrow> md_frame E (obj, w) (obj', w')"
    for step obj w res obj' w'
    using md_step_kept by (fastforce simp: md_frame_def)
qed

lemma md_steps_body: "md_steps E = md_body E @ [md_reconcileReady E]"
  by (simp add: md_steps_def md_body_def)

lemma md_run_body:
  "md_run E m w = (case completes (md_body E) (md_started E m) w of
     None \<Rightarrow> Run (md_body E) (md_started E m) w
   | Some (m1, w1) \<Rightarrow> (Ret (empty_Result, None),
       set_md E ConditionReady ConditionTrue ReasonReconciled ''Fully reconciled and ready'' m1, w1))"
  unfolding md_run_def md_steps_body Run_append md_started_def [symmetric]
  by (auto simp: md_reconcileReady_def split: option.splits)

text \<open>\<open>Ready\<close> is true after a run exactly when every step continued.\<close>

lemma md_ready_iff_completes:
  assumes libs: "md_libs E rio root" and run: "md_run E m w = (out, m', w')"
  shows "cond_is (md_GetConditions m') ConditionReady ConditionTrue \<longleftrightarrow>
    (\<exists>m1. completes (md_body E) (md_started E m) w = Some (m1, w') \<and>
      m' = set_md E ConditionReady ConditionTrue ReasonReconciled ''Fully reconciled and ready'' m1)"
proof (cases "completes (md_body E) (md_started E m) w")
  case None
  with run have "Run (md_body E) (md_started E m) w = (out, m', w')" by (simp add: md_run_body)
  from md.Run_R [OF this] libs have "md_kept E root (md_started E m, w) (m', w')" by (auto simp: md_frame_def)
  then have "cond_is (md_GetConditions m') ConditionReady ConditionTrue =
      cond_is (md_GetConditions (md_started E m)) ConditionReady ConditionTrue" by (simp add: md_kept_def)
  then show ?thesis
    using None by (simp add: md_started_def set_md_cond_is [OF md_libs_lib [OF libs]])
next
  case (Some x)
  with run show ?thesis
    by (cases x) (auto simp: md_run_body set_md_cond_is [OF md_libs_lib [OF libs]])
qed

lemma md_run_kept:
  assumes libs: "md_libs E rio root" and run: "md_run E m w = (out, m', w')"
  shows "md_Spec m' = md_Spec m" "(md_Meta m')\<lparr>meta_Finalizers := []\<rparr> = (md_Meta m)\<lparr>meta_Finalizers := []\<rparr>"
    "key \<notin> md_keys root m \<Longrightarrow> fmlookup (fs_files (w_fs w')) key = fmlookup (fs_files (w_fs w)) key"
proof -
  obtain m1 where m1: "md_kept E root (md_started E m, w) (m1, w')" "md_Spec m' = md_Spec m1" "md_Meta m' = md_Meta m1"
  proof (cases "completes (md_body E) (md_started E m) w")
    case None
    with run md.Run_R libs have "md_kept E root (md_started E m, w) (m', w')"
      by (fastforce simp: md_run_body md_frame_def)
    with that show ?thesis by blast
  next
    case (Some x)
    then obtain m1 w1 where x: "completes (md_body E) (md_started E m) w = Some (m1, w1)" by (cases x) auto
    with md.Run_R [OF Run_completes [OF x]] libs have "md_kept E root (md_started E m, w) (m1, w1)"
      by (auto simp: md_frame_def)
    with run x that show ?thesis by (auto simp: md_run_body)
  qed
  then show "md_Spec m' = md_Spec m" "(md_Meta m')\<lparr>meta_Finalizers := []\<rparr> = (md_Meta m)\<lparr>meta_Finalizers := []\<rparr>"
    by (simp_all add: md_kept_def)
  have "md_keys root (md_started E m) = md_keys root m" by (simp add: md_keys_def)
  with m1(1) show "key \<notin> md_keys root m \<Longrightarrow> fmlookup (fs_files (w_fs w')) key = fmlookup (fs_files (w_fs w)) key"
    unfolding md_kept_def fst_conv snd_conv by metis
qed

end
