(* ===== verification/Lifecycle.thy ===== *)
theory Lifecycle
  imports Api
begin

text \<open>
  The finalizer protocol the three reconcilers share. An object with something outside the
  cluster to clean up (files on the volume) carries a finalizer: the API server keeps it until
  the finalizer is gone. The record \<open>life\<close> describes such an object, \<open>life_step\<close> its history
  (created, edited, deleted, reconciled with a patch that may be lost, other actors in between),
  and the locale \<open>life_cycle\<close> the contract one run of the reconciler has to meet so that
  nothing it owns is ever left behind by an object that is gone.
\<close>

record ('o, 'w) life =
  life_meta :: "'o \<Rightarrow> ObjectMeta"
  life_set_finalizers :: "string list \<Rightarrow> 'o \<Rightarrow> 'o"
  life_named :: "'o \<Rightarrow> bool"
  life_finalizer :: string
  life_run :: "'o \<Rightarrow> 'w \<Rightarrow> 'o \<times> 'w"
  life_owned :: "'w \<Rightarrow> bool"

abbreviation life_guarded :: "('o, 'w) life \<Rightarrow> 'o \<Rightarrow> bool" where
  "life_guarded L d \<equiv> life_finalizer L \<in> set (meta_Finalizers (life_meta L d))"

text \<open>The API server drops an object that is being deleted when its last finalizer goes.\<close>

definition life_stored :: "('o, 'w) life \<Rightarrow> 'o \<Rightarrow> string list \<Rightarrow> 'o option" where
  "life_stored L d fs =
     (if meta_DeletionTimestamp (life_meta L d) \<noteq> None \<and> fs = [] then None
      else Some (life_set_finalizers L fs d))"

text \<open>
  One object of the given name: what is stored and the world. A reconciliation runs on the
  stored object; its patch is applied or lost, and the stored spec and status may be any
  other by then. Other actors change the owned files only while the object is guarded.
\<close>

inductive life_step :: "('o, 'w) life \<Rightarrow> 'o option \<times> 'w \<Rightarrow> 'o option \<times> 'w \<Rightarrow> bool" for L where
  create: "life_named L d \<Longrightarrow> meta_DeletionTimestamp (life_meta L d) = None \<Longrightarrow>
     life_step L (None, w) (Some d, w)"
| edit: "life_named L d' \<Longrightarrow> life_meta L d' = (life_meta L d)\<lparr>meta_Generation := g\<rparr> \<Longrightarrow>
     life_step L (Some d, w) (Some d', w)"
| delete: "life_named L d' \<Longrightarrow> life_meta L d' = (life_meta L d)\<lparr>meta_DeletionTimestamp := Some t\<rparr> \<Longrightarrow>
     life_step L (Some d, w) (life_stored L d' (meta_Finalizers (life_meta L d)), w)"
| reconcile: "life_run L d w = (d', w') \<Longrightarrow>
     fs \<in> {meta_Finalizers (life_meta L d), meta_Finalizers (life_meta L d')} \<Longrightarrow>
     life_named L d2 \<Longrightarrow> life_meta L d2 = (life_meta L d)\<lparr>meta_Generation := g\<rparr> \<Longrightarrow>
     life_step L (Some d, w) (life_stored L d2 fs, w')"
| other: "(life_owned L w' \<Longrightarrow> life_owned L w \<or> (\<exists>d. obj = Some d \<and> life_guarded L d)) \<Longrightarrow>
     life_step L (obj, w) (obj, w')"

lemma same_generation [simp]: "(m :: ObjectMeta)\<lparr>meta_Generation := meta_Generation m\<rparr> = m"
  by simp

text \<open>A reconciliation whose patch arrives while nobody else changes the object.\<close>

lemma reconcile_patched:
  assumes "life_run L d w = (d', w')" and "life_named L d"
  shows "life_step L (Some d, w) (life_stored L d (meta_Finalizers (life_meta L d')), w')"
  using life_step.reconcile [OF assms(1) _ assms(2), of _ "meta_Generation (life_meta L d)"] by simp

inductive life_reachable :: "('o, 'w) life \<Rightarrow> 'o option \<times> 'w \<Rightarrow> bool" for L where
  init: "\<not> life_owned L w \<Longrightarrow> life_reachable L (None, w)"
| step: "life_reachable L s \<Longrightarrow> life_step L s s' \<Longrightarrow> life_reachable L s'"

text \<open>What is owned belongs to a stored object that still has to clean it up.\<close>

definition no_orphan :: "('o, 'w) life \<Rightarrow> 'o option \<times> 'w \<Rightarrow> bool" where
  "no_orphan L s \<longleftrightarrow>
     (case s of
        (None, w) \<Rightarrow> \<not> life_owned L w
      | (Some d, w) \<Rightarrow> life_named L d \<and> (life_owned L w \<longrightarrow> life_guarded L d))"

locale life_cycle =
  fixes L :: "('o, 'w) life"
  assumes meta_set: "life_meta L (life_set_finalizers L fs d) = (life_meta L d)\<lparr>meta_Finalizers := fs\<rparr>"
    and named_set: "life_named L (life_set_finalizers L fs d) = life_named L d"
    and run_safe: "life_named L d \<Longrightarrow> life_run L d w = (d', w') \<Longrightarrow>
      (life_owned L w \<Longrightarrow> life_guarded L d) \<Longrightarrow> life_owned L w' \<Longrightarrow>
      life_guarded L d \<and> life_guarded L d'"
begin

lemma stored_no_orphan:
  assumes "life_named L d" and "life_owned L w \<Longrightarrow> life_finalizer L \<in> set fs"
  shows "no_orphan L (life_stored L d fs, w)"
  using assms by (auto simp: no_orphan_def life_stored_def meta_set named_set)

lemma no_orphan_step:
  assumes "life_step L s s'" and "no_orphan L s"
  shows "no_orphan L s'"
  using assms
proof (induction rule: life_step.induct)
  case (delete d' d t w)
  then show ?case by (intro stored_no_orphan) (auto simp: no_orphan_def)
next
  case (reconcile d w d' w' fs d2 g)
  then have d: "life_named L d" "life_owned L w \<Longrightarrow> life_guarded L d" by (auto simp: no_orphan_def)
  show ?case
  proof (rule stored_no_orphan)
    assume "life_owned L w'"
    with run_safe [OF d(1) reconcile(1) d(2)] reconcile(2) show "life_finalizer L \<in> set fs" by blast
  qed fact
qed (auto simp: no_orphan_def split: option.splits)

lemma no_orphan_reachable: "life_reachable L s \<Longrightarrow> no_orphan L s"
proof (induction rule: life_reachable.induct)
  case (init w)
  then show ?case by (simp add: no_orphan_def)
next
  case (step s s')
  then show ?case using no_orphan_step by blast
qed

text \<open>So an object that is gone has left nothing behind.\<close>

lemma nothing_left: "life_reachable L (None, w) \<Longrightarrow> \<not> life_owned L w"
  using no_orphan_reachable by (fastforce simp: no_orphan_def)

lemma owned_guarded: "life_reachable L (Some d, w) \<Longrightarrow> life_owned L w \<Longrightarrow> life_guarded L d"
  using no_orphan_reachable by (fastforce simp: no_orphan_def)

end

end
