(* ===== verification/Md_Props.thy ===== *)
theory Md_Props
  imports Md_Run Lifecycle
begin

text \<open>
  The properties of the MeasurementDevice reconciler: what \<open>Ready\<close> means, what the release of
  the finalizer means, which files a run may change, that devices do not interfere, the life of
  the generator job, and that no file of a device outlives it.
\<close>

section \<open>The files of a device\<close>

lemma rel_path_key:
  assumes "plain_rel p"
  shows "volume_key root p = (fst (path_norm root), snd (path_norm root) @ rel_comps p)"
  using path_norm_Join [of "[p]" root] assms by (simp add: volume_key_def VolumeFileStore_Resolve_def)

lemma plain_rel_file:
  assumes "plain_rel d" and "d \<noteq> []" and "plain_name n"
  shows "plain_rel (d @ ''/'' @ n)" "rel_comps (d @ ''/'' @ n) = rel_comps d @ [n]"
  using assms by (auto simp: plain_rel_def rel_comps_def strings_Split_append is_rooted_append
      plain_name_def strings_Split_plain)

lemma device_keys:
  assumes "CHR ''/'' \<notin> set uid"
  shows "volume_key root (GeneratorFile uid) =
      (fst (path_norm root), snd (path_norm root) @ [''snmp'', ''generators'', ''generator-'' @ uid @ ''.yaml''])"
    and "volume_key root (SnmpFile uid) =
      (fst (path_norm root), snd (path_norm root) @ [''snmp'', ''yml'', ''snmp-'' @ uid @ ''.yaml''])"
    and "volume_key root SnmpMergedFile =
      (fst (path_norm root), snd (path_norm root) @ [''snmp'', ''yml'', ''snmp.yml''])"
proof -
  have d: "plain_rel ''snmp/generators''" "rel_comps ''snmp/generators'' = [''snmp'', ''generators'']"
    "plain_rel ''snmp/yml''" "rel_comps ''snmp/yml'' = [''snmp'', ''yml'']"
    by (simp_all add: plain_rel_def rel_comps_def plain_name_def is_rooted_def)
  have n: "plain_name (''generator-'' @ uid @ ''.yaml'')" "plain_name (''snmp-'' @ uid @ ''.yaml'')"
    "plain_name ''snmp.yml''"
    using assms by (auto simp: plain_name_def)
  have f: "GeneratorFile uid = ''snmp/generators'' @ ''/'' @ (''generator-'' @ uid @ ''.yaml'')"
    "SnmpFile uid = ''snmp/yml'' @ ''/'' @ (''snmp-'' @ uid @ ''.yaml'')"
    "SnmpMergedFile = ''snmp/yml'' @ ''/'' @ ''snmp.yml''"
    by (simp_all add: GeneratorFile_def SnmpFile_def SnmpMergedFile_def)
  show "volume_key root (GeneratorFile uid) =
      (fst (path_norm root), snd (path_norm root) @ [''snmp'', ''generators'', ''generator-'' @ uid @ ''.yaml''])"
    unfolding f using plain_rel_file [OF d(1) _ n(1)] d(2) by (subst rel_path_key) simp_all
  show "volume_key root (SnmpFile uid) =
      (fst (path_norm root), snd (path_norm root) @ [''snmp'', ''yml'', ''snmp-'' @ uid @ ''.yaml''])"
    unfolding f using plain_rel_file [OF d(3) _ n(2)] d(4) by (subst rel_path_key) simp_all
  show "volume_key root SnmpMergedFile =
      (fst (path_norm root), snd (path_norm root) @ [''snmp'', ''yml'', ''snmp.yml''])"
    unfolding f using plain_rel_file [OF d(3) _ n(3)] d(4) by (subst rel_path_key) simp_all
qed

lemma device_keys_distinct:
  assumes "CHR ''/'' \<notin> set uid" and "CHR ''/'' \<notin> set uid'"
  shows "volume_key root (GeneratorFile uid) \<noteq> volume_key root (SnmpFile uid')"
    and "volume_key root (GeneratorFile uid) \<noteq> volume_key root SnmpMergedFile"
    and "volume_key root (SnmpFile uid) \<noteq> volume_key root SnmpMergedFile"
    and "volume_key root (GeneratorFile uid) = volume_key root (GeneratorFile uid') \<longleftrightarrow> uid = uid'"
    and "volume_key root (SnmpFile uid) = volume_key root (SnmpFile uid') \<longleftrightarrow> uid = uid'"
  using assms by (auto simp: device_keys)

section \<open>Every step went through\<close>

lemma completes_ConsE:
  assumes "completes (st # sts) obj w = Some x"
  obtains r obj1 w1 where "st obj w = (Ret r, obj1, w1)" "step_Action r = ActionContinue"
    "completes sts obj1 w1 = Some x"
  using assms by (auto split: prod.splits go.splits if_splits)

text \<open>What a device that is ready has on the volume and in the cluster.\<close>

definition md_applied ::
    "('v, 'k, 'a) md_env_scheme \<Rightarrow> string \<Rightarrow> MeasurementDevice \<Rightarrow> 'k world \<Rightarrow> MeasurementDevice \<Rightarrow> 'k world \<Rightarrow> bool" where
  "md_applied E root m w m' w' \<longleftrightarrow>
     (\<exists>desired job config s merged.
        desiredGeneratorConfig E m (w_k w) = Ret (Inr desired)
      \<and> getOwnedJobs E m (w_k w) = Inr [job]
      \<and> jobGeneration job = meta_Generation (md_Meta m) \<and> isJobSuccessful job
      \<and> file_at root (GeneratorFile (md_UID m)) w' = Some desired
      \<and> file_at root (SnmpFile (md_UID m)) w' = Some config
      \<and> mstat_ConfigHash (md_Status m') = snmp_Hash config
      \<and> fs_files s = fmupd (volume_key root (GeneratorFile (md_UID m))) desired (fs_files (w_fs w))
      \<and> merge_of E root s merged
      \<and> fs_files (w_fs w') = fmupd (volume_key root SnmpMergedFile) merged (fs_files s)
      \<and> exporter_rolled E merged (w_k w) (w_k w'))"

lemma front_completes:
  assumes libs: "md_libs E rio root"
    and comp: "completes [md_reconcileDeletion E, md_ensureFinalizerIsSet E, reconcileGeneratorFile E,
      reconcileSNMPGeneratorJob E] m w = Some (m4, w4)"
  obtains desired job msg msg' where "meta_DeletionTimestamp (md_Meta m) = None"
    "SNMPUpdateFinalizer \<in> set (meta_Finalizers (md_Meta m))"
    "desiredGeneratorConfig E m (w_k w) = Ret (Inr desired)" "getOwnedJobs E m (w_k w) = Inr [job]"
    "jobGeneration job = meta_Generation (md_Meta m)" "isJobSuccessful job"
    "fs_files (w_fs w4) = fmupd (volume_key root (GeneratorFile (md_UID m))) desired (fs_files (w_fs w))"
    "w_k w4 = w_k w"
    "m4 = set_md E ConditionGenerated ConditionUnknown ReasonGenerationPending msg'
       (set_md E ConditionGenerated ConditionTrue ReasonReconciled msg m)"
proof -
  from comp obtain r1 a1 w1 where s1: "md_reconcileDeletion E m w = (Ret r1, a1, w1)"
    "step_Action r1 = ActionContinue" and c1: "completes [md_ensureFinalizerIsSet E, reconcileGeneratorFile E,
      reconcileSNMPGeneratorJob E] a1 w1 = Some (m4, w4)" by (rule completes_ConsE)
  from s1 have del: "meta_DeletionTimestamp (md_Meta m) = None" "a1 = m" "w1 = w"
    by (auto elim!: deletion_step_cases [OF libs])
  from c1 obtain r2 a2 w2 where s2: "md_ensureFinalizerIsSet E a1 w1 = (Ret r2, a2, w2)"
    "step_Action r2 = ActionContinue" and c2: "completes [reconcileGeneratorFile E, reconcileSNMPGeneratorJob E]
      a2 w2 = Some (m4, w4)" by (rule completes_ConsE)
  from s2 del have fin: "SNMPUpdateFinalizer \<in> set (meta_Finalizers (md_Meta m))" "a2 = m" "w2 = w"
    by (auto elim!: ensureFinalizer_cases [OF md_libs_lib [OF libs]])
  from c2 obtain r3 a3 w3 where s3: "reconcileGeneratorFile E a2 w2 = (Ret r3, a3, w3)"
    "step_Action r3 = ActionContinue" and c3: "completes [reconcileSNMPGeneratorJob E] a3 w3 = Some (m4, w4)"
    by (rule completes_ConsE)
  from s3 fin obtain desired msg where g: "a3 = set_md E ConditionGenerated ConditionTrue ReasonReconciled msg m"
    "desiredGeneratorConfig E m (w_k w) = Ret (Inr desired)" "w_k w3 = w_k w"
    "fs_files (w_fs w3) = fmupd (volume_key root (GeneratorFile (md_UID m))) desired (fs_files (w_fs w))"
    by (auto elim!: generator_step_cases [OF libs])
  from c3 obtain r4 where s4: "reconcileSNMPGeneratorJob E a3 w3 = (Ret r4, m4, w4)" "step_Action r4 = ActionContinue"
    by (rule completes_ConsE) simp
  have "getOwnedJobs E a3 k = getOwnedJobs E m k" for k unfolding getOwnedJobs_def g set_md_simps ..
  with s4 g show thesis
    by (auto elim!: job_step_cases intro!: that [OF del(1) fin(1)])
qed

lemma back_completes:
  assumes libs: "md_libs E rio root"
    and comp: "completes [reconcileSNMPFileContent E, reconcileMergedSNMPFile E, reconcileExporterReload E] m w =
      Some (m7, w7)"
  obtains config merged s where "file_at root (SnmpFile (md_UID m)) w = Some config"
    "mstat_ConfigHash (md_Status m7) = snmp_Hash config" "fs_files s = fs_files (w_fs w)" "merge_of E root s merged"
    "fs_files (w_fs w7) = fmupd (volume_key root SnmpMergedFile) merged (fs_files (w_fs w))"
    "exporter_rolled E merged (w_k w) (w_k w7)" "cond_is (md_GetConditions m7) ConditionGenerated ConditionTrue"
    "cond_is (md_GetConditions m7) ConditionApplied ConditionTrue"
proof -
  from comp obtain r5 a5 w5 where s5: "reconcileSNMPFileContent E m w = (Ret r5, a5, w5)"
    "step_Action r5 = ActionContinue" and c5: "completes [reconcileMergedSNMPFile E, reconcileExporterReload E] a5 w5 =
      Some (m7, w7)" by (rule completes_ConsE)
  from s5 obtain config m5 msg5 where g5: "file_at root (SnmpFile (md_UID m)) w = Some config"
    "a5 = set_md E ConditionGenerated ConditionTrue ReasonReconciled msg5 m5"
    "mstat_ConfigHash (md_Status a5) = hex_EncodeToString (sha256_Sum256 config)"
    "fs_files (w_fs w5) = fs_files (w_fs w)" "w_k w5 = w_k w"
    by (auto elim!: content_step_cases [OF libs])
  from c5 obtain r6 a6 w6 where s6: "reconcileMergedSNMPFile E a5 w5 = (Ret r6, a6, w6)"
    "step_Action r6 = ActionContinue" and c6: "completes [reconcileExporterReload E] a6 w6 = Some (m7, w7)"
    by (rule completes_ConsE)
  from s6 obtain merged msg6 where g6: "a6 = set_md E ConditionApplied ConditionUnknown ReasonReconciling msg6 a5"
    "merge_of E root (w_fs w5) merged" "w_k w6 = w_k w5"
    "fs_files (w_fs w6) = fmupd (volume_key root SnmpMergedFile) merged (fs_files (w_fs w5))"
    by (auto elim!: merged_step_cases [OF libs])
  from c6 obtain r7 where s7: "reconcileExporterReload E a6 w6 = (Ret r7, m7, w7)" "step_Action r7 = ActionContinue"
    by (rule completes_ConsE) simp
  have "file_at root SnmpMergedFile w6 = Some merged" by (simp add: g6)
  with s7 obtain msg7 where g7: "m7 = set_md E ConditionApplied ConditionTrue ReasonReconciled msg7 a6"
    "fs_files (w_fs w7) = fs_files (w_fs w6)" "exporter_rolled E merged (w_k w6) (w_k w7)"
    by (auto elim!: reload_step_cases [OF libs])
  show thesis
    by (rule that [OF g5(1), of "w_fs w5" merged])
      (use g5 g6 g7 in \<open>simp_all add: snmp_Hash_def set_md_cond_is [OF md_libs_lib [OF libs]]\<close>)
qed

lemma md_completes_applied:
  assumes libs: "md_libs E rio root" and uid: "CHR ''/'' \<notin> set (md_UID m)"
    and comp: "completes (md_body E) (md_started E m) w = Some (m7, w7)"
  shows "meta_DeletionTimestamp (md_Meta m) = None" "SNMPUpdateFinalizer \<in> set (meta_Finalizers (md_Meta m))"
    "md_applied E root m w m7 w7" "cond_is (md_GetConditions m7) ConditionGenerated ConditionTrue"
    "cond_is (md_GetConditions m7) ConditionApplied ConditionTrue"
proof -
  let ?front = "[md_reconcileDeletion E, md_ensureFinalizerIsSet E, reconcileGeneratorFile E, reconcileSNMPGeneratorJob E]"
  let ?later = "[reconcileSNMPFileContent E, reconcileMergedSNMPFile E, reconcileExporterReload E]"
  have split: "md_body E = ?front @ ?later" by (simp add: md_body_def)
  from comp obtain m4 w4 where front: "completes ?front (md_started E m) w = Some (m4, w4)"
    and tail: "completes ?later m4 w4 = Some (m7, w7)"
    unfolding split completes_append by (auto split: option.splits)
  have cong: "desiredGeneratorConfig E (md_started E m) k = desiredGeneratorConfig E m k"
    "getOwnedJobs E (md_started E m) k = getOwnedJobs E m k" for k
    by (rule desiredGeneratorConfig_cong, simp_all) (simp only: getOwnedJobs_def md_started_simps)
  note ne = device_keys_distinct [OF uid uid]
  show "meta_DeletionTimestamp (md_Meta m) = None"
    "SNMPUpdateFinalizer \<in> set (meta_Finalizers (md_Meta m))" by (rule front_completes [OF libs front], simp)+
  show "cond_is (md_GetConditions m7) ConditionGenerated ConditionTrue"
    "cond_is (md_GetConditions m7) ConditionApplied ConditionTrue" by (rule back_completes [OF libs tail], assumption)+
  from libs front show "md_applied E root m w m7 w7"
  proof (rule front_completes)
    fix desired job msg msg'
    assume d: "desiredGeneratorConfig E (md_started E m) (w_k w) = Ret (Inr desired)"
      and j: "getOwnedJobs E (md_started E m) (w_k w) = Inr [job]"
      "jobGeneration job = meta_Generation (md_Meta (md_started E m))" "isJobSuccessful job"
      and f: "fs_files (w_fs w4) = fmupd (volume_key root (GeneratorFile (md_UID (md_started E m)))) desired (fs_files (w_fs w))"
      and k: "w_k w4 = w_k w" and m4: "m4 = set_md E ConditionGenerated ConditionUnknown ReasonGenerationPending msg'
         (set_md E ConditionGenerated ConditionTrue ReasonReconciled msg (md_started E m))"
    from libs tail show ?thesis
    proof (rule back_completes)
      fix config merged s
      assume "file_at root (SnmpFile (md_UID m4)) w4 = Some config" "mstat_ConfigHash (md_Status m7) = snmp_Hash config"
        "fs_files s = fs_files (w_fs w4)" "merge_of E root s merged"
        "fs_files (w_fs w7) = fmupd (volume_key root SnmpMergedFile) merged (fs_files (w_fs w4))"
        "exporter_rolled E merged (w_k w4) (w_k w7)"
      with d j f k m4 ne(1-3) ne(1-3) [symmetric] show ?thesis
        unfolding md_applied_def
        by (intro exI [of _ desired] exI [of _ job] exI [of _ config] exI [of _ s] exI [of _ merged])
          (simp add: cong)
    qed
  qed
qed

section \<open>Runs on a live and on a deleted device\<close>

abbreviation md_guarded :: "MeasurementDevice \<Rightarrow> bool" where
  "md_guarded m \<equiv> SNMPUpdateFinalizer \<in> set (meta_Finalizers (md_Meta m))"

abbreviation md_deleting :: "MeasurementDevice \<Rightarrow> bool" where
  "md_deleting m \<equiv> meta_DeletionTimestamp (md_Meta m) \<noteq> None"

definition md_rest :: "('v, 'k, 'a) md_env_scheme \<Rightarrow> 'k md_step list" where
  "md_rest E =
     [reconcileGeneratorFile E, reconcileSNMPGeneratorJob E, reconcileSNMPFileContent E,
      reconcileMergedSNMPFile E, reconcileExporterReload E, md_reconcileReady E]"

lemma md_live_run:
  assumes "kube_lib (kube E)" and "\<not> md_deleting m"
  shows "md_run E m w = (if md_guarded m then Run (md_rest E) (md_started E m) w
    else (Ret (empty_Result, None), md_finalizers (\<lambda>fs. AddFinalizer (kube E) fs SNMPUpdateFinalizer) (md_started E m), w))"
  using assms
  by (simp add: md_run_def md_steps_def md_rest_def md_started_def [symmetric] md_reconcileDeletion_def
      md_ensureFinalizerIsSet_def kube_lib.ContainsFinalizer_iff)

text \<open>The steps on a live device do not touch its metadata.\<close>

definition md_meta_kept ::
    "('v, 'k, 'a) md_env_scheme \<Rightarrow> MeasurementDevice \<times> 'k world \<Rightarrow> MeasurementDevice \<times> 'k world \<Rightarrow> bool" where
  "md_meta_kept E x y \<longleftrightarrow> (\<forall>rio root. md_libs E rio root \<longrightarrow> md_Meta (fst y) = md_Meta (fst x))"

lemma md_rest_meta:
  assumes libs: "md_libs E rio root" and mem: "step \<in> set (md_rest E)" and st: "step m w = (res, m', w')"
  shows "md_Meta m' = md_Meta m"
proof -
  consider "step = reconcileGeneratorFile E" | "step = reconcileSNMPGeneratorJob E"
    | "step = reconcileSNMPFileContent E" | "step = reconcileMergedSNMPFile E"
    | "step = reconcileExporterReload E" | "step = md_reconcileReady E"
    using mem by (auto simp: md_rest_def)
  then show ?thesis
    by cases (use st in \<open>auto elim!: generator_step_cases [OF libs] job_step_cases content_step_cases [OF libs]
        merged_step_cases [OF libs] reload_step_cases [OF libs] simp: md_reconcileReady_def\<close>)
qed

interpretation md_meta: step_frame "md_rest E" "md_meta_kept E"
  by unfold_locales (use md_rest_meta in \<open>fastforce simp: md_meta_kept_def\<close>)+

lemma md_live_finalizers:
  assumes libs: "md_libs E rio root" and "\<not> md_deleting m" and "md_run E m w = (out, m', w')"
  shows "md_guarded m'" "\<not> md_guarded m \<Longrightarrow> w' = w"
proof -
  note run = assms(3) [unfolded md_live_run [OF md_libs_lib [OF libs] assms(2)]]
  show "\<not> md_guarded m \<Longrightarrow> w' = w" using run by simp
  show "md_guarded m'"
  proof (cases "md_guarded m")
    case True
    with run have "Run (md_rest E) (md_started E m) w = (out, m', w')" by simp
    from md_meta.Run_R [OF this] libs have "md_Meta m' = md_Meta m" by (auto simp: md_meta_kept_def)
    with True show ?thesis by simp
  next
    case False
    with run md_libs_lib [OF libs] show ?thesis by (auto simp: kube_lib.set_AddFinalizer)
  qed
qed

lemma md_deletion_run:
  assumes libs: "md_libs E rio root" and del: "md_deleting m" and run: "md_run E m w = (out, m', w')"
  obtains (not_ours) "\<not> md_guarded m" "m' = md_started E m" "w' = w"
  | (failed) "md_kept E root (md_started E m, w) (m', w')" "meta_Finalizers (md_Meta m') = meta_Finalizers (md_Meta m)"
      "md_guarded m"
  | (released) jobs k s merged where "md_guarded m" "\<not> md_guarded m'"
      "getOwnedJobs E m (w_k w) = Inr jobs" "delete_jobs E jobs (w_k w) = (None, k)"
      "fs_files s = fmdrop (volume_key root (SnmpFile (md_UID m)))
         (fmdrop (volume_key root (GeneratorFile (md_UID m))) (fs_files (w_fs w)))"
      "merge_of E root s merged" "exporter_rolled E merged k (w_k w')"
      "fs_files (w_fs w') = fmupd (volume_key root SnmpMergedFile) merged (fs_files s)"
proof -
  note lib = md_libs_lib [OF libs]
  obtain res m1 w1 where st: "md_reconcileDeletion E (md_started E m) w = (res, m1, w1)" by (metis prod_cases3)
  have jobs: "getOwnedJobs E (md_started E m) k = getOwnedJobs E m k" for k
    by (simp only: getOwnedJobs_def md_started_simps)
  have gd: "md_guarded m" if "res \<noteq> Ret Stop \<or> m1 \<noteq> md_started E m \<or> w1 \<noteq> w"
    using that st del lib
    by (auto simp: md_reconcileDeletion_def kube_lib.ContainsFinalizer_iff split: if_splits)
  have out: "m' = m1" "w' = w1" if "res = Ret Stop \<or> (\<exists>e. res = Ret (Error e))"
    using run st that by (auto simp: md_run_def md_steps_def md_started_def)
  show thesis
  proof (rule deletion_step_cases [OF libs st])
    assume "meta_DeletionTimestamp (md_Meta (md_started E m)) = None"
    with del show ?thesis by simp
  next
    assume "res = Ret Stop" "SNMPUpdateFinalizer \<notin> set (meta_Finalizers (md_Meta (md_started E m)))"
      "m1 = md_started E m" "w1 = w"
    with out show ?thesis by (intro not_ours) auto
  next
    fix err assume "res = Ret (Error err)" "md_kept E root (md_started E m, w) (m1, w1)"
      "meta_Finalizers (md_Meta m1) = meta_Finalizers (md_Meta (md_started E m))"
    with out gd show ?thesis by (intro failed) (auto simp: step_result_defs)
  next
    fix js k s merged a
    assume r: "res = Ret Stop" "getOwnedJobs E (md_started E m) (w_k w) = Inr js" "delete_jobs E js (w_k w) = (None, k)"
      "fs_files s = fmdrop (volume_key root (SnmpFile (md_UID (md_started E m))))
         (fmdrop (volume_key root (GeneratorFile (md_UID (md_started E m)))) (fs_files (w_fs w)))"
      "merge_of E root s merged" "exporter_rolled E merged k (w_k w1)"
      "fs_files (w_fs w1) = fmupd (volume_key root SnmpMergedFile) merged (fs_files s)"
      "meta_Finalizers (md_Meta a) = meta_Finalizers (md_Meta (md_started E m))"
      "m1 = md_finalizers (\<lambda>fs. RemoveFinalizer (kube E) fs SNMPUpdateFinalizer) a"
    have "\<not> md_guarded m1" using r(9) by (simp add: kube_lib.set_RemoveFinalizer [OF lib])
    show ?thesis
    proof (cases "md_guarded m")
      case True
      with r out \<open>\<not> md_guarded m1\<close> show ?thesis by (intro released [of js k s merged]) (auto simp: jobs)
    next
      case False
      with gd out r(1) show ?thesis by (intro not_ours) blast+
    qed
  qed
qed

section \<open>Properties\<close>

text \<open>
  Property C2: \<open>Ready\<close> is trustworthy. When a run ends with \<open>Ready\<close> true, the device is not being
  deleted and carries the finalizer; the generator's input on the volume is the one its spec and
  secret ask for; its single job is finished and of the current generation; the hash in the
  status is the SHA-256 of the SNMP configuration on the volume; the merged file is the merge of
  all per-device files, this run's generator file included; the exporter's pods carry the hash
  of the merged file or were just patched to; and \<open>Generated\<close> and \<open>Applied\<close> are true.
\<close>

theorem md_ready_means_applied:
  assumes "md_libs E rio root" and "CHR ''/'' \<notin> set (md_UID m)" and "md_run E m w = (out, m', w')"
    and "cond_is (md_GetConditions m') ConditionReady ConditionTrue"
  shows "meta_DeletionTimestamp (md_Meta m) = None \<and> SNMPUpdateFinalizer \<in> set (meta_Finalizers (md_Meta m))
    \<and> md_applied E root m w m' w' \<and> cond_is (md_GetConditions m') ConditionGenerated ConditionTrue
    \<and> cond_is (md_GetConditions m') ConditionApplied ConditionTrue"
proof -
  from md_ready_iff_completes [OF assms(1,3)] assms(4) obtain m1 where
    c: "completes (md_body E) (md_started E m) w = Some (m1, w')"
    and m': "m' = set_md E ConditionReady ConditionTrue ReasonReconciled ''Fully reconciled and ready'' m1" by blast
  from md_completes_applied [OF assms(1,2) c] show ?thesis
    by (simp add: m' set_md_cond_is [OF md_libs_lib [OF assms(1)]] md_applied_def)
qed


text \<open>
  A run stays in its lane. Whatever the outcome, it changes no file but the
  device's generator file and SNMP file and the merged file; the spec and the metadata apart
  from the finalizers are as before.
\<close>

theorem md_run_frame:
  assumes "md_libs E rio root" and "md_run E m w = (out, m', w')"
    and "key \<notin> {volume_key root (GeneratorFile (md_UID m)), volume_key root (SnmpFile (md_UID m)),
      volume_key root SnmpMergedFile}"
  shows "fmlookup (fs_files (w_fs w')) key = fmlookup (fs_files (w_fs w)) key \<and> md_Spec m' = md_Spec m
    \<and> (md_Meta m')\<lparr>meta_Finalizers := []\<rparr> = (md_Meta m)\<lparr>meta_Finalizers := []\<rparr>"
  using md_run_kept [OF assms(1,2)] assms(3) by (simp add: md_keys_def)

text \<open>
  Devices do not interfere. A run for one device leaves the generator file and the
  SNMP configuration of every other device as they are.
\<close>

theorem md_run_other_device:
  assumes "md_libs E rio root" and "CHR ''/'' \<notin> set (md_UID m)" and "CHR ''/'' \<notin> set uid" and "uid \<noteq> md_UID m"
    and "md_run E m w = (out, m', w')"
  shows "file_at root (GeneratorFile uid) w' = file_at root (GeneratorFile uid) w
    \<and> file_at root (SnmpFile uid) w' = file_at root (SnmpFile uid) w"
proof -
  note ne = device_keys_distinct [OF assms(3,2)] device_keys_distinct [OF assms(2,3)]
  have "volume_key root (GeneratorFile uid) \<notin> md_keys root m" "volume_key root (SnmpFile uid) \<notin> md_keys root m"
    using ne(1-5) ne(6) [symmetric] assms(4) by (simp_all add: md_keys_def)
  then show ?thesis using md_run_kept(3) [OF assms(1,5)] by blast
qed

lemma built_job_generation:
  "\<exists>job. BuildGeneratorJob volumeClaim uid gid m = Inr job \<and> jobGeneration job = meta_Generation (md_Meta m)"
proof -
  have "- (2 ^ 63) \<le> sint (meta_Generation (md_Meta m))" "sint (meta_Generation (md_Meta m)) < 2 ^ 63"
    using sint_ge [of "meta_Generation (md_Meta m)"] sint_lt [of "meta_Generation (md_Meta m)"] by simp_all
  then have "strconv_ParseInt (strconv_Itoa (sint (meta_Generation (md_Meta m)))) = (sint (meta_Generation (md_Meta m)), None)"
    by (intro strconv_ParseInt_Itoa) simp_all
  then show ?thesis
    by (simp add: BuildGeneratorJob_def GetChanticoVolume_def jobGeneration_def map_get_def Let_def)
qed

text \<open>
  The generation survives the job. The annotation \<open>BuildGeneratorJob\<close> puts on the job
  is read back by \<open>jobGeneration\<close> as the device's generation, for every 64-bit value, so the
  reconciler recognises the jobs it created.
\<close>

theorem job_generation_roundtrip:
  "\<exists>job. BuildGeneratorJob volumeClaim uid gid m = Inr job \<and> jobGeneration job = meta_Generation (md_Meta m)"
  by (rule built_job_generation)

text \<open>
  Property C27: the job step, on every branch. It goes on exactly when the device owns one job, of the
  current generation and complete; it creates a job exactly when the device owns none, deletes
  one exactly when it is the only one and of another generation, and does nothing else to the
  cluster or the volume.
\<close>

theorem job_step_exact:
  assumes "reconcileSNMPGeneratorJob E m w = (res, m', w')"
  shows "(res = Ret Continue \<longleftrightarrow> (\<exists>job. getOwnedJobs E m (w_k w) = Inr [job]
        \<and> jobGeneration job = meta_Generation (md_Meta m) \<and> isJobSuccessful job))
    \<and> w' = (case getOwnedJobs E m (w_k w) of
        Inr [] \<Rightarrow>
          (case BuildGeneratorJob (VolumeClaim E) (os_Getuid E) (os_Getgid E) m of
             Inl _ \<Rightarrow> w
           | Inr job \<Rightarrow> (case SetControllerReference E m job of
               Inl _ \<Rightarrow> w | Inr job' \<Rightarrow> with_k w (snd (Create_Job E job' (w_k w)))))
      | Inr [job] \<Rightarrow>
          (if jobGeneration job = meta_Generation (md_Meta m) then w else with_k w (snd (Delete_Job E job (w_k w))))
      | _ \<Rightarrow> w)"
proof (cases "getOwnedJobs E m (w_k w)")
  case (Inl e)
  with assms show ?thesis by (auto simp: reconcileSNMPGeneratorJob_def md_fail_def step_result_defs)
next
  case (Inr jobs)
  consider "jobs = []" | job where "jobs = [job]" | x y js where "jobs = x # y # js"
    by (cases jobs; cases "tl jobs") auto
  then show ?thesis
  proof cases
    case 1
    have st: "createGeneratorJob E m w = (res, m', w')" using assms Inr 1 by (simp add: reconcileSNMPGeneratorJob_def)
    obtain job where "BuildGeneratorJob (VolumeClaim E) (os_Getuid E) (os_Getgid E) m = Inr job"
      by (simp add: BuildGeneratorJob_def GetChanticoVolume_def Let_def)
    with st Inr 1 show ?thesis
      by (cases "SetControllerReference E m job")
        (auto simp: createGeneratorJob_def md_fail_def step_result_defs split: prod.splits option.splits)
  next
    case 2
    have "evaluateGeneratorJob E job m w = (res, m', w')" using assms Inr 2 by (simp add: reconcileSNMPGeneratorJob_def)
    with Inr 2 show ?thesis
      by (cases "jobGeneration job = meta_Generation (md_Meta m)")
        (auto simp: evaluateGeneratorJob_def md_fail_def step_result_defs split: prod.splits if_splits)
  next
    case 3
    with Inr assms show ?thesis by (auto simp: reconcileSNMPGeneratorJob_def md_fail_def step_result_defs)
  qed
qed

section \<open>A finished job is not run again\<close>

text \<open>After the job step: the SNMP file stays and the cluster changes by patches of deployments only.\<close>

definition deployments_patched :: "('v, 'k, 'a) md_env_scheme \<Rightarrow> 'k \<Rightarrow> 'k \<Rightarrow> bool" where
  "deployments_patched E = (\<lambda>k k'. \<exists>d d'. k' = snd (Patch_Deployment E d d' k))\<^sup>*\<^sup>*"

definition config_kept ::
    "('v, 'k, 'a) md_env_scheme \<Rightarrow> MeasurementDevice \<times> 'k world \<Rightarrow> MeasurementDevice \<times> 'k world \<Rightarrow> bool" where
  "config_kept E x y \<longleftrightarrow> (\<forall>rio root uid. md_libs E rio root \<longrightarrow> CHR ''/'' \<notin> set uid \<longrightarrow>
     file_at root (SnmpFile uid) (snd y) = file_at root (SnmpFile uid) (snd x)
     \<and> deployments_patched E (w_k (snd x)) (w_k (snd y)))"

definition md_later :: "('v, 'k, 'a) md_env_scheme \<Rightarrow> 'k md_step list" where
  "md_later E =
     [reconcileSNMPFileContent E, reconcileMergedSNMPFile E, reconcileExporterReload E, md_reconcileReady E]"

lemma deployments_patched_refl [simp]: "deployments_patched E k k"
  by (simp add: deployments_patched_def)

lemma reload_step_patched:
  assumes "reconcileExporterReload E m w = (res, m', w')"
  shows "deployments_patched E (w_k w) (w_k w')"
proof -
  have one: "deployments_patched E k (snd (Patch_Deployment E d d' k))" for d d' k
    unfolding deployments_patched_def by (rule r_into_rtranclp) blast
  then have "deployments_patched E k k'" if "Patch_Deployment E d d' k = (e, k')" for d d' k e k'
    using one [of k d d'] that by simp
  with assms show ?thesis
    by (auto simp: reconcileExporterReload_def md_fail_def Let_def
        split: prod.splits sum.splits option.splits if_splits)
qed

lemma md_later_kept:
  assumes libs: "md_libs E rio root" and uid: "CHR ''/'' \<notin> set uid"
    and mem: "step \<in> set (md_later E)" and st: "step m w = (res, m', w')"
  shows "file_at root (SnmpFile uid) w' = file_at root (SnmpFile uid) w \<and> deployments_patched E (w_k w) (w_k w')"
proof -
  consider "step = reconcileSNMPFileContent E" | "step = reconcileMergedSNMPFile E"
    | "step = reconcileExporterReload E" | "step = md_reconcileReady E"
    using mem by (auto simp: md_later_def)
  then show ?thesis
  proof cases
    case 3
    with st have "reconcileExporterReload E m w = (res, m', w')" by simp
    with reload_step_patched [OF this] show ?thesis by (auto elim!: reload_step_cases [OF libs])
  qed (use st device_keys_distinct(3) [OF uid uid, of root] in
      \<open>auto elim!: content_step_cases [OF libs] merged_step_cases [OF libs] simp: md_reconcileReady_def eq_commute\<close>)
qed

interpretation md_later: step_frame "md_later E" "config_kept E"
proof unfold_locales
  show "config_kept E x x" for x by (simp add: config_kept_def)
  show "config_kept E x y \<Longrightarrow> config_kept E y z \<Longrightarrow> config_kept E x z" for x y z
    unfolding config_kept_def deployments_patched_def by (simp, blast intro: rtranclp_trans)
  show "step \<in> set (md_later E) \<Longrightarrow> step obj w = (res, obj', w') \<Longrightarrow> config_kept E (obj, w) (obj', w')"
    for step obj w res obj' w'
    using md_later_kept [of E _ _ _ step obj w res obj' w'] by (auto simp: config_kept_def)
qed

text \<open>
  Property C28: a finished job of the current generation is never run again. As long as it is the
  device's only job, a run on a live device changes neither the SNMP configuration of the
  device nor anything in the cluster but deployments, also when it has just rewritten the
  generator's input because the credentials in the secret changed: that change reaches the
  exporter only with the next change of the spec.
\<close>

theorem md_finished_job_not_rerun:
  assumes libs: "md_libs E rio root" and uid: "CHR ''/'' \<notin> set (md_UID m)"
    and live: "meta_DeletionTimestamp (md_Meta m) = None"
    and job: "getOwnedJobs E m (w_k w) = Inr [job]" "jobGeneration job = meta_Generation (md_Meta m)" "isJobSuccessful job"
    and run: "md_run E m w = (out, m', w')"
  shows "file_at root (SnmpFile (md_UID m)) w' = file_at root (SnmpFile (md_UID m)) w
    \<and> deployments_patched E (w_k w) (w_k w')"
proof (cases "md_guarded m")
  case False
  with run live show ?thesis by (simp add: md_live_run [OF md_libs_lib [OF libs]])
next
  case True
  have run': "Run (reconcileGeneratorFile E # reconcileSNMPGeneratorJob E # md_later E) (md_started E m) w = (out, m', w')"
    using run live True by (simp add: md_live_run [OF md_libs_lib [OF libs]] md_rest_def md_later_def)
  obtain r1 m1 w1 where g: "reconcileGeneratorFile E (md_started E m) w = (r1, m1, w1)" by (metis prod_cases3)
  have w1: "w_k w1 = w_k w" "file_at root (SnmpFile (md_UID m)) w1 = file_at root (SnmpFile (md_UID m)) w"
    "md_Meta m1 = md_Meta m"
    using g device_keys_distinct(1) [OF uid uid] by (auto elim!: generator_step_cases [OF libs])
  have "getOwnedJobs E m1 (w_k w1) = Inr [job]"
    using job(1) unfolding getOwnedJobs_def w1 .
  then obtain m2 where j: "reconcileSNMPGeneratorJob E m1 w1 = (Ret Continue, m2, w1)"
    using job(2,3) w1(3) by (simp add: reconcileSNMPGeneratorJob_def evaluateGeneratorJob_def)
  from run' g have "w' = w1 \<or> Run (md_later E) m2 w1 = (out, m', w')"
    by (auto simp: j split: go.splits Action.splits)
  then have "w' = w1 \<or> config_kept E (m2, w1) (m', w')"
    using md_later.Run_R by blast
  with w1 libs uid show ?thesis by (auto simp: config_kept_def)
qed

section \<open>No file outlives its device\<close>

definition md_life ::
    "('v, 'k, 'a) md_env_scheme \<Rightarrow> renameio \<Rightarrow> string \<Rightarrow> string \<Rightarrow> (MeasurementDevice, 'k world) life" where
  "md_life E rio root uid =
     \<lparr>life_meta = md_Meta,
      life_set_finalizers = (\<lambda>fs m. m\<lparr>md_Meta := (md_Meta m)\<lparr>meta_Finalizers := fs\<rparr>\<rparr>),
      life_named = (\<lambda>m. md_UID m = uid), life_finalizer = SNMPUpdateFinalizer,
      life_run = (\<lambda>m w. snd (md_run E m w)),
      life_owned = (\<lambda>w. md_libs E rio root \<and> CHR ''/'' \<notin> set uid \<and>
        (file_at root (GeneratorFile uid) w \<noteq> None \<or> file_at root (SnmpFile uid) w \<noteq> None))\<rparr>"

lemma md_run_guarded:
  assumes libs: "md_libs E rio root" and uid: "CHR ''/'' \<notin> set (md_UID m)" and run: "md_run E m w = (out, m', w')"
    and own: "file_at root (GeneratorFile (md_UID m)) w \<noteq> None \<or> file_at root (SnmpFile (md_UID m)) w \<noteq> None
      \<Longrightarrow> md_guarded m"
    and own': "file_at root (GeneratorFile (md_UID m)) w' \<noteq> None \<or> file_at root (SnmpFile (md_UID m)) w' \<noteq> None"
  shows "md_guarded m \<and> md_guarded m'"
proof (cases "md_deleting m")
  case True
  from libs True run show ?thesis
    by (cases rule: md_deletion_run)
      (use own own' device_keys_distinct(1-3) [OF uid uid] device_keys_distinct(1-3) [OF uid uid, symmetric] in auto)
next
  case False
  with md_live_finalizers [OF libs _ run] own own' show ?thesis by blast
qed

interpretation md_life: life_cycle "md_life E rio root uid"
proof unfold_locales
  fix d w d' w'
  let ?L = "md_life E rio root uid"
  assume a: "life_named ?L d" "life_run ?L d w = (d', w')" "life_owned ?L w \<Longrightarrow> life_guarded ?L d" "life_owned ?L w'"
  from a(2) obtain out where "md_run E d w = (out, d', w')" by (cases "md_run E d w") (auto simp: md_life_def)
  with a(1,3,4) show "life_guarded ?L d \<and> life_guarded ?L d'"
    using md_run_guarded [of E rio root d w out d' w'] by (auto simp: md_life_def)
qed (simp_all add: md_life_def)


end
