(* ===== verification/Store_Live.thy ===== *)
theory Store_Live
  imports File_Store
begin

text \<open>
  When the operations of the volume store succeed: on a volume without faults a file that is there is
  read, one that is not is reported missing, and a file whose path is free of obstacles can be
  written. The locale \<open>renameio_live\<close> adds to the contract of the atomic write that it works when nothing is
  in its way.
\<close>

definition faultless :: "osfs \<Rightarrow> bool" where
  "faultless s \<longleftrightarrow> fs_fault s = (\<lambda>_. None)"

lemma faultless_tick [simp]: "faultless (os_tick s) = faultless s"
  by (simp add: faultless_def)

lemma faultless_next: "faultless s \<Longrightarrow> next_fault s = None"
  by (simp add: faultless_def next_fault_def)

lemma faultless_read:
  assumes "faultless s" and "fmlookup (fs_files s) (volume_key root p) = Some b"
  shows "VolumeFileStore_ReadAll root p s = (Inr b, os_tick (os_tick s))"
  using assms faultless_next [of s] faultless_next [of "os_tick s"]
  by (simp add: VolumeFileStore_ReadAll_ReadFile os_ReadFile_def os_Open_def io_ReadAll_def
      is_file_def volume_key_def fmdomI)

section \<open>Paths with nothing in the way\<close>

definition path_free :: "fpath \<Rightarrow> osfs \<Rightarrow> bool" where
  "path_free fp s \<longleftrightarrow> \<not> is_dir s fp \<and> \<not> strict_prefix_file s fp"

lemma path_free_tick [simp]: "path_free fp (os_tick s) = path_free fp s"
  by (simp add: path_free_def strict_prefix_file_def)

lemma faultless_read_missing:
  assumes "faultless s" and "fmlookup (fs_files s) (volume_key root p) = None" and "path_free (volume_key root p) s"
  shows "\<exists>e. VolumeFileStore_ReadAll root p s = (Inl e, os_tick s) \<and> errors_Is_NotExist e"
  using assms faultless_next [of s]
  by (auto simp: VolumeFileStore_ReadAll_ReadFile os_ReadFile_def os_Open_def is_file_def volume_key_def
      path_free_def missing_error_def fmlookup_dom_iff)

lemma Dir_of_Clean:
  assumes "length (snd (path_norm x)) \<ge> 2"
  shows "path_norm (filepath_Dir (filepath_Clean x)) = parent (path_norm x)"
proof -
  obtain r cs c where fp: "path_norm x = (r, cs @ [c])"
    using assms by (cases "path_norm x"; cases "snd (path_norm x)" rule: rev_cases) auto
  with assms have "cs \<noteq> []" by auto
  with fp show ?thesis
    using path_norm_Dir [of r cs c] wf_path_norm [of x] by (simp add: filepath_Clean_def parent_def)
qed

lemma Join_is_Clean:
  assumes "snd (path_norm (filepath_Join es)) \<noteq> []"
  shows "\<exists>x. filepath_Join es = filepath_Clean x"
  using assms by (auto simp: filepath_Join_def Let_def)

lemma volume_key_Dir:
  assumes "length (snd (volume_key root p)) \<ge> 2"
  shows "path_norm (filepath_Dir (VolumeFileStore_Resolve root [p])) = parent (volume_key root p)"
proof -
  have "snd (path_norm (filepath_Join [root, p])) \<noteq> []"
    using assms by (auto simp: volume_key_def VolumeFileStore_Resolve_def)
  then obtain x where x: "filepath_Join [root, p] = filepath_Clean x" using Join_is_Clean by blast
  with Dir_of_Clean [of x] assms show ?thesis
    by (simp add: volume_key_def VolumeFileStore_Resolve_def)
qed

section \<open>Writes that succeed\<close>

locale renameio_live = renameio_api +
  assumes rio_succeeds: "next_fault s = None \<Longrightarrow> \<not> is_dir s (path_norm p) \<Longrightarrow> is_dir s (parent (path_norm p)) \<Longrightarrow>
    fst (rio p b s) = None"

interpretation rio_ref_live: renameio_live rio_reference
  by unfold_locales (simp add: rio_reference_def Let_def)

text \<open>What a successful write leaves: the file, the directories above it, nothing else.\<close>

definition written :: "fpath \<Rightarrow> bytes \<Rightarrow> osfs \<Rightarrow> osfs \<Rightarrow> bool" where
  "written fp b s s' \<longleftrightarrow>
     fs_files s' = fmupd fp b (fs_files s) \<and> faultless s'
   \<and> (\<forall>q. is_dir s' q \<longleftrightarrow> is_dir s q \<or> q \<in> set (prefixes (parent fp)))"

lemma path_norm_dot: "path_norm ''.'' = (False, [])"
  by (simp add: path_norm_def path_push_def is_rooted_def)

lemma prefixes_shorter: "x \<in> set (prefixes q) \<Longrightarrow> length (snd x) \<le> length (snd q)"
  by (auto simp: in_prefixes)

lemma parent_shorter: "length (snd fp) \<le> length (snd (parent fp)) \<longleftrightarrow> snd fp = []"
  by (cases "snd fp" rule: rev_cases) (simp_all add: parent_def)

lemma vfs_write_succeeds:
  assumes "renameio_live rio" and "faultless s" and "path_free (volume_key root p) s"
    and "length (snd (volume_key root p)) \<ge> 2"
  shows "\<exists>s'. VolumeFileStore_Write rio root p b s = (None, s') \<and> written (volume_key root p) b s s'"
proof -
  let ?fp = "volume_key root p" and ?path = "VolumeFileStore_Resolve root [p]"
  let ?s1 = "make_dirs (prefixes (parent ?fp)) (os_tick s)"
  have api: "renameio_api rio" using assms(1) by (simp add: renameio_live_def)
  have dir: "path_norm (filepath_Dir ?path) = parent ?fp" using volume_key_Dir [OF assms(4)] .
  have key: "path_norm ?path = ?fp" by (simp add: volume_key_def)
  have ne: "snd (parent ?fp) \<noteq> []" using assms(4) by (cases "snd ?fp" rule: rev_cases) (auto simp: parent_def)
  then have "filepath_Dir ?path \<noteq> ''.''" using dir
    by (metis (no_types) path_norm_dot snd_conv)
  moreover have "os_MkdirAll (filepath_Dir ?path) s = (None, ?s1)"
    using assms(2,3) faultless_next [of s]
    by (simp add: os_MkdirAll_def dir path_free_def strict_prefix_file_def Let_def)
  moreover have s1: "faultless ?s1" "\<not> is_dir ?s1 ?fp" "is_dir ?s1 (parent ?fp)"
    using assms(2,3) ne prefixes_self [of "parent ?fp"] prefixes_shorter [of ?fp "parent ?fp"] parent_shorter [of ?fp]
    by (auto simp: faultless_def path_free_def is_dir_def [of s])
  moreover obtain s' where "rio ?path b ?s1 = (None, s')"
    using renameio_live.rio_succeeds [OF assms(1), of ?s1 ?path b] s1 faultless_next [of ?s1] key
    by (cases "rio ?path b ?s1") auto
  moreover from this have "fs_files s' = fmupd ?fp b (fs_files s)" "fs_dirs s' = fs_dirs ?s1" "fs_fault s' = fs_fault ?s1"
    using renameio_api.rio_ok [OF api] renameio_api.rio_frame [OF api] key by fastforce+
  ultimately show ?thesis
    by (auto simp: VolumeFileStore_Write_def Let_def written_def faultless_def is_dir_def [of s'] is_dir_def [of s]
        is_dir_def [of ?s1, symmetric] make_dirs_def fset_of_list_elem)
qed

text \<open>Writing one file leaves the way to another of the same depth free.\<close>

lemma written_path_free:
  assumes "written fp b s s'" and "path_free q s" and "length (snd q) = length (snd fp)" and "snd q \<noteq> []"
  shows "path_free q s'"
proof -
  have deep: "length (snd x) < length (snd q)" if "x \<in> set (prefixes (parent fp)) \<or> x \<in> set (prefixes (parent q))" for x
    using that assms(3,4) by (auto simp: in_prefixes parent_def)
  then have "q \<notin> set (prefixes (parent fp))" "fp \<notin> set (prefixes (parent q))" using assms(3) by (metis less_irrefl)+
  with assms(1,2) show ?thesis
    by (cases q) (auto simp: path_free_def written_def strict_prefix_file_def list_ex_iff is_file_def)
qed

lemma written_read: "written fp b s s' \<Longrightarrow> fmlookup (fs_files s') fp = Some b"
  by (simp add: written_def)

end
