(* ===== verification/Merge_Live.thy ===== *)
theory Merge_Live
  imports Md_Props Store_Live
begin

text \<open>
  When the merged SNMP configuration can be computed: on a volume without faults whose device files are
  valid YAML, walking the SNMP directory, reading its files and merging them succeeds. The names the walk
  returns, made relative by \<open>filepath.Rel\<close>, lead back to the files they were made from.
\<close>

section \<open>Only the clock moved\<close>

definition ticked :: "osfs \<Rightarrow> osfs \<Rightarrow> bool" where
  "ticked s s' \<longleftrightarrow> fs_files s' = fs_files s \<and> fs_dirs s' = fs_dirs s \<and> fs_fault s' = fs_fault s"

lemma ticked_refl [simp]: "ticked s s"
  by (simp add: ticked_def)

lemma ticked_tick [simp]: "ticked s (os_tick t) = ticked s t"
  by (simp add: ticked_def os_tick_def)

lemma ticked_trans: "ticked s t \<Longrightarrow> ticked t u \<Longrightarrow> ticked s u"
  by (simp add: ticked_def)

lemma ticked_faultless: "ticked s t \<Longrightarrow> faultless t = faultless s"
  by (simp add: ticked_def faultless_def)

lemma ticked_path_free: "ticked s t \<Longrightarrow> path_free q t = path_free q s"
  by (simp add: ticked_def path_free_def is_dir_def strict_prefix_file_def is_file_def list_ex_iff)

section \<open>Relative names\<close>

lemma drop_common_append: "drop_common bs (bs @ cs) = ([], cs)"
  by (induction bs) (cases cs, simp_all)

lemma wf_fpath_append_plain: "wf_fpath (r, bs) \<Longrightarrow> list_all plain_name cs \<Longrightarrow> wf_fpath (r, bs @ cs)"
  by (induction cs rule: rev_induct)
    (auto simp: wf_fpath_def plain_name_def wf_comp_def append_assoc [symmetric] simp del: append_assoc)

lemma Rel_under:
  assumes "list_all plain_name cs"
  shows "filepath_Rel root (path_text (fst (path_norm root), snd (path_norm root) @ cs)) = Some (path_text (False, cs))"
proof -
  have "wf_fpath (fst (path_norm root), snd (path_norm root) @ cs)"
    using wf_path_norm [of root] assms by (intro wf_fpath_append_plain) simp_all
  then show ?thesis
    by (simp add: filepath_Rel_def path_norm_text drop_common_append split: prod.splits)
qed

lemma plain_rel_text:
  assumes "list_all plain_name cs" and "cs \<noteq> []"
  shows "plain_rel (path_text (False, cs))" "rel_comps (path_text (False, cs)) = cs"
proof -
  have sep: "CHR ''/'' \<notin> set c" "c \<noteq> []" if "c \<in> set cs" for c using assms(1) that by (auto simp: list_all_iff plain_name_def)
  then have "strings_Split (strings_Join cs ''/'') CHR ''/'' = cs" using assms(2) by (intro strings_Split_Join) auto
  moreover have "filter (\<lambda>c. c \<noteq> []) cs = cs" using sep by (simp add: filter_id_conv)
  ultimately show comps: "rel_comps (path_text (False, cs)) = cs" using assms(2) by (simp add: rel_comps_def path_text_def)
  obtain c ds where cs: "cs = c # ds" using assms(2) by (cases cs) auto
  then obtain x c' where "c = x # c'" "x \<noteq> CHR ''/''" using sep [of c] by (cases c) auto
  then have "\<not> is_rooted (path_text (False, cs))"
    by (cases ds) (simp_all add: cs path_text_def is_rooted_def)
  with comps assms(1) show "plain_rel (path_text (False, cs))" by (simp add: plain_rel_def)
qed

lemma Join_one: "n \<noteq> [] \<Longrightarrow> filepath_Join [n] = filepath_Clean n"
  by (simp add: filepath_Join_def)

text \<open>The name of a file below the root, joined with the root again, is the file.\<close>

lemma key_of_relative:
  assumes "list_all plain_name cs" and "cs \<noteq> []"
  shows "volume_key root (filepath_Join [path_text (False, cs)]) = (fst (path_norm root), snd (path_norm root) @ cs)"
proof -
  have wf: "wf_fpath (False, cs)" using wf_fpath_append_plain [of False "[]" cs] assms(1) by (simp add: wf_fpath_def)
  have "path_text (False, cs) \<noteq> []" using plain_rel_text(2) [OF assms] assms(2) by (auto simp: rel_comps_def)
  then have "filepath_Join [path_text (False, cs)] = path_text (False, cs)"
    by (simp add: Join_one filepath_Clean_def path_norm_text [OF wf])
  then show ?thesis using rel_path_key [OF plain_rel_text(1) [OF assms]] plain_rel_text(2) [OF assms] by simp
qed

lemma relative_all_under:
  assumes "\<And>q. q \<in> set qs \<Longrightarrow> \<exists>cs. q = (fst (path_norm root), snd (path_norm root) @ cs) \<and> list_all plain_name cs"
  shows "relative_all root qs = Inr (map (\<lambda>q. path_text (False, drop (length (snd (path_norm root))) (snd q))) qs)"
  using assms
proof (induction qs)
  case (Cons q qs)
  obtain cs where "q = (fst (path_norm root), snd (path_norm root) @ cs)" "list_all plain_name cs"
    using Cons.prems [of q] by auto
  then show ?case using Cons by (simp add: Rel_under)
qed simp

section \<open>Walking and reading the SNMP directory\<close>

abbreviation parses :: "'v snmp_yaml \<Rightarrow> bytes \<Rightarrow> bool" where
  "parses Y b \<equiv> \<exists>f. yaml_Unmarshal_Merged Y b = Inr f"

definition snmp_path :: "string \<Rightarrow> string list \<Rightarrow> fpath" where
  "snmp_path root cs = (fst (path_norm root), snd (path_norm root) @ [''snmp'', ''yml''] @ cs)"

definition snmp_name :: "string list \<Rightarrow> string" where
  "snmp_name cs = path_text (False, [''snmp'', ''yml''] @ cs)"

lemma snmp_path_inject [simp]: "snmp_path root cs = snmp_path root ds \<longleftrightarrow> cs = ds"
  by (simp add: snmp_path_def)

text \<open>The files below the SNMP directory have proper names, and those of devices are blank or valid YAML.\<close>

definition configs_ok :: "'v snmp_yaml \<Rightarrow> string \<Rightarrow> osfs \<Rightarrow> bool" where
  "configs_ok Y root s \<longleftrightarrow>
     (\<forall>cs b. fmlookup (fs_files s) (snmp_path root cs) = Some b \<longrightarrow>
        cs \<noteq> [] \<and> list_all plain_name cs \<and> (device_file (snmp_name cs) \<and> \<not> blank b \<longrightarrow> parses Y b))"

lemma configs_ok_files: "fs_files t = fs_files s \<Longrightarrow> configs_ok Y root t = configs_ok Y root s"
  by (simp add: configs_ok_def)

lemma snmp_dir_key: "volume_key root SnmpSubDir = snmp_path root []"
  by (subst rel_path_key) (simp_all add: SnmpSubDir_def snmp_path_def plain_rel_def rel_comps_def plain_name_def is_rooted_def)

lemma plain_snmp: "list_all plain_name cs \<Longrightarrow> list_all plain_name ([''snmp'', ''yml''] @ cs)"
  by (simp add: plain_name_def)

definition found :: "string \<Rightarrow> osfs \<Rightarrow> string \<Rightarrow> bool" where
  "found root s n \<longleftrightarrow> (\<exists>cs b. n = snmp_name cs \<and> list_all plain_name cs \<and> fmlookup (fs_files s) (snmp_path root cs) = Some b)"

lemma merged_key_path: "volume_key root SnmpMergedFile = snmp_path root [''snmp.yml'']"
  using device_keys(3) [of "[]" root] by (simp add: snmp_path_def)

lemma snmp_dir_free:
  assumes "path_free (volume_key root SnmpMergedFile) s"
  shows "\<not> is_file s (snmp_path root [])" "\<not> strict_prefix_file s (snmp_path root [])"
proof -
  let ?d = "snmp_path root []"
  have par: "parent (snmp_path root [''snmp.yml'']) = ?d" by (simp add: parent_def snmp_path_def butlast_append)
  have nofile: "\<not> is_file s x" if "x \<in> set (prefixes ?d)" for x
    using assms that par by (auto simp: path_free_def merged_key_path strict_prefix_file_def list_ex_iff)
  have "snd ?d \<noteq> []" by (simp add: snmp_path_def)
  then show "\<not> is_file s ?d" using nofile prefixes_self [of ?d] by simp
  have "set (prefixes (parent ?d)) \<subseteq> set (prefixes ?d)"
    by (auto simp: prefixes_def parent_def snmp_path_def butlast_append take_Cons' split: if_splits)
  then show "\<not> strict_prefix_file s ?d" using nofile by (auto simp: strict_prefix_file_def list_ex_iff)
qed

lemma collect_succeeds:
  assumes "faultless s" and free: "path_free (volume_key root SnmpMergedFile) s" and ok: "configs_ok Y root s"
  shows "\<exists>r. VolumeFileStore_CollectSubFiles root SnmpSubDir s = (r, os_tick s) \<and>
    (case r of Inl e \<Rightarrow> errors_Is_NotExist e | Inr names \<Rightarrow> list_all (found root s) names)"
proof -
  let ?d = "snmp_path root []"
  have key: "path_norm (VolumeFileStore_Resolve root [SnmpSubDir]) = ?d" using snmp_dir_key by (simp add: volume_key_def)
  show ?thesis
  proof (cases "is_dir s ?d")
    case False
    then show ?thesis
      using faultless_next [OF assms(1)] snmp_dir_free [OF free]
      by (simp add: VolumeFileStore_CollectSubFiles_def key missing_error_def Let_def)
  next
    case True
    have at: "\<exists>cs b. q = snmp_path root cs \<and> list_all plain_name cs \<and> fmlookup (fs_files s) q = Some b"
      if q: "q \<in> set (files_under s ?d)" for q
    proof -
      have "fst q = fst ?d" "take (length (snd ?d)) (snd q) = snd ?d" "q |\<in>| fmdom (fs_files s)"
        using q by (auto simp: files_under_def)
      moreover from this obtain cs where "snd q = snd ?d @ cs" by (metis append_take_drop_id)
      ultimately have "q = snmp_path root cs" "\<exists>b. fmlookup (fs_files s) q = Some b"
        by (simp_all add: snmp_path_def prod_eq_iff fmlookup_dom_iff)
      then show ?thesis using ok unfolding configs_ok_def by metis
    qed
    have "relative_all root (files_under s ?d) =
        Inr (map (\<lambda>q. path_text (False, drop (length (snd (path_norm root))) (snd q))) (files_under s ?d))"
    proof (rule relative_all_under)
      fix q assume "q \<in> set (files_under s ?d)"
      then obtain cs where "q = snmp_path root cs" "list_all plain_name cs" using at by blast
      then show "\<exists>cs. q = (fst (path_norm root), snd (path_norm root) @ cs) \<and> list_all plain_name cs"
        using plain_snmp by (auto simp: snmp_path_def)
    qed
    moreover have "found root s (path_text (False, drop (length (snd (path_norm root))) (snd q)))"
      if "q \<in> set (files_under s ?d)" for q
      using at [OF that] by (force simp: found_def snmp_path_def snmp_name_def)
    ultimately show ?thesis
      using True faultless_next [OF assms(1)]
      by (simp add: VolumeFileStore_CollectSubFiles_def key Let_def list_all_iff)
  qed
qed

lemma found_read:
  assumes "found root s n" and "faultless s"
  shows "\<exists>b cs. VolumeFileStore_ReadAll root (filepath_Join [n]) s = (Inr b, os_tick (os_tick s)) \<and>
    n = snmp_name cs \<and> fmlookup (fs_files s) (snmp_path root cs) = Some b"
proof -
  obtain cs b where n: "n = snmp_name cs" "list_all plain_name cs" "fmlookup (fs_files s) (snmp_path root cs) = Some b"
    using assms(1) by (auto simp: found_def)
  have "volume_key root (filepath_Join [n]) = snmp_path root cs"
    using key_of_relative [OF plain_snmp [OF n(2)]] by (simp add: n(1) snmp_name_def snmp_path_def)
  with n show ?thesis using faultless_read [OF assms(2), of root "filepath_Join [n]" b] by auto
qed

definition all_parse :: "'v snmp_yaml \<Rightarrow> (string, bytes) fmap \<Rightarrow> bool" where
  "all_parse Y m \<longleftrightarrow> (\<forall>n b. fmlookup m n = Some b \<longrightarrow> parses Y b)"

lemma read_configs_succeeds:
  assumes "configs_ok Y root s"
  shows "ticked s t \<Longrightarrow> faultless t \<Longrightarrow> list_all (found root s) entries \<Longrightarrow> all_parse Y out \<Longrightarrow>
    \<exists>out' t'. read_configs (VolumeFileStore rio root) entries out t = (Inr out', t') \<and> ticked s t' \<and> all_parse Y out'"
proof (induction entries arbitrary: t out)
  case (Cons n entries)
  let ?F = "VolumeFileStore rio root"
  have files: "fs_files t = fs_files s" using Cons.prems(1) by (simp add: ticked_def)
  then have "found root t n" using Cons.prems(3) by (simp add: found_def)
  then obtain b cs where rd: "fsReadAll ?F (filepath_Join [n]) t = (Inr b, os_tick (os_tick t))"
    and n: "n = snmp_name cs" "fmlookup (fs_files s) (snmp_path root cs) = Some b"
    using found_read [OF _ Cons.prems(2)] files by (fastforce simp: VolumeFileStore_def)
  have "parses Y b" if "device_file n" "\<not> blank b" using assms n that by (auto simp: configs_ok_def)
  then have "all_parse Y (if blank b then out else fmupd n b out)" if "device_file n"
    using Cons.prems(4) that by (auto simp: all_parse_def)
  then show ?case
    using Cons.IH [of t out] Cons.IH [of "os_tick (os_tick t)" "if blank b then out else fmupd n b out"] Cons.prems
    by (cases "device_file n") (simp_all add: read_configs_step [OF rd] del: read_configs.simps)
qed auto

lemma merge_loop_succeeds:
  "list_all (\<lambda>raw. blank raw \<or> parses Y raw) cs \<Longrightarrow> \<exists>r. merge_loop Y i cs auths modules = Inr r"
  by (induction Y i cs auths modules rule: merge_loop.induct) (auto split: sum.splits)

lemma merge_succeeds:
  assumes "list_all (\<lambda>raw. blank raw \<or> parses Y raw) cs" and "\<And>c. \<exists>b. yaml_Marshal_Merged Y c = Inr b"
  shows "\<exists>b. merge_configs Y cs = Inr b"
proof -
  obtain auths modules where "merge_loop Y 0 cs fmempty fmempty = Inr (auths, modules)"
    using merge_loop_succeeds [OF assms(1), of 0 fmempty fmempty] by auto
  moreover obtain b where "yaml_Marshal_Merged Y \<lparr>mc_Auths = Some auths, mc_Modules = Some modules, mc_Version = 0\<rparr> = Inr b"
    using assms(2) by blast
  ultimately show ?thesis by (simp add: merge_configs_def)
qed

lemma sorted_parse:
  assumes "\<And>m. set (order m) = fset (fmdom m)" and "all_parse Y m"
  shows "list_all (\<lambda>raw. blank raw \<or> parses Y raw) (sortedConfigs order (Some m))"
  using assms by (auto simp: sortedConfigs_def all_parse_def list_all_iff fmlookup_dom_iff go_sort.sorter_set)

lemma GetMerged_succeeds:
  assumes "faultless s" and "path_free (volume_key root SnmpMergedFile) s" and ok: "configs_ok Y root s"
    and order: "\<And>m. distinct (range_files Y m) \<and> set (range_files Y m) = fset (fmdom m)"
    and marshals: "\<And>c. \<exists>b. yaml_Marshal_Merged Y c = Inr b"
  shows "\<exists>b s'. GetMergedSortedSNMPConfig Y (VolumeFileStore rio root) SnmpSubDir s = (Inr b, s') \<and> ticked s s'"
proof -
  let ?F = "VolumeFileStore rio root"
  obtain r where r: "fsCollectSubFiles ?F SnmpSubDir s = (r, os_tick s)"
    "case r of Inl e \<Rightarrow> errors_Is_NotExist e | Inr names \<Rightarrow> list_all (found root s) names"
    using collect_succeeds [OF assms(1-3)] by (auto simp: VolumeFileStore_def)
  have "\<exists>m s'. readPerDeviceSnmpConfigs ?F SnmpSubDir s = (Inr m, s') \<and> ticked s s' \<and>
      (case m of None \<Rightarrow> True | Some m' \<Rightarrow> all_parse Y m')"
  proof (cases r)
    case (Inl e)
    with r show ?thesis by (auto simp: readPerDeviceSnmpConfigs_def)
  next
    case (Inr names)
    then obtain out t where "read_configs ?F names fmempty (os_tick s) = (Inr out, t)" "ticked s t" "all_parse Y out"
      using read_configs_succeeds [OF ok, of "os_tick s" names fmempty rio] r(2) assms(1) by (auto simp: all_parse_def)
    with r(1) Inr show ?thesis by (auto simp: readPerDeviceSnmpConfigs_def)
  qed
  then obtain m s' where m: "readPerDeviceSnmpConfigs ?F SnmpSubDir s = (Inr m, s')" "ticked s s'"
    "case m of None \<Rightarrow> True | Some m' \<Rightarrow> all_parse Y m'" by blast
  have "sortedConfigs (range_files Y) None = sortedConfigs (range_files Y) (Some fmempty)" by (simp add: sortedConfigs_def)
  then have "list_all (\<lambda>raw. blank raw \<or> parses Y raw) (sortedConfigs (range_files Y) m)"
    using m(3) order sorted_parse [of "range_files Y" Y] by (cases m) (auto simp: all_parse_def)
  from merge_succeeds [OF this marshals] m(1,2) show ?thesis by (auto simp: GetMergedSortedSNMPConfig_def)
qed

end
