(* ===== verification/Md_Examples.thy ===== *)
theory Md_Examples
  imports Md_Props Store_Live
begin

text \<open>
  A device that runs through: the environment, the volume and the runs at which the properties
  of the MeasurementDevice reconciler are applied.
\<close>

section \<open>The environment\<close>

definition ex_md :: MeasurementDevice where
  "ex_md = \<lparr>md_Meta = \<lparr>meta_Name = ''dev'', meta_Namespace = ''default'', meta_UID = ''u'',
       meta_Generation = 1, meta_DeletionTimestamp = None, meta_Finalizers = [SNMPUpdateFinalizer]\<rparr>,
     md_Spec = \<lparr>mspec_Walks = [''1.3''], mspec_AuthFrom = Some \<lparr>sel_Value = [], sel_ValueFrom =
       Some \<lparr>ConfigMapKeyRef = None, SecretKeyRef = Some \<lparr>ref_Name = ''auth'', ref_Key = ''yaml''\<rparr>\<rparr>\<rparr>\<rparr>,
     md_Status = \<lparr>mstat_ObservedGeneration = 0, mstat_ConfigHash = [], mstat_Conditions = []\<rparr>\<rparr>"

definition ex_auth :: GeneratorAuth where
  "ex_auth = \<lparr>ga_Community = ''public'', ga_SecurityLevel = [], ga_Username = [], ga_Password = [],
     ga_AuthProtocol = [], ga_PrivProtocol = [], ga_PrivPassword = [], ga_ContextName = [], ga_Version = 2\<rparr>"

definition ex_job :: Job where
  "ex_job = \<lparr>job_Name = ''dev'', job_Namespace = ''default'',
     job_Annotations = Some (fmupd GenerationAnnotation ''1'' fmempty), job_OwnerUIDs = [''u''],
     job_BackoffLimit = 0,
     job_Pod = \<lparr>pod_SecurityContext = \<lparr>sc_RunAsNonRoot = True, sc_RunAsUser = 1, sc_RunAsGroup = 1,
         sc_SeccompProfile = ''RuntimeDefault''\<rparr>,
       pod_Containers = [], pod_Volumes = [], pod_RestartPolicy = ''Never''\<rparr>,
     job_Conditions = [\<lparr>jc_Type = ''Complete'', jc_Status = ConditionTrue\<rparr>]\<rparr>"

definition ex_md_env :: "(string, unit) md_env" where
  "ex_md_env = \<lparr>get_ConfigMap = (\<lambda>k ns n. Inl (ApiNotFound n)),
     get_Secret = (\<lambda>k ns n. Inr (fmupd ''yaml'' ''community: public'' fmempty)),
     parse_template = (\<lambda>t. Inr (\<lambda>ps. Inr t)), kube = klib_reference, VolumeLocation = ''/data'',
     PrometheusServiceHost = ''prometheus'', PrometheusServicePort = ''9090'',
     http_Post = (\<lambda>u fs k. (Inr 200, k)),
     md_Filestore = VolumeFileStore rio_reference ''/data'', md_yaml = ex_yaml,
     yaml_Unmarshal_Auth = (\<lambda>t. Inr ex_auth), yaml_Marshal_Generator = (\<lambda>c. Inr ''gen''),
     PodNamespace = ''chantico'', VolumeClaim = ''claim'', os_Getuid = 1, os_Getgid = 1,
     get_MD = (\<lambda>k req. (ex_md, None)), list_Jobs = (\<lambda>k ns. ([ex_job], None)),
     Delete_Job = (\<lambda>job k. (None, k)), SetControllerReference = (\<lambda>m job. Inr (job\<lparr>job_OwnerUIDs := [md_UID m]\<rparr>)),
     Create_Job = (\<lambda>job k. (None, k)),
     get_Deployment = (\<lambda>k req. Inr \<lparr>dep_Name = req_Name req, dep_TemplateAnnotations = None\<rparr>),
     Patch_Deployment = (\<lambda>d d' k. (None, k)), NewHelper_MD = (\<lambda>m. None), Patch_MD = (\<lambda>m m' k. (None, k))\<rparr>"

text \<open>The volume holds the given generator file, the device's configuration and the merged file.\<close>

definition ex_md_fs :: "bytes \<Rightarrow> osfs" where
  "ex_md_fs gen = \<lparr>fs_files = fmupd (True, [''data'', ''snmp'', ''generators'', ''generator-u.yaml'']) gen
       (fmupd (True, [''data'', ''snmp'', ''yml'', ''snmp-u.yaml'']) ''conf''
         (fmupd (True, [''data'', ''snmp'', ''yml'', ''snmp.yml'']) ''auths'' fmempty)),
     fs_dirs = {|(True, [''data'']), (True, [''data'', ''snmp'']), (True, [''data'', ''snmp'', ''generators'']),
       (True, [''data'', ''snmp'', ''yml''])|},
     fs_fault = (\<lambda>_. None), fs_clock = 0\<rparr>"

definition ex_md_world :: "bytes \<Rightarrow> unit world" where
  "ex_md_world gen = \<lparr>w_fs = ex_md_fs gen, w_k = ()\<rparr>"

lemma ex_md_libs: "md_libs ex_md_env rio_reference ''/data''"
  using ex_yaml_order
  by (simp add: md_libs_def ex_md_env_def klib_ref.kube_lib_axioms rio_ref.renameio_api_axioms)
    (simp add: ex_yaml_def)

lemma ex_md_simps [simp]:
  "md_UID ex_md = ''u''" "meta_DeletionTimestamp (md_Meta ex_md) = None" "meta_Generation (md_Meta ex_md) = 1"
  "meta_Finalizers (md_Meta ex_md) = [SNMPUpdateFinalizer]" "meta_Namespace (md_Meta ex_md) = ''default''"
  by (simp_all add: ex_md_def)

lemma ex_md_desired: "desiredGeneratorConfig ex_md_env ex_md k = Ret (Inr ''gen'')"
  by (simp add: desiredGeneratorConfig_def ex_md_def ex_md_env_def Selector_Resolve_def ValueSource_Resolve_def
      fetchFromSecret_def)

lemma parse_one: "strconv_ParseInt ''1'' = (1, None)"
proof -
  have "strconv_Itoa 1 = ''1''" by code_simp
  with strconv_ParseInt_Itoa [of 1] show ?thesis by simp
qed

lemma ex_md_job:
  "getOwnedJobs ex_md_env ex_md k = Inr [ex_job]" "jobGeneration ex_job = 1" "isJobSuccessful ex_job"
  using parse_one
  by (simp_all add: getOwnedJobs_def ex_md_env_def ex_job_def jobGeneration_def map_get_def isJobSuccessful_def)

lemma root_data: "path_norm ''/data'' = (True, [''data''])"
  by (simp add: path_norm_def is_rooted_def path_push_def)

text \<open>The names below the SNMP directory.\<close>

lemma ex_md_collect:
  assumes "faultless s" and "fs_files s = fs_files (ex_md_fs gen)" and "fs_dirs s = fs_dirs (ex_md_fs gen)"
  shows "VolumeFileStore_CollectSubFiles ''/data'' ''snmp/yml/'' s =
    (Inr [''snmp/yml/snmp-u.yaml'', ''snmp/yml/snmp.yml''], os_tick s)"
proof -
  have key: "path_norm (VolumeFileStore_Resolve ''/data'' [''snmp/yml/'']) = (True, [''data'', ''snmp'', ''yml''])"
    by code_simp
  have "files_under s (True, [''data'', ''snmp'', ''yml'']) =
      [(True, [''data'', ''snmp'', ''yml'', ''snmp-u.yaml'']), (True, [''data'', ''snmp'', ''yml'', ''snmp.yml''])]"
    unfolding files_under_def assms(2) ex_md_fs_def by simp code_simp
  moreover have "relative_all ''/data'' [(True, [''data'', ''snmp'', ''yml'', ''snmp-u.yaml'']),
      (True, [''data'', ''snmp'', ''yml'', ''snmp.yml''])] = Inr [''snmp/yml/snmp-u.yaml'', ''snmp/yml/snmp.yml'']"
    by code_simp
  moreover have "is_dir s (True, [''data'', ''snmp'', ''yml''])"
    unfolding is_dir_def assms(3) ex_md_fs_def by simp
  ultimately show ?thesis
    using assms(1) by (simp add: VolumeFileStore_CollectSubFiles_def key next_fault_def faultless_def)
qed

section \<open>A run that ends ready\<close>

definition ex_ok :: "unit world \<Rightarrow> bool" where
  "ex_ok w \<longleftrightarrow> faultless (w_fs w) \<and> fs_files (w_fs w) = fs_files (ex_md_fs ''gen'')
     \<and> fs_dirs (w_fs w) = fs_dirs (ex_md_fs ''gen'')"

lemma ex_ok_world: "ex_ok (ex_md_world ''gen'')"
  by (simp add: ex_ok_def ex_md_world_def faultless_def ex_md_fs_def)

lemma ex_ok_tick [simp]: "w_fs w = s \<Longrightarrow> ex_ok (with_fs w (os_tick s)) = ex_ok w" "ex_ok (with_k w k) = ex_ok w"
  by (auto simp: ex_ok_def with_fs_def with_k_def os_tick_def faultless_def)

lemma ex_ok_ticks: "ex_ok w \<Longrightarrow> ex_ok (with_fs w (os_tick (os_tick (w_fs w))))"
  by (auto simp: ex_ok_def with_fs_def os_tick_def faultless_def)

lemma ex_store: "md_Filestore ex_md_env = VolumeFileStore rio_reference ''/data''" "md_yaml ex_md_env = ex_yaml"
  by (simp_all add: ex_md_env_def)

lemma ex_store_ops:
  "fsReadAll (VolumeFileStore rio root) = VolumeFileStore_ReadAll root"
  "fsCollectSubFiles (VolumeFileStore rio root) = VolumeFileStore_CollectSubFiles root"
  by (simp_all add: VolumeFileStore_def)

lemma ex_keys:
  "volume_key ''/data'' (GeneratorFile ''u'') = (True, [''data'', ''snmp'', ''generators'', ''generator-u.yaml''])"
  "volume_key ''/data'' (SnmpFile ''u'') = (True, [''data'', ''snmp'', ''yml'', ''snmp-u.yaml''])"
  "volume_key ''/data'' SnmpMergedFile = (True, [''data'', ''snmp'', ''yml'', ''snmp.yml''])"
  using device_keys [of "''u''" "''/data''"] by (simp_all add: root_data)

lemma ex_read:
  assumes "ex_ok w"
  shows "VolumeFileStore_ReadAll ''/data'' (GeneratorFile ''u'') (w_fs w) = (Inr ''gen'', os_tick (os_tick (w_fs w)))"
    and "VolumeFileStore_ReadAll ''/data'' (SnmpFile ''u'') (w_fs w) = (Inr ''conf'', os_tick (os_tick (w_fs w)))"
    and "VolumeFileStore_ReadAll ''/data'' SnmpMergedFile (w_fs w) = (Inr ''auths'', os_tick (os_tick (w_fs w)))"
  using assms by (simp_all add: faultless_read ex_ok_def ex_keys ex_md_fs_def)

text \<open>Each step goes on and leaves the volume as it is.\<close>

definition ex_goes_on :: "(MeasurementDevice \<Rightarrow> unit world \<Rightarrow> StepResult go \<times> MeasurementDevice \<times> unit world) \<Rightarrow> bool" where
  "ex_goes_on step \<longleftrightarrow> (\<forall>m w. ex_ok w \<longrightarrow> md_Meta m = md_Meta ex_md \<longrightarrow> md_Spec m = md_Spec ex_md \<longrightarrow>
     (\<exists>m' w'. step m w = (Ret Continue, m', w') \<and> ex_ok w' \<and> md_Meta m' = md_Meta ex_md \<and> md_Spec m' = md_Spec ex_md))"

lemma ex_goes_onI:
  assumes "\<And>m w. ex_ok w \<Longrightarrow> md_Meta m = md_Meta ex_md \<Longrightarrow> md_Spec m = md_Spec ex_md \<Longrightarrow>
    \<exists>m' w'. step m w = (Ret Continue, m', w') \<and> ex_ok w' \<and> md_Meta m' = md_Meta m \<and> md_Spec m' = md_Spec m"
  shows "ex_goes_on step"
  unfolding ex_goes_on_def using assms by metis

lemma ex_goes_on_completes:
  "list_all ex_goes_on steps \<Longrightarrow> ex_ok w \<Longrightarrow> md_Meta m = md_Meta ex_md \<Longrightarrow> md_Spec m = md_Spec ex_md \<Longrightarrow>
   \<exists>m' w'. completes steps m w = Some (m', w')"
proof (induction steps arbitrary: m w)
  case (Cons step steps)
  then have "ex_goes_on step" by simp
  with Cons.prems obtain m1 w1 where "step m w = (Ret Continue, m1, w1)" "ex_ok w1" "md_Meta m1 = md_Meta ex_md"
    "md_Spec m1 = md_Spec ex_md" unfolding ex_goes_on_def by blast
  with Cons show ?case by simp
qed simp

lemma ex_generator_step: "ex_goes_on (reconcileGeneratorFile ex_md_env)"
proof (rule ex_goes_onI)
  fix m :: MeasurementDevice and w assume m: "ex_ok w" "md_Meta m = md_Meta ex_md" "md_Spec m = md_Spec ex_md"
  have "desiredGeneratorConfig ex_md_env m k = Ret (Inr ''gen'')" for k
    unfolding desiredGeneratorConfig_cong [OF m(3,2)] by (rule ex_md_desired)
  then have "reconcileGeneratorFile ex_md_env m w = (Ret Continue, set_md ex_md_env ConditionGenerated ConditionTrue
      ReasonReconciled ''Generator file is up to date'' m, with_fs w (os_tick (os_tick (w_fs w))))"
    using m by (simp add: reconcileGeneratorFile_def ex_store ex_store_ops ex_read Let_def)
  with ex_ok_ticks [OF m(1)] show "\<exists>m' w'. reconcileGeneratorFile ex_md_env m w = (Ret Continue, m', w') \<and> ex_ok w'
      \<and> md_Meta m' = md_Meta m \<and> md_Spec m' = md_Spec m" by simp
qed

lemma ex_job_step: "ex_goes_on (reconcileSNMPGeneratorJob ex_md_env)"
proof (rule ex_goes_onI)
  fix m :: MeasurementDevice and w assume m: "ex_ok w" "md_Meta m = md_Meta ex_md"
  have "getOwnedJobs ex_md_env m k = Inr [ex_job]" for k
    using ex_md_job(1) unfolding getOwnedJobs_def m(2) .
  with m ex_md_job(2,3) show "\<exists>m' w'. reconcileSNMPGeneratorJob ex_md_env m w = (Ret Continue, m', w') \<and> ex_ok w'
      \<and> md_Meta m' = md_Meta m \<and> md_Spec m' = md_Spec m"
    by (simp add: reconcileSNMPGeneratorJob_def evaluateGeneratorJob_def)
qed

lemma ex_content_step: "ex_goes_on (reconcileSNMPFileContent ex_md_env)"
proof (rule ex_goes_onI)
  fix m :: MeasurementDevice and w assume m: "ex_ok w" "md_Meta m = md_Meta ex_md"
  have rd: "fsReadAll (md_Filestore ex_md_env) (SnmpFile (md_UID m)) (w_fs w) = (Inr ''conf'', os_tick (os_tick (w_fs w)))"
    using m by (simp add: ex_store ex_store_ops ex_read)
  show "\<exists>m' w'. reconcileSNMPFileContent ex_md_env m w = (Ret Continue, m', w') \<and> ex_ok w'
      \<and> md_Meta m' = md_Meta m \<and> md_Spec m' = md_Spec m"
    using ex_ok_ticks [OF m(1)]
    by (cases "mstat_ConfigHash (md_Status m) = hex_EncodeToString (sha256_Sum256 ''conf'')")
      (simp_all add: reconcileSNMPFileContent_def rd Let_def)
qed

lemma ex_yaml_merges: "merge_configs ex_yaml cs = Inr ''auths''"
proof -
  have "\<exists>y. merge_loop ex_yaml i cs a b = Inr y" for i a b
    by (induction cs arbitrary: i a b) (auto simp: ex_yaml_def)
  then obtain a b where "merge_loop ex_yaml 0 cs fmempty fmempty = Inr (a, b)" by (metis surj_pair)
  then show ?thesis by (simp add: merge_configs_def map_sum_SysErr_simps) (simp add: ex_yaml_def)
qed

lemma ex_merged_step: "ex_goes_on (reconcileMergedSNMPFile ex_md_env)"
proof (rule ex_goes_onI)
  fix m :: MeasurementDevice and w assume ok: "ex_ok w"
  let ?s = "os_tick (os_tick (os_tick (w_fs w)))"
  have keys: "volume_key ''/data'' (filepath_Join [''snmp/yml/snmp-u.yaml'']) = (True, [''data'', ''snmp'', ''yml'', ''snmp-u.yaml''])"
    by code_simp
  have dev: "device_file ''snmp/yml/snmp-u.yaml''" "\<not> device_file ''snmp/yml/snmp.yml''" "\<not> blank ''conf''"
    by code_simp+
  have "VolumeFileStore_ReadAll ''/data'' (filepath_Join [''snmp/yml/snmp-u.yaml'']) (os_tick (w_fs w)) = (Inr ''conf'', ?s)"
    using ok by (intro faultless_read) (simp_all add: ex_ok_def keys ex_md_fs_def)
  then have "read_configs (VolumeFileStore rio_reference ''/data'') [''snmp/yml/snmp-u.yaml'', ''snmp/yml/snmp.yml'']
      fmempty (os_tick (w_fs w)) = (Inr (fmupd ''snmp/yml/snmp-u.yaml'' ''conf'' fmempty), ?s)"
    by (simp add: dev ex_store_ops del: filepath_Join_def)
  moreover have "VolumeFileStore_CollectSubFiles ''/data'' SnmpSubDir (w_fs w) =
      (Inr [''snmp/yml/snmp-u.yaml'', ''snmp/yml/snmp.yml''], os_tick (w_fs w))"
    unfolding SnmpSubDir_def using ok ex_md_collect [of "w_fs w" "''gen''"] by (simp add: ex_ok_def)
  ultimately have "\<exists>cs. GetMergedSortedSNMPConfig ex_yaml (VolumeFileStore rio_reference ''/data'') SnmpSubDir (w_fs w) =
      (merge_configs ex_yaml cs, ?s)"
    by (auto simp: GetMergedSortedSNMPConfig_def readPerDeviceSnmpConfigs_def ex_store_ops)
  then have "GetMergedSortedSNMPConfig ex_yaml (VolumeFileStore rio_reference ''/data'') SnmpSubDir (w_fs w) =
      (Inr ''auths'', ?s)" by (auto simp: ex_yaml_merges)
  moreover have "VolumeFileStore_ReadAll ''/data'' SnmpMergedFile ?s = (Inr ''auths'', os_tick (os_tick ?s))"
    using ok by (intro faultless_read) (simp_all add: ex_ok_def ex_keys ex_md_fs_def)
  ultimately show "\<exists>m' w'. reconcileMergedSNMPFile ex_md_env m w = (Ret Continue, m', w') \<and> ex_ok w'
      \<and> md_Meta m' = md_Meta m \<and> md_Spec m' = md_Spec m"
    using ok by (simp add: reconcileMergedSNMPFile_def ex_store ex_store_ops Let_def)
      (simp add: ex_ok_def faultless_def os_tick_def)
qed

lemma ex_exporter:
  "getSnmpExporterDeployment ex_md_env k = Inr \<lparr>dep_Name = ''chantico-snmp'', dep_TemplateAnnotations = None\<rparr>"
  "Patch_Deployment ex_md_env d d' k = (None, k)"
  by (simp_all add: getSnmpExporterDeployment_def ex_md_env_def)

lemma ex_reload:
  assumes "faultless (w_fs w)" and "fmlookup (fs_files (w_fs w)) (volume_key ''/data'' SnmpMergedFile) = Some b"
  shows "\<exists>msg. reconcileExporterReload ex_md_env m w = (Ret Continue,
    set_md ex_md_env ConditionApplied ConditionTrue ReasonReconciled msg m, with_fs w (os_tick (os_tick (w_fs w))))"
proof -
  have rd: "fsReadAll (md_Filestore ex_md_env) SnmpMergedFile (w_fs w) = (Inr b, os_tick (os_tick (w_fs w)))"
    using faultless_read [OF assms] by (simp add: ex_store ex_store_ops)
  show ?thesis
    by (cases "map_get None ConfigHashAnnotation = snmp_Hash b")
      (simp_all add: reconcileExporterReload_def rd Let_def ex_exporter with_k_def with_fs_def, blast+)
qed

lemma ex_reload_step: "ex_goes_on (reconcileExporterReload ex_md_env)"
proof (rule ex_goes_onI)
  fix m :: MeasurementDevice and w assume ok: "ex_ok w"
  then have "fmlookup (fs_files (w_fs w)) (volume_key ''/data'' SnmpMergedFile) = Some ''auths''"
    by (simp add: ex_ok_def ex_keys ex_md_fs_def)
  with ok obtain msg where "reconcileExporterReload ex_md_env m w = (Ret Continue,
      set_md ex_md_env ConditionApplied ConditionTrue ReasonReconciled msg m, with_fs w (os_tick (os_tick (w_fs w))))"
    using ex_reload [of w _ m] by (auto simp: ex_ok_def)
  with ex_ok_ticks [OF ok] show "\<exists>m' w'. reconcileExporterReload ex_md_env m w = (Ret Continue, m', w') \<and> ex_ok w'
      \<and> md_Meta m' = md_Meta m \<and> md_Spec m' = md_Spec m" by simp
qed

lemma ex_first_steps: "ex_goes_on (md_reconcileDeletion ex_md_env)" "ex_goes_on (md_ensureFinalizerIsSet ex_md_env)"
  using md_libs_lib [OF ex_md_libs]
  by (auto intro!: ex_goes_onI simp: md_reconcileDeletion_def md_ensureFinalizerIsSet_def kube_lib.ContainsFinalizer_iff)

lemma ex_md_ready:
  obtains m' w' where "md_run ex_md_env ex_md (ex_md_world ''gen'') = (Ret (empty_Result, None), m', w')"
    "cond_is (md_GetConditions m') ConditionReady ConditionTrue"
proof -
  have "list_all ex_goes_on (md_body ex_md_env)"
    by (simp add: md_body_def ex_first_steps ex_generator_step ex_job_step ex_content_step ex_merged_step ex_reload_step)
  then obtain m1 w1 where c: "completes (md_body ex_md_env) (md_started ex_md_env ex_md) (ex_md_world ''gen'') = Some (m1, w1)"
    using ex_goes_on_completes [OF _ ex_ok_world, of "md_body ex_md_env" "md_started ex_md_env ex_md"] by auto
  note cond = set_md_cond_is [OF md_libs_lib [OF ex_md_libs], where t' = ConditionReady and s' = ConditionTrue]
  show thesis
  proof (rule that)
    show "md_run ex_md_env ex_md (ex_md_world ''gen'') = (Ret (empty_Result, None),
        set_md ex_md_env ConditionReady ConditionTrue ReasonReconciled ''Fully reconciled and ready'' m1, w1)"
      by (simp add: md_run_body c)
  qed (simp only: cond simp_thms if_True)
qed

section \<open>A deletion\<close>

definition ex_md_deleting :: MeasurementDevice where
  "ex_md_deleting = ex_md\<lparr>md_Meta := (md_Meta ex_md)\<lparr>meta_DeletionTimestamp := Some 1\<rparr>\<rparr>"

lemma ex_md_deleting_simps [simp]:
  "md_UID ex_md_deleting = ''u''" "meta_DeletionTimestamp (md_Meta ex_md_deleting) = Some 1"
  "meta_Finalizers (md_Meta ex_md_deleting) = [SNMPUpdateFinalizer]" "meta_Namespace (md_Meta ex_md_deleting) = ''default''"
  by (simp_all add: ex_md_deleting_def)

lemma faultless_remove:
  assumes "faultless s" and "fmlookup (fs_files s) (volume_key root p) = Some b"
  shows "fsRemove (VolumeFileStore rio root) p s =
    (None, (os_tick s)\<lparr>fs_files := fmdrop (volume_key root p) (fs_files s)\<rparr>)"
  using assms
  by (simp add: VolumeFileStore_def VolumeFileStore_Remove_def os_Remove_def next_fault_def faultless_def Let_def
      is_file_def volume_key_def os_tick_def fmdomI)

definition ex_cleaned :: "unit world \<Rightarrow> bool" where
  "ex_cleaned w \<longleftrightarrow> faultless (w_fs w) \<and> fs_dirs (w_fs w) = fs_dirs (ex_md_fs ''gen'')
     \<and> fs_files (w_fs w) = fmupd (True, [''data'', ''snmp'', ''yml'', ''snmp.yml'']) ''auths'' fmempty"

lemma ex_cleaned_collect:
  assumes "ex_cleaned w"
  shows "VolumeFileStore_CollectSubFiles ''/data'' SnmpSubDir (w_fs w) = (Inr [''snmp/yml/snmp.yml''], os_tick (w_fs w))"
proof -
  have key: "path_norm (VolumeFileStore_Resolve ''/data'' [SnmpSubDir]) = (True, [''data'', ''snmp'', ''yml''])"
    by code_simp
  have "files_under (w_fs w) (True, [''data'', ''snmp'', ''yml'']) = [(True, [''data'', ''snmp'', ''yml'', ''snmp.yml''])]"
  proof -
    have "fs_files (w_fs w) = fmupd (True, [''data'', ''snmp'', ''yml'', ''snmp.yml'']) ''auths'' fmempty"
      using assms by (simp add: ex_cleaned_def)
    then show ?thesis unfolding files_under_def by simp code_simp
  qed
  moreover have "relative_all ''/data'' [(True, [''data'', ''snmp'', ''yml'', ''snmp.yml''])] = Inr [''snmp/yml/snmp.yml'']"
    by code_simp
  moreover have "is_dir (w_fs w) (True, [''data'', ''snmp'', ''yml''])"
    using assms unfolding is_dir_def ex_cleaned_def ex_md_fs_def by simp
  ultimately show ?thesis
    using assms by (simp add: VolumeFileStore_CollectSubFiles_def key next_fault_def faultless_def ex_cleaned_def)
qed

lemma ex_cleaned_merged:
  assumes "ex_cleaned w"
  shows "\<exists>msg s. reconcileMergedSNMPFile ex_md_env m w = (Ret Continue,
    set_md ex_md_env ConditionApplied ConditionUnknown ReasonReconciling msg m, with_fs w s) \<and> ex_cleaned (with_fs w s)"
proof -
  let ?s = "os_tick (w_fs w)"
  have "\<not> device_file ''snmp/yml/snmp.yml''" by code_simp
  then have "GetMergedSortedSNMPConfig ex_yaml (VolumeFileStore rio_reference ''/data'') SnmpSubDir (w_fs w) = (Inr ''auths'', ?s)"
    using ex_cleaned_collect [OF assms]
    by (simp add: GetMergedSortedSNMPConfig_def readPerDeviceSnmpConfigs_def ex_store_ops ex_yaml_merges)
  moreover have "VolumeFileStore_ReadAll ''/data'' SnmpMergedFile ?s = (Inr ''auths'', os_tick (os_tick ?s))"
    using assms by (intro faultless_read) (simp_all add: ex_cleaned_def ex_keys)
  ultimately show ?thesis
    using assms
    by (simp add: reconcileMergedSNMPFile_def ex_store ex_store_ops Let_def)
      (auto simp: ex_cleaned_def faultless_def os_tick_def)
qed

lemma ex_md_removed:
  obtains fs where "remove_files ex_md_env [GeneratorFile ''u'', SnmpFile ''u''] (ex_md_fs ''gen'') = (None, fs)"
    "ex_cleaned (with_fs w fs)"
proof -
  let ?fs1 = "(os_tick (ex_md_fs ''gen''))\<lparr>fs_files := fmdrop (volume_key ''/data'' (GeneratorFile ''u'')) (fs_files (ex_md_fs ''gen''))\<rparr>"
  let ?fs2 = "(os_tick ?fs1)\<lparr>fs_files := fmdrop (volume_key ''/data'' (SnmpFile ''u'')) (fs_files ?fs1)\<rparr>"
  have "fsRemove (md_Filestore ex_md_env) (GeneratorFile ''u'') (ex_md_fs ''gen'') = (None, ?fs1)"
    unfolding ex_store by (rule faultless_remove) (simp_all add: ex_md_fs_def faultless_def ex_keys)
  moreover have "fsRemove (md_Filestore ex_md_env) (SnmpFile ''u'') ?fs1 = (None, ?fs2)"
    unfolding ex_store by (rule faultless_remove) (simp_all add: ex_md_fs_def faultless_def ex_keys os_tick_def)
  ultimately have "remove_files ex_md_env [GeneratorFile ''u'', SnmpFile ''u''] (ex_md_fs ''gen'') = (None, ?fs2)"
    by simp
  moreover have "ex_cleaned (with_fs w ?fs2)"
    unfolding ex_cleaned_def
    by (auto simp: ex_keys ex_md_fs_def faultless_def os_tick_def intro!: fmap_ext)
  ultimately show thesis by (rule that)
qed

lemma ex_kube: "kube ex_md_env = klib_reference" "RemoveFinalizer klib_reference fs f = removeAll f fs"
  by (simp_all add: ex_md_env_def klib_reference_def)

lemma ex_md_deletion:
  obtains m' w' where "md_run ex_md_env ex_md_deleting (ex_md_world ''gen'') = (Ret (empty_Result, None), m', w')"
    "meta_Finalizers (md_Meta m') = []"
proof -
  let ?m = "md_started ex_md_env ex_md_deleting" and ?w = "ex_md_world ''gen''"
  have jobs: "getOwnedJobs ex_md_env ?m () = Inr [ex_job]" "delete_jobs ex_md_env [ex_job] () = (None, ())"
    by (simp_all add: getOwnedJobs_def ex_md_env_def ex_job_def)
  obtain fs where rm: "remove_files ex_md_env [GeneratorFile ''u'', SnmpFile ''u''] (ex_md_fs ''gen'') = (None, fs)"
    "ex_cleaned (with_fs (with_k ?w ()) fs)" by (rule ex_md_removed)
  let ?w2 = "with_fs (with_k ?w ()) fs"
  obtain msg s where me: "reconcileMergedSNMPFile ex_md_env ?m ?w2 = (Ret Continue,
      set_md ex_md_env ConditionApplied ConditionUnknown ReasonReconciling msg ?m, with_fs ?w2 s)" "ex_cleaned (with_fs ?w2 s)"
    using ex_cleaned_merged [OF rm(2)] by blast
  then have "fmlookup (fs_files (w_fs (with_fs ?w2 s))) (volume_key ''/data'' SnmpMergedFile) = Some ''auths''"
    by (simp add: ex_cleaned_def ex_keys)
  from ex_reload [OF _ this] me(2) obtain m3 w3 where re: "reconcileExporterReload ex_md_env
      (set_md ex_md_env ConditionApplied ConditionUnknown ReasonReconciling msg ?m) (with_fs ?w2 s) = (Ret Continue, m3, w3)"
    "md_Meta m3 = md_Meta ex_md_deleting"
    unfolding ex_cleaned_def by fastforce
  have "md_reconcileDeletion ex_md_env ?m ?w = (Ret Stop,
      md_finalizers (\<lambda>fs. RemoveFinalizer (kube ex_md_env) fs SNMPUpdateFinalizer) m3, w3)"
    using jobs rm(1) me(1) re(1)
    by (simp add: md_reconcileDeletion_def kube_lib.ContainsFinalizer_iff [OF md_libs_lib [OF ex_md_libs]] ex_md_world_def)
  then show thesis
    by (intro that, simp add: md_run_def md_steps_def md_started_def [symmetric]) (simp add: ex_kube re(2))
qed

section \<open>The properties at the example\<close>

theorem md_ready_means_applied_witness:
  "\<exists>out m' w'. md_run ex_md_env ex_md (ex_md_world ''gen'') = (out, m', w')
     \<and> cond_is (md_GetConditions m') ConditionReady ConditionTrue
     \<and> md_applied ex_md_env ''/data'' ex_md (ex_md_world ''gen'') m' w'"
proof -
  obtain m' w' where run: "md_run ex_md_env ex_md (ex_md_world ''gen'') = (Ret (empty_Result, None), m', w')"
    "cond_is (md_GetConditions m') ConditionReady ConditionTrue" by (rule ex_md_ready)
  from md_ready_means_applied [OF ex_md_libs _ run] run show ?thesis by auto
qed


theorem md_run_frame_witness:
  "\<exists>out m' (w' :: unit world). md_run ex_md_env ex_md (ex_md_world ''old'') = (out, m', w')
     \<and> fmlookup (fs_files (w_fs w')) (True, [''x'']) = None \<and> md_Spec m' = md_Spec ex_md"
proof -
  obtain out m' w' where run: "md_run ex_md_env ex_md (ex_md_world ''old'') = (out, m', w')" by (metis prod_cases3)
  have "(True, [''x'']) \<notin> {volume_key ''/data'' (GeneratorFile (md_UID ex_md)), volume_key ''/data'' (SnmpFile (md_UID ex_md)),
      volume_key ''/data'' SnmpMergedFile}" by (simp add: ex_keys)
  from md_run_frame [OF ex_md_libs run this] run show ?thesis
    by (simp add: ex_md_world_def ex_md_fs_def)
qed

theorem md_run_other_device_witness:
  "\<exists>out m' (w' :: unit world). md_run ex_md_env ex_md (ex_md_world ''old'') = (out, m', w')
     \<and> file_at ''/data'' (SnmpFile ''v'') w' = file_at ''/data'' (SnmpFile ''v'') (ex_md_world ''old'')"
proof -
  obtain out m' w' where run: "md_run ex_md_env ex_md (ex_md_world ''old'') = (out, m', w')" by (metis prod_cases3)
  from md_run_other_device [OF ex_md_libs _ _ _ run, of "''v''"] run show ?thesis by simp
qed

theorem job_step_exact_witness:
  "\<exists>res m' (w' :: unit world). reconcileSNMPGeneratorJob ex_md_env ex_md (ex_md_world ''old'') = (res, m', w')
     \<and> res = Ret Continue \<and> w' = ex_md_world ''old''"
proof -
  obtain res m' w' where st: "reconcileSNMPGeneratorJob ex_md_env ex_md (ex_md_world ''old'') = (res, m', w')"
    by (metis prod_cases3)
  from job_step_exact [OF st] st ex_md_job show ?thesis by simp
qed

text \<open>The generator file on the volume is out of date here, and the configuration stays.\<close>

theorem md_finished_job_not_rerun_witness:
  "\<exists>out m' (w' :: unit world). md_run ex_md_env ex_md (ex_md_world ''old'') = (out, m', w')
     \<and> file_at ''/data'' (GeneratorFile ''u'') (ex_md_world ''old'') = Some ''old''
     \<and> desiredGeneratorConfig ex_md_env ex_md () = Ret (Inr ''gen'')
     \<and> file_at ''/data'' (SnmpFile ''u'') w' = Some ''conf''"
proof -
  obtain out m' w' where run: "md_run ex_md_env ex_md (ex_md_world ''old'') = (out, m', w')" by (metis prod_cases3)
  from md_finished_job_not_rerun [OF ex_md_libs _ _ ex_md_job(1) _ ex_md_job(3) run] run ex_md_job(2) ex_md_desired
  show ?thesis by (simp add: ex_md_world_def ex_md_fs_def ex_keys)
qed


end
