(* ===== verification/Md_Live.thy ===== *)
theory Md_Live
  imports Merge_Live Md_Examples
begin

text \<open>
  Convergence of the MeasurementDevice reconciler. One run rarely makes a device ready: the finalizer has to
  be stored, a job of an older generation deleted, a new one created, and the job takes its time. The locale
  \<open>device_cluster\<close> states what has to happen around the reconciler: the API server does what it is asked, the
  exporter's deployment exists, and between two runs the generator job of the current generation finishes and
  leaves its file. Under these laws every run brings the device closer to \<open>Ready\<close>, and it stays ready.
\<close>

section \<open>Steps that succeed\<close>

definition md_live_libs :: "('v, 'k, 'a) md_env_scheme \<Rightarrow> renameio \<Rightarrow> string \<Rightarrow> bool" where
  "md_live_libs E rio root \<longleftrightarrow>
     md_libs E rio root \<and> renameio_live rio \<and> (\<forall>c. \<exists>b. yaml_Marshal_Merged (md_yaml E) c = Inr b)"

definition volume_ok :: "('v, 'k, 'a) md_env_scheme \<Rightarrow> string \<Rightarrow> string \<Rightarrow> osfs \<Rightarrow> bool" where
  "volume_ok E root uid s \<longleftrightarrow>
     faultless s \<and> path_free (volume_key root (GeneratorFile uid)) s
   \<and> path_free (volume_key root SnmpMergedFile) s \<and> configs_ok (md_yaml E) root s"

lemma volume_ok_ticked: "ticked s t \<Longrightarrow> volume_ok E root uid t = volume_ok E root uid s"
  using ticked_faultless [of s t] ticked_path_free [of s t] configs_ok_files [of t s "md_yaml E" root]
  by (simp add: volume_ok_def ticked_def)

lemma volume_ok_tick [simp]: "volume_ok E root uid (os_tick s) = volume_ok E root uid s"
  by (rule volume_ok_ticked) simp

lemma md_live_store:
  "md_live_libs E rio root \<Longrightarrow> fsReadAll (md_Filestore E) = VolumeFileStore_ReadAll root"
  "md_live_libs E rio root \<Longrightarrow> fsWrite (md_Filestore E) = VolumeFileStore_Write rio root"
  by (simp_all add: md_live_libs_def md_libs_def VolumeFileStore_def)

text \<open>Bringing a file up to date: read it, and write it unless it has the content already.\<close>

lemma read_or_missing:
  assumes "faultless s" and "path_free (volume_key root p) s"
  obtains (there) b where "VolumeFileStore_ReadAll root p s = (Inr b, os_tick (os_tick s))"
      "fmlookup (fs_files s) (volume_key root p) = Some b"
  | (missing) e where "VolumeFileStore_ReadAll root p s = (Inl e, os_tick s)" "errors_Is_NotExist e"
  using faultless_read [OF assms(1), of root p] faultless_read_missing [OF assms(1) _ assms(2)]
  by (cases "fmlookup (fs_files s) (volume_key root p)") auto

lemma device_keys_deep:
  assumes "CHR ''/'' \<notin> set uid"
  shows "length (snd (volume_key root (GeneratorFile uid))) = 3 + length (snd (path_norm root))"
    "length (snd (volume_key root SnmpMergedFile)) = 3 + length (snd (path_norm root))"
  using device_keys [OF assms, of root] by simp_all

text \<open>Neither of the two files the reconciler writes spoils the volume.\<close>

lemma volume_ok_written:
  assumes uid: "CHR ''/'' \<notin> set uid" and ok: "volume_ok E root uid s" and wr: "written fp b s s'"
    and fp: "fp = volume_key root (GeneratorFile uid) \<or> fp = volume_key root SnmpMergedFile"
  shows "volume_ok E root uid s'"
proof -
  have deep: "length (snd fp) = 3 + length (snd (path_norm root))" using fp device_keys_deep [OF uid] by auto
  have "path_free q s'" if "path_free q s" "length (snd q) = 3 + length (snd (path_norm root))" for q
    using that by (intro written_path_free [OF wr that(1)]) (auto simp: deep)
  then have free: "path_free (volume_key root (GeneratorFile uid)) s'" "path_free (volume_key root SnmpMergedFile) s'"
    using ok device_keys_deep [OF uid] by (auto simp: volume_ok_def)
  have gen: "snmp_path root cs \<noteq> volume_key root (GeneratorFile uid)" for cs
    using device_keys(1) [OF uid, of root] by (simp add: snmp_path_def)
  have merged: "snmp_path root cs = volume_key root SnmpMergedFile \<longleftrightarrow> cs = [''snmp.yml'']" for cs
    by (simp add: merged_key_path snmp_path_def)
  have "\<not> device_file (snmp_name [''snmp.yml''])" "plain_name ''snmp.yml''" by code_simp+
  then have "configs_ok (md_yaml E) root s'"
    using ok wr fp gen merged unfolding configs_ok_def volume_ok_def written_def by (auto split: if_splits)
  with free wr show ?thesis by (simp add: volume_ok_def written_def)
qed

lemma live_write:
  assumes libs: "md_live_libs E rio root" and uid: "CHR ''/'' \<notin> set uid" and ok: "volume_ok E root uid s"
    and t: "ticked s t" and p: "p = GeneratorFile uid \<or> p = SnmpMergedFile"
  shows "\<exists>s'. VolumeFileStore_Write rio root p b t = (None, s') \<and> volume_ok E root uid s' \<and>
    fs_files s' = fmupd (volume_key root p) b (fs_files s)"
proof -
  have okt: "volume_ok E root uid t" using ok t by (simp add: volume_ok_ticked)
  have "length (snd (volume_key root p)) \<ge> 2" using p device_keys_deep [OF uid] by auto
  then obtain s' where s': "VolumeFileStore_Write rio root p b t = (None, s')" "written (volume_key root p) b t s'"
    using vfs_write_succeeds [of rio t root p b] libs okt p by (auto simp: volume_ok_def md_live_libs_def)
  then have "volume_ok E root uid s'" using volume_ok_written [OF uid okt] p by blast
  with s' t show ?thesis by (auto simp: written_def ticked_def)
qed

lemma generator_step_succeeds:
  assumes libs: "md_live_libs E rio root" and uid: "CHR ''/'' \<notin> set (md_UID m)"
    and ok: "volume_ok E root (md_UID m) (w_fs w)" and d: "desiredGeneratorConfig E m (w_k w) = Ret (Inr desired)"
  shows "\<exists>msg s'. reconcileGeneratorFile E m w =
      (Ret Continue, set_md E ConditionGenerated ConditionTrue ReasonReconciled msg m, with_fs w s') \<and>
    volume_ok E root (md_UID m) s' \<and>
    fs_files s' = fmupd (volume_key root (GeneratorFile (md_UID m))) desired (fs_files (w_fs w))"
proof -
  let ?p = "GeneratorFile (md_UID m)" and ?s = "w_fs w"
  note st = md_live_store [OF libs]
  have free: "faultless ?s" "path_free (volume_key root ?p) ?s" using ok by (simp_all add: volume_ok_def)
  have wr: "\<exists>s'. VolumeFileStore_Write rio root ?p desired t = (None, s') \<and> volume_ok E root (md_UID m) s' \<and>
      fs_files s' = fmupd (volume_key root ?p) desired (fs_files ?s)" if t: "ticked ?s t" for t
    using live_write [OF libs uid ok t] by blast
  from free show ?thesis
  proof (cases rule: read_or_missing)
    case (there b)
    show ?thesis
    proof (cases "b = desired")
      case True
      with there d have "reconcileGeneratorFile E m w = (Ret Continue, set_md E ConditionGenerated ConditionTrue
          ReasonReconciled ''Generator file is up to date'' m, with_fs w (os_tick (os_tick ?s)))"
        by (simp add: reconcileGeneratorFile_def st Let_def)
      moreover have "fs_files ?s = fmupd (volume_key root ?p) desired (fs_files ?s)"
        using there(2) True by (intro fmap_ext_all) (auto simp: fun_eq_iff)
      ultimately show ?thesis using ok by fastforce
    next
      case False
      with there d wr [of "os_tick (os_tick ?s)"] show ?thesis
        by (fastforce simp: reconcileGeneratorFile_def st Let_def)
    qed
  next
    case (missing e)
    with d wr [of "os_tick ?s"] show ?thesis by (fastforce simp: reconcileGeneratorFile_def st Let_def)
  qed
qed

lemma content_step_succeeds:
  assumes libs: "md_live_libs E rio root" and ok: "volume_ok E root uid (w_fs w)"
    and snmp: "file_at root (SnmpFile (md_UID m)) w = Some config"
  shows "\<exists>m' s'. reconcileSNMPFileContent E m w = (Ret Continue, m', with_fs w s') \<and> ticked (w_fs w) s' \<and>
    md_Spec m' = md_Spec m \<and> md_Meta m' = md_Meta m"
  using faultless_read [of "w_fs w" root "SnmpFile (md_UID m)" config] ok snmp
  by (auto simp: reconcileSNMPFileContent_def md_live_store [OF libs] volume_ok_def Let_def)

lemma merged_step_succeeds:
  assumes libs: "md_live_libs E rio root" and uid: "CHR ''/'' \<notin> set uid" and ok: "volume_ok E root uid (w_fs w)"
  shows "\<exists>m' s' merged. reconcileMergedSNMPFile E m w = (Ret Continue, m', with_fs w s') \<and> volume_ok E root uid s' \<and>
    fs_files s' = fmupd (volume_key root SnmpMergedFile) merged (fs_files (w_fs w)) \<and>
    md_Spec m' = md_Spec m \<and> md_Meta m' = md_Meta m"
proof -
  let ?p = SnmpMergedFile and ?s = "w_fs w"
  note st = md_live_store [OF libs]
  have "md_libs E rio root" "\<And>c. \<exists>b. yaml_Marshal_Merged (md_yaml E) c = Inr b" using libs by (auto simp: md_live_libs_def)
  then obtain merged t where get: "GetMergedSortedSNMPConfig (md_yaml E) (md_Filestore E) SnmpSubDir ?s = (Inr merged, t)"
    and t: "ticked ?s t"
    using GetMerged_succeeds [of ?s root "md_yaml E" rio] ok by (auto simp: md_libs_def volume_ok_def)
  have okt: "volume_ok E root uid t" using ok t by (simp add: volume_ok_ticked)
  have wr: "\<exists>s'. VolumeFileStore_Write rio root ?p merged u = (None, s') \<and> volume_ok E root uid s' \<and>
      fs_files s' = fmupd (volume_key root ?p) merged (fs_files ?s)" if u: "ticked ?s u" for u
    using live_write [OF libs uid ok u] by blast
  have ne: "merged \<noteq> []"
  proof -
    have "merge_configs (md_yaml E) cs = Inr merged \<Longrightarrow> ?thesis" for cs
      using merge_configs_marshalled libs by (fastforce simp: md_live_libs_def md_libs_def)
    then show ?thesis using get by (auto simp: GetMergedSortedSNMPConfig_def split: prod.splits sum.splits)
  qed
  have "faultless t" "path_free (volume_key root ?p) t" using okt by (simp_all add: volume_ok_def)
  then show ?thesis
  proof (cases rule: read_or_missing)
    case (there b)
    show ?thesis
    proof (cases "b = merged")
      case True
      with there get have "reconcileMergedSNMPFile E m w = (Ret Continue, set_md E ConditionApplied ConditionUnknown
          ReasonReconciling ''Merged SNMP file is up to date; exporter reload is being verified'' m,
          with_fs w (os_tick (os_tick t)))"
        by (simp add: reconcileMergedSNMPFile_def st Let_def)
      moreover have "fs_files t = fmupd (volume_key root ?p) merged (fs_files ?s)"
        using there(2) True t by (intro fmap_ext_all) (auto simp: fun_eq_iff ticked_def)
      ultimately show ?thesis using okt by fastforce
    next
      case False
      with there get t wr [of "os_tick (os_tick t)"] show ?thesis
        by (fastforce simp: reconcileMergedSNMPFile_def st Let_def)
    qed
  next
    case (missing e)
    with get t wr [of "os_tick t"] ne show ?thesis
      by (fastforce simp: reconcileMergedSNMPFile_def st Let_def)
  qed
qed

lemma reload_step_succeeds:
  assumes libs: "md_live_libs E rio root" and ok: "volume_ok E root uid (w_fs w)"
    and merged: "file_at root SnmpMergedFile w = Some merged"
    and d: "getSnmpExporterDeployment E (w_k w) = Inr d" and patch: "\<And>d'. \<exists>k'. Patch_Deployment E d d' (w_k w) = (None, k')"
  shows "\<exists>m' w'. reconcileExporterReload E m w = (Ret Continue, m', w') \<and> ticked (w_fs w) (w_fs w') \<and>
    (w_k w' = w_k w \<or> (\<exists>d'. Patch_Deployment E d d' (w_k w) = (None, w_k w'))) \<and>
    md_Spec m' = md_Spec m \<and> md_Meta m' = md_Meta m"
proof -
  have rd: "VolumeFileStore_ReadAll root SnmpMergedFile (w_fs w) = (Inr merged, os_tick (os_tick (w_fs w)))"
    using faultless_read [of "w_fs w" root SnmpMergedFile merged] ok merged by (simp add: volume_ok_def)
  show ?thesis
  proof (cases "map_get (dep_TemplateAnnotations d) ConfigHashAnnotation = snmp_Hash merged")
    case True
    with rd d show ?thesis by (simp add: reconcileExporterReload_def md_live_store [OF libs] Let_def)
  next
    case False
    moreover obtain k' where "Patch_Deployment E d (annotate (snmp_Hash merged) d) (w_k w) = (None, k')" using patch by blast
    ultimately show ?thesis using rd d by (auto simp: reconcileExporterReload_def md_live_store [OF libs] Let_def)
  qed
qed

section \<open>What happens around the reconciler\<close>

text \<open>The device as it was submitted: nothing but its finalizers and its status changes.\<close>

definition like :: "MeasurementDevice \<Rightarrow> MeasurementDevice \<Rightarrow> bool" where
  "like m0 m \<longleftrightarrow> md_Spec m = md_Spec m0 \<and> (md_Meta m)\<lparr>meta_Finalizers := []\<rparr> = (md_Meta m0)\<lparr>meta_Finalizers := []\<rparr>"

lemma like_meta:
  assumes "like m0 m"
  shows "md_Name m = md_Name m0" "meta_Namespace (md_Meta m) = meta_Namespace (md_Meta m0)" "md_UID m = md_UID m0"
    "meta_Generation (md_Meta m) = meta_Generation (md_Meta m0)"
    "meta_DeletionTimestamp (md_Meta m) = meta_DeletionTimestamp (md_Meta m0)" "md_Spec m = md_Spec m0"
  using assms by (simp_all add: like_def ObjectMeta.equality) (metis ObjectMeta.select_convs ObjectMeta.surjective ObjectMeta.update_convs)+

lemma like_jobs:
  assumes "like m0 m"
  shows "getOwnedJobs E m k = getOwnedJobs E m0 k"
  unfolding getOwnedJobs_def like_meta [OF assms] ..

lemma like_desired:
  assumes "like m0 m"
  shows "desiredGeneratorConfig E m k = desiredGeneratorConfig E m0 k"
  unfolding desiredGeneratorConfig_def like_meta [OF assms] ..

lemma like_same: "md_Spec m' = md_Spec m \<Longrightarrow> md_Meta m' = md_Meta m \<Longrightarrow> like m0 m' = like m0 m"
  by (simp add: like_def)

lemma like_set_md [simp]: "like m0 (set_md E t st r msg m) = like m0 m"
  by (rule like_same) simp_all

text \<open>A job of the current generation that has finished and left its file, or may still finish.\<close>

definition job_fine :: "string \<Rightarrow> MeasurementDevice \<Rightarrow> Job \<Rightarrow> 'k world \<Rightarrow> bool" where
  "job_fine root m job w \<longleftrightarrow>
     (if isJobSuccessful job then file_at root (SnmpFile (md_UID m)) w \<noteq> None else \<not> isJobFailed job)"

locale device_cluster =
  fixes E :: "('v, 'k, 'a) md_env_scheme" and rio :: renameio and root :: string and m0 :: MeasurementDevice
    and settles :: "'k world \<Rightarrow> 'k world \<Rightarrow> bool"
  assumes libs: "md_live_libs E rio root"
    and uid: "CHR ''/'' \<notin> set (md_UID m0)"
    and alive: "meta_DeletionTimestamp (md_Meta m0) = None"
    and desired: "\<exists>d. desiredGeneratorConfig E m0 k = Ret (Inr d)"
    and owns: "like m0 m \<Longrightarrow> \<exists>job'. SetControllerReference E m job = Inr job' \<and>
      job_Annotations job' = job_Annotations job \<and> job_Conditions job' = job_Conditions job"
    and creates: "like m0 m \<Longrightarrow> getOwnedJobs E m0 k = Inr [] \<Longrightarrow> SetControllerReference E m job = Inr job' \<Longrightarrow>
      \<exists>k'. Create_Job E job' k = (None, k') \<and> getOwnedJobs E m0 k' = Inr [job']"
    and deletes: "getOwnedJobs E m0 k = Inr [job] \<Longrightarrow> \<exists>k'. Delete_Job E job k = (None, k') \<and> getOwnedJobs E m0 k' = Inr []"
    and exporter: "\<exists>d. getSnmpExporterDeployment E k = Inr d \<and>
      (\<forall>d'. \<exists>k'. Patch_Deployment E d d' k = (None, k') \<and> getOwnedJobs E m0 k' = getOwnedJobs E m0 k)"
    and settles_volume: "settles w w' \<Longrightarrow> volume_ok E root (md_UID m0) (w_fs w) \<Longrightarrow> volume_ok E root (md_UID m0) (w_fs w')"
    and settles_none: "settles w w' \<Longrightarrow> getOwnedJobs E m0 (w_k w) = Inr [] \<Longrightarrow> getOwnedJobs E m0 (w_k w') = Inr []"
    and settles_job: "settles w w' \<Longrightarrow> getOwnedJobs E m0 (w_k w) = Inr [job] \<Longrightarrow>
      \<exists>job'. getOwnedJobs E m0 (w_k w') = Inr [job'] \<and> jobGeneration job' = jobGeneration job \<and>
        (jobGeneration job = meta_Generation (md_Meta m0) \<and> job_fine root m0 job w \<longrightarrow>
           isJobSuccessful job' \<and> file_at root (SnmpFile (md_UID m0)) w' \<noteq> None)"

text \<open>One round: a run, its patch, and whatever happens until the next.\<close>

definition md_round ::
    "('v, 'k, 'a) md_env_scheme \<Rightarrow> ('k world \<Rightarrow> 'k world \<Rightarrow> bool)
      \<Rightarrow> MeasurementDevice \<times> 'k world \<Rightarrow> MeasurementDevice \<times> 'k world \<Rightarrow> bool" where
  "md_round E settles x y \<longleftrightarrow> (\<exists>out w1. md_run E (fst x) (snd x) = (out, fst y, w1) \<and> settles w1 (snd y))"

definition md_inv :: "('v, 'k, 'a) md_env_scheme \<Rightarrow> string \<Rightarrow> MeasurementDevice \<Rightarrow> MeasurementDevice \<times> 'k world \<Rightarrow> bool" where
  "md_inv E root m0 x \<longleftrightarrow>
     like m0 (fst x) \<and> volume_ok E root (md_UID m0) (w_fs (snd x)) \<and>
     (getOwnedJobs E m0 (w_k (snd x)) = Inr [] \<or>
      (\<exists>job. getOwnedJobs E m0 (w_k (snd x)) = Inr [job] \<and>
         (jobGeneration job = meta_Generation (md_Meta m0) \<longrightarrow> job_fine root m0 job (snd x))))"

definition job_rank :: "int64 \<Rightarrow> sys_error + Job list \<Rightarrow> nat" where
  "job_rank generation jobs =
     (case jobs of
        Inr [job] \<Rightarrow> (if jobGeneration job \<noteq> generation then 2 else if isJobSuccessful job then 0 else 1)
      | _ \<Rightarrow> 1)"

definition md_rank :: "('v, 'k, 'a) md_env_scheme \<Rightarrow> MeasurementDevice \<Rightarrow> MeasurementDevice \<times> 'k world \<Rightarrow> nat" where
  "md_rank E m0 x =
     (if md_guarded (fst x) then 0 else 1) +
     job_rank (meta_Generation (md_Meta m0)) (getOwnedJobs E m0 (w_k (snd x)))"

text \<open>The steps after the generator file.\<close>

definition md_tail :: "('v, 'k, 'a) md_env_scheme \<Rightarrow> 'k md_step list" where
  "md_tail E =
     [reconcileSNMPGeneratorJob E, reconcileSNMPFileContent E, reconcileMergedSNMPFile E, reconcileExporterReload E,
      md_reconcileReady E]"

lemma built_job:
  assumes "BuildGeneratorJob volumeClaim uid gid m = Inr job" and "job_Annotations job' = job_Annotations job"
  shows "jobGeneration job' = meta_Generation (md_Meta m)" "job_Conditions job = []"
  using assms built_job_generation [of volumeClaim uid gid m]
  by (auto simp: jobGeneration_def BuildGeneratorJob_def GetChanticoVolume_def Let_def)

context device_cluster
begin

abbreviation owned :: "'k world \<Rightarrow> sys_error + Job list" where
  "owned w \<equiv> getOwnedJobs E m0 (w_k w)"

abbreviation current :: "Job \<Rightarrow> bool" where
  "current job \<equiv> jobGeneration job = meta_Generation (md_Meta m0)"

abbreviation generated :: "'k world \<Rightarrow> bool" where
  "generated w \<equiv> file_at root (SnmpFile (md_UID m0)) w \<noteq> None"

lemma key_apart:
  "volume_key root (SnmpFile (md_UID m0)) \<noteq> volume_key root (GeneratorFile (md_UID m0))"
  "volume_key root (SnmpFile (md_UID m0)) \<noteq> volume_key root SnmpMergedFile"
  using device_keys_distinct [OF uid uid, of root] by metis+

lemma run_unguarded:
  assumes "like m0 m" and "\<not> md_guarded m" and "md_run E m w = (out, m', w1)"
  shows "like m0 m'" "md_guarded m'" "w1 = w"
proof -
  have lib: "kube_lib (kube E)" using libs by (simp add: md_live_libs_def md_libs_def)
  then have "m' = md_finalizers (\<lambda>fs. AddFinalizer (kube E) fs SNMPUpdateFinalizer) (md_started E m)" "w1 = w"
    using assms alive like_meta(5) [OF assms(1)] by (simp_all add: md_live_run)
  with assms(1) lib show "like m0 m'" "md_guarded m'" "w1 = w"
    by (auto simp: like_def md_finalizers_def kube_lib.set_AddFinalizer)
qed

text \<open>On a guarded device the run gets to the job step with the generator file in place.\<close>

lemma run_guarded:
  assumes "like m0 m" and "md_guarded m" and "volume_ok E root (md_UID m0) (w_fs w)"
  obtains m2 s' where "md_run E m w = Run (md_tail E) m2 (with_fs w s')" "like m0 m2" "md_Meta m2 = md_Meta m"
    "volume_ok E root (md_UID m0) s'"
    "fmlookup (fs_files s') (volume_key root (SnmpFile (md_UID m0))) = file_at root (SnmpFile (md_UID m0)) w"
proof -
  have lib: "kube_lib (kube E)" using libs by (simp add: md_live_libs_def md_libs_def)
  let ?m = "md_started E m"
  have like: "like m0 ?m" using assms(1) by (simp add: md_started_def)
  note meta = like_meta [OF like]
  obtain d where "desiredGeneratorConfig E ?m (w_k w) = Ret (Inr d)" using desired like_desired [OF like] by metis
  then obtain msg s' where step: "reconcileGeneratorFile E ?m w =
      (Ret Continue, set_md E ConditionGenerated ConditionTrue ReasonReconciled msg ?m, with_fs w s')"
    and s': "volume_ok E root (md_UID m0) s'" "fs_files s' = fmupd (volume_key root (GeneratorFile (md_UID m0))) d (fs_files (w_fs w))"
    using generator_step_succeeds [OF libs, of ?m w d] meta(3) uid assms(3) by auto
  have "md_run E m w = Run (md_rest E) ?m w" using assms lib alive like_meta(5) [OF assms(1)] by (simp add: md_live_run)
  also have "\<dots> = Run (md_tail E) (set_md E ConditionGenerated ConditionTrue ReasonReconciled msg ?m) (with_fs w s')"
    by (simp add: md_rest_def md_tail_def step)
  finally have run: "md_run E m w = Run (md_tail E) (set_md E ConditionGenerated ConditionTrue ReasonReconciled msg ?m) (with_fs w s')" .
  show thesis using that [OF run] like s' key_apart(1) by simp
qed

lemma tail_creates:
  assumes "like m0 m" and "owned w = Inr []"
  obtains out m' k' job where "Run (md_tail E) m w = (out, m', with_k w k')" "like m0 m'" "md_Meta m' = md_Meta m"
    "getOwnedJobs E m0 k' = Inr [job]" "current job" "\<not> isJobSuccessful job" "\<not> isJobFailed job"
proof -
  obtain job where b: "BuildGeneratorJob (VolumeClaim E) (os_Getuid E) (os_Getgid E) m = Inr job"
    using built_job_generation by blast
  obtain job' where r: "SetControllerReference E m job = Inr job'" "job_Annotations job' = job_Annotations job"
      "job_Conditions job' = job_Conditions job" using owns [OF assms(1)] by blast
  obtain k' where k': "Create_Job E job' (w_k w) = (None, k')" "getOwnedJobs E m0 k' = Inr [job']"
    using creates [OF assms(1) _ r(1)] assms(2) by blast
  have "reconcileSNMPGeneratorJob E m w = (Ret Stop, set_md E ConditionGenerated ConditionUnknown ReasonGenerationPending
      ''SNMP Generator Job created'' m, with_k w k')" (is "_ = (_, ?m1, _)")
    using assms b r k' by (simp add: reconcileSNMPGeneratorJob_def like_jobs createGeneratorJob_def)
  then have run: "Run (md_tail E) m w = (Ret (empty_Result, None), ?m1, with_k w k')" by (simp add: md_tail_def)
  have "current job'" "job_Conditions job' = []"
    using built_job [OF b r(2)] r(3) like_meta(4) [OF assms(1)] by simp_all
  with that [OF run] show thesis using k'(2) assms(1) by (simp add: isJobSuccessful_def isJobFailed_def)
qed

lemma tail_deletes:
  assumes "like m0 m" and "owned w = Inr [job]" and "\<not> current job"
  obtains out k' where "Run (md_tail E) m w = (out, m, with_k w k')" "getOwnedJobs E m0 k' = Inr []"
proof -
  obtain k' where k': "Delete_Job E job (w_k w) = (None, k')" "getOwnedJobs E m0 k' = Inr []" using deletes assms(2) by blast
  have "reconcileSNMPGeneratorJob E m w = (Ret Stop, m, with_k w k')"
    using assms k' like_meta(4) [OF assms(1)] by (simp add: reconcileSNMPGeneratorJob_def like_jobs evaluateGeneratorJob_def)
  then show thesis using k'(2) by (intro that) (simp_all add: md_tail_def)
qed

lemma tail_waits:
  assumes "like m0 m" and "owned w = Inr [job]" and "current job" and "\<not> isJobSuccessful job"
  obtains out m' where "Run (md_tail E) m w = (out, m', w)" "like m0 m'" "md_Meta m' = md_Meta m"
proof -
  obtain s r msg where "reconcileSNMPGeneratorJob E m w = (Ret Stop, set_md E ConditionGenerated s r msg m, w)"
    using assms like_meta(4) [OF assms(1)]
    by (cases "isJobFailed job") (simp_all add: reconcileSNMPGeneratorJob_def like_jobs evaluateGeneratorJob_def)
  then have run: "Run (md_tail E) m w = (Ret (empty_Result, None), set_md E ConditionGenerated s r msg m, w)"
    by (simp add: md_tail_def)
  show thesis using that [OF run] assms(1) by simp
qed

lemma tail_completes:
  assumes "like m0 m" and "owned w = Inr [job]" and "current job" and "isJobSuccessful job"
    and "volume_ok E root (md_UID m0) (w_fs w)" and "generated w"
  obtains out m' w' where "Run (md_tail E) m w = (out, m', w')" "like m0 m'" "md_Meta m' = md_Meta m"
    "cond_is (md_GetConditions m') ConditionReady ConditionTrue"
    "owned w' = owned w" "volume_ok E root (md_UID m0) (w_fs w')" "generated w'"
proof -
  obtain msg where s1: "reconcileSNMPGeneratorJob E m w =
      (Ret Continue, set_md E ConditionGenerated ConditionUnknown ReasonGenerationPending msg m, w)" (is "_ = (_, ?m1, _)")
    using assms like_meta(4) [OF assms(1)] by (simp add: reconcileSNMPGeneratorJob_def like_jobs evaluateGeneratorJob_def)
  have like1: "like m0 ?m1" using assms(1) by simp
  obtain config where "file_at root (SnmpFile (md_UID ?m1)) w = Some config"
    using assms(6) like_meta(3) [OF like1] by auto
  then obtain m2 s2 where s2: "reconcileSNMPFileContent E ?m1 w = (Ret Continue, m2, with_fs w s2)" "ticked (w_fs w) s2"
      "md_Spec m2 = md_Spec ?m1" "md_Meta m2 = md_Meta ?m1"
    using content_step_succeeds [OF libs assms(5), of ?m1] by blast
  have ok2: "volume_ok E root (md_UID m0) (w_fs (with_fs w s2))" using assms(5) s2(2) by (simp add: volume_ok_ticked)
  obtain m3 s3 merged where s3: "reconcileMergedSNMPFile E m2 (with_fs w s2) = (Ret Continue, m3, with_fs (with_fs w s2) s3)"
      "volume_ok E root (md_UID m0) s3" "fs_files s3 = fmupd (volume_key root SnmpMergedFile) merged (fs_files s2)"
      "md_Spec m3 = md_Spec m2" "md_Meta m3 = md_Meta m2"
    using merged_step_succeeds [OF libs uid ok2, of m2] by auto
  let ?w3 = "with_fs (with_fs w s2) s3"
  obtain d where d: "getSnmpExporterDeployment E (w_k w) = Inr d"
      "\<And>d'. \<exists>k'. Patch_Deployment E d d' (w_k w) = (None, k') \<and> getOwnedJobs E m0 k' = owned w" using exporter by blast
  then have "\<exists>m4 w4. reconcileExporterReload E m3 ?w3 = (Ret Continue, m4, w4) \<and> ticked (w_fs ?w3) (w_fs w4) \<and>
      (w_k w4 = w_k w \<or> (\<exists>d'. Patch_Deployment E d d' (w_k w) = (None, w_k w4))) \<and>
      md_Spec m4 = md_Spec m3 \<and> md_Meta m4 = md_Meta m3"
    using reload_step_succeeds [OF libs, of "md_UID m0" ?w3 merged d m3] s3 by (simp add: volume_ok_def) blast
  then obtain m4 w4 where s4: "reconcileExporterReload E m3 ?w3 = (Ret Continue, m4, w4)" "ticked s3 (w_fs w4)"
      "w_k w4 = w_k w \<or> (\<exists>d'. Patch_Deployment E d d' (w_k w) = (None, w_k w4))"
      "md_Spec m4 = md_Spec m3" "md_Meta m4 = md_Meta m3" by auto
  let ?m5 = "set_md E ConditionReady ConditionTrue ReasonReconciled ''Fully reconciled and ready'' m4"
  have run: "Run (md_tail E) m w = (Ret (empty_Result, None), ?m5, w4)"
    by (simp add: md_tail_def s1 s2(1) s3(1) s4(1) md_reconcileReady_def)
  have "owned w4 = owned w" using s4(3) d(2) by (metis prod.inject)
  moreover have "volume_ok E root (md_UID m0) (w_fs w4)" using s3(2) s4(2) by (simp add: volume_ok_ticked)
  moreover have "generated w4" using assms(6) s2(2) s3(3) s4(2) key_apart(2) by (simp add: ticked_def)
  moreover have "like m0 ?m5" "md_Meta ?m5 = md_Meta m"
    using like1 like_same [of m4 ?m1 m0] s2 s3 s4 by simp_all
  moreover have "cond_is (md_GetConditions ?m5) ConditionReady ConditionTrue"
    using libs set_md_cond_is [of E] by (simp add: md_live_libs_def md_libs_def)
  ultimately show thesis using that [OF run] by blast
qed

text \<open>What the time between two runs makes of the jobs.\<close>

lemma settled:
  assumes "settles w1 w'" and "like m0 m'" and "volume_ok E root (md_UID m0) (w_fs w1)" and "md_guarded m'"
    and "owned w1 = Inr [] \<or> (\<exists>job. owned w1 = Inr [job] \<and> (current job \<longrightarrow> job_fine root m0 job w1))"
  shows "md_inv E root m0 (m', w')"
    and "md_rank E m0 (m', w') = (case owned w1 of Inr [job] \<Rightarrow> (if current job then 0 else 2) | _ \<Rightarrow> 1)"
proof -
  have vol: "volume_ok E root (md_UID m0) (w_fs w')" by (rule settles_volume [OF assms(1,3)])
  have "md_inv E root m0 (m', w') \<and>
      md_rank E m0 (m', w') = (case owned w1 of Inr [job] \<Rightarrow> (if current job then 0 else 2) | _ \<Rightarrow> 1)"
  proof (cases "owned w1 = Inr []")
    case True
    then show ?thesis using vol assms(2,4) settles_none [OF assms(1)] by (simp add: md_inv_def md_rank_def job_rank_def)
  next
    case False
    then obtain job where job: "owned w1 = Inr [job]" "current job \<longrightarrow> job_fine root m0 job w1" using assms(5) by auto
    from settles_job [OF assms(1) job(1)] obtain job' where "owned w' = Inr [job']" "jobGeneration job' = jobGeneration job"
      "current job \<longrightarrow> isJobSuccessful job' \<and> generated w'" using job(2) by auto
    then show ?thesis using vol assms(2,4) job(1) by (simp add: md_inv_def md_rank_def job_rank_def job_fine_def)
  qed
  then show "md_inv E root m0 (m', w')"
    "md_rank E m0 (m', w') = (case owned w1 of Inr [job] \<Rightarrow> (if current job then 0 else 2) | _ \<Rightarrow> 1)" by blast+
qed

text \<open>Every round keeps the invariant and lowers the rank; at rank zero the run makes the device ready.\<close>

lemma round_progress:
  assumes inv: "md_inv E root m0 x" and round: "md_round E settles x y"
  shows "md_inv E root m0 y" and "md_rank E m0 y \<le> md_rank E m0 x - 1"
    and "md_rank E m0 x = 0 \<Longrightarrow> cond_is (md_GetConditions (fst y)) ConditionReady ConditionTrue"
proof -
  obtain m w m' w' where xy: "x = (m, w)" "y = (m', w')" by fastforce
  obtain out w1 where run: "md_run E m w = (out, m', w1)" and set: "settles w1 w'"
    using round by (auto simp: md_round_def xy)
  have m: "like m0 m" and vol: "volume_ok E root (md_UID m0) (w_fs w)"
    and jobs: "owned w = Inr [] \<or> (\<exists>job. owned w = Inr [job] \<and> (current job \<longrightarrow> job_fine root m0 job w))"
    using inv by (simp_all add: md_inv_def xy)
  have "md_inv E root m0 y \<and> md_rank E m0 y \<le> md_rank E m0 x - 1 \<and>
      (md_rank E m0 x = 0 \<longrightarrow> cond_is (md_GetConditions m') ConditionReady ConditionTrue)"
  proof (cases "md_guarded m")
    case False
    note r = run_unguarded [OF m False run]
    from settled [OF set r(1) _ r(2)] r(3) vol jobs False show ?thesis
      by (auto simp: xy md_rank_def job_rank_def)
  next
    case True
    obtain m2 s' where g: "md_run E m w = Run (md_tail E) m2 (with_fs w s')" "like m0 m2" "md_Meta m2 = md_Meta m"
      "volume_ok E root (md_UID m0) s'"
      "fmlookup (fs_files s') (volume_key root (SnmpFile (md_UID m0))) = file_at root (SnmpFile (md_UID m0)) w"
      using run_guarded [OF m True vol] by blast
    let ?w = "with_fs w s'"
    have tail: "Run (md_tail E) m2 ?w = (out, m', w1)" using run g(1) by simp
    have fine: "job_fine root m0 job ?w = job_fine root m0 job w" for job using g(5) by (simp add: job_fine_def)
    consider (none) "owned w = Inr []" | (stale) job where "owned w = Inr [job]" "\<not> current job"
      | (waiting) job where "owned w = Inr [job]" "current job" "\<not> isJobSuccessful job" "job_fine root m0 job w"
      | (finished) job where "owned w = Inr [job]" "current job" "isJobSuccessful job" "generated w"
      using jobs by (auto simp: job_fine_def split: if_splits)
    then show ?thesis
    proof cases
      case none
      then obtain k' job where "w1 = with_k ?w k'" "like m0 m'" "md_Meta m' = md_Meta m2" "getOwnedJobs E m0 k' = Inr [job]"
        "current job" "\<not> isJobSuccessful job" "\<not> isJobFailed job" using tail_creates [OF g(2), of ?w] tail by auto
      with settled [OF set, of m'] none True g show ?thesis by (simp add: xy md_rank_def job_rank_def job_fine_def)
    next
      case stale
      then obtain k' where "w1 = with_k ?w k'" "m' = m2" "getOwnedJobs E m0 k' = Inr []"
        using tail_deletes [OF g(2), of ?w] tail by auto
      with settled [OF set, of m'] stale True g show ?thesis by (simp add: xy md_rank_def job_rank_def)
    next
      case waiting
      then have "w1 = ?w" "like m0 m'" "md_Meta m' = md_Meta m2" using tail_waits [OF g(2), of ?w job] tail by auto
      with settled [OF set, of m'] waiting True g fine show ?thesis by (simp add: xy md_rank_def job_rank_def)
    next
      case finished
      then have "like m0 m'" "md_Meta m' = md_Meta m2" "cond_is (md_GetConditions m') ConditionReady ConditionTrue"
        "owned w1 = owned w" "volume_ok E root (md_UID m0) (w_fs w1)" "generated w1"
        using tail_completes [OF g(2), of ?w job] tail g by auto
      with settled [OF set, of m'] finished True g show ?thesis by (simp add: xy md_rank_def job_rank_def job_fine_def)
    qed
  qed
  then show "md_inv E root m0 y" "md_rank E m0 y \<le> md_rank E m0 x - 1"
    "md_rank E m0 x = 0 \<Longrightarrow> cond_is (md_GetConditions (fst y)) ConditionReady ConditionTrue" by (simp_all add: xy)
qed

lemma rank_bound: "md_rank E m0 x \<le> 3"
  by (simp add: md_rank_def job_rank_def split: sum.splits list.splits)

lemma rounds_converge:
  assumes "md_inv E root m0 (f 0)" and "\<And>i. md_round E settles (f i) (f (Suc i))"
  shows "md_inv E root m0 (f n) \<and> md_rank E m0 (f n) \<le> 3 - n"
proof (induction n)
  case 0
  then show ?case using assms(1) rank_bound by simp
next
  case (Suc n)
  then have inv: "md_inv E root m0 (f n)" by simp
  show ?case using round_progress [OF inv assms(2)] Suc by fastforce
qed

end


section \<open>A cluster that keeps the laws\<close>

text \<open>The state is the list of jobs; between two runs every job finishes and the device's file appears.\<close>

definition ex_live_env :: "(string, Job list) md_env" where
  "ex_live_env = \<lparr>get_ConfigMap = (\<lambda>k ns n. Inl (ApiNotFound n)),
     get_Secret = (\<lambda>k ns n. Inr (fmupd ''yaml'' ''community: public'' fmempty)),
     parse_template = (\<lambda>t. Inr (\<lambda>ps. Inr t)), kube = klib_reference, VolumeLocation = ''/data'',
     PrometheusServiceHost = ''prometheus'', PrometheusServicePort = ''9090'',
     http_Post = (\<lambda>u fs k. (Inr 200, k)),
     md_Filestore = VolumeFileStore rio_reference ''/data'', md_yaml = ex_yaml,
     yaml_Unmarshal_Auth = (\<lambda>t. Inr ex_auth), yaml_Marshal_Generator = (\<lambda>c. Inr ''gen''),
     PodNamespace = ''chantico'', VolumeClaim = ''claim'', os_Getuid = 1, os_Getgid = 1,
     get_MD = (\<lambda>k req. (ex_md, None)), list_Jobs = (\<lambda>k ns. (k, None)),
     Delete_Job = (\<lambda>job k. (None, removeAll job k)),
     SetControllerReference = (\<lambda>m job. Inr (job\<lparr>job_OwnerUIDs := [md_UID m]\<rparr>)),
     Create_Job = (\<lambda>job k. (None, k @ [job])),
     get_Deployment = (\<lambda>k req. Inr \<lparr>dep_Name = req_Name req, dep_TemplateAnnotations = None\<rparr>),
     Patch_Deployment = (\<lambda>d d' k. (None, k)), NewHelper_MD = (\<lambda>m. None), Patch_MD = (\<lambda>m m' k. (None, k))\<rparr>"

definition finish_job :: "Job \<Rightarrow> Job" where
  "finish_job job = job\<lparr>job_Conditions := [\<lparr>jc_Type = ''Complete'', jc_Status = ConditionTrue\<rparr>]\<rparr>"

definition ex_settle :: "Job list world \<Rightarrow> Job list world" where
  "ex_settle w = \<lparr>w_fs = put_file (snmp_path ''/data'' [''snmp-u.yaml'']) ''conf'' (w_fs w), w_k = map finish_job (w_k w)\<rparr>"

definition ex_owned :: "Job list \<Rightarrow> Job list" where
  "ex_owned k = concat (map (\<lambda>job. map (\<lambda>_. job) (filter (\<lambda>uid. uid = ''u'') (job_OwnerUIDs job))) k)"

lemma ex_owned_jobs: "getOwnedJobs ex_live_env ex_md k = Inr (ex_owned k)"
  by (simp add: getOwnedJobs_def ex_live_env_def ex_owned_def)

lemma ex_owned_simps:
  "ex_owned (removeAll job k) = removeAll job (ex_owned k)"
  "ex_owned (k @ [job\<lparr>job_OwnerUIDs := [''u'']\<rparr>]) = ex_owned k @ [job\<lparr>job_OwnerUIDs := [''u'']\<rparr>]"
  "ex_owned (map finish_job k) = map finish_job (ex_owned k)"
proof -
  have other: "removeAll job (map (\<lambda>_. j) xs) = (if j = job then [] else map (\<lambda>_. j) xs)" for j and xs :: "string list"
    by (induction xs) auto
  show "ex_owned (removeAll job k) = removeAll job (ex_owned k)"
    by (induction k) (simp_all add: ex_owned_def other removeAll_append)
  show "ex_owned (k @ [job\<lparr>job_OwnerUIDs := [''u'']\<rparr>]) = ex_owned k @ [job\<lparr>job_OwnerUIDs := [''u'']\<rparr>]"
    by (simp add: ex_owned_def)
  show "ex_owned (map finish_job k) = map finish_job (ex_owned k)"
    by (induction k) (simp_all add: ex_owned_def finish_job_def)
qed

lemma ex_snmp_key: "volume_key ''/data'' (SnmpFile ''u'') = snmp_path ''/data'' [''snmp-u.yaml'']"
  using device_keys(2) [of "''u''" "''/data''"] by (simp add: snmp_path_def)

lemma ex_settle_volume:
  assumes "volume_ok ex_live_env ''/data'' ''u'' (w_fs w)"
  shows "volume_ok ex_live_env ''/data'' ''u'' (w_fs (ex_settle w))"
proof -
  let ?q = "snmp_path ''/data'' [''snmp-u.yaml'']"
  have deep: "?q \<notin> set (prefixes (parent x))" if "length (snd x) = 3 + length (snd (path_norm ''/data''))" for x
    using prefixes_shorter [of ?q "parent x"] that by (auto simp: snmp_path_def parent_def)
  have free: "path_free x (put_file ?q ''conf'' (w_fs w))" if "path_free x (w_fs w)" "length (snd x) = 3 + length (snd (path_norm ''/data''))" for x
    using that(1) deep [OF that(2)] by (auto simp: path_free_def put_file_def is_dir_def strict_prefix_file_def is_file_def list_ex_iff)
  have "plain_name ''snmp-u.yaml''" by code_simp
  moreover have "parses (md_yaml ex_live_env) b" for b by (simp add: ex_live_env_def ex_yaml_def)
  ultimately have "configs_ok (md_yaml ex_live_env) ''/data'' (w_fs (ex_settle w))"
    using assms unfolding volume_ok_def configs_ok_def ex_settle_def put_file_def by (auto split: if_splits)
  moreover have "CHR ''/'' \<notin> set ''u''" by simp
  ultimately show ?thesis
    using assms free device_keys_deep [of "''u''" "''/data''"]
    by (simp add: volume_ok_def ex_settle_def) (simp add: faultless_def put_file_def)
qed

interpretation ex_cluster: device_cluster ex_live_env rio_reference "''/data''" ex_md "\<lambda>w w'. w' = ex_settle w"
proof
  show "md_live_libs ex_live_env rio_reference ''/data''"
    using ex_yaml_order
    by (simp add: md_live_libs_def md_libs_def ex_live_env_def klib_ref.kube_lib_axioms rio_ref.renameio_api_axioms
        rio_ref_live.renameio_live_axioms) (simp add: ex_yaml_def)
  show "\<exists>d. desiredGeneratorConfig ex_live_env ex_md k = Ret (Inr d)" for k
    by (simp add: desiredGeneratorConfig_def ex_md_def ex_live_env_def Selector_Resolve_def ValueSource_Resolve_def
        fetchFromSecret_def)
  show "\<exists>job'. SetControllerReference ex_live_env m job = Inr job' \<and> job_Annotations job' = job_Annotations job \<and>
      job_Conditions job' = job_Conditions job" for m job
    by (simp add: ex_live_env_def)
  show "\<exists>k'. Create_Job ex_live_env job' k = (None, k') \<and> getOwnedJobs ex_live_env ex_md k' = Inr [job']"
    if "like ex_md m" "getOwnedJobs ex_live_env ex_md k = Inr []" "SetControllerReference ex_live_env m job = Inr job'" for m k job job'
  proof -
    have "job' = job\<lparr>job_OwnerUIDs := [''u'']\<rparr>" using that(3) like_meta(3) [OF that(1)] by (simp add: ex_live_env_def)
    moreover have "Create_Job ex_live_env job' k = (None, k @ [job'])" by (simp add: ex_live_env_def)
    ultimately show ?thesis using that(2) by (simp add: ex_owned_jobs ex_owned_simps)
  qed
  show "\<exists>k'. Delete_Job ex_live_env job k = (None, k') \<and> getOwnedJobs ex_live_env ex_md k' = Inr []"
    if "getOwnedJobs ex_live_env ex_md k = Inr [job]" for k job
  proof -
    have "Delete_Job ex_live_env job k = (None, removeAll job k)" by (simp add: ex_live_env_def)
    then show ?thesis using that by (simp add: ex_owned_jobs ex_owned_simps)
  qed
  show "\<exists>d. getSnmpExporterDeployment ex_live_env k = Inr d \<and> (\<forall>d'. \<exists>k'. Patch_Deployment ex_live_env d d' k = (None, k') \<and>
      getOwnedJobs ex_live_env ex_md k' = getOwnedJobs ex_live_env ex_md k)" for k
    by (simp add: getSnmpExporterDeployment_def ex_live_env_def)
  show "volume_ok ex_live_env ''/data'' (md_UID ex_md) (w_fs w')"
    if "w' = ex_settle w" "volume_ok ex_live_env ''/data'' (md_UID ex_md) (w_fs w)" for w w'
    using that ex_settle_volume by simp
  show "getOwnedJobs ex_live_env ex_md (w_k w') = Inr []"
    if "w' = ex_settle w" "getOwnedJobs ex_live_env ex_md (w_k w) = Inr []" for w w'
    using that by (simp add: ex_owned_jobs ex_settle_def ex_owned_simps)
  show "\<exists>job'. getOwnedJobs ex_live_env ex_md (w_k w') = Inr [job'] \<and> jobGeneration job' = jobGeneration job \<and>
      (jobGeneration job = meta_Generation (md_Meta ex_md) \<and> job_fine ''/data'' ex_md job w \<longrightarrow>
        isJobSuccessful job' \<and> file_at ''/data'' (SnmpFile (md_UID ex_md)) w' \<noteq> None)"
    if "w' = ex_settle w" "getOwnedJobs ex_live_env ex_md (w_k w) = Inr [job]" for w w' job
    using that by (simp add: ex_owned_jobs ex_settle_def ex_owned_simps ex_snmp_key put_file_def)
      (simp add: finish_job_def jobGeneration_def isJobSuccessful_def)
qed simp_all

definition ex_round :: "MeasurementDevice \<times> Job list world \<Rightarrow> MeasurementDevice \<times> Job list world" where
  "ex_round x = (case md_run ex_live_env (fst x) (snd x) of (out, m, w) \<Rightarrow> (m, ex_settle w))"

text \<open>A device without its finalizer, on an empty volume, with a job left over from an earlier generation.\<close>

definition ex_fresh :: "MeasurementDevice \<times> Job list world" where
  "ex_fresh = (md_finalizers (\<lambda>fs. []) ex_md,
     \<lparr>w_fs = \<lparr>fs_files = fmempty, fs_dirs = {||}, fs_fault = (\<lambda>_. None), fs_clock = 0\<rparr>,
      w_k = [ex_job\<lparr>job_Annotations := None\<rparr>]\<rparr>)"

lemma ex_fresh_inv: "md_inv ex_live_env ''/data'' ex_md ex_fresh"
proof -
  let ?s = "\<lparr>fs_files = fmempty, fs_dirs = {||}, fs_fault = (\<lambda>_. None), fs_clock = 0\<rparr>"
  have "path_free q ?s" if "snd q \<noteq> []" for q
    using that by (simp add: path_free_def is_dir_def strict_prefix_file_def is_file_def list_ex_iff)
  then have "volume_ok ex_live_env ''/data'' ''u'' ?s"
    using device_keys [of "''u''" "''/data''"] by (simp add: volume_ok_def faultless_def configs_ok_def)
  moreover have "like ex_md (md_finalizers (\<lambda>fs. []) ex_md)" by (simp add: like_def md_finalizers_def)
  moreover have "jobGeneration (ex_job\<lparr>job_Annotations := None\<rparr>) = 0"
    by (simp add: jobGeneration_def map_get_def strconv_ParseInt_def)
  ultimately show ?thesis by (simp add: md_inv_def ex_fresh_def ex_owned_jobs) (simp add: ex_owned_def ex_job_def)
qed


end
