(* ===== verification/Dcr_Rules.thy ===== *)
theory Dcr_Rules
  imports Dcr_Validate
begin

text \<open>
  \<open>internal/datacenterresource/rules_pure.go\<close> and \<open>template.go\<close>: the Prometheus recording
  rules of a resource, and the expressions they carry, rendered from the templates of its spec.
  The lemmas say which rules a resource gets, which labels they carry and when the rendering
  fails or panics.
\<close>

section \<open>Resolved expressions\<close>

record ResolvedParent =
  rp_Name :: string
  rp_Coefficient :: string

record ResolvedExpressions =
  re_EnergyMetric :: string
  re_Parents :: "ResolvedParent list"

fun resolve_parents ::
    "('w, 'a) values_env_scheme \<Rightarrow> 'w \<Rightarrow> string \<Rightarrow> ParentRef list \<Rightarrow> ResolvedParent list
      \<Rightarrow> (gerror + ResolvedParent list) go" where
  "resolve_parents E w namespace [] parents = Ret (Inr parents)"
| "resolve_parents E w namespace (parent # rest) parents =
     (case TemplateFrom_Render E w namespace (pref_CoefficientFrom parent) of
        Panic m \<Rightarrow> Panic m
      | Ret (Inl err) \<Rightarrow> Ret (Inl err)
      | Ret (Inr coefficient) \<Rightarrow>
          resolve_parents E w namespace rest
            (parents @ [\<lparr>rp_Name = pref_Name parent, rp_Coefficient = coefficient\<rparr>]))"

definition resolveParentExpressions ::
    "('w, 'a) values_env_scheme \<Rightarrow> 'w \<Rightarrow> string \<Rightarrow> DataCenterResource
      \<Rightarrow> (gerror + ResolvedParent list) go" where
  "resolveParentExpressions E w namespace d =
     resolve_parents E w namespace (dspec_Parents (dcr_Spec d)) []"

definition resolveEnergyMetric ::
    "('w, 'a) values_env_scheme \<Rightarrow> 'w \<Rightarrow> string \<Rightarrow> DataCenterResource \<Rightarrow> (gerror + string) go" where
  "resolveEnergyMetric E w namespace d =
     (case dspec_EnergyMetricFrom (dcr_Spec d) of
        None \<Rightarrow> Ret (Inr [])
      | Some tf \<Rightarrow> TemplateFrom_Render E w namespace (Some tf))"

definition resolve_Expressions ::
    "('w, 'a) values_env_scheme \<Rightarrow> 'w \<Rightarrow> string \<Rightarrow> DataCenterResource
      \<Rightarrow> (gerror + ResolvedExpressions) go" where
  "resolve_Expressions E w namespace d =
     (case resolveEnergyMetric E w namespace d of
        Panic m \<Rightarrow> Panic m
      | Ret (Inl err) \<Rightarrow> Ret (Inl err)
      | Ret (Inr energyMetric) \<Rightarrow>
          (case resolveParentExpressions E w namespace d of
             Panic m \<Rightarrow> Panic m
           | Ret (Inl err) \<Rightarrow> Ret (Inl err)
           | Ret (Inr parents) \<Rightarrow>
               Ret (Inr \<lparr>re_EnergyMetric = energyMetric, re_Parents = parents\<rparr>)))"

section \<open>Rules\<close>

record RecordingRule =
  rule_Record :: string
  rule_Expr :: string
  rule_Labels :: labels

record RuleGroup =
  group_Name :: string
  group_Rules :: "RecordingRule list"

record RuleFile =
  file_Groups :: "RuleGroup list"

record RuleBuilder =
  rb_resource :: DataCenterResource
  rb_expressions :: ResolvedExpressions

definition NewRuleBuilder :: "DataCenterResource \<Rightarrow> ResolvedExpressions \<Rightarrow> RuleBuilder" where
  "NewRuleBuilder resource expressions = \<lparr>rb_resource = resource, rb_expressions = expressions\<rparr>"

definition CoefficientMetricName :: string where
  "CoefficientMetricName = ''chantico_power_coefficient''"

definition EnergyMetricName :: string where
  "EnergyMetricName = ''chantico_power_watts''"

definition EnergyMetricQuery :: "string \<Rightarrow> string" where
  "EnergyMetricQuery resourceName =
     EnergyMetricName @ ''{resource='' @ [CHR 0x22] @ resourceName @ [CHR 0x22] @ ''}''"

definition CoefficientMetricQuery :: "string \<Rightarrow> string \<Rightarrow> string" where
  "CoefficientMetricQuery parentName childName =
     CoefficientMetricName @ ''{parent='' @ [CHR 0x22] @ parentName @ [CHR 0x22] @
       '', child='' @ [CHR 0x22] @ childName @ [CHR 0x22] @ ''}''"

text \<open>
  \<open>strings.Map\<close> works on runes: \<open>rune_width\<close> is the number of bytes of the first rune of a
  byte sequence as Go decodes UTF-8 (1 for an invalid byte).
\<close>

definition byte_in :: "nat \<Rightarrow> nat \<Rightarrow> string \<Rightarrow> nat \<Rightarrow> bool" where
  "byte_in lo hi s i \<longleftrightarrow> i < length s \<and> lo \<le> (of_char (s ! i) :: nat) \<and> (of_char (s ! i) :: nat) \<le> hi"

definition rune_width :: "string \<Rightarrow> nat" where
  "rune_width s =
     (if byte_in 0xC2 0xDF s 0 \<and> byte_in 0x80 0xBF s 1 then 2
      else if byte_in 0xE0 0xEF s 0
        \<and> byte_in (if byte_in 0xE0 0xE0 s 0 then 0xA0 else 0x80) (if byte_in 0xED 0xED s 0 then 0x9F else 0xBF) s 1
        \<and> byte_in 0x80 0xBF s 2 then 3
      else if byte_in 0xF0 0xF4 s 0
        \<and> byte_in (if byte_in 0xF0 0xF0 s 0 then 0x90 else 0x80) (if byte_in 0xF4 0xF4 s 0 then 0x8F else 0xBF) s 1
        \<and> byte_in 0x80 0xBF s 2 \<and> byte_in 0x80 0xBF s 3 then 4
      else 1)"

definition metric_char :: "char \<Rightarrow> bool" where
  "metric_char r \<longleftrightarrow>
     (CHR ''a'' \<le> r \<and> r \<le> CHR ''z'') \<or> (CHR ''A'' \<le> r \<and> r \<le> CHR ''Z'') \<or>
     (CHR ''0'' \<le> r \<and> r \<le> CHR ''9'') \<or> r = CHR ''_''"

function SanitizeMetricName :: "string \<Rightarrow> string" where
  "SanitizeMetricName [] = []"
| "SanitizeMetricName (c # cs) =
     (if metric_char c then c else CHR ''_'') # SanitizeMetricName (drop (rune_width (c # cs) - 1) cs)"
  by pat_completeness auto
termination by (relation "measure length") auto

text \<open>Both arguments are maps the callers know to be non-nil.\<close>

definition applyAdditionalLabels :: "labels \<Rightarrow> labels \<Rightarrow> labels" where
  "applyAdditionalLabels base ls = (let merged = ls in merged ++\<^sub>f base)"

definition constructParentNamesLabel :: "RuleBuilder \<Rightarrow> string" where
  "constructParentNamesLabel b = strings_Join (ParentNames (dcr_Spec (rb_resource b))) '',''"

definition buildSharedLabels :: "RuleBuilder \<Rightarrow> labels option \<Rightarrow> labels" where
  "buildSharedLabels b base =
     (let ls = fmupd ''type'' (dspec_Type (dcr_Spec (rb_resource b)))
                 (fmupd ''resource'' (dcr_Name (rb_resource b)) fmempty);
          ls = (if length (dspec_Parents (dcr_Spec (rb_resource b))) > 0
                then fmupd ''parents'' (constructParentNamesLabel b) ls else ls);
          ls = (case base of None \<Rightarrow> ls | Some base' \<Rightarrow> applyAdditionalLabels ls base')
      in case dspec_AdditionalLabels (dcr_Spec (rb_resource b)) of
           None \<Rightarrow> ls | Some added \<Rightarrow> applyAdditionalLabels ls added)"

definition BuildEnergyAliasRule :: "RuleBuilder \<Rightarrow> RecordingRule option" where
  "BuildEnergyAliasRule b =
     (if length (dspec_Parents (dcr_Spec (rb_resource b))) > 0 then None
      else (let baseLabels = fmempty; ls = buildSharedLabels b (Some baseLabels) in
            Some \<lparr>rule_Record = EnergyMetricName, rule_Expr = re_EnergyMetric (rb_expressions b),
                  rule_Labels = ls\<rparr>))"

definition BuildCoefficientRules :: "RuleBuilder \<Rightarrow> RecordingRule list" where
  "BuildCoefficientRules b =
     (if length (re_Parents (rb_expressions b)) = 0 then []
      else (let pcs = filter (\<lambda>p. rp_Coefficient p \<noteq> []) (re_Parents (rb_expressions b));
                pcs = sort_Slice rp_Name pcs
            in map (\<lambda>pc. \<lparr>rule_Record = CoefficientMetricName, rule_Expr = rp_Coefficient pc,
                          rule_Labels = fmupd ''child'' (dcr_Name (rb_resource b))
                            (fmupd ''parent'' (rp_Name pc) fmempty)\<rparr>) pcs))"

definition energy_expr :: "string \<Rightarrow> string" where
  "energy_expr name =
     ''sum('' @ CoefficientMetricName @ ''{child='' @ [CHR 0x22] @ name @ [CHR 0x22] @
     ''} * on (parent) group_left () label_replace('' @ EnergyMetricName @ '', '' @
     [CHR 0x22] @ ''parent'' @ [CHR 0x22] @ '', '' @ [CHR 0x22] @ ''$1'' @ [CHR 0x22] @ '', '' @
     [CHR 0x22] @ ''resource'' @ [CHR 0x22] @ '', '' @ [CHR 0x22] @ ''(.*)'' @ [CHR 0x22] @ ''))''"

definition BuildEnergyRule :: "RuleBuilder \<Rightarrow> RecordingRule option" where
  "BuildEnergyRule b =
     (if length (dspec_Parents (dcr_Spec (rb_resource b))) = 0 then None
      else (let ls = fmempty; ls = ls ++\<^sub>f buildSharedLabels b (Some ls) in
            Some \<lparr>rule_Record = EnergyMetricName, rule_Expr = energy_expr (dcr_Name (rb_resource b)),
                  rule_Labels = ls\<rparr>))"

definition BuildRecordingRules :: "RuleBuilder \<Rightarrow> RecordingRule list" where
  "BuildRecordingRules b =
     (let rules = [];
          rules = (case BuildEnergyAliasRule b of None \<Rightarrow> rules | Some aliasRule \<Rightarrow> rules @ [aliasRule]);
          rules = rules @ BuildCoefficientRules b
      in case BuildEnergyRule b of None \<Rightarrow> rules | Some energyRule \<Rightarrow> rules @ [energyRule])"

definition BuildRuleFile :: "RuleBuilder \<Rightarrow> RuleFile option" where
  "BuildRuleFile b =
     (let rules = BuildRecordingRules b in
      if length rules = 0 then None
      else Some \<lparr>file_Groups =
                  [\<lparr>group_Name = ''chantico_'' @ SanitizeMetricName (dcr_Name (rb_resource b)),
                    group_Rules = rules\<rparr>]\<rparr>)"

section \<open>Labels and names\<close>

text \<open>The label keys of a resource of its own, which additional labels cannot change.\<close>

definition own_labels :: "DataCenterResource \<Rightarrow> labels" where
  "own_labels d =
     (let ls = fmupd ''type'' (dspec_Type (dcr_Spec d)) (fmupd ''resource'' (dcr_Name d) fmempty) in
      if dspec_Parents (dcr_Spec d) = [] then ls
      else fmupd ''parents'' (strings_Join (ParentNames (dcr_Spec d)) '','') ls)"

lemma buildSharedLabels_lookup:
  "fmlookup (buildSharedLabels b (Some fmempty)) k =
     (case fmlookup (own_labels (rb_resource b)) k of
        Some v \<Rightarrow> Some v
      | None \<Rightarrow> (case dspec_AdditionalLabels (dcr_Spec (rb_resource b)) of
                   None \<Rightarrow> None | Some added \<Rightarrow> fmlookup added k))"
  by (auto simp: buildSharedLabels_def own_labels_def applyAdditionalLabels_def Let_def
      constructParentNamesLabel_def split: option.splits)

lemma metric_char_not_wide:
  assumes "metric_char c"
  shows "rune_width (c # cs) = 1"
proof -
  have "(of_char c :: nat) < 128"
    using assms by (auto simp: metric_char_def less_eq_char_def)
  then show ?thesis by (simp add: rune_width_def byte_in_def)
qed

lemma Sanitize_metric: "list_all metric_char (SanitizeMetricName s)"
  by (induction s rule: SanitizeMetricName.induct) (auto simp: metric_char_def)

lemma Sanitize_id: "list_all metric_char s \<Longrightarrow> SanitizeMetricName s = s"
  by (induction s) (auto simp: metric_char_not_wide)

section \<open>Rendering the templates\<close>

text \<open>There is a text to take, or a source to take it from.\<close>

definition renderable :: "TemplateFrom option \<Rightarrow> bool" where
  "renderable tf =
     (case tf of None \<Rightarrow> False
      | Some t \<Rightarrow> sel_Value (tf_Selector t) \<noteq> [] \<or> sel_ValueFrom (tf_Selector t) \<noteq> None)"

lemma Render_Panic_iff: "(\<exists>m. TemplateFrom_Render E w ns tf = Panic m) \<longleftrightarrow> \<not> renderable tf"
  by (simp add: TemplateFrom_Render_panics renderable_def split: option.splits)

text \<open>The parent renders to this text.\<close>

definition coefficient_is ::
    "('w, 'a) values_env_scheme \<Rightarrow> 'w \<Rightarrow> string \<Rightarrow> ParentRef \<Rightarrow> ResolvedParent \<Rightarrow> bool" where
  "coefficient_is E w ns p r \<longleftrightarrow>
     rp_Name r = pref_Name p \<and>
     TemplateFrom_Render E w ns (pref_CoefficientFrom p) = Ret (Inr (rp_Coefficient r))"

lemma coefficient_is_made:
  "coefficient_is E w ns p \<lparr>rp_Name = pref_Name p, rp_Coefficient = c\<rparr> \<longleftrightarrow>
     TemplateFrom_Render E w ns (pref_CoefficientFrom p) = Ret (Inr c)"
  by (simp add: coefficient_is_def)

lemma resolve_parents_Inr:
  "resolve_parents E w ns ps acc = Ret (Inr rs) \<Longrightarrow>
     \<exists>ts. rs = acc @ ts \<and> list_all2 (coefficient_is E w ns) ps ts"
proof (induction ps arbitrary: acc)
  case Nil
  then show ?case by simp
next
  case (Cons p ps)
  then obtain c where c: "TemplateFrom_Render E w ns (pref_CoefficientFrom p) = Ret (Inr c)"
    by (auto split: go.splits sum.splits)
  with Cons obtain ts where "rs = acc @ \<lparr>rp_Name = pref_Name p, rp_Coefficient = c\<rparr> # ts"
    "list_all2 (coefficient_is E w ns) ps ts" by fastforce
  with c show ?case by (auto simp: coefficient_is_made)
qed

lemma first_bad_Cons:
  "(\<exists>xs q ys. p # ps = xs @ q # ys \<and> bad q \<and> (\<forall>x \<in> set xs. good x)) \<longleftrightarrow>
     bad p \<or> good p \<and> (\<exists>xs q ys. ps = xs @ q # ys \<and> bad q \<and> (\<forall>x \<in> set xs. good x))"
  (is "?L \<longleftrightarrow> _ \<or> _ \<and> ?R")
proof
  assume ?L
  then obtain xs q ys where s: "p # ps = xs @ q # ys" "bad q" "\<forall>x \<in> set xs. good x" by blast
  then show "bad p \<or> good p \<and> ?R" by (cases xs) auto
next
  assume "bad p \<or> good p \<and> ?R"
  then show ?L
  proof (elim disjE conjE exE)
    assume "bad p"
    then show ?L by (intro exI [of _ "[]"]) auto
  next
    fix xs q ys
    assume "good p" "ps = xs @ q # ys" "bad q" "\<forall>x \<in> set xs. good x"
    then show ?L by (intro exI [of _ "p # xs"]) auto
  qed
qed

lemma resolve_parents_Panic_iff:
  "(\<exists>m. resolve_parents E w ns ps acc = Panic m) \<longleftrightarrow>
     (\<exists>xs p ys. ps = xs @ p # ys \<and> \<not> renderable (pref_CoefficientFrom p) \<and>
        (\<forall>x \<in> set xs. \<exists>r. coefficient_is E w ns x r))"
proof (induction ps arbitrary: acc)
  case Nil
  then show ?case by simp
next
  case (Cons p ps)
  have ren: "\<not> renderable (pref_CoefficientFrom p) \<longleftrightarrow>
      (\<exists>m. TemplateFrom_Render E w ns (pref_CoefficientFrom p) = Panic m)"
    by (simp only: Render_Panic_iff)
  have good: "(\<exists>r. coefficient_is E w ns p r) \<longleftrightarrow>
      (\<exists>c. TemplateFrom_Render E w ns (pref_CoefficientFrom p) = Ret (Inr c))"
    by (metis coefficient_is_def coefficient_is_made)
  show ?case
    unfolding first_bad_Cons ren good
    by (cases "TemplateFrom_Render E w ns (pref_CoefficientFrom p)"; simp add: Cons.IH split: sum.splits)
qed

lemma resolve_Expressions_Inr:
  assumes "resolve_Expressions E w ns d = Ret (Inr ex)"
  shows "list_all2 (coefficient_is E w ns) (dspec_Parents (dcr_Spec d)) (re_Parents ex)"
  using assms resolve_parents_Inr [of E w ns "dspec_Parents (dcr_Spec d)" "[]"]
  by (auto simp: resolve_Expressions_def resolveParentExpressions_def split: go.splits sum.splits)

lemma coefficients_names:
  "list_all2 (coefficient_is E w ns) ps rs \<Longrightarrow> map rp_Name rs = map pref_Name ps"
  by (induction rule: list_all2_induct) (simp_all add: coefficient_is_def)

section \<open>The rules of a resource\<close>

definition coefficient_rule :: "DataCenterResource \<Rightarrow> ResolvedParent \<Rightarrow> RecordingRule" where
  "coefficient_rule d p =
     \<lparr>rule_Record = CoefficientMetricName, rule_Expr = rp_Coefficient p,
      rule_Labels = fmupd ''child'' (dcr_Name d) (fmupd ''parent'' (rp_Name p) fmempty)\<rparr>"

lemma BuildCoefficientRules_sorted:
  "BuildCoefficientRules b =
     map (coefficient_rule (rb_resource b))
       (sort_Slice rp_Name (filter (\<lambda>p. rp_Coefficient p \<noteq> []) (re_Parents (rb_expressions b))))"
  by (simp add: BuildCoefficientRules_def coefficient_rule_def [abs_def] sort_Slice_def Let_def)

definition energy_rule :: "DataCenterResource \<Rightarrow> labels \<Rightarrow> RecordingRule" where
  "energy_rule d ls =
     \<lparr>rule_Record = EnergyMetricName, rule_Expr = energy_expr (dcr_Name d), rule_Labels = ls\<rparr>"

lemma BuildRecordingRules_cases:
  "BuildRecordingRules b =
     (if dspec_Parents (dcr_Spec (rb_resource b)) = []
      then \<lparr>rule_Record = EnergyMetricName, rule_Expr = re_EnergyMetric (rb_expressions b),
            rule_Labels = buildSharedLabels b (Some fmempty)\<rparr> # BuildCoefficientRules b
      else BuildCoefficientRules b @ [energy_rule (rb_resource b) (buildSharedLabels b (Some fmempty))])"
  by (simp add: BuildRecordingRules_def BuildEnergyAliasRule_def BuildEnergyRule_def energy_rule_def Let_def)

lemma BuildRuleFile_Some:
  "BuildRuleFile b =
     Some \<lparr>file_Groups = [\<lparr>group_Name = ''chantico_'' @ SanitizeMetricName (dcr_Name (rb_resource b)),
                          group_Rules = BuildRecordingRules b\<rparr>]\<rparr>"
  by (simp add: BuildRuleFile_def Let_def BuildRecordingRules_cases)

lemma coefficient_rules_no_energy: "filter (\<lambda>r. rule_Record r = EnergyMetricName) (BuildCoefficientRules b) = []"
  by (auto simp: BuildCoefficientRules_sorted coefficient_rule_def EnergyMetricName_def
      CoefficientMetricName_def filter_empty_conv)

section \<open>Properties of the rules\<close>

text \<open>
  Property C24: the rule file of a resource whose templates rendered. There always is one, with
  a single group; a root gets exactly the alias of its energy metric; a resource with parents
  gets one coefficient rule for each parent whose coefficient is not empty, sorted by parent,
  followed by its energy rule.
\<close>

theorem rule_file_of_resource:
  assumes "resolve_Expressions E w ns d = Ret (Inr ex)"
  shows "\<exists>rules ls. BuildRuleFile (NewRuleBuilder d ex) =
      Some \<lparr>file_Groups = [\<lparr>group_Name = ''chantico_'' @ SanitizeMetricName (dcr_Name d),
                           group_Rules = rules\<rparr>]\<rparr>
    \<and> list_all2 (coefficient_is E w ns) (dspec_Parents (dcr_Spec d)) (re_Parents ex)
    \<and> (if dspec_Parents (dcr_Spec d) = []
       then rules = [\<lparr>rule_Record = EnergyMetricName, rule_Expr = re_EnergyMetric ex, rule_Labels = ls\<rparr>]
       else (\<exists>cs. rules = map (coefficient_rule d) cs @ [energy_rule d ls]
                \<and> mset cs = filter_mset (\<lambda>p. rp_Coefficient p \<noteq> []) (mset (re_Parents ex))
                \<and> sorted (map rp_Name cs)))"
proof -
  note coefs = resolve_Expressions_Inr [OF assms]
  then have roots: "dspec_Parents (dcr_Spec d) = [] \<longleftrightarrow> re_Parents ex = []" by (auto dest: list_all2_lengthD)
  let ?cs = "sort_Slice rp_Name (filter (\<lambda>p. rp_Coefficient p \<noteq> []) (re_Parents ex))"
  have "mset ?cs = filter_mset (\<lambda>p. rp_Coefficient p \<noteq> []) (mset (re_Parents ex))" "sorted (map rp_Name ?cs)"
    by (simp_all add: go_sort.sorter_perm go_sort.sorter_sorted)
  then show ?thesis
    unfolding BuildRuleFile_Some BuildRecordingRules_cases BuildCoefficientRules_sorted NewRuleBuilder_def
    using coefs roots by (cases "re_Parents ex = []") (simp_all add: go_sort.sorter_length [symmetric], blast?)
qed

definition ex_values :: "unit values_env" where
  "ex_values = \<lparr>get_ConfigMap = (\<lambda>w ns n. Inl (ApiNotFound n)),
     get_Secret = (\<lambda>w ns n. Inl (ApiNotFound n)), parse_template = (\<lambda>t. Inr (\<lambda>ps. Inr t))\<rparr>"

definition ex_child :: DataCenterResource where
  "ex_child = ex_server\<lparr>dcr_Spec := (dcr_Spec ex_server)\<lparr>
     dspec_AdditionalLabels := Some (fmupd ''resource'' ''x'' (fmupd ''rack'' ''r1'' fmempty)),
     dspec_Parents := [\<lparr>pref_Name = ''pdu-1'', pref_Coefficient = ''0.5'',
        pref_CoefficientFrom = Some \<lparr>tf_Selector = \<lparr>sel_Value = ''0.5'', sel_ValueFrom = None\<rparr>,
          TemplateParameters = []\<rparr>\<rparr>]\<rparr>\<rparr>"

lemma ex_child_resolved:
  "resolve_Expressions ex_values () ''default'' ex_child =
     Ret (Inr \<lparr>re_EnergyMetric = [], re_Parents = [\<lparr>rp_Name = ''pdu-1'', rp_Coefficient = ''0.5''\<rparr>]\<rparr>)"
  by (simp add: resolve_Expressions_def resolveEnergyMetric_def resolveParentExpressions_def
      TemplateFrom_Render_literal ex_child_def ex_defs)

theorem rule_file_of_resource_witness:
  "\<exists>rules. BuildRuleFile (NewRuleBuilder ex_child
       \<lparr>re_EnergyMetric = [], re_Parents = [\<lparr>rp_Name = ''pdu-1'', rp_Coefficient = ''0.5''\<rparr>]\<rparr>) =
     Some \<lparr>file_Groups = [\<lparr>group_Name = ''chantico_'' @ SanitizeMetricName (dcr_Name ex_child),
                           group_Rules = rules\<rparr>]\<rparr>"
  using rule_file_of_resource [OF ex_child_resolved] by blast

text \<open>
  A resource has exactly one rule that records its power, and its labels are the
  resource's own name, type and parents, which additional labels never override, together
  with the additional labels under other names.
\<close>

theorem one_energy_rule:
  "\<exists>r. filter (\<lambda>r. rule_Record r = EnergyMetricName) (BuildRecordingRules b) = [r] \<and>
     (\<forall>k. fmlookup (rule_Labels r) k =
        (case fmlookup (own_labels (rb_resource b)) k of
           Some v \<Rightarrow> Some v
         | None \<Rightarrow> (case dspec_AdditionalLabels (dcr_Spec (rb_resource b)) of
                      None \<Rightarrow> None | Some added \<Rightarrow> fmlookup added k)))"
  by (simp add: BuildRecordingRules_cases coefficient_rules_no_energy energy_rule_def
      buildSharedLabels_lookup)

text \<open>
  \<open>SanitizeMetricName\<close> yields only characters of metric names, changes nothing
  exactly when the name has only such characters, and is idempotent.
\<close>

theorem SanitizeMetricName_valid:
  "list_all metric_char (SanitizeMetricName s) \<and>
   SanitizeMetricName (SanitizeMetricName s) = SanitizeMetricName s \<and>
   (SanitizeMetricName s = s \<longleftrightarrow> list_all metric_char s)"
  using Sanitize_metric Sanitize_id by metis

text \<open>
  Property C25: rendering the templates of a resource panics (on a nil pointer) exactly when the
  energy template has neither a text nor a source, or the energy template renders and the
  first parent coefficient that does not render has neither. Every other failure is an error.
\<close>

theorem resolve_Expressions_panics_iff:
  "(\<exists>m. resolve_Expressions E w ns d = Panic m) \<longleftrightarrow>
     (\<exists>tf. dspec_EnergyMetricFrom (dcr_Spec d) = Some tf \<and> \<not> renderable (Some tf)) \<or>
     (\<exists>e. resolveEnergyMetric E w ns d = Ret (Inr e)) \<and>
     (\<exists>xs p ys. dspec_Parents (dcr_Spec d) = xs @ p # ys \<and> \<not> renderable (pref_CoefficientFrom p) \<and>
        list_all (\<lambda>x. \<exists>r. coefficient_is E w ns x r) xs)"
proof -
  have "(\<exists>m. resolveEnergyMetric E w ns d = Panic m) \<longleftrightarrow>
      (\<exists>tf. dspec_EnergyMetricFrom (dcr_Spec d) = Some tf \<and> \<not> renderable (Some tf))"
    by (simp add: resolveEnergyMetric_def Render_Panic_iff split: option.splits)
  moreover have "(\<exists>m. resolve_Expressions E w ns d = Panic m) \<longleftrightarrow>
      (\<exists>m. resolveEnergyMetric E w ns d = Panic m) \<or>
      (\<exists>e. resolveEnergyMetric E w ns d = Ret (Inr e)) \<and>
      (\<exists>m. resolve_parents E w ns (dspec_Parents (dcr_Spec d)) [] = Panic m)"
    by (auto simp: resolve_Expressions_def resolveParentExpressions_def split: go.splits sum.splits)
  ultimately show ?thesis by (simp only: resolve_parents_Panic_iff list_all_iff)
qed

end
