(* ===== verification/Dcr_Controller.thy ===== *)
theory Dcr_Controller
  imports Cluster Dcr_Rules Lifecycle
begin

text \<open>
  \<open>internal/controller/datacenterresource_controller.go\<close>: the reconciler that validates a
  DataCenterResource, writes its recording rules to the volume and has Prometheus reload them.
  First the steps as the code has them, then the frame of a run (which files it can change),
  what a run that ends with \<open>Ready\<close> has achieved, what removing the finalizer has achieved,
  and a transition system over many reconciliations in which no rule file is orphaned.
\<close>

section \<open>The environment\<close>

record 'k dcr_env = "'k ctl_env" +
  get_DCR :: "'k \<Rightarrow> NamespacedName \<Rightarrow> DataCenterResource \<times> sys_error option"
  list_DCR :: "'k \<Rightarrow> string \<Rightarrow> (string \<times> string) list \<Rightarrow> DataCenterResource list \<times> sys_error option"
  list_PM :: "'k \<Rightarrow> string \<Rightarrow> PhysicalMeasurement list \<times> sys_error option"
  NewHelper_DCR :: "DataCenterResource \<Rightarrow> sys_error option"
  Patch_DCR :: "DataCenterResource \<Rightarrow> DataCenterResource \<Rightarrow> 'k \<Rightarrow> sys_error option \<times> 'k"
  yaml_Marshal_RuleFile :: "RuleFile \<Rightarrow> sys_error + bytes"
  IsValidLabelName :: "string \<Rightarrow> bool"
  range_labels :: "labels \<Rightarrow> string list"
  range_resources :: "resource_map \<Rightarrow> string list"

type_synonym 'k dcr_step = "(DataCenterResource, 'k world) step"

section \<open>Reloading Prometheus and removing the rule file\<close>

definition prometheusRulesDir :: string where
  "prometheusRulesDir = ''prometheus/rules''"

definition reload_url :: "('k, 'a) ctl_env_scheme \<Rightarrow> URL" where
  "reload_url E =
     \<lparr>url_Scheme = ''http'', url_Host = net_JoinHostPort (PrometheusServiceHost E) (PrometheusServicePort E),
      url_Path = ''/-/reload''\<rparr>"

definition reloadPrometheus :: "('k, 'a) ctl_env_scheme \<Rightarrow> 'k world \<Rightarrow> gerror option \<times> 'k world" where
  "reloadPrometheus E w =
     (case post E (reload_url E) w of
        (Inl err, w') \<Rightarrow> (Some (SysErr err), w')
      | (Inr status, w') \<Rightarrow>
          (if status \<noteq> 200 then
             (Some (Errorf (''prometheus reload returned status '' @ strconv_Itoa (int status))), w')
           else (None, w')))"

definition deleteRuleFile ::
    "('k, 'a) ctl_env_scheme \<Rightarrow> DataCenterResource \<Rightarrow> 'k world \<Rightarrow> gerror option \<times> 'k world" where
  "deleteRuleFile E d w =
     (let rulePath = filepath_Join [VolumeLocation E, prometheusRulesDir, dcr_Name d @ ''.yml''] in
      case os_Remove rulePath (w_fs w) of
        (Some err, fs) \<Rightarrow> (if sys_is_not_exist err then None else Some (SysErr err), w\<lparr>w_fs := fs\<rparr>)
      | (None, fs) \<Rightarrow> (None, w\<lparr>w_fs := fs\<rparr>))"

section \<open>Normalisation\<close>

definition literal_template :: "string \<Rightarrow> TemplateFrom" where
  "literal_template v = \<lparr>tf_Selector = \<lparr>sel_Value = v, sel_ValueFrom = None\<rparr>, TemplateParameters = []\<rparr>"

definition normalize_parent :: "ParentRef \<Rightarrow> ParentRef" where
  "normalize_parent p =
     (if pref_Coefficient p \<noteq> [] then p\<lparr>pref_CoefficientFrom := Some (literal_template (pref_Coefficient p))\<rparr>
      else p)"

definition normalizeDataCenterResource :: "DataCenterResource \<Rightarrow> DataCenterResource" where
  "normalizeDataCenterResource d =
     (let spec = dcr_Spec d;
          spec = (if dspec_EnergyMetric spec \<noteq> []
                  then spec\<lparr>dspec_EnergyMetricFrom := Some (literal_template (dspec_EnergyMetric spec))\<rparr>
                  else spec);
          spec = spec\<lparr>dspec_Parents := map normalize_parent (dspec_Parents spec)\<rparr>
      in d\<lparr>dcr_Spec := spec\<rparr>)"

section \<open>Steps\<close>

definition set_dcr ::
    "('k, 'a) ctl_env_scheme \<Rightarrow> ConditionType \<Rightarrow> ConditionStatus \<Rightarrow> ConditionReason \<Rightarrow> string
      \<Rightarrow> DataCenterResource \<Rightarrow> DataCenterResource" where
  "set_dcr E = dcr_UpdateStatusCondition (kube E)"

definition dcr_finalizers :: "(string list \<Rightarrow> string list) \<Rightarrow> DataCenterResource \<Rightarrow> DataCenterResource" where
  "dcr_finalizers f d = d\<lparr>dcr_Meta := (dcr_Meta d)\<lparr>meta_Finalizers := f (meta_Finalizers (dcr_Meta d))\<rparr>\<rparr>"

definition dcr_reconcileDeletion :: "('k, 'a) dcr_env_scheme \<Rightarrow> 'k dcr_step" where
  "dcr_reconcileDeletion E d w =
     (if meta_DeletionTimestamp (dcr_Meta d) = None then (Ret Continue, d, w)
      else if \<not> ContainsFinalizer (kube E) (meta_Finalizers (dcr_Meta d)) DataCenterResourceGraphFinalizer
      then (Ret Stop, d, w)
      else
        (case deleteRuleFile E d w of
           (Some err, w1) \<Rightarrow>
             (Ret (Error err),
              set_dcr E ConditionApplied ConditionFalse ReasonCleanupFailed
                (''Error deleting rule file: '' @ gerror_Error err) d, w1)
         | (None, w1) \<Rightarrow>
             (case reloadPrometheus E w1 of
                (Some err, w2) \<Rightarrow>
                  (Ret (Error err),
                   set_dcr E ConditionApplied ConditionFalse ReasonReloadFailed
                     (''Error reloading Prometheus: '' @ gerror_Error err) d, w2)
              | (None, w2) \<Rightarrow>
                  (Ret Stop,
                   dcr_finalizers (\<lambda>fs. RemoveFinalizer (kube E) fs DataCenterResourceGraphFinalizer) d, w2))))"

definition dcr_ensureFinalizerIsSet :: "('k, 'a) dcr_env_scheme \<Rightarrow> 'k dcr_step" where
  "dcr_ensureFinalizerIsSet E d w =
     (if ContainsFinalizer (kube E) (meta_Finalizers (dcr_Meta d)) DataCenterResourceGraphFinalizer
      then (Ret Continue, d, w)
      else (Ret Stop, dcr_finalizers (\<lambda>fs. AddFinalizer (kube E) fs DataCenterResourceGraphFinalizer) d, w))"

definition validationFailureReason :: "gerror \<Rightarrow> ConditionReason" where
  "validationFailureReason err =
     (if errors_As_ResourceNotFound err then ReasonDependencyUnavailable else ReasonInvalidSpec)"

definition mergeUnique ::
    "(resource_map \<Rightarrow> string list) \<Rightarrow> DataCenterResource list list \<Rightarrow> DataCenterResource list" where
  "mergeUnique order groups =
     (let seen = foldl (foldl (\<lambda>m item. fmupd (dcr_Name item) item m)) fmempty groups
      in GetFromMap seen (order seen))"

definition clearReferencedValidation ::
    "('k, 'a) dcr_env_scheme \<Rightarrow> DataCenterResource \<Rightarrow> DataCenterResource \<Rightarrow> 'k \<Rightarrow> 'k" where
  "clearReferencedValidation E d referenced k =
     (if IsStatusConditionFalse (kube E) (dcr_GetConditions referenced) (ConditionType_string ConditionValidated)
         \<or> IsStatusConditionFalse (kube E) (dcr_GetConditions d) (ConditionType_string ConditionValidated)
      then (case NewHelper_DCR E referenced of
              Some err \<Rightarrow> k
            | None \<Rightarrow>
                snd (Patch_DCR E referenced
                  (referenced\<lparr>dcr_Status := (dcr_Status referenced)\<lparr>dstat_InvolvedResource := []\<rparr>\<rparr>) k))
      else k)"

definition set_involved :: "string \<Rightarrow> DataCenterResource \<Rightarrow> DataCenterResource" where
  "set_involved n d = d\<lparr>dcr_Status := (dcr_Status d)\<lparr>dstat_InvolvedResource := n\<rparr>\<rparr>"

definition dcr_reconcileValidation :: "('k, 'a) dcr_env_scheme \<Rightarrow> 'k dcr_step" where
  "dcr_reconcileValidation E d w =
     (let ns = meta_Namespace (dcr_Meta d);
          dataCenterResources = fst (list_DCR E (w_k w) ns []);
          physicalMeasurements = fst (list_PM E (w_k w) ns)
      in case Validate (IsValidLabelName E) (range_labels E) d dataCenterResources physicalMeasurements of
           (visited, involvedResource, Some err) \<Rightarrow>
             (Ret (Error (DcrErr err)),
              set_dcr E ConditionValidated ConditionFalse (validationFailureReason (DcrErr err))
                (gerror_Error (DcrErr err)) (set_involved involvedResource d), w)
         | (visited, involvedResource, None) \<Rightarrow>
             (let references = fst (list_DCR E (w_k w) ns [(''status.involvedResource'', dcr_Name d)]);
                  children = fst (list_DCR E (w_k w) ns [(''spec.parents'', dcr_Name d)]);
                  visited =
                    (if dstat_InvolvedResource (dcr_Status d) \<noteq> []
                     then visited @ [fst (get_DCR E (w_k w)
                            \<lparr>req_Namespace = ns, req_Name = dstat_InvolvedResource (dcr_Status d)\<rparr>)]
                     else visited);
                  items = mergeUnique (range_resources E) [visited, references, children];
                  k = fold (clearReferencedValidation E d) items (w_k w)
              in (Ret Continue,
                  set_dcr E ConditionValidated ConditionTrue ReasonReconciled ''Validation successful''
                    (set_involved [] d), w\<lparr>w_k := k\<rparr>)))"

definition apply_failed ::
    "('k, 'a) ctl_env_scheme \<Rightarrow> ConditionReason \<Rightarrow> string \<Rightarrow> gerror \<Rightarrow> DataCenterResource \<Rightarrow> 'k world
      \<Rightarrow> StepResult go \<times> DataCenterResource \<times> 'k world" where
  "apply_failed E reason msg err d w =
     (Ret (Error err), set_dcr E ConditionApplied ConditionFalse reason (msg @ gerror_Error err) d, w)"

definition dcr_reconcileWriteRuleFile :: "('k, 'a) dcr_env_scheme \<Rightarrow> 'k dcr_step" where
  "dcr_reconcileWriteRuleFile E d w =
     (case resolve_Expressions E (w_k w) (meta_Namespace (dcr_Meta d)) d of
        Panic m \<Rightarrow> (Panic m, d, w)
      | Ret (Inl err) \<Rightarrow> apply_failed E ReasonTemplateResolutionFailed ''Failed to resolve templates: '' err d w
      | Ret (Inr resolvedExpressions) \<Rightarrow>
          (case BuildRuleFile (NewRuleBuilder d resolvedExpressions) of
             None \<Rightarrow>
               (case deleteRuleFile E d w of
                  (Some err, w1) \<Rightarrow> apply_failed E ReasonCleanupFailed ''Error deleting rule file: '' err d w1
                | (None, w1) \<Rightarrow>
                    (case reloadPrometheus E w1 of
                       (Some err, w2) \<Rightarrow>
                         apply_failed E ReasonReloadFailed ''Failed to reload Prometheus: '' err d w2
                     | (None, w2) \<Rightarrow>
                         (Ret Continue,
                          set_dcr E ConditionApplied ConditionTrue ReasonReconciled
                            ''No recording rule file required'' d, w2)))
           | Some ruleFile \<Rightarrow>
               (let rulesDir = filepath_Join [VolumeLocation E, prometheusRulesDir] in
                case os_MkdirAll rulesDir (w_fs w) of
                  (Some err, fs) \<Rightarrow>
                    apply_failed E ReasonApplyFailed (''Failed to create directory '' @ rulesDir @ '': '')
                      (SysErr err) d (w\<lparr>w_fs := fs\<rparr>)
                | (None, fs) \<Rightarrow>
                    (case yaml_Marshal_RuleFile E ruleFile of
                       Inl err \<Rightarrow>
                         apply_failed E ReasonApplyFailed ''Failed to marshal rule file: '' (SysErr err) d
                           (w\<lparr>w_fs := fs\<rparr>)
                     | Inr data \<Rightarrow>
                         (let rulePath = filepath_Join [rulesDir, dcr_Name d @ ''.yml''] in
                          case os_WriteFile rulePath data fs of
                            (Some err, fs1) \<Rightarrow>
                              apply_failed E ReasonApplyFailed ''Failed to write rule file: '' (SysErr err) d
                                (w\<lparr>w_fs := fs1\<rparr>)
                          | (None, fs1) \<Rightarrow>
                              (case reloadPrometheus E (w\<lparr>w_fs := fs1\<rparr>) of
                                 (Some err, w2) \<Rightarrow>
                                   apply_failed E ReasonReloadFailed ''Failed to reload Prometheus: '' err d w2
                               | (None, w2) \<Rightarrow>
                                   (Ret Continue,
                                    set_dcr E ConditionApplied ConditionTrue ReasonReconciled
                                      ''Recording rule file applied successfully'' d, w2)))))))"

definition dcr_reconcileReady :: "('k, 'a) dcr_env_scheme \<Rightarrow> 'k dcr_step" where
  "dcr_reconcileReady E d w =
     (Ret Continue, set_dcr E ConditionReady ConditionTrue ReasonReconciled ''Fully reconciled and ready'' d, w)"

definition dcr_steps :: "('k, 'a) dcr_env_scheme \<Rightarrow> 'k dcr_step list" where
  "dcr_steps E =
     [dcr_reconcileDeletion E, dcr_ensureFinalizerIsSet E, dcr_reconcileValidation E,
      dcr_reconcileWriteRuleFile E, dcr_reconcileReady E]"

text \<open>The body of \<open>Reconcile\<close> between the snapshot of the patch helper and the deferred patch.\<close>

definition dcr_run ::
    "('k, 'a) dcr_env_scheme \<Rightarrow> DataCenterResource \<Rightarrow> 'k world
      \<Rightarrow> (Result \<times> gerror option) go \<times> DataCenterResource \<times> 'k world" where
  "dcr_run E d w =
     Run (dcr_steps E)
       (set_dcr E ConditionReady ConditionUnknown ReasonReconciling ''Reconciliation is in progress'' d) w"

definition dcr_Reconcile ::
    "('k, 'a) dcr_env_scheme \<Rightarrow> NamespacedName \<Rightarrow> 'k world \<Rightarrow> (Result \<times> gerror option) go \<times> 'k world" where
  "dcr_Reconcile E req w =
     (case get_DCR E (w_k w) req of
        (_, Some err) \<Rightarrow>
          (if sys_is_api_not_found err then (Ret (empty_Result, None), w)
           else (Ret (empty_Result, Some (SysErr err)), w))
      | (d0, None) \<Rightarrow>
          (let d = normalizeDataCenterResource d0 in
           case NewHelper_DCR E d of
             Some err \<Rightarrow> (Ret (empty_Result, Some (SysErr err)), w)
           | None \<Rightarrow>
               (case dcr_run E d w of
                  (out, d', w1) \<Rightarrow>
                    (case Patch_DCR E d d' (w_k w1) of
                       (perr, k) \<Rightarrow>
                         (case out of
                            Panic m \<Rightarrow> (Panic m, w1\<lparr>w_k := k\<rparr>)
                          | Ret (result, reterr) \<Rightarrow>
                              (Ret (result, case perr of None \<Rightarrow> reterr
                                            | Some err \<Rightarrow> errors_Join [reterr, Some (SysErr err)]),
                               w1\<lparr>w_k := k\<rparr>))))))"

section \<open>Which resources a ConfigMap concerns\<close>

definition configMapNameMatchesSelector :: "string \<Rightarrow> TemplateFrom option \<Rightarrow> bool" where
  "configMapNameMatchesSelector configMapName selector =
     (case selector of None \<Rightarrow> False
      | Some tf \<Rightarrow>
          (case sel_ValueFrom (tf_Selector tf) of None \<Rightarrow> False
           | Some vf \<Rightarrow>
               (case ConfigMapKeyRef vf of None \<Rightarrow> False
                | Some ref \<Rightarrow> ref_Name ref = configMapName)))"

definition dataCenterResourceReferencesConfigMap :: "DataCenterResource \<Rightarrow> string \<Rightarrow> bool" where
  "dataCenterResourceReferencesConfigMap d configMapName \<longleftrightarrow>
     configMapNameMatchesSelector configMapName (dspec_EnergyMetricFrom (dcr_Spec d)) \<or>
     list_ex (\<lambda>parent. configMapNameMatchesSelector configMapName (pref_CoefficientFrom parent))
       (dspec_Parents (dcr_Spec d))"

definition dataCenterResourcesForConfigMap ::
    "('k, 'a) dcr_env_scheme \<Rightarrow> NamespacedName \<Rightarrow> 'k \<Rightarrow> NamespacedName list" where
  "dataCenterResourcesForConfigMap E configMap k =
     (case list_DCR E k (req_Namespace configMap) [] of
        (_, Some err) \<Rightarrow> []
      | (items, None) \<Rightarrow>
          map (\<lambda>d. \<lparr>req_Namespace = meta_Namespace (dcr_Meta d), req_Name = dcr_Name d\<rparr>)
            (filter (\<lambda>d. dataCenterResourceReferencesConfigMap d (req_Name configMap)) items))"

section \<open>The rule file on the volume\<close>

definition rule_key :: "('k, 'a) ctl_env_scheme \<Rightarrow> string \<Rightarrow> fpath" where
  "rule_key E n = path_norm (filepath_Join [VolumeLocation E, prometheusRulesDir, n @ ''.yml''])"

definition rule_content :: "('k, 'a) ctl_env_scheme \<Rightarrow> string \<Rightarrow> 'k world \<Rightarrow> bytes option" where
  "rule_content E n w = fmlookup (fs_files (w_fs w)) (rule_key E n)"

lemma rulePath_key:
  "path_norm (filepath_Join [filepath_Join [VolumeLocation E, prometheusRulesDir], n @ ''.yml'']) = rule_key E n"
  by (simp add: rule_key_def path_norm_Join_Join prometheusRulesDir_def)

lemma rule_key_inject:
  assumes "CHR ''/'' \<notin> set m" and "CHR ''/'' \<notin> set n"
  shows "rule_key E m = rule_key E n \<longleftrightarrow> m = n"
proof -
  have dir: "plain_rel prometheusRulesDir"
    by (simp add: prometheusRulesDir_def plain_rel_def is_rooted_def rel_comps_def plain_name_def)
  have "rule_key E k = (fst (path_norm (VolumeLocation E)),
      snd (path_norm (VolumeLocation E)) @ rel_comps prometheusRulesDir @ [k @ ''.yml''])"
    if "CHR ''/'' \<notin> set k" for k
    unfolding rule_key_def using that
    by (intro path_norm_Join_file [OF dir]) (auto simp: plain_name_def append_eq_Cons_conv)
  with assms show ?thesis by simp
qed

lemma deleteRuleFile_fs:
  assumes "deleteRuleFile E d w = (r, w')"
  shows "q \<noteq> rule_key E (dcr_Name d) \<Longrightarrow> fmlookup (fs_files (w_fs w')) q = fmlookup (fs_files (w_fs w)) q"
    and "r = None \<Longrightarrow> rule_content E (dcr_Name d) w' = None"
    and "rule_content E (dcr_Name d) w' \<noteq> None \<Longrightarrow>
      rule_content E (dcr_Name d) w' = rule_content E (dcr_Name d) w"
    and "wf_osfs (w_fs w) \<Longrightarrow> wf_osfs (w_fs w')"
    and "w_k w' = w_k w"
proof -
  let ?p = "filepath_Join [VolumeLocation E, prometheusRulesDir, dcr_Name d @ ''.yml'']"
  obtain e fs where rm: "os_Remove ?p (w_fs w) = (e, fs)" by fastforce
  with assms have w': "w' = w\<lparr>w_fs := fs\<rparr>"
    and r: "r = None \<Longrightarrow> e = None \<or> (\<exists>x. e = Some x \<and> sys_is_not_exist x)"
    by (auto simp: deleteRuleFile_def split: option.splits if_splits)
  note files = os_Remove_files [OF rm, folded rule_key_def]
  show "q \<noteq> rule_key E (dcr_Name d) \<Longrightarrow> fmlookup (fs_files (w_fs w')) q = fmlookup (fs_files (w_fs w)) q"
    using files(1) unfolding w' by (elim disjE) simp_all
  show "r = None \<Longrightarrow> rule_content E (dcr_Name d) w' = None"
    using files(2) r w' by (simp add: rule_content_def)
  show "rule_content E (dcr_Name d) w' \<noteq> None \<Longrightarrow>
      rule_content E (dcr_Name d) w' = rule_content E (dcr_Name d) w"
    using files(1) unfolding w' rule_content_def by (elim disjE) simp_all
  show "wf_osfs (w_fs w) \<Longrightarrow> wf_osfs (w_fs w')" using os_Remove_wf [OF _ rm] w' by simp
  show "w_k w' = w_k w" using w' by simp
qed

lemma reloadPrometheus_fs:
  assumes "reloadPrometheus E w = (r, w')"
  shows "w_fs w' = w_fs w"
    and "r = None \<Longrightarrow> http_Post E (reload_url E) (w_fs w) (w_k w) = (Inr 200, w_k w')"
proof -
  obtain a k where "http_Post E (reload_url E) (w_fs w) (w_k w) = (a, k)" by fastforce
  with assms show "w_fs w' = w_fs w"
    and "r = None \<Longrightarrow> http_Post E (reload_url E) (w_fs w) (w_k w) = (Inr 200, w_k w')"
    by (cases a; auto simp: reloadPrometheus_def post_def split: if_splits)+
qed

lemma set_dcr_simps [simp]:
  "dcr_Spec (set_dcr E t s r msg d) = dcr_Spec d"
  "dcr_Meta (set_dcr E t s r msg d) = dcr_Meta d"
  "dstat_InvolvedResource (dcr_Status (set_dcr E t s r msg d)) = dstat_InvolvedResource (dcr_Status d)"
  by (simp_all add: set_dcr_def)

lemma dcr_finalizers_simps [simp]:
  "dcr_Spec (dcr_finalizers f d) = dcr_Spec d"
  "dcr_Name (dcr_finalizers f d) = dcr_Name d"
  "meta_Namespace (dcr_Meta (dcr_finalizers f d)) = meta_Namespace (dcr_Meta d)"
  "meta_DeletionTimestamp (dcr_Meta (dcr_finalizers f d)) = meta_DeletionTimestamp (dcr_Meta d)"
  "meta_Finalizers (dcr_Meta (dcr_finalizers f d)) = f (meta_Finalizers (dcr_Meta d))"
  "dcr_GetConditions (dcr_finalizers f d) = dcr_GetConditions d"
  by (simp_all add: dcr_finalizers_def dcr_GetConditions_def)

lemma set_involved_simps [simp]:
  "dcr_Spec (set_involved n d) = dcr_Spec d"
  "dcr_Meta (set_involved n d) = dcr_Meta d"
  "dcr_GetConditions (set_involved n d) = dcr_GetConditions d"
  by (simp_all add: set_involved_def dcr_GetConditions_def)

text \<open>What the step that writes the rule file does: it fails and says so, or the file is written and loaded.\<close>

definition rule_applied ::
    "('k, 'a) dcr_env_scheme \<Rightarrow> DataCenterResource \<Rightarrow> 'k \<Rightarrow> 'k world \<Rightarrow> bool" where
  "rule_applied E d k w \<longleftrightarrow>
     (\<exists>ex rf data. resolve_Expressions E k (meta_Namespace (dcr_Meta d)) d = Ret (Inr ex)
        \<and> BuildRuleFile (NewRuleBuilder d ex) = Some rf \<and> yaml_Marshal_RuleFile E rf = Inr data
        \<and> rule_content E (dcr_Name d) w = Some data
        \<and> http_Post E (reload_url E) (w_fs w) k = (Inr 200, w_k w))"

lemma write_step_cases:
  assumes "dcr_reconcileWriteRuleFile E d w = (res, d', w')"
  obtains (panic) m where "res = Panic m" "d' = d" "w' = w"
  | (failed) err reason msg where "res = Ret (Error err)"
      "d' = set_dcr E ConditionApplied ConditionFalse reason msg d"
      "\<And>q. q \<noteq> rule_key E (dcr_Name d) \<Longrightarrow> fmlookup (fs_files (w_fs w')) q = fmlookup (fs_files (w_fs w)) q"
      "wf_osfs (w_fs w) \<Longrightarrow> wf_osfs (w_fs w')"
  | (applied) msg where "res = Ret Continue"
      "d' = set_dcr E ConditionApplied ConditionTrue ReasonReconciled msg d"
      "\<And>q. q \<noteq> rule_key E (dcr_Name d) \<Longrightarrow> fmlookup (fs_files (w_fs w')) q = fmlookup (fs_files (w_fs w)) q"
      "wf_osfs (w_fs w) \<Longrightarrow> wf_osfs (w_fs w')"
      "rule_applied E d (w_k w) w'"
proof (cases "resolve_Expressions E (w_k w) (meta_Namespace (dcr_Meta d)) d")
  case (Panic m)
  with assms show ?thesis by (intro panic) (auto simp: dcr_reconcileWriteRuleFile_def)
next
  case (Ret r)
  show ?thesis
  proof (cases r)
    case (Inl err)
    with Ret assms show ?thesis by (intro failed) (auto simp: dcr_reconcileWriteRuleFile_def apply_failed_def)
  next
    case (Inr ex)
    obtain rf where rf: "BuildRuleFile (NewRuleBuilder d ex) = Some rf" by (simp add: BuildRuleFile_Some)
    let ?dir = "filepath_Join [VolumeLocation E, prometheusRulesDir]"
    obtain e1 fs1 where mk: "os_MkdirAll ?dir (w_fs w) = (e1, fs1)" by fastforce
    note mkd = os_MkdirAll_files(1) [OF mk] os_MkdirAll_wf [OF _ mk]
    consider e where "e1 = Some e" | e where "e1 = None" "yaml_Marshal_RuleFile E rf = Inl e"
      | data where "e1 = None" "yaml_Marshal_RuleFile E rf = Inr data"
      by (cases e1; cases "yaml_Marshal_RuleFile E rf") auto
    then show ?thesis
    proof cases
      case 1
      with Ret Inr rf mk mkd assms show ?thesis
        by (intro failed) (auto simp: dcr_reconcileWriteRuleFile_def apply_failed_def Let_def)
    next
      case 2
      with Ret Inr rf mk mkd assms show ?thesis
        by (intro failed) (auto simp: dcr_reconcileWriteRuleFile_def apply_failed_def Let_def)
    next
      case data: 3
      obtain e2 fs2 where wr: "os_WriteFile (filepath_Join [?dir, dcr_Name d @ ''.yml'']) data fs1 = (e2, fs2)"
        by fastforce
      note other = os_WriteFile_other [OF wr, unfolded rulePath_key] os_WriteFile_wf [OF _ wr]
      show ?thesis
      proof (cases e2)
        case (Some err)
        with Ret Inr rf mk data wr other mkd assms show ?thesis
          by (intro failed) (auto simp: dcr_reconcileWriteRuleFile_def apply_failed_def Let_def)
      next
        case None
        obtain e3 w3 where rl: "reloadPrometheus E (w\<lparr>w_fs := fs2\<rparr>) = (e3, w3)" by fastforce
        note rlf = reloadPrometheus_fs [OF rl]
        have put: "fmlookup (fs_files fs2) (rule_key E (dcr_Name d)) = Some data"
          using os_WriteFile_ok wr None rulePath_key by metis
        show ?thesis
        proof (cases e3)
          case (Some err)
          with None Ret Inr rf mk data wr other mkd rl rlf assms show ?thesis
            by (intro failed) (auto simp: dcr_reconcileWriteRuleFile_def apply_failed_def Let_def)
        next
          case None
          then have w3: "w' = w3" "res = Ret Continue" "d' = set_dcr E ConditionApplied ConditionTrue
              ReasonReconciled ''Recording rule file applied successfully'' d"
            using \<open>e2 = None\<close> Ret Inr rf mk data wr rl assms
            by (auto simp: dcr_reconcileWriteRuleFile_def Let_def)
          moreover have "rule_applied E d (w_k w) w3"
            using Ret Inr rf data put rlf None by (auto simp: rule_applied_def rule_content_def)
          ultimately show ?thesis using applied other mkd rlf by auto
        qed
      qed
    qed
  qed
qed

text \<open>The rules depend on the spec and the metadata of the resource alone, not on its status.\<close>

lemma resolve_Expressions_cong:
  assumes "dcr_Spec d' = dcr_Spec d"
  shows "resolve_Expressions E k ns d' = resolve_Expressions E k ns d"
  unfolding resolve_Expressions_def resolveEnergyMetric_def resolveParentExpressions_def assms ..

lemma BuildRuleFile_cong:
  assumes "dcr_Spec d' = dcr_Spec d" and "dcr_Name d' = dcr_Name d"
  shows "BuildRuleFile (NewRuleBuilder d' ex) = BuildRuleFile (NewRuleBuilder d ex)"
proof -
  have "buildSharedLabels (NewRuleBuilder d' ex) = buildSharedLabels (NewRuleBuilder d ex)"
    unfolding fun_eq_iff buildSharedLabels_def constructParentNamesLabel_def NewRuleBuilder_def
    by (simp only: RuleBuilder.simps assms) simp
  with assms show ?thesis
    by (simp add: BuildRuleFile_Some BuildRecordingRules_cases BuildCoefficientRules_sorted
        NewRuleBuilder_def energy_rule_def coefficient_rule_def [abs_def])
qed

lemma rule_applied_cong:
  "dcr_Spec d' = dcr_Spec d \<Longrightarrow> dcr_Meta d' = dcr_Meta d \<Longrightarrow> rule_applied E d' k w = rule_applied E d k w"
  by (simp add: rule_applied_def resolve_Expressions_cong [of d' d] BuildRuleFile_cong [of d' d])

section \<open>The outcomes of a run\<close>

abbreviation has_finalizer :: "DataCenterResource \<Rightarrow> bool" where
  "has_finalizer d \<equiv> DataCenterResourceGraphFinalizer \<in> set (meta_Finalizers (dcr_Meta d))"

abbreviation deleting :: "DataCenterResource \<Rightarrow> bool" where
  "deleting d \<equiv> meta_DeletionTimestamp (dcr_Meta d) \<noteq> None"

definition started :: "('k, 'a) ctl_env_scheme \<Rightarrow> DataCenterResource \<Rightarrow> DataCenterResource" where
  "started E d =
     set_dcr E ConditionReady ConditionUnknown ReasonReconciling ''Reconciliation is in progress'' d"

definition validated :: "('k, 'a) ctl_env_scheme \<Rightarrow> DataCenterResource \<Rightarrow> DataCenterResource" where
  "validated E d =
     set_dcr E ConditionValidated ConditionTrue ReasonReconciled ''Validation successful''
       (set_involved [] (started E d))"

lemma started_simps [simp]:
  "dcr_Spec (started E d) = dcr_Spec d" "dcr_Meta (started E d) = dcr_Meta d"
  "dcr_Spec (validated E d) = dcr_Spec d" "dcr_Meta (validated E d) = dcr_Meta d"
  by (simp_all add: started_def validated_def)

definition same_files_but :: "('k, 'a) ctl_env_scheme \<Rightarrow> string \<Rightarrow> 'k world \<Rightarrow> 'k world \<Rightarrow> bool" where
  "same_files_but E n w w' \<longleftrightarrow>
     (\<forall>q. q \<noteq> rule_key E n \<longrightarrow> fmlookup (fs_files (w_fs w')) q = fmlookup (fs_files (w_fs w)) q)
   \<and> (wf_osfs (w_fs w) \<longrightarrow> wf_osfs (w_fs w'))"

lemma same_files_but_fs: "w_fs w' = w_fs w \<Longrightarrow> same_files_but E n w w'"
  by (simp add: same_files_but_def)

text \<open>The verdict of the validation on what the API lists.\<close>

abbreviation validation ::
    "('k, 'a) dcr_env_scheme \<Rightarrow> DataCenterResource \<Rightarrow> 'k world
      \<Rightarrow> DataCenterResource list \<times> string \<times> dcr_error option" where
  "validation E d w \<equiv>
     Validate (IsValidLabelName E) (range_labels E) (started E d)
       (fst (list_DCR E (w_k w) (meta_Namespace (dcr_Meta d)) []))
       (fst (list_PM E (w_k w) (meta_Namespace (dcr_Meta d))))"

datatype dcr_outcome =
    Gone | CleanupFailed gerror | Cleaned | FinalizerAdded | Invalid dcr_error | Panicked string
  | ApplyFailed gerror | Applied

inductive dcr_result ::
    "('k, 'a) dcr_env_scheme \<Rightarrow> DataCenterResource \<Rightarrow> 'k world
      \<Rightarrow> (Result \<times> gerror option) go \<Rightarrow> DataCenterResource \<Rightarrow> 'k world \<Rightarrow> dcr_outcome \<Rightarrow> bool"
  for E d w where
  gone: "deleting d \<Longrightarrow> \<not> has_finalizer d \<Longrightarrow>
     dcr_result E d w (Ret (empty_Result, None)) (started E d) w Gone"
| cleanup_failed: "deleting d \<Longrightarrow> has_finalizer d \<Longrightarrow> same_files_but E (dcr_Name d) w w' \<Longrightarrow>
     rule_content E (dcr_Name d) w' \<in> {None, rule_content E (dcr_Name d) w} \<Longrightarrow>
     d' = set_dcr E ConditionApplied ConditionFalse reason msg (started E d) \<Longrightarrow>
     dcr_result E d w (Ret (empty_Result, Some err)) d' w' (CleanupFailed err)"
| cleaned: "deleting d \<Longrightarrow> has_finalizer d \<Longrightarrow> same_files_but E (dcr_Name d) w w' \<Longrightarrow>
     rule_content E (dcr_Name d) w' = None \<Longrightarrow>
     http_Post E (reload_url E) (w_fs w') k = (Inr 200, w_k w') \<Longrightarrow>
     d' = dcr_finalizers (\<lambda>fs. RemoveFinalizer (kube E) fs DataCenterResourceGraphFinalizer) (started E d) \<Longrightarrow>
     dcr_result E d w (Ret (empty_Result, None)) d' w' Cleaned"
| finalizer_added: "\<not> deleting d \<Longrightarrow> \<not> has_finalizer d \<Longrightarrow>
     d' = dcr_finalizers (\<lambda>fs. AddFinalizer (kube E) fs DataCenterResourceGraphFinalizer) (started E d) \<Longrightarrow>
     dcr_result E d w (Ret (empty_Result, None)) d' w FinalizerAdded"
| invalid: "\<not> deleting d \<Longrightarrow> has_finalizer d \<Longrightarrow>
     validation E d w = (visited, involved, Some err) \<Longrightarrow>
     d' = set_dcr E ConditionValidated ConditionFalse (validationFailureReason (DcrErr err))
            (gerror_Error (DcrErr err)) (set_involved involved (started E d)) \<Longrightarrow>
     dcr_result E d w (Ret (empty_Result, Some (DcrErr err))) d' w (Invalid err)"
| panicked: "\<not> deleting d \<Longrightarrow> has_finalizer d \<Longrightarrow> snd (snd (validation E d w)) = None \<Longrightarrow>
     w_fs w' = w_fs w \<Longrightarrow>
     dcr_result E d w (Panic m) (validated E d) w' (Panicked m)"
| apply_failed: "\<not> deleting d \<Longrightarrow> has_finalizer d \<Longrightarrow> snd (snd (validation E d w)) = None \<Longrightarrow>
     same_files_but E (dcr_Name d) w w' \<Longrightarrow>
     d' = set_dcr E ConditionApplied ConditionFalse reason msg (validated E d) \<Longrightarrow>
     dcr_result E d w (Ret (empty_Result, Some err)) d' w' (ApplyFailed err)"
| applied: "\<not> deleting d \<Longrightarrow> has_finalizer d \<Longrightarrow> snd (snd (validation E d w)) = None \<Longrightarrow>
     same_files_but E (dcr_Name d) w w' \<Longrightarrow>
     rule_applied E d k w' \<Longrightarrow>
     d' = set_dcr E ConditionReady ConditionTrue ReasonReconciled ''Fully reconciled and ready''
            (set_dcr E ConditionApplied ConditionTrue ReasonReconciled msg (validated E d)) \<Longrightarrow>
     dcr_result E d w (Ret (empty_Result, None)) d' w' Applied"

inductive_cases dcr_resultE: "dcr_result E d w out d' w' oc"

text \<open>Every run is one of these outcomes.\<close>

lemma deletion_run:
  assumes "kube_lib (kube E)" and "deleting d" and "dcr_run E d w = (out, d', w')"
  shows "\<exists>oc. dcr_result E d w out d' w' oc"
proof (cases "has_finalizer d")
  case False
  with assms show ?thesis
    by (auto simp: dcr_run_def dcr_steps_def started_def [symmetric] dcr_reconcileDeletion_def
        kube_lib.ContainsFinalizer_iff intro!: exI gone)
next
  case fin: True
  obtain e1 w1 where del: "deleteRuleFile E (started E d) w = (e1, w1)" by fastforce
  note del_fs = deleteRuleFile_fs [OF del]
  obtain e2 w2 where rl: "reloadPrometheus E w1 = (e2, w2)" by fastforce
  note rl_fs = reloadPrometheus_fs [OF rl]
  have frame: "same_files_but E (dcr_Name d) w w1" "same_files_but E (dcr_Name d) w w2"
    using del_fs rl_fs(1) by (simp_all add: same_files_but_def)
  have content: "rule_content E (dcr_Name d) w2 = rule_content E (dcr_Name d) w1"
    "rule_content E (dcr_Name d) w1 \<in> {None, rule_content E (dcr_Name d) w}"
    using del_fs(3) rl_fs(1) unfolding rule_content_def
    by (simp, cases "fmlookup (fs_files (w_fs w1)) (rule_key E (dcr_Name d))", simp_all)
  have run: "dcr_run E d w =
      (case dcr_reconcileDeletion E (started E d) w of
         (Ret res, d1, w1) \<Rightarrow> (Ret (empty_Result, step_Err res), d1, w1) | r \<Rightarrow> (Panic [], d, w))"
    using assms fin del rl
    by (auto simp: dcr_run_def dcr_steps_def started_def [symmetric] dcr_reconcileDeletion_def
        kube_lib.ContainsFinalizer_iff Stop_def split: option.splits)
  show ?thesis
  proof (cases e1)
    case (Some err)
    with run fin assms del frame content show ?thesis
      by (auto simp: dcr_reconcileDeletion_def kube_lib.ContainsFinalizer_iff intro!: exI cleanup_failed)
  next
    case none: None
    show ?thesis
    proof (cases e2)
      case (Some err)
      with none run fin assms del rl frame content show ?thesis
        by (auto simp: dcr_reconcileDeletion_def kube_lib.ContainsFinalizer_iff intro!: exI cleanup_failed)
    next
      case None
      with none run fin assms del rl frame content del_fs(2) rl_fs show ?thesis
        by (auto simp: dcr_reconcileDeletion_def kube_lib.ContainsFinalizer_iff Stop_def intro!: exI cleaned)
    qed
  qed
qed

lemma live_run:
  assumes lib: "kube_lib (kube E)" and del: "\<not> deleting d" and run: "dcr_run E d w = (out, d', w')"
  shows "\<exists>oc. dcr_result E d w out d' w' oc"
proof (cases "has_finalizer d")
  case False
  with assms show ?thesis
    by (auto simp: dcr_run_def dcr_steps_def started_def [symmetric] dcr_reconcileDeletion_def
        dcr_ensureFinalizerIsSet_def kube_lib.ContainsFinalizer_iff intro!: exI finalizer_added)
next
  case fin: True
  have run3: "dcr_run E d w =
      Run [dcr_reconcileValidation E, dcr_reconcileWriteRuleFile E, dcr_reconcileReady E] (started E d) w"
    using lib del fin
    by (simp add: dcr_run_def dcr_steps_def started_def [symmetric] dcr_reconcileDeletion_def
        dcr_ensureFinalizerIsSet_def kube_lib.ContainsFinalizer_iff)
  let ?V = "validation E d w"
  obtain visited involved err where V: "?V = (visited, involved, err)" by (metis prod_cases3)
  show ?thesis
  proof (cases err)
    case (Some e)
    with V have "dcr_reconcileValidation E (started E d) w = (Ret (Error (DcrErr e)),
        set_dcr E ConditionValidated ConditionFalse (validationFailureReason (DcrErr e))
                (gerror_Error (DcrErr e)) (set_involved involved (started E d)), w)"
      by (simp add: dcr_reconcileValidation_def Let_def)
    with run run3 have "out = Ret (empty_Result, Some (DcrErr e))" "w' = w"
      "d' = set_dcr E ConditionValidated ConditionFalse (validationFailureReason (DcrErr e))
                (gerror_Error (DcrErr e)) (set_involved involved (started E d))" by simp_all
    with invalid [OF del fin, of E w visited involved e] V Some show ?thesis by auto
  next
    case None
    with V have ok: "snd (snd ?V) = None" by simp
    from None V obtain k where "dcr_reconcileValidation E (started E d) w =
        (Ret Continue, validated E d, w\<lparr>w_k := k\<rparr>)"
      by (simp add: dcr_reconcileValidation_def Let_def validated_def)
    with run run3 have run2: "Run [dcr_reconcileWriteRuleFile E, dcr_reconcileReady E]
        (validated E d) (w\<lparr>w_k := k\<rparr>) = (out, d', w')" by simp
    obtain res d2 w2 where wr: "dcr_reconcileWriteRuleFile E (validated E d) (w\<lparr>w_k := k\<rparr>) = (res, d2, w2)"
      by (metis prod_cases3)
    from wr show ?thesis
    proof (cases rule: write_step_cases)
      case (panic m)
      with run2 wr have "out = Panic m" "d' = validated E d" "w_fs w' = w_fs w" by auto
      with panicked [OF del fin ok] show ?thesis by blast
    next
      case (failed e reason msg)
      then have "same_files_but E (dcr_Name d) w w2" by (simp add: same_files_but_def)
      with apply_failed [OF del fin ok] failed run2 wr show ?thesis by fastforce
    next
      case (applied msg)
      then have "same_files_but E (dcr_Name d) w w2" by (simp add: same_files_but_def)
      moreover have "rule_applied E d k w2"
        using applied(5) by (simp add: rule_applied_cong [of "validated E d" d])
      moreover have "out = Ret (empty_Result, None)" "w' = w2"
        "d' = set_dcr E ConditionReady ConditionTrue ReasonReconciled ''Fully reconciled and ready''
            (set_dcr E ConditionApplied ConditionTrue ReasonReconciled msg (validated E d))"
        using applied run2 wr by (auto simp: dcr_reconcileReady_def)
      ultimately show ?thesis using dcr_result.applied [OF del fin ok, of w2 k d' msg] by auto
    qed
  qed
qed

lemma dcr_run_result:
  assumes "kube_lib (kube E)" and "dcr_run E d w = (out, d', w')"
  obtains oc where "dcr_result E d w out d' w' oc"
  using deletion_run [OF assms(1) _ assms(2)] live_run [OF assms(1) _ assms(2)] by blast

lemmas dcr_result_simps = started_def validated_def dcr.cond_is_update set_dcr_def

lemma set_dcr_cond_is:
  assumes "kube_lib (kube E)"
  shows "cond_is (dcr_GetConditions (set_dcr E t s r msg d)) t' s' \<longleftrightarrow>
    (if t' = t then s' = s else cond_is (dcr_GetConditions d) t' s')"
  by (simp add: set_dcr_def dcr.cond_is_update [OF assms])

text \<open>What every step of the reconciler keeps, and so every run, complete or not.\<close>

definition dcr_kept ::
    "('k, 'a) ctl_env_scheme \<Rightarrow> DataCenterResource \<times> 'k world \<Rightarrow> DataCenterResource \<times> 'k world \<Rightarrow> bool" where
  "dcr_kept E x y \<longleftrightarrow>
     dcr_Spec (fst y) = dcr_Spec (fst x) \<and> dcr_Name (fst y) = dcr_Name (fst x)
   \<and> same_files_but E (dcr_Name (fst x)) (snd x) (snd y)"

lemma deletion_kept:
  assumes "dcr_reconcileDeletion E d w = (res, d', w')"
  shows "dcr_kept E (d, w) (d', w')"
proof -
  obtain e1 w1 where del: "deleteRuleFile E d w = (e1, w1)" by fastforce
  obtain e2 w2 where rl: "reloadPrometheus E w1 = (e2, w2)" by fastforce
  have "same_files_but E (dcr_Name d) w w1" "same_files_but E (dcr_Name d) w w2"
    using deleteRuleFile_fs [OF del] reloadPrometheus_fs(1) [OF rl] by (simp_all add: same_files_but_def)
  then show ?thesis
    using assms del rl
    by (auto simp: dcr_reconcileDeletion_def dcr_kept_def same_files_but_fs split: if_splits option.splits)
qed

lemma validation_kept: "dcr_reconcileValidation E d w = (res, d', w') \<Longrightarrow> dcr_kept E (d, w) (d', w')"
  by (auto simp: dcr_reconcileValidation_def Let_def dcr_kept_def same_files_but_fs
      split: prod.splits option.splits)

lemma write_kept:
  assumes "dcr_reconcileWriteRuleFile E d w = (res, d', w')"
  shows "dcr_kept E (d, w) (d', w')"
  using assms by (cases rule: write_step_cases) (simp_all add: dcr_kept_def same_files_but_def)

lemma finalizer_kept: "dcr_ensureFinalizerIsSet E d w = (res, d', w') \<Longrightarrow> dcr_kept E (d, w) (d', w')"
  by (auto simp: dcr_ensureFinalizerIsSet_def dcr_kept_def same_files_but_fs split: if_splits)

lemma ready_kept: "dcr_reconcileReady E d w = (res, d', w') \<Longrightarrow> dcr_kept E (d, w) (d', w')"
  by (auto simp: dcr_reconcileReady_def dcr_kept_def same_files_but_fs)

interpretation dcr_frame: step_frame "dcr_steps E" "dcr_kept E" for E
proof
  show "dcr_kept E x x" for x by (simp add: dcr_kept_def same_files_but_fs)
  show "dcr_kept E x z" if "dcr_kept E x y" "dcr_kept E y z" for x y z
    using that by (simp add: dcr_kept_def same_files_but_def)
  show "dcr_kept E (d, w) (d', w')" if "step \<in> set (dcr_steps E)" "step d w = (res, d', w')"
    for step d w res d' w'
    using that
    by (auto simp: dcr_steps_def intro: deletion_kept validation_kept write_kept finalizer_kept ready_kept)
qed

lemma dcr_result_meta:
  assumes "dcr_result E d w out d' w' oc"
  shows "dcr_Spec d' = dcr_Spec d" "dcr_Name d' = dcr_Name d"
    "meta_DeletionTimestamp (dcr_Meta d') = meta_DeletionTimestamp (dcr_Meta d)"
  using assms by (cases rule: dcr_result.cases; simp)+

lemma dcr_ready_applied:
  assumes "kube_lib (kube E)" and "dcr_run E d w = (out, d', w')"
    and "cond_is (dcr_GetConditions d') ConditionReady ConditionTrue"
  obtains k where "\<not> deleting d" "has_finalizer d" "snd (snd (validation E d w)) = None"
    "rule_applied E d k w'" "out = Ret (empty_Result, None)" "meta_Finalizers (dcr_Meta d') = meta_Finalizers (dcr_Meta d)"
    "cond_is (dcr_GetConditions d') ConditionValidated ConditionTrue"
    "cond_is (dcr_GetConditions d') ConditionApplied ConditionTrue"
proof -
  from dcr_run_result [OF assms(1,2)] obtain oc where "dcr_result E d w out d' w' oc" .
  then show thesis
    using assms(3) that
    by (cases rule: dcr_result.cases)
      (auto simp: set_dcr_cond_is [OF assms(1)] started_def validated_def)
qed

section \<open>Properties of a run\<close>

text \<open>
  Property C1: a run that leaves a resource with the condition \<open>Ready\<close> true returned without an
  error or a panic, on a resource that is not being deleted, carries the finalizer and is valid;
  \<open>Validated\<close> and \<open>Applied\<close> are true, the rule file on the volume is the marshalled rule file
  of the resource's rendered templates, and Prometheus answered 200 to a reload with that file
  on the volume.
\<close>

theorem dcr_ready_means_applied:
  assumes "kube_lib (kube E)" and "dcr_run E d w = (out, d', w')"
    and "cond_is (dcr_GetConditions d') ConditionReady ConditionTrue"
  shows "out = Ret (empty_Result, None) \<and> meta_DeletionTimestamp (dcr_Meta d) = None
    \<and> DataCenterResourceGraphFinalizer \<in> set (meta_Finalizers (dcr_Meta d'))
    \<and> cond_is (dcr_GetConditions d') ConditionValidated ConditionTrue
    \<and> cond_is (dcr_GetConditions d') ConditionApplied ConditionTrue
    \<and> snd (snd (validation E d w)) = None
    \<and> (\<exists>k. rule_applied E d k w')"
  using assms by (rule dcr_ready_applied) auto

text \<open>
  Property C18: the reconciler gives up its finalizer only for a resource being deleted whose rule
  file is gone from the volume and after Prometheus answered 200 to a reload without it; in
  every other run a finalizer that is there stays.
\<close>

theorem dcr_finalizer_released_after_cleanup:
  assumes "kube_lib (kube E)" and "dcr_run E d w = (out, d', w')"
    and "DataCenterResourceGraphFinalizer \<in> set (meta_Finalizers (dcr_Meta d))"
    and "DataCenterResourceGraphFinalizer \<notin> set (meta_Finalizers (dcr_Meta d'))"
  shows "meta_DeletionTimestamp (dcr_Meta d) \<noteq> None \<and> rule_content E (dcr_Name d) w' = None
    \<and> (\<exists>k. http_Post E (reload_url E) (w_fs w') k = (Inr 200, w_k w'))"
proof -
  from dcr_run_result [OF assms(1,2)] obtain oc where "dcr_result E d w out d' w' oc" .
  then show ?thesis
    using assms(3,4) by (cases rule: dcr_result.cases) auto
qed

text \<open>
  A run changes no file of the volume but the rule file of its own resource, and
  keeps the file tree well formed, whether it succeeds, fails or panics.
\<close>

theorem dcr_run_frame:
  assumes "dcr_run E d w = (out, d', w')" and "q \<noteq> rule_key E (dcr_Name d)"
  shows "fmlookup (fs_files (w_fs w')) q = fmlookup (fs_files (w_fs w)) q
    \<and> (wf_osfs (w_fs w) \<longrightarrow> wf_osfs (w_fs w'))"
  using dcr_frame.Run_R [OF assms(1) [unfolded dcr_run_def]] assms(2)
  by (cases q) (simp add: dcr_kept_def same_files_but_def)

text \<open>
  Property C23: a resource that fails validation is not applied. The run returns the validation
  error, no file changes, \<open>Validated\<close> is false with reason DependencyUnavailable exactly for
  a missing resource (InvalidSpec otherwise) and the error's text, and the status names the
  involved resource.
\<close>

theorem dcr_invalid_not_applied:
  assumes "kube_lib (kube E)"
    and "meta_DeletionTimestamp (dcr_Meta d) = None"
    and "DataCenterResourceGraphFinalizer \<in> set (meta_Finalizers (dcr_Meta d))"
    and "validation E d w = (visited, involved, Some err)"
  shows "\<exists>d'. dcr_run E d w = (Ret (empty_Result, Some (DcrErr err)), d', w)
    \<and> FindStatusCondition (dcr_GetConditions d') ''Validated'' =
        Some \<lparr>cond_Type = ''Validated'', cond_Status = ConditionFalse,
              cond_Reason = (case err of ErrorResourceNotFound _ \<Rightarrow> ''DependencyUnavailable''
                             | _ \<Rightarrow> ''InvalidSpec''),
              cond_Message = dcr_error_Error err, cond_ObservedGeneration = meta_Generation (dcr_Meta d)\<rparr>
    \<and> dstat_InvolvedResource (dcr_Status d') = involved"
proof -
  obtain out d' w' where run: "dcr_run E d w = (out, d', w')" by (metis prod_cases3)
  from dcr_run_result [OF assms(1) run] obtain oc where "dcr_result E d w out d' w' oc" .
  note find = dcr.find_update [OF assms(1), where t' = ConditionValidated, unfolded ConditionType_string.simps]
  from \<open>dcr_result E d w out d' w' oc\<close> assms(2-4) run show ?thesis
    by (cases rule: dcr_result.cases)
      (auto simp: set_dcr_def find new_condition_def validationFailureReason_def started_def
        set_involved_def split: dcr_error.splits)
qed

section \<open>Convergence\<close>

text \<open>The volume accepts the rule file of a resource: nothing fails and nothing is in the way.\<close>

definition volume_ready :: "('k, 'a) ctl_env_scheme \<Rightarrow> string \<Rightarrow> osfs \<Rightarrow> bool" where
  "volume_ready E n fs \<longleftrightarrow>
     (\<forall>i. fs_fault fs i = None)
   \<and> \<not> list_ex (is_file fs) (prefixes (path_norm (filepath_Join [VolumeLocation E, prometheusRulesDir])))
   \<and> \<not> is_dir fs (rule_key E n)"

lemma rule_key_dir:
  assumes "CHR ''/'' \<notin> set n"
  shows "rule_key E n =
    (fst (path_norm (filepath_Join [VolumeLocation E, prometheusRulesDir])),
     snd (path_norm (filepath_Join [VolumeLocation E, prometheusRulesDir])) @ [n @ ''.yml''])"
proof -
  have "plain_rel prometheusRulesDir"
    by (simp add: prometheusRulesDir_def plain_rel_def is_rooted_def rel_comps_def plain_name_def)
  moreover have "plain_name (n @ ''.yml'')" using assms by (auto simp: plain_name_def append_eq_Cons_conv)
  ultimately show ?thesis
    using path_norm_Join [of "[prometheusRulesDir]" "VolumeLocation E"]
    by (simp add: rule_key_def path_norm_Join_file)
qed

lemma volume_ready_write:
  assumes vol: "volume_ready E n fs" and n: "CHR ''/'' \<notin> set n"
  obtains fs1 fs2 where
    "os_MkdirAll (filepath_Join [VolumeLocation E, prometheusRulesDir]) fs = (None, fs1)"
    "os_WriteFile (filepath_Join [filepath_Join [VolumeLocation E, prometheusRulesDir], n @ ''.yml'']) data fs1
       = (None, fs2)"
proof -
  let ?dir = "filepath_Join [VolumeLocation E, prometheusRulesDir]"
  let ?fs1 = "make_dirs (prefixes (path_norm ?dir)) (os_tick fs)"
  have mk: "os_MkdirAll ?dir fs = (None, ?fs1)"
    using vol by (simp add: os_MkdirAll_def volume_ready_def next_fault_def)
  have key: "parent (rule_key E n) = path_norm ?dir" by (simp add: rule_key_dir [OF n] parent_def)
  have "rule_key E n \<notin> set (prefixes (path_norm ?dir))"
    by (auto simp: rule_key_dir [OF n] in_prefixes dest!: arg_cong [of _ _ length])
  then have "\<not> is_dir ?fs1 (rule_key E n)" using vol by (simp add: volume_ready_def)
  moreover have "is_dir ?fs1 (path_norm ?dir)" using os_MkdirAll_ok [OF mk] .
  moreover have "next_fault ?fs1 = None" using vol by (simp add: volume_ready_def next_fault_def)
  ultimately obtain fs2 where "os_WriteFile (filepath_Join [?dir, n @ ''.yml'']) data ?fs1 = (None, fs2)"
    by (simp add: os_WriteFile_def Let_def rulePath_key key)
  with mk that show thesis by blast
qed

lemma dcr_converges:
  assumes lib: "kube_lib (kube E)"
    and obj: "meta_DeletionTimestamp (dcr_Meta d) = None"
      "DataCenterResourceGraphFinalizer \<in> set (meta_Finalizers (dcr_Meta d))"
      "CHR ''/'' \<notin> set (dcr_Name d)"
    and valid: "snd (snd (validation E d w)) = None"
    and renders: "\<And>k. \<exists>ex. resolve_Expressions E k (meta_Namespace (dcr_Meta d)) d = Ret (Inr ex)"
    and marshals: "\<And>rf. \<exists>b. yaml_Marshal_RuleFile E rf = Inr b"
    and reloads: "\<And>fs k. fst (http_Post E (reload_url E) fs k) = Inr 200"
    and volume: "volume_ready E (dcr_Name d) (w_fs w)"
  shows "\<exists>d' w'. dcr_run E d w = (Ret (empty_Result, None), d', w')
    \<and> cond_is (dcr_GetConditions d') ConditionReady ConditionTrue"
proof -
  have run3: "dcr_run E d w =
      Run [dcr_reconcileValidation E, dcr_reconcileWriteRuleFile E, dcr_reconcileReady E] (started E d) w"
    using lib obj
    by (simp add: dcr_run_def dcr_steps_def started_def [symmetric] dcr_reconcileDeletion_def
        dcr_ensureFinalizerIsSet_def kube_lib.ContainsFinalizer_iff)
  obtain visited involved where V: "validation E d w = (visited, involved, None)"
    using valid by (metis prod.collapse)
  then obtain k where val: "dcr_reconcileValidation E (started E d) w =
      (Ret Continue, validated E d, w\<lparr>w_k := k\<rparr>)"
    by (simp add: dcr_reconcileValidation_def Let_def validated_def)
  obtain ex where ex: "resolve_Expressions E k (meta_Namespace (dcr_Meta d)) (validated E d) = Ret (Inr ex)"
    using renders [of k] resolve_Expressions_cong [of "validated E d" d E k] by auto
  obtain rf data where rf: "BuildRuleFile (NewRuleBuilder (validated E d) ex) = Some rf"
    "yaml_Marshal_RuleFile E rf = Inr data"
    using marshals by (metis BuildRuleFile_Some)
  obtain fs1 fs2 where fs: "os_MkdirAll (filepath_Join [VolumeLocation E, prometheusRulesDir]) (w_fs w) = (None, fs1)"
    "os_WriteFile (filepath_Join [filepath_Join [VolumeLocation E, prometheusRulesDir], dcr_Name d @ ''.yml''])
       data fs1 = (None, fs2)"
    using volume_ready_write [OF volume obj(3)] by blast
  obtain w2 where "reloadPrometheus E (w\<lparr>w_k := k, w_fs := fs2\<rparr>) = (None, w2)"
    using reloads [of fs2 k] by (cases "http_Post E (reload_url E) fs2 k") (simp add: reloadPrometheus_def post_def)
  then obtain msg where "dcr_reconcileWriteRuleFile E (validated E d) (w\<lparr>w_k := k\<rparr>) =
      (Ret Continue, set_dcr E ConditionApplied ConditionTrue ReasonReconciled msg (validated E d), w2)"
    using ex rf fs by (simp add: dcr_reconcileWriteRuleFile_def Let_def)
  with run3 val show ?thesis by (simp add: dcr_reconcileReady_def set_dcr_cond_is [OF lib])
qed

section \<open>Many reconciliations\<close>

text \<open>
  The resource named \<open>n\<close> follows the finalizer protocol: what it owns is its rule file. (The
  contract is vacuous when the library helpers do not behave as documented.)
\<close>

definition dcr_life :: "('k, 'a) dcr_env_scheme \<Rightarrow> string \<Rightarrow> (DataCenterResource, 'k world) life" where
  "dcr_life E n =
     \<lparr>life_meta = dcr_Meta,
      life_set_finalizers = (\<lambda>fs d. d\<lparr>dcr_Meta := (dcr_Meta d)\<lparr>meta_Finalizers := fs\<rparr>\<rparr>),
      life_named = (\<lambda>d. dcr_Name d = n), life_finalizer = DataCenterResourceGraphFinalizer,
      life_run = (\<lambda>d w. snd (dcr_run E (normalizeDataCenterResource d) w)),
      life_owned = (\<lambda>w. kube_lib (kube E) \<and> rule_content E n w \<noteq> None)\<rparr>"

lemma dcr_life_simps [simp]:
  "life_meta (dcr_life E n) = dcr_Meta" "life_finalizer (dcr_life E n) = DataCenterResourceGraphFinalizer"
  "life_named (dcr_life E n) d = (dcr_Name d = n)"
  "life_owned (dcr_life E n) w = (kube_lib (kube E) \<and> rule_content E n w \<noteq> None)"
  "life_run (dcr_life E n) d w = snd (dcr_run E (normalizeDataCenterResource d) w)"
  "life_set_finalizers (dcr_life E n) fs d = d\<lparr>dcr_Meta := (dcr_Meta d)\<lparr>meta_Finalizers := fs\<rparr>\<rparr>"
  by (simp_all add: dcr_life_def)

lemma normalize_simps [simp]:
  "dcr_Meta (normalizeDataCenterResource d) = dcr_Meta d"
  "dcr_Status (normalizeDataCenterResource d) = dcr_Status d"
  by (simp_all add: normalizeDataCenterResource_def Let_def)

lemma dcr_run_guarded:
  assumes "kube_lib (kube E)" and "dcr_run E d w = (out, d', w')"
    and "rule_content E (dcr_Name d) w \<noteq> None \<Longrightarrow> has_finalizer d"
    and "rule_content E (dcr_Name d) w' \<noteq> None"
  shows "has_finalizer d \<and> has_finalizer d'"
proof -
  from dcr_run_result [OF assms(1,2)] obtain oc where "dcr_result E d w out d' w' oc" .
  then show ?thesis
    using assms(3,4) by (cases rule: dcr_result.cases) auto
qed

interpretation dcr_life: life_cycle "dcr_life E n"
proof unfold_locales
  fix d w d' w'
  assume d: "life_named (dcr_life E n) d" and run: "life_run (dcr_life E n) d w = (d', w')"
    and "life_owned (dcr_life E n) w \<Longrightarrow> life_guarded (dcr_life E n) d" and "life_owned (dcr_life E n) w'"
  moreover from run obtain out where "dcr_run E (normalizeDataCenterResource d) w = (out, d', w')"
    by (cases "dcr_run E (normalizeDataCenterResource d) w") auto
  ultimately show "life_guarded (dcr_life E n) d \<and> life_guarded (dcr_life E n) d'"
    using dcr_run_guarded [of E "normalizeDataCenterResource d" w out d' w'] by simp
qed simp_all

section \<open>An example environment\<close>

definition ex_fs :: osfs where
  "ex_fs = \<lparr>fs_files = fmempty, fs_dirs = {||}, fs_fault = (\<lambda>_. None), fs_clock = 0\<rparr>"

definition ex_world :: "unit world" where
  "ex_world = \<lparr>w_fs = ex_fs, w_k = ()\<rparr>"

definition ex_env :: "unit dcr_env" where
  "ex_env = \<lparr>get_ConfigMap = (\<lambda>k ns n. Inl (ApiNotFound n)), get_Secret = (\<lambda>k ns n. Inl (ApiNotFound n)),
     parse_template = (\<lambda>t. Inr (\<lambda>ps. Inr t)), kube = klib_reference, VolumeLocation = ''/data'',
     PrometheusServiceHost = ''prometheus'', PrometheusServicePort = ''9090'',
     http_Post = (\<lambda>u fs k. (Inr 200, k)),
     get_DCR = (\<lambda>k req. (ex_pdu, None)), list_DCR = (\<lambda>k ns fields. ([ex_pdu], None)),
     list_PM = (\<lambda>k ns. ([], None)), NewHelper_DCR = (\<lambda>d. None), Patch_DCR = (\<lambda>d d' k. (None, k)),
     yaml_Marshal_RuleFile = (\<lambda>rf. Inr ''groups''), IsValidLabelName = (\<lambda>l. l \<noteq> []),
     range_labels = key_order, range_resources = key_order\<rparr>"

definition ex_pdu_final :: DataCenterResource where
  "ex_pdu_final = ex_pdu\<lparr>dcr_Meta := (dcr_Meta ex_pdu)\<lparr>meta_Finalizers := [DataCenterResourceGraphFinalizer]\<rparr>\<rparr>"

definition ex_pdu_deleting :: DataCenterResource where
  "ex_pdu_deleting = ex_pdu_final\<lparr>dcr_Meta := (dcr_Meta ex_pdu_final)\<lparr>meta_DeletionTimestamp := Some 1\<rparr>\<rparr>"

lemma ex_env_lib: "kube_lib (kube ex_env)"
  by (simp add: ex_env_def klib_ref.kube_lib_axioms)

definition ex_pdu_normal :: DataCenterResource where
  "ex_pdu_normal = normalizeDataCenterResource ex_pdu_final"

lemma ex_pdu_normal_simps [simp]:
  "meta_DeletionTimestamp (dcr_Meta ex_pdu_normal) = None"
  "meta_Finalizers (dcr_Meta ex_pdu_normal) = [DataCenterResourceGraphFinalizer]"
  "dcr_Name ex_pdu_normal = ''pdu-1''"
  "dspec_Parents (dcr_Spec ex_pdu_normal) = []"
  "dspec_EnergyMetricFrom (dcr_Spec ex_pdu_normal) = Some (literal_template ''pdu_energy'')"
  "dspec_Type (dcr_Spec ex_pdu_normal) = ''pdu''"
  "dspec_AdditionalLabels (dcr_Spec ex_pdu_normal) = None"
  by (simp_all add: ex_pdu_normal_def ex_pdu_final_def ex_defs normalizeDataCenterResource_def)

lemma ex_pdu_final_meta [simp]:
  "meta_DeletionTimestamp (dcr_Meta ex_pdu_final) = None"
  "meta_Finalizers (dcr_Meta ex_pdu_final) = [DataCenterResourceGraphFinalizer]"
  "dcr_Name ex_pdu_final = ''pdu-1''"
  by (simp_all add: ex_pdu_final_def ex_defs)

lemma ex_pdu_deleting_meta [simp]:
  "meta_DeletionTimestamp (dcr_Meta ex_pdu_deleting) = Some 1"
  "meta_Finalizers (dcr_Meta ex_pdu_deleting) = [DataCenterResourceGraphFinalizer]"
  "dcr_Name ex_pdu_deleting = ''pdu-1''"
  by (simp_all add: ex_pdu_deleting_def)

lemma ex_world_fs [simp]: "w_fs ex_world = ex_fs"
  by (simp add: ex_world_def)

lemma ex_pdu_valid:
  "snd (snd (Validate (IsValidLabelName ex_env) (range_labels ex_env) (started ex_env ex_pdu_normal) ds pms)) = None"
  by (simp add: Validate_def validateGraph_def graph_loop.simps validators_def
      validateResourceType_def validateAdditionalLabelNames_def DataCenterResourceTypePDU_def)

lemma ex_pdu_renders:
  "resolve_Expressions ex_env k ns ex_pdu_normal = Ret (Inr \<lparr>re_EnergyMetric = ''pdu_energy'', re_Parents = []\<rparr>)"
  by (simp add: resolve_Expressions_def resolveEnergyMetric_def resolveParentExpressions_def
      TemplateFrom_Render_literal literal_template_def)

lemma ex_volume: "volume_ready ex_env ''pdu-1'' ex_fs"
  by (simp add: volume_ready_def ex_fs_def is_file_def [abs_def] is_dir_def list_ex_iff rule_key_dir)

lemma ex_env_total:
  "\<exists>b. yaml_Marshal_RuleFile ex_env rf = Inr b" "fst (http_Post ex_env u fs k) = Inr 200"
  by (simp_all add: ex_env_def)

lemma ex_pdu_converges:
  obtains d' w' where "dcr_run ex_env ex_pdu_normal ex_world = (Ret (empty_Result, None), d', w')"
    "cond_is (dcr_GetConditions d') ConditionReady ConditionTrue"
  using dcr_converges [OF ex_env_lib, of ex_pdu_normal ex_world]
  by (auto simp: ex_pdu_valid ex_pdu_renders ex_volume ex_env_total)

theorem dcr_ready_means_applied_witness:
  "\<exists>k d' w'. dcr_run ex_env ex_pdu_normal ex_world = (Ret (empty_Result, None), d', w')
     \<and> rule_applied ex_env ex_pdu_normal k w'"
proof -
  obtain d' w' where run: "dcr_run ex_env ex_pdu_normal ex_world = (Ret (empty_Result, None), d', w')"
    "cond_is (dcr_GetConditions d') ConditionReady ConditionTrue" by (rule ex_pdu_converges)
  from dcr_ready_means_applied [OF ex_env_lib run] run show ?thesis by blast
qed

lemma ex_deleting_run:
  "dcr_run ex_env ex_pdu_deleting ex_world =
     (Ret (empty_Result, None),
      dcr_finalizers (\<lambda>fs. removeAll DataCenterResourceGraphFinalizer fs) (started ex_env ex_pdu_deleting),
      ex_world\<lparr>w_fs := os_tick ex_fs\<rparr>)"
proof -
  let ?p = "filepath_Join [VolumeLocation ex_env, prometheusRulesDir, ''pdu-1.yml'']"
  have "snd (path_norm ?p) \<noteq> []"
    using rule_key_dir [of "''pdu-1''" ex_env] by (simp add: rule_key_def)
  moreover have "\<not> strict_prefix_file ex_fs q" for q
    by (simp add: strict_prefix_file_def ex_fs_def is_file_def list_ex_iff)
  ultimately have "os_Remove ?p ex_fs =
      (Some (NotExist (path_error ''remove'' ?p ''no such file or directory'')), os_tick ex_fs)"
    by (simp add: os_Remove_def Let_def next_fault_def missing_error_def is_file_def is_dir_def,
        simp add: ex_fs_def missing_error_def)
  then have "deleteRuleFile ex_env (started ex_env ex_pdu_deleting) ex_world =
      (None, ex_world\<lparr>w_fs := os_tick ex_fs\<rparr>)"
    by (simp add: deleteRuleFile_def Let_def)
  moreover have "reloadPrometheus ex_env w = (None, w)" for w
    by (simp add: reloadPrometheus_def post_def ex_env_def)
  ultimately show ?thesis
    by (simp add: dcr_run_def dcr_steps_def started_def [symmetric] dcr_reconcileDeletion_def
        kube_lib.ContainsFinalizer_iff [OF ex_env_lib])
      (simp add: ex_env_def klib_reference_def)
qed

theorem dcr_finalizer_released_after_cleanup_witness:
  "rule_content ex_env ''pdu-1'' (ex_world\<lparr>w_fs := os_tick ex_fs\<rparr>) = None
   \<and> meta_DeletionTimestamp (dcr_Meta ex_pdu_deleting) \<noteq> None"
  using dcr_finalizer_released_after_cleanup [OF ex_env_lib ex_deleting_run] by simp

theorem dcr_run_frame_witness:
  "\<exists>d' w'. dcr_run ex_env ex_pdu_normal ex_world = (Ret (empty_Result, None), d', w')
     \<and> fmlookup (fs_files (w_fs w')) (rule_key ex_env ''server-1'') = None"
proof -
  obtain d' w' where run: "dcr_run ex_env ex_pdu_normal ex_world = (Ret (empty_Result, None), d', w')"
    by (rule ex_pdu_converges)
  have "rule_key ex_env ''server-1'' \<noteq> rule_key ex_env (dcr_Name ex_pdu_normal)"
    by (simp add: rule_key_inject)
  from dcr_run_frame [OF run this] run show ?thesis by (simp add: ex_fs_def)
qed

definition ex_orphan :: DataCenterResource where
  "ex_orphan = ex_pdu_normal\<lparr>dcr_Spec := (dcr_Spec ex_pdu_normal)\<lparr>dspec_Parents :=
     [\<lparr>pref_Name = ''missing'', pref_Coefficient = ''1'', pref_CoefficientFrom = None\<rparr>]\<rparr>\<rparr>"

theorem dcr_invalid_not_applied_witness:
  "\<exists>d'. dcr_run ex_env ex_orphan ex_world =
     (Ret (empty_Result, Some (DcrErr (ErrorResourceNotFound ''missing''))), d', ex_world)"
proof -
  have "Validate (IsValidLabelName ex_env) (range_labels ex_env) (started ex_env ex_orphan)
      (fst (list_DCR ex_env () ns [])) (fst (list_PM ex_env () ns)) =
      ([], ''missing'', Some (ErrorResourceNotFound ''missing''))" for ns
    by (simp add: Validate_def validateGraph_def ex_orphan_def graph_loop.simps GetFromMap_def)
      (simp add: ex_env_def ex_defs GetFromMap_def)
  with dcr_invalid_not_applied [OF ex_env_lib, of ex_orphan ex_world] show ?thesis
    by (auto simp: ex_orphan_def ex_world_def)
qed

text \<open>
  Property C4: no rule file is orphaned. However a resource is created, edited, deleted and
  reconciled, and whichever patches are lost, whenever its rule file is on the volume the API
  server still stores the resource with the finalizer that makes the reconciler remove the file.
\<close>

theorem dcr_no_orphaned_rule_file:
  assumes "kube_lib (kube E)" and "life_reachable (dcr_life E n) (obj, w)" and "rule_content E n w \<noteq> None"
  shows "\<exists>d. obj = Some d \<and> dcr_Name d = n
    \<and> DataCenterResourceGraphFinalizer \<in> set (meta_Finalizers (dcr_Meta d))"
  using dcr_life.no_orphan_reachable [OF assms(2)] assms(1,3) by (auto simp: no_orphan_def split: option.splits)

theorem dcr_no_orphaned_rule_file_witness:
  "\<exists>obj w d. life_reachable (dcr_life ex_env ''pdu-1'') (obj, w) \<and> rule_content ex_env ''pdu-1'' w \<noteq> None
     \<and> obj = Some d \<and> DataCenterResourceGraphFinalizer \<in> set (meta_Finalizers (dcr_Meta d))"
proof -
  obtain d' w' where run: "dcr_run ex_env ex_pdu_normal ex_world = (Ret (empty_Result, None), d', w')"
    "cond_is (dcr_GetConditions d') ConditionReady ConditionTrue" by (rule ex_pdu_converges)
  let ?L = "dcr_life ex_env ''pdu-1''"
  have "life_reachable ?L (None, ex_world)"
    by (rule life_reachable.init) (simp add: rule_content_def ex_fs_def)
  then have "life_reachable ?L (Some ex_pdu_final, ex_world)"
    by (rule life_reachable.step) (rule life_step.create, simp_all)
  then have reach: "life_reachable ?L (life_stored ?L ex_pdu_final (meta_Finalizers (life_meta ?L d')), w')"
    using run(1) by (elim life_reachable.step, intro reconcile_patched) (simp_all add: ex_pdu_normal_def)
  have "rule_content ex_env ''pdu-1'' w' \<noteq> None"
    by (rule dcr_ready_applied [OF ex_env_lib run]) (auto simp: rule_applied_def)
  with dcr_no_orphaned_rule_file [OF ex_env_lib reach] reach show ?thesis by fastforce
qed

end
