(* ===== verification/Dcr_Watch.thy ===== *)
theory Dcr_Watch
  imports Dcr_Controller
begin

text \<open>
  The ConfigMap watch of the DataCenterResource reconciler. The reconciler is woken for the
  resources whose energy or coefficient template text comes from the ConfigMap; the theorems
  say for which resources that is enough: as long as no template parameter reads the
  ConfigMap, a resource that is not woken would render to the same expressions. The last
  theorem shows the gap the parameters leave. \<open>mergeUnique\<close> is characterised here too.
\<close>

section \<open>What a template reads\<close>

definition reads_configmap :: "string \<Rightarrow> ValueSource option \<Rightarrow> bool" where
  "reads_configmap cm vf =
     (case vf of None \<Rightarrow> False
      | Some v \<Rightarrow> (case ConfigMapKeyRef v of None \<Rightarrow> False | Some ref \<Rightarrow> ref_Name ref = cm))"

definition params_read :: "string \<Rightarrow> TemplateFrom option \<Rightarrow> bool" where
  "params_read cm tf =
     (case tf of None \<Rightarrow> False
      | Some t \<Rightarrow> list_ex (\<lambda>p. reads_configmap cm (sel_ValueFrom (param_Selector p))) (TemplateParameters t))"

definition resource_params_read :: "string \<Rightarrow> DataCenterResource \<Rightarrow> bool" where
  "resource_params_read cm d \<longleftrightarrow>
     params_read cm (dspec_EnergyMetricFrom (dcr_Spec d)) \<or>
     list_ex (\<lambda>p. params_read cm (pref_CoefficientFrom p)) (dspec_Parents (dcr_Spec d))"

text \<open>Two states of the cluster that differ in one ConfigMap of the namespace at most.\<close>

definition same_but_configmap :: "('k, 'a) values_env_scheme \<Rightarrow> string \<Rightarrow> string \<Rightarrow> 'k \<Rightarrow> 'k \<Rightarrow> bool" where
  "same_but_configmap E ns cm k k' \<longleftrightarrow>
     (\<forall>n. n \<noteq> cm \<longrightarrow> get_ConfigMap E k' ns n = get_ConfigMap E k ns n) \<and>
     (\<forall>n. get_Secret E k' ns n = get_Secret E k ns n)"

lemma ValueSource_Resolve_same:
  assumes "same_but_configmap E ns cm k k'" and "\<not> reads_configmap cm (Some vf)"
  shows "ValueSource_Resolve E k' ns vf = ValueSource_Resolve E k ns vf"
  using assms
  by (auto simp: ValueSource_Resolve_def fetchFromConfigMap_def fetchFromSecret_def reads_configmap_def
      same_but_configmap_def split: option.splits)

lemma TemplateParameter_Resolve_same:
  assumes "same_but_configmap E ns cm k k'" and "\<not> reads_configmap cm (sel_ValueFrom (param_Selector p))"
  shows "TemplateParameter_Resolve E k' ns p = TemplateParameter_Resolve E k ns p"
  using assms(2) ValueSource_Resolve_same [OF assms(1)]
  by (auto simp: TemplateParameter_Resolve_def Selector_Resolve_def split: option.splits)

lemma resolve_params_same:
  assumes "same_but_configmap E ns cm k k'"
    and "\<not> list_ex (\<lambda>p. reads_configmap cm (sel_ValueFrom (param_Selector p))) ps"
  shows "resolve_params E k' ns ps acc = resolve_params E k ns ps acc"
  using assms(2)
  by (induction ps arbitrary: acc)
    (auto simp: TemplateParameter_Resolve_same [OF assms(1)] split: sum.splits)

lemma Render_same:
  assumes "same_but_configmap E ns cm k k'"
    and "\<not> configMapNameMatchesSelector cm tf" and "\<not> params_read cm tf"
  shows "TemplateFrom_Render E k' ns tf = TemplateFrom_Render E k ns tf"
proof (cases tf)
  case None
  then show ?thesis by (simp add: TemplateFrom_Render_def ResolveTemplate_def)
next
  case (Some t)
  have "\<not> reads_configmap cm (sel_ValueFrom (tf_Selector t))"
    using assms(2) Some
    by (simp add: configMapNameMatchesSelector_def reads_configmap_def split: option.splits)
  then have "ResolveTemplate E k' ns tf = ResolveTemplate E k ns tf"
    using ValueSource_Resolve_same [OF assms(1)] Some
    by (auto simp: ResolveTemplate_def split: option.splits)
  moreover have "ResolveTemplateParameters E k' ns t = ResolveTemplateParameters E k ns t"
    using resolve_params_same [OF assms(1)] assms(3) Some
    by (simp add: ResolveTemplateParameters_def params_read_def)
  ultimately show ?thesis unfolding TemplateFrom_Render_def Some option.sel by (simp only:)
qed

lemma resolve_parents_same:
  assumes "same_but_configmap E ns cm k k'"
    and "\<not> list_ex (\<lambda>p. configMapNameMatchesSelector cm (pref_CoefficientFrom p)) ps"
    and "\<not> list_ex (\<lambda>p. params_read cm (pref_CoefficientFrom p)) ps"
  shows "resolve_parents E k' ns ps acc = resolve_parents E k ns ps acc"
  using assms(2,3)
  by (induction ps arbitrary: acc) (auto simp: Render_same [OF assms(1)] split: go.splits sum.splits)

section \<open>Properties of the watch\<close>

text \<open>
  The watch is enough for template texts. When a ConfigMap changes, a resource
  that is not selected by \<open>dataCenterResourceReferencesConfigMap\<close> and has no template
  parameter reading that ConfigMap renders to the same expressions as before.
\<close>

theorem configmap_watch_sound:
  assumes "same_but_configmap E ns cm k k'"
    and "\<not> dataCenterResourceReferencesConfigMap d cm" and "\<not> resource_params_read cm d"
  shows "resolve_Expressions E k' ns d = resolve_Expressions E k ns d"
proof -
  have "resolveEnergyMetric E k' ns d = resolveEnergyMetric E k ns d"
    using Render_same [OF assms(1)] assms(2,3)
    by (auto simp: resolveEnergyMetric_def dataCenterResourceReferencesConfigMap_def
        resource_params_read_def split: option.splits)
  moreover have "resolveParentExpressions E k' ns d = resolveParentExpressions E k ns d"
    using resolve_parents_same [OF assms(1)] assms(2,3)
    by (simp add: resolveParentExpressions_def dataCenterResourceReferencesConfigMap_def
        resource_params_read_def)
  ultimately show ?thesis unfolding resolve_Expressions_def by (simp only:)
qed

text \<open>A cluster with one ConfigMap whose key \<open>v\<close> holds the state.\<close>

definition ex_cm_env :: "string values_env" where
  "ex_cm_env = \<lparr>get_ConfigMap = (\<lambda>k ns n. if n = ''cm'' then Inr (fmupd ''v'' k fmempty) else Inl (ApiNotFound n)),
     get_Secret = (\<lambda>k ns n. Inl (ApiNotFound n)),
     parse_template = (\<lambda>t. Inr (\<lambda>ps. case fmlookup ps t of None \<Rightarrow> Inl (LibError t) | Some v \<Rightarrow> Inr v))\<rparr>"

definition ex_param_resource :: "string \<Rightarrow> DataCenterResource" where
  "ex_param_resource cm = ex_pdu\<lparr>dcr_Spec := (dcr_Spec ex_pdu)\<lparr>
     dspec_EnergyMetric := [],
     dspec_EnergyMetricFrom := Some \<lparr>tf_Selector = \<lparr>sel_Value = ''p'', sel_ValueFrom = None\<rparr>,
       TemplateParameters = [\<lparr>param_Name = ''p'', param_Selector = \<lparr>sel_Value = [],
         sel_ValueFrom = Some \<lparr>ConfigMapKeyRef = Some \<lparr>ref_Name = cm, ref_Key = ''v''\<rparr>,
                               SecretKeyRef = None\<rparr>\<rparr>\<rparr>]\<rparr>\<rparr>\<rparr>"

lemmas ex_watch_defs = ex_cm_env_def ex_param_resource_def ex_defs same_but_configmap_def
  dataCenterResourceReferencesConfigMap_def configMapNameMatchesSelector_def

theorem configmap_watch_sound_witness:
  "resolve_Expressions ex_cm_env ''2'' ''default'' ex_pdu = resolve_Expressions ex_cm_env ''1'' ''default'' ex_pdu"
  by (rule configmap_watch_sound [where cm = "''cm''"])
    (simp_all add: ex_watch_defs resource_params_read_def params_read_def)


section \<open>Merging the resources to revalidate\<close>

lemma find_append: "find P (as @ bs) = (case find P as of None \<Rightarrow> find P bs | Some x \<Rightarrow> Some x)"
  by (induction as) auto

lemma merge_group_lookup:
  "fmlookup (foldl (\<lambda>m item. fmupd (dcr_Name item) item m) m xs) n =
     (case find (\<lambda>d. dcr_Name d = n) (rev xs) of None \<Rightarrow> fmlookup m n | Some d \<Rightarrow> Some d)"
  by (induction xs rule: rev_induct) auto

lemma merge_lookup:
  "fmlookup (foldl (foldl (\<lambda>m item. fmupd (dcr_Name item) item m)) m groups) n =
     (case find (\<lambda>d. dcr_Name d = n) (rev (concat groups)) of None \<Rightarrow> fmlookup m n | Some d \<Rightarrow> Some d)"
proof (induction groups rule: rev_induct)
  case Nil
  then show ?case by simp
next
  case (snoc xs groups)
  then show ?case by (simp add: merge_group_lookup find_append split: option.splits)
qed

text \<open>
  \<open>mergeUnique\<close> returns one resource for each name in its lists, the last one
  listed under that name, in whatever order the map is enumerated.
\<close>

theorem mergeUnique_last_wins:
  assumes "\<And>m. distinct (order m) \<and> set (order m) = fset (fmdom m)"
  shows "distinct (map dcr_Name (mergeUnique order groups)) \<and>
    set (mergeUnique order groups) =
      {d. find (\<lambda>e. dcr_Name e = dcr_Name d) (rev (concat groups)) = Some d}"
proof -
  let ?m = "foldl (foldl (\<lambda>m item. fmupd (dcr_Name item) item m)) fmempty groups"
  have look: "fmlookup ?m n = find (\<lambda>d. dcr_Name d = n) (rev (concat groups))" for n
    by (simp add: merge_lookup split: option.splits)
  have named: "dcr_Name d = n" if "fmlookup ?m n = Some d" for n d
    using that unfolding look by (auto dest: find_Some_ex)
  have in_order: "\<exists>d. fmlookup ?m n = Some d" if "n \<in> set (order ?m)" for n
    using that assms by (auto elim: fmdomE)
  have "map dcr_Name (mergeUnique order groups) = order ?m"
    unfolding mergeUnique_def Let_def GetFromMap_def map_map o_def
    by (rule map_idI) (use in_order named in \<open>force split: option.splits\<close>)
  moreover have "d \<in> set (mergeUnique order groups) \<longleftrightarrow> fmlookup ?m (dcr_Name d) = Some d" for d
  proof
    assume "d \<in> set (mergeUnique order groups)"
    then obtain n where n: "n \<in> set (order ?m)"
      "d = (case fmlookup ?m n of None \<Rightarrow> zero_DataCenterResource | Some d \<Rightarrow> d)"
      by (auto simp: mergeUnique_def Let_def GetFromMap_def)
    from in_order [OF n(1)] n(2) named show "fmlookup ?m (dcr_Name d) = Some d" by auto
  next
    assume d: "fmlookup ?m (dcr_Name d) = Some d"
    then have "dcr_Name d \<in> set (order ?m)" using assms by (simp add: fmdomI)
    then show "d \<in> set (mergeUnique order groups)"
      using d by (force simp: mergeUnique_def Let_def GetFromMap_def)
  qed
  ultimately show ?thesis using assms by (auto simp: look)
qed

theorem mergeUnique_last_wins_witness:
  "set (mergeUnique key_order [[ex_pdu], [ex_server], [ex_pdu]]) =
     {d. find (\<lambda>e. dcr_Name e = dcr_Name d) (rev (concat [[ex_pdu], [ex_server], [ex_pdu]])) = Some d}"
proof -
  have "distinct (key_order m) \<and> set (key_order m) = fset (fmdom m)" for m :: resource_map
    by (simp add: key_order_def sorted_list_of_fset.rep_eq)
  from mergeUnique_last_wins [of key_order, OF this] show ?thesis by blast
qed

end
