(* ===== verification/Json.thy ===== *)
theory Json
  imports Prelude
begin

text \<open>
  The part of Go's \<open>encoding/json\<close> the operator uses: the escaping of strings with its UTF-8
  handling, the indented text of a value, and the parser. A text is split into tokens and the
  tokens are consumed by a pushdown machine, as Go's scanner does it. The lemmas lead to the
  round trip: parsing the text of a value whose strings are valid UTF-8 gives the value back.
\<close>

section \<open>UTF-8\<close>

definition byte :: "char \<Rightarrow> nat" where
  "byte c = of_char c"

definition between :: "nat \<Rightarrow> nat \<Rightarrow> char \<Rightarrow> bool" where
  "between l h c \<longleftrightarrow> l \<le> byte c \<and> byte c \<le> h"

text \<open>
  The length of the encoded rune at the head, 0 when there is none: \<open>utf8.DecodeRune\<close> then
  returns \<open>RuneError\<close> with size 1.
\<close>

fun utf8_size :: "bytes \<Rightarrow> nat" where
  "utf8_size [] = 0"
| "utf8_size (c # cs) =
     (let b = byte c in
      if b < 128 then 1
      else if 194 \<le> b \<and> b \<le> 223 then (case cs of c1 # _ \<Rightarrow> if between 128 191 c1 then 2 else 0 | _ \<Rightarrow> 0)
      else if 224 \<le> b \<and> b \<le> 239 then
        (case cs of
           c1 # c2 # _ \<Rightarrow>
             (if between (if b = 224 then 160 else 128) (if b = 237 then 159 else 191) c1 \<and> between 128 191 c2
              then 3 else 0)
         | _ \<Rightarrow> 0)
      else if 240 \<le> b \<and> b \<le> 244 then
        (case cs of
           c1 # c2 # c3 # _ \<Rightarrow>
             (if between (if b = 240 then 144 else 128) (if b = 244 then 143 else 191) c1 \<and> between 128 191 c2
                 \<and> between 128 191 c3
              then 4 else 0)
         | _ \<Rightarrow> 0)
      else 0)"

text \<open>\<open>utf8.AppendRune\<close>; surrogates and values beyond U+10FFFF become U+FFFD.\<close>

definition utf8_encode :: "nat \<Rightarrow> bytes" where
  "utf8_encode r =
     (let r = (if (55296 \<le> r \<and> r \<le> 57343) \<or> 1114111 < r then 65533 else r) in
      if r < 128 then [char_of r]
      else if r < 2048 then [char_of (192 + r div 64), char_of (128 + r mod 64)]
      else if r < 65536 then
        [char_of (224 + r div 4096), char_of (128 + r div 64 mod 64), char_of (128 + r mod 64)]
      else
        [char_of (240 + r div 262144), char_of (128 + r div 4096 mod 64), char_of (128 + r div 64 mod 64),
         char_of (128 + r mod 64)])"

definition rune_error :: bytes where
  "rune_error = utf8_encode 65533"

function utf8_valid :: "bytes \<Rightarrow> bool" where
  "utf8_valid s =
     (if s = [] then True else if utf8_size s = 0 then False else utf8_valid (drop (utf8_size s) s))"
  by pat_completeness auto
termination
  by (relation "measure length") auto

declare utf8_valid.simps [simp del]

lemma utf8_size_le: "utf8_size s \<le> length s"
  by (cases s) (auto simp: Let_def split: list.splits)

text \<open>The size depends on the bytes of the rune only.\<close>

lemma utf8_size_take:
  assumes "utf8_size s \<noteq> 0"
  shows "utf8_size (take (utf8_size s) s @ t) = utf8_size s"
proof (cases s)
  case (Cons c cs)
  consider "cs = []" | c1 where "cs = [c1]" | c1 c2 where "cs = [c1, c2]" | c1 c2 c3 r where "cs = c1 # c2 # c3 # r"
    by (metis list.exhaust)
  then show ?thesis
    by cases (use Cons assms in \<open>auto simp: Let_def split: if_splits\<close>)
qed (use assms in simp)

section \<open>Strings\<close>

definition hex_digit :: "nat \<Rightarrow> char" where
  "hex_digit n = ''0123456789abcdef'' ! n"

definition html_safe :: "char \<Rightarrow> bool" where
  "html_safe c \<longleftrightarrow> 32 \<le> byte c \<and> byte c < 128 \<and> c \<notin> set [CHR 0x22, CHR ''&'', CHR ''<'', CHR ''>'', CHR 0x5C]"

text \<open>An ASCII character inside a JSON string.\<close>

definition escape :: "char \<Rightarrow> bytes" where
  "escape c =
     (if html_safe c then [c]
      else if c = CHR 0x5C \<or> c = CHR 0x22 then [CHR 0x5C, c]
      else if byte c = 8 then [CHR 0x5C, CHR ''b'']
      else if byte c = 12 then [CHR 0x5C, CHR ''f'']
      else if byte c = 10 then [CHR 0x5C, CHR ''n'']
      else if byte c = 13 then [CHR 0x5C, CHR ''r'']
      else if byte c = 9 then [CHR 0x5C, CHR ''t'']
      else [CHR 0x5C, CHR ''u'', CHR ''0'', CHR ''0'', hex_digit (byte c div 16), hex_digit (byte c mod 16)])"

text \<open>U+2028 and U+2029 are escaped for JavaScript's sake, broken bytes become U+FFFD.\<close>

function quote_body :: "bytes \<Rightarrow> bytes" where
  "quote_body [] = []"
| "quote_body (c # cs) =
     (if byte c < 128 then escape c @ quote_body cs
      else
        (let n = utf8_size (c # cs) in
         if n = 0 then CHR 0x5C # ''ufffd'' @ quote_body cs
         else if take n (c # cs) = [CHR 0xE2, CHR 0x80, CHR 0xA8]
         then CHR 0x5C # ''u2028'' @ quote_body (drop n (c # cs))
         else if take n (c # cs) = [CHR 0xE2, CHR 0x80, CHR 0xA9]
         then CHR 0x5C # ''u2029'' @ quote_body (drop n (c # cs))
         else take n (c # cs) @ quote_body (drop n (c # cs))))"
  by pat_completeness auto
termination
  by (relation "measure length") (auto simp: Suc_le_eq simp del: utf8_size.simps)

definition quote :: "bytes \<Rightarrow> bytes" where
  "quote s = CHR 0x22 # quote_body s @ [CHR 0x22]"

definition hex_value :: "char \<Rightarrow> nat option" where
  "hex_value c =
     (if between 48 57 c then Some (byte c - 48)
      else if between 97 102 c then Some (byte c - 87)
      else if between 65 70 c then Some (byte c - 55) else None)"

text \<open>Four hexadecimal digits.\<close>

fun getu4 :: "bytes \<Rightarrow> (nat \<times> bytes) option" where
  "getu4 (a # b # c # d # rest) =
     (case (hex_value a, hex_value b, hex_value c, hex_value d) of
        (Some i, Some j, Some k, Some l) \<Rightarrow> Some (((i * 16 + j) * 16 + k) * 16 + l, rest)
      | _ \<Rightarrow> None)"
| "getu4 _ = None"

text \<open>
  What follows \<open>\u\<close>: a rune, or a surrogate pair when a second escape completes it; a surrogate
  that is not completed stands for U+FFFD and what follows it is read on its own.
\<close>

definition unicode_escape :: "bytes \<Rightarrow> (bytes \<times> bytes) option" where
  "unicode_escape s =
     (case getu4 s of
        None \<Rightarrow> None
      | Some (r, rest) \<Rightarrow>
          (if 55296 \<le> r \<and> r \<le> 57343 then
             (case rest of
                x # y # rest' \<Rightarrow>
                  (case (if x = CHR 0x5C \<and> y = CHR ''u'' then getu4 rest' else None) of
                     Some (r1, rest'') \<Rightarrow>
                       (if r \<le> 56319 \<and> 56320 \<le> r1 \<and> r1 \<le> 57343
                        then Some (utf8_encode ((r - 55296) * 1024 + (r1 - 56320) + 65536), rest'')
                        else Some (rune_error, rest))
                   | None \<Rightarrow> Some (rune_error, rest))
              | _ \<Rightarrow> Some (rune_error, rest))
           else Some (utf8_encode r, rest)))"

definition simple_escape :: "char \<Rightarrow> char option" where
  "simple_escape c =
     (if c = CHR 0x22 \<or> c = CHR 0x5C \<or> c = CHR ''/'' then Some c
      else if c = CHR ''b'' then Some (CHR 0x08)
      else if c = CHR ''f'' then Some (CHR 0x0C)
      else if c = CHR ''n'' then Some (CHR 0x0A)
      else if c = CHR ''r'' then Some (CHR 0x0D)
      else if c = CHR ''t'' then Some (CHR 0x09) else None)"

lemma getu4_length: "getu4 s = Some (r, rest) \<Longrightarrow> length rest < length s"
  by (cases s rule: getu4.cases) (auto split: option.splits)

lemma unicode_escape_length: "unicode_escape s = Some (r, rest) \<Longrightarrow> length rest < length s"
  by (auto simp: unicode_escape_def dest!: getu4_length split: option.splits if_splits list.splits)

text \<open>The text of a string up to its closing quote, decoded, and what follows the quote.\<close>

function unquote :: "bytes \<Rightarrow> (bytes \<times> bytes) option" where
  "unquote [] = None"
| "unquote (c # cs) =
     (if c = CHR 0x22 then Some ([], cs)
      else if c = CHR 0x5C then
        (case cs of
           [] \<Rightarrow> None
         | e # es \<Rightarrow>
             (if e = CHR ''u'' then
                (case unicode_escape es of
                   None \<Rightarrow> None
                 | Some (r, rest) \<Rightarrow> map_option (\<lambda>(s, t). (r @ s, t)) (unquote rest))
              else
                (case simple_escape e of
                   None \<Rightarrow> None
                 | Some x \<Rightarrow> map_option (\<lambda>(s, t). (x # s, t)) (unquote es))))
      else if byte c < 32 then None
      else if byte c < 128 then map_option (\<lambda>(s, t). (c # s, t)) (unquote cs)
      else
        (let n = utf8_size (c # cs) in
         if n = 0 then map_option (\<lambda>(s, t). (rune_error @ s, t)) (unquote cs)
         else map_option (\<lambda>(s, t). (take n (c # cs) @ s, t)) (unquote (drop n (c # cs)))))"
  by pat_completeness auto
termination
  by (relation "measure length") (auto simp: Suc_le_eq simp del: utf8_size.simps dest: unicode_escape_length)

declare utf8_size.simps(2) [simp del] quote_body.simps(2) [simp del] unquote.simps(2) [simp del]

subsection \<open>Reading back what was written\<close>

lemma utf8_size_ascii: "byte c < 128 \<Longrightarrow> utf8_size (c # cs) = 1"
  by (simp add: utf8_size.simps(2))

lemma utf8_valid_ascii: "list_all (\<lambda>c. byte c < 128) s \<Longrightarrow> utf8_valid s"
  by (induction s) (simp_all add: utf8_valid.simps utf8_size_ascii)

lemma utf8_size_multi: "\<not> byte c < 128 \<Longrightarrow> utf8_size (c # cs) \<noteq> 0 \<Longrightarrow> 2 \<le> utf8_size (c # cs)"
proof -
  assume c: "\<not> byte c < 128" "utf8_size (c # cs) \<noteq> 0"
  consider "cs = []" | c1 where "cs = [c1]" | c1 c2 where "cs = [c1, c2]" | c1 c2 c3 r where "cs = c1 # c2 # c3 # r"
    by (metis list.exhaust)
  then show ?thesis by cases (use c in \<open>auto simp: utf8_size.simps(2) Let_def split: if_splits\<close>)
qed

lemma unquote_end [simp]: "unquote (CHR 0x22 # t) = Some ([], t)"
  by (simp add: unquote.simps(2))

lemma unquote_plain:
  "html_safe c \<Longrightarrow> unquote (c # t) = map_option (\<lambda>(s, r). (c # s, r)) (unquote t)"
  by (auto simp: unquote.simps(2) html_safe_def)

lemma unquote_simple:
  "e \<noteq> CHR ''u'' \<Longrightarrow> simple_escape e = Some x \<Longrightarrow>
   unquote (CHR 0x5C # e # t) = map_option (\<lambda>(s, r). (x # s, r)) (unquote t)"
  by (simp add: unquote.simps(2))

lemma unquote_unicode:
  "unicode_escape es = Some (r, t) \<Longrightarrow>
   unquote (CHR 0x5C # CHR ''u'' # es) = map_option (\<lambda>(s, u). (r @ s, u)) (unquote t)"
  by (simp add: unquote.simps(2))

lemma unquote_multi:
  assumes "\<not> byte c < 128" and "utf8_size (c # cs) = n" and "n \<noteq> 0"
  shows "unquote (c # cs) = map_option (\<lambda>(s, r). (take n (c # cs) @ s, r)) (unquote (drop n (c # cs)))"
proof -
  have "c \<noteq> CHR 0x22" "c \<noteq> CHR 0x5C" "\<not> byte c < 32" using assms(1) by (auto simp: byte_def)
  then show ?thesis unfolding unquote.simps(2) [of c cs] assms(2) Let_def using assms(1,3) by simp
qed

lemma hex_value_digit: "n < 16 \<Longrightarrow> hex_value (hex_digit n) = Some n"
proof -
  have "list_all (\<lambda>n. hex_value (hex_digit n) = Some n) [0..<16]" by code_simp
  then show "n < 16 \<Longrightarrow> hex_value (hex_digit n) = Some n" by (simp add: list_all_iff)
qed

lemma hex_values:
  "hex_value CHR ''0'' = Some 0" "hex_value CHR ''2'' = Some 2" "hex_value CHR ''8'' = Some 8" "hex_value CHR ''9'' = Some 9"
  by code_simp+

lemma char_of_byte [simp]: "char_of (byte c) = c"
  by (simp add: byte_def)

lemma unquote_escape_u:
  assumes "byte c < 128"
  shows "unquote (CHR 0x5C # CHR ''u'' # [CHR ''0'', CHR ''0'', hex_digit (byte c div 16), hex_digit (byte c mod 16)] @ t)
    = map_option (\<lambda>(s, r). (c # s, r)) (unquote t)"
proof -
  have "getu4 ([CHR ''0'', CHR ''0'', hex_digit (byte c div 16), hex_digit (byte c mod 16)] @ t) = Some (byte c, t)"
    using assms by (simp add: hex_value_digit hex_values)
  then have "unicode_escape ([CHR ''0'', CHR ''0'', hex_digit (byte c div 16), hex_digit (byte c mod 16)] @ t) = Some ([c], t)"
    using assms by (simp add: unicode_escape_def utf8_encode_def)
  from unquote_unicode [OF this] show ?thesis by simp
qed

lemma control_chars:
  assumes "byte c \<in> {8, 9, 10, 12, 13}"
  shows "c \<in> {CHR 0x08, CHR 0x09, CHR 0x0A, CHR 0x0C, CHR 0x0D}"
proof -
  have "map char_of [8 :: nat, 9, 10, 12, 13] = [CHR 0x08, CHR 0x09, CHR 0x0A, CHR 0x0C, CHR 0x0D]" by code_simp
  moreover have "c \<in> set (map char_of [8 :: nat, 9, 10, 12, 13])"
    using assms imageI [of "byte c" "{8, 9, 10, 12, 13}" char_of] by simp
  ultimately show ?thesis by simp
qed

lemma unquote_escape:
  assumes "byte c < 128"
  shows "unquote (escape c @ t) = map_option (\<lambda>(s, r). (c # s, r)) (unquote t)"
proof -
  consider (safe) "html_safe c" | (self) "c = CHR 0x5C \<or> c = CHR 0x22"
    | (ctl) "byte c \<in> {8, 9, 10, 12, 13}"
    | (u) "\<not> html_safe c" "c \<noteq> CHR 0x5C" "c \<noteq> CHR 0x22" "byte c \<notin> {8, 9, 10, 12, 13}" by blast
  then show ?thesis
  proof cases
    case safe
    then show ?thesis by (simp add: escape_def unquote_plain)
  next
    case self
    then show ?thesis by (auto simp: escape_def html_safe_def unquote_simple simple_escape_def)
  next
    case ctl
    have "escape CHR 0x08 = [CHR 0x5C, CHR ''b'']" "escape CHR 0x0C = [CHR 0x5C, CHR ''f'']"
      "escape CHR 0x0A = [CHR 0x5C, CHR ''n'']" "escape CHR 0x0D = [CHR 0x5C, CHR ''r'']"
      "escape CHR 0x09 = [CHR 0x5C, CHR ''t'']" by code_simp+
    with control_chars [OF ctl] show ?thesis by (auto simp: unquote_simple simple_escape_def)
  next
    case u
    then have "escape c = CHR 0x5C # CHR ''u'' # [CHR ''0'', CHR ''0'', hex_digit (byte c div 16), hex_digit (byte c mod 16)]"
      by (auto simp: escape_def)
    then show ?thesis using unquote_escape_u [OF assms] by simp
  qed
qed

lemma unquote_rune:
  assumes "utf8_size s = n" and "2 \<le> n"
  shows "unquote (take n s @ t) = map_option (\<lambda>(u, r). (take n s @ u, r)) (unquote t)"
proof -
  obtain c cs where s: "s = c # cs" using assms by (cases s) auto
  have c: "\<not> byte c < 128" using assms s by (auto simp: utf8_size_ascii)
  have len: "length (take n s) = n" using utf8_size_le [of s] assms by simp
  obtain rest where r: "take n s @ t = c # rest" using s assms by (cases n) auto
  have "utf8_size (c # rest) = n" using utf8_size_take [of s t] assms r by simp
  moreover have "take n (c # rest) = take n s" "drop n (c # rest) = t" using len unfolding r [symmetric] by simp_all
  ultimately show ?thesis unfolding r using unquote_multi [OF c, of rest n] assms(2) by simp
qed

lemma unquote_separators:
  "unquote (CHR 0x5C # ''u2028'' @ t) = map_option (\<lambda>(s, r). ([CHR 0xE2, CHR 0x80, CHR 0xA8] @ s, r)) (unquote t)"
  "unquote (CHR 0x5C # ''u2029'' @ t) = map_option (\<lambda>(s, r). ([CHR 0xE2, CHR 0x80, CHR 0xA9] @ s, r)) (unquote t)"
proof -
  have "map char_of [226 :: nat, 128, 168, 169] = [CHR 0xE2, CHR 0x80, CHR 0xA8, CHR 0xA9]" by code_simp
  then have e: "utf8_encode 8232 = [CHR 0xE2, CHR 0x80, CHR 0xA8]" "utf8_encode 8233 = [CHR 0xE2, CHR 0x80, CHR 0xA9]"
    by (simp_all add: utf8_encode_def)
  then have "unicode_escape (''2028'' @ t) = Some ([CHR 0xE2, CHR 0x80, CHR 0xA8], t)"
    "unicode_escape (''2029'' @ t) = Some ([CHR 0xE2, CHR 0x80, CHR 0xA9], t)"
    by (simp_all add: unicode_escape_def hex_values)
  from this [THEN unquote_unicode]
  show "unquote (CHR 0x5C # ''u2028'' @ t) = map_option (\<lambda>(s, r). ([CHR 0xE2, CHR 0x80, CHR 0xA8] @ s, r)) (unquote t)"
    "unquote (CHR 0x5C # ''u2029'' @ t) = map_option (\<lambda>(s, r). ([CHR 0xE2, CHR 0x80, CHR 0xA9] @ s, r)) (unquote t)"
    by simp_all
qed

text \<open>A rune of several bytes, escaped or not, is read back.\<close>

lemma unquote_quoted_rune:
  assumes "\<not> byte c < 128" and "utf8_size (c # cs) = n" and "n \<noteq> 0"
  shows "unquote (quote_body (c # cs) @ t) =
    map_option (\<lambda>(s, r). (take n (c # cs) @ s, r)) (unquote (quote_body (drop n (c # cs)) @ t))"
proof -
  have two: "2 \<le> n" using utf8_size_multi assms by blast
  consider (a) "take n (c # cs) = [CHR 0xE2, CHR 0x80, CHR 0xA8]" | (b) "take n (c # cs) = [CHR 0xE2, CHR 0x80, CHR 0xA9]"
    | (other) "take n (c # cs) \<notin> {[CHR 0xE2, CHR 0x80, CHR 0xA8], [CHR 0xE2, CHR 0x80, CHR 0xA9]}" by blast
  then show ?thesis
  proof cases
    case other
    then have "quote_body (c # cs) = take n (c # cs) @ quote_body (drop n (c # cs))"
      using assms by (simp add: quote_body.simps(2) Let_def)
    then show ?thesis using unquote_rune [OF assms(2) two] by simp
  qed (use assms unquote_separators [of "quote_body (drop n (c # cs)) @ t"] in
      \<open>simp_all add: quote_body.simps(2) Let_def\<close>)
qed

lemma unquote_quote_body:
  "utf8_valid s \<Longrightarrow> unquote (quote_body s @ CHR 0x22 # t) = Some (s, t)"
proof (induction s rule: utf8_valid.induct)
  case (1 s)
  show ?case
  proof (cases s)
    case (Cons c cs)
    let ?n = "utf8_size s"
    have n: "?n \<noteq> 0" "utf8_valid (drop ?n s)"
      using "1.prems" Cons by (subst (asm) utf8_valid.simps, simp split: if_splits)+
    have ih: "unquote (quote_body (drop ?n s) @ CHR 0x22 # t) = Some (drop ?n s, t)"
      using "1.IH" n Cons by blast
    show ?thesis
    proof (cases "byte c < 128")
      case True
      with ih Cons show ?thesis by (simp add: quote_body.simps(2) unquote_escape utf8_size_ascii)
    next
      case False
      with unquote_quoted_rune [OF False _ n(1) [unfolded Cons], OF refl] ih Cons show ?thesis by simp
    qed
  qed simp
qed

lemma unquote_length: "unquote s = Some (r, t) \<Longrightarrow> length t < length s"
proof (induction s arbitrary: r t rule: unquote.induct)
  case (2 c cs)
  note ih = "2.IH"
  consider (q) "c = CHR 0x22" | (u) es where "c = CHR 0x5C" "cs = CHR ''u'' # es"
    | (esc) e es where "c = CHR 0x5C" "cs = e # es" "e \<noteq> CHR ''u''" | (bad) "c = CHR 0x5C" "cs = []"
    | (ctl) "c \<noteq> CHR 0x22" "c \<noteq> CHR 0x5C" "byte c < 32"
    | (ascii) "c \<noteq> CHR 0x22" "c \<noteq> CHR 0x5C" "\<not> byte c < 32" "byte c < 128"
    | (multi) "c \<noteq> CHR 0x22" "c \<noteq> CHR 0x5C" "\<not> byte c < 32" "\<not> byte c < 128"
    by (cases cs) auto
  then show ?case
  proof cases
    case u
    then obtain r' rest s' where ue: "unicode_escape es = Some (r', rest)" and un: "unquote rest = Some (s', t)"
      using "2.prems" by (auto simp: unquote.simps(2) split: option.splits)
    from ih(1) [OF _ u(1) u(2) refl ue refl un] unicode_escape_length [OF ue] u show ?thesis by simp
  next
    case esc
    then obtain x s' where ue: "simple_escape e = Some x" and un: "unquote es = Some (s', t)"
      using "2.prems" by (auto simp: unquote.simps(2) split: option.splits)
    from ih(2) [OF _ esc(1) esc(2) esc(3) ue un] esc show ?thesis by simp
  next
    case ascii
    then obtain s' where "unquote cs = Some (s', t)" using "2.prems" by (auto simp: unquote.simps(2))
    from ih(3) [OF ascii this] show ?thesis by simp
  next
    case multi
    show ?thesis
    proof (cases "utf8_size (c # cs) = 0")
      case True
      with multi obtain s' where "unquote cs = Some (s', t)" using "2.prems" by (auto simp: unquote.simps(2))
      from ih(4) [OF multi refl True this] show ?thesis by simp
    next
      case False
      with multi obtain s' where "unquote (drop (utf8_size (c # cs)) (c # cs)) = Some (s', t)"
        using "2.prems" by (auto simp: unquote.simps(2) Let_def)
      from ih(5) [OF multi refl False this] show ?thesis by simp
    qed
  qed (use "2.prems" in \<open>auto simp: unquote.simps(2)\<close>)
qed simp

section \<open>Tokens\<close>

datatype json =
    JNull
  | JBool bool
  | JNum bytes
  | JStr bytes
  | JArr "json list"
  | JObj "(bytes \<times> json) list"

datatype token = TObj | TObjEnd | TArr | TArrEnd | TColon | TComma | TScalar json

definition is_ws :: "char \<Rightarrow> bool" where
  "is_ws c \<longleftrightarrow> c \<in> set [CHR '' '', CHR 0x09, CHR 0x0A, CHR 0x0D]"

fun literal :: "bytes \<Rightarrow> bytes \<Rightarrow> bytes option" where
  "literal [] s = Some s"
| "literal (x # xs) (c # cs) = (if x = c then literal xs cs else None)"
| "literal (x # xs) [] = None"

definition is_dig :: "char \<Rightarrow> bool" where
  "is_dig c \<longleftrightarrow> between 48 57 c"

text \<open>At least one digit.\<close>

definition lex_digits :: "bytes \<Rightarrow> (bytes \<times> bytes) option" where
  "lex_digits s = (if takeWhile is_dig s = [] then None else Some (takeWhile is_dig s, dropWhile is_dig s))"

definition lex_integer :: "bytes \<Rightarrow> (bytes \<times> bytes) option" where
  "lex_integer s = (case s of [] \<Rightarrow> None | c # cs \<Rightarrow> if c = CHR ''0'' then Some ([c], cs) else lex_digits s)"

definition lex_fraction :: "bytes \<Rightarrow> (bytes \<times> bytes) option" where
  "lex_fraction s =
     (case s of
        [] \<Rightarrow> Some ([], s)
      | c # cs \<Rightarrow>
          (if c = CHR ''.'' then map_option (\<lambda>(d, t). (c # d, t)) (lex_digits cs) else Some ([], s)))"

definition lex_exponent :: "bytes \<Rightarrow> (bytes \<times> bytes) option" where
  "lex_exponent s =
     (case s of
        [] \<Rightarrow> Some ([], s)
      | c # cs \<Rightarrow>
          (if c = CHR ''e'' \<or> c = CHR ''E'' then
             (case cs of
                [] \<Rightarrow> None
              | sg # cs' \<Rightarrow>
                  (if sg = CHR ''+'' \<or> sg = CHR ''-'' then map_option (\<lambda>(d, t). (c # sg # d, t)) (lex_digits cs')
                   else map_option (\<lambda>(d, t). (c # d, t)) (lex_digits cs)))
           else Some ([], s)))"

definition lex_number :: "bytes \<Rightarrow> (bytes \<times> bytes) option" where
  "lex_number s =
     (let (sg, s0) = (case s of [] \<Rightarrow> ([], s) | c # cs \<Rightarrow> if c = CHR ''-'' then ([c], cs) else ([], s)) in
      case lex_integer s0 of
        None \<Rightarrow> None
      | Some (i, s1) \<Rightarrow>
          (case lex_fraction s1 of
             None \<Rightarrow> None
           | Some (f, s2) \<Rightarrow> map_option (\<lambda>(e, t). (sg @ i @ f @ e, t)) (lex_exponent s2)))"

lemma literal_length: "literal xs s = Some t \<Longrightarrow> length t \<le> length s"
  by (induction xs s rule: literal.induct) (auto split: if_splits)

lemma lex_digits_length: "lex_digits s = Some (d, t) \<Longrightarrow> length t < length s"
  unfolding lex_digits_def
  by (cases s) (auto split: if_splits intro!: le_imp_less_Suc length_dropWhile_le)

lemma lex_integer_length: "lex_integer s = Some (d, t) \<Longrightarrow> length t < length s"
  by (auto simp: lex_integer_def dest: lex_digits_length split: list.splits if_splits)

lemma lex_fraction_length: "lex_fraction s = Some (d, t) \<Longrightarrow> length t \<le> length s"
  by (auto simp: lex_fraction_def dest!: lex_digits_length split: list.splits if_splits)

lemma lex_exponent_length: "lex_exponent s = Some (d, t) \<Longrightarrow> length t \<le> length s"
  by (auto simp: lex_exponent_def dest!: lex_digits_length split: list.splits if_splits)

lemma lex_number_length: "lex_number s = Some (d, t) \<Longrightarrow> length t < length s"
  by (auto simp: lex_number_def Let_def dest!: lex_integer_length lex_fraction_length lex_exponent_length
      split: option.splits list.splits if_splits)

definition punctuation :: "char \<Rightarrow> token option" where
  "punctuation c =
     (if c = CHR ''{'' then Some TObj else if c = CHR ''}'' then Some TObjEnd
      else if c = CHR ''['' then Some TArr else if c = CHR '']'' then Some TArrEnd
      else if c = CHR '':'' then Some TColon else if c = CHR '','' then Some TComma else None)"

function json_lex :: "bytes \<Rightarrow> token list option" where
  "json_lex [] = Some []"
| "json_lex (c # cs) =
     (if is_ws c then json_lex cs
      else
        (case punctuation c of
           Some t \<Rightarrow> map_option (Cons t) (json_lex cs)
         | None \<Rightarrow>
             (if c = CHR 0x22 then
                (case unquote cs of
                   None \<Rightarrow> None
                 | Some (s, rest) \<Rightarrow> map_option (Cons (TScalar (JStr s))) (json_lex rest))
              else if c = CHR ''t'' then
                (case literal ''rue'' cs of
                   None \<Rightarrow> None | Some rest \<Rightarrow> map_option (Cons (TScalar (JBool True))) (json_lex rest))
              else if c = CHR ''f'' then
                (case literal ''alse'' cs of
                   None \<Rightarrow> None | Some rest \<Rightarrow> map_option (Cons (TScalar (JBool False))) (json_lex rest))
              else if c = CHR ''n'' then
                (case literal ''ull'' cs of
                   None \<Rightarrow> None | Some rest \<Rightarrow> map_option (Cons (TScalar JNull)) (json_lex rest))
              else
                (case lex_number (c # cs) of
                   None \<Rightarrow> None
                 | Some (n, rest) \<Rightarrow> map_option (Cons (TScalar (JNum n))) (json_lex rest)))))"
  by pat_completeness auto
termination
  by (relation "measure length")
    (auto dest: unquote_length lex_number_length literal_length)

declare json_lex.simps(2) [simp del]

section \<open>The parser\<close>

text \<open>
  The open arrays and objects (the values so far in reverse, and the key of the pending value),
  and what may come next.
\<close>

datatype frame = FArr "json list" | FObj "(bytes \<times> json) list" bytes

datatype want = WantValue | WantValueOrEnd | WantKey | WantKeyOrEnd | WantColon | WantNext

datatype pstate = Parsing want "frame list" | Parsed json

definition max_depth :: nat where
  "max_depth = 10000"

fun complete :: "json \<Rightarrow> frame list \<Rightarrow> pstate" where
  "complete v [] = Parsed v"
| "complete v (FArr vs # st) = Parsing WantNext (FArr (v # vs) # st)"
| "complete v (FObj kvs k # st) = Parsing WantNext (FObj ((k, v) # kvs) [] # st)"

definition open_frame :: "want \<Rightarrow> frame \<Rightarrow> frame list \<Rightarrow> pstate option" where
  "open_frame w f st = (if length st < max_depth then Some (Parsing w (f # st)) else None)"

definition start_value :: "token \<Rightarrow> frame list \<Rightarrow> pstate option" where
  "start_value t st =
     (case t of
        TScalar v \<Rightarrow> Some (complete v st)
      | TArr \<Rightarrow> open_frame WantValueOrEnd (FArr []) st
      | TObj \<Rightarrow> open_frame WantKeyOrEnd (FObj [] []) st
      | _ \<Rightarrow> None)"

fun set_key :: "token \<Rightarrow> frame list \<Rightarrow> pstate option" where
  "set_key (TScalar (JStr k)) (FObj kvs _ # st) = Some (Parsing WantColon (FObj kvs k # st))"
| "set_key _ _ = None"

fun json_step :: "pstate \<Rightarrow> token \<Rightarrow> pstate option" where
  "json_step (Parsing WantValue st) t = start_value t st"
| "json_step (Parsing WantValueOrEnd (FArr vs # st)) TArrEnd = Some (complete (JArr (rev vs)) st)"
| "json_step (Parsing WantValueOrEnd st) t = start_value t st"
| "json_step (Parsing WantKeyOrEnd (FObj kvs _ # st)) TObjEnd = Some (complete (JObj (rev kvs)) st)"
| "json_step (Parsing WantKeyOrEnd st) t = set_key t st"
| "json_step (Parsing WantKey st) t = set_key t st"
| "json_step (Parsing WantColon st) TColon = Some (Parsing WantValue st)"
| "json_step (Parsing WantNext (FArr vs # st)) TComma = Some (Parsing WantValue (FArr vs # st))"
| "json_step (Parsing WantNext (FArr vs # st)) TArrEnd = Some (complete (JArr (rev vs)) st)"
| "json_step (Parsing WantNext (FObj kvs k # st)) TComma = Some (Parsing WantKey (FObj kvs k # st))"
| "json_step (Parsing WantNext (FObj kvs k # st)) TObjEnd = Some (complete (JObj (rev kvs)) st)"
| "json_step _ _ = None"

fun json_run :: "pstate \<Rightarrow> token list \<Rightarrow> pstate option" where
  "json_run p [] = Some p"
| "json_run p (t # ts) = (case json_step p t of None \<Rightarrow> None | Some p' \<Rightarrow> json_run p' ts)"

definition json_parse :: "bytes \<Rightarrow> json option" where
  "json_parse s =
     (case json_lex s of
        None \<Rightarrow> None
      | Some ts \<Rightarrow> (case json_run (Parsing WantValue []) ts of Some (Parsed v) \<Rightarrow> Some v | _ \<Rightarrow> None))"

section \<open>The indented text\<close>

definition newline :: "nat \<Rightarrow> bytes" where
  "newline n = CHR 0x0A # replicate (2 * n) (CHR '' '')"

fun json_text :: "nat \<Rightarrow> json \<Rightarrow> bytes" and items_text :: "nat \<Rightarrow> json list \<Rightarrow> bytes"
  and fields_text :: "nat \<Rightarrow> (bytes \<times> json) list \<Rightarrow> bytes" where
  "json_text n JNull = ''null''"
| "json_text n (JBool b) = (if b then ''true'' else ''false'')"
| "json_text n (JNum d) = d"
| "json_text n (JStr s) = quote s"
| "json_text n (JArr vs) = (if vs = [] then ''[]'' else ''['' @ items_text (Suc n) vs @ newline n @ '']'')"
| "json_text n (JObj kvs) = (if kvs = [] then ''{}'' else ''{'' @ fields_text (Suc n) kvs @ newline n @ ''}'')"
| "items_text n [] = []"
| "items_text n (v # vs) = newline n @ json_text n v @ (if vs = [] then [] else '','' @ items_text n vs)"
| "fields_text n [] = []"
| "fields_text n ((k, v) # kvs) =
     newline n @ quote k @ '': '' @ json_text n v @ (if kvs = [] then [] else '','' @ fields_text n kvs)"

section \<open>The round trip\<close>

fun json_tokens :: "json \<Rightarrow> token list" and items_tokens :: "json list \<Rightarrow> token list"
  and fields_tokens :: "(bytes \<times> json) list \<Rightarrow> token list" where
  "json_tokens (JArr vs) = TArr # items_tokens vs @ [TArrEnd]"
| "json_tokens (JObj kvs) = TObj # fields_tokens kvs @ [TObjEnd]"
| "json_tokens v = [TScalar v]"
| "items_tokens [] = []"
| "items_tokens (v # vs) = json_tokens v @ (if vs = [] then [] else TComma # items_tokens vs)"
| "fields_tokens [] = []"
| "fields_tokens ((k, v) # kvs) =
     TScalar (JStr k) # TColon # json_tokens v @ (if kvs = [] then [] else TComma # fields_tokens kvs)"

text \<open>Values without numbers whose strings are valid UTF-8.\<close>

fun json_plain :: "json \<Rightarrow> bool" and items_plain :: "json list \<Rightarrow> bool" and fields_plain :: "(bytes \<times> json) list \<Rightarrow> bool" where
  "json_plain (JStr s) = utf8_valid s"
| "json_plain (JNum d) = False"
| "json_plain (JArr vs) = items_plain vs"
| "json_plain (JObj kvs) = fields_plain kvs"
| "json_plain v = True"
| "items_plain [] = True"
| "items_plain (v # vs) = (json_plain v \<and> items_plain vs)"
| "fields_plain [] = True"
| "fields_plain ((k, v) # kvs) = (utf8_valid k \<and> json_plain v \<and> fields_plain kvs)"

fun json_depth :: "json \<Rightarrow> nat" and items_depth :: "json list \<Rightarrow> nat" and fields_depth :: "(bytes \<times> json) list \<Rightarrow> nat" where
  "json_depth (JArr vs) = Suc (items_depth vs)"
| "json_depth (JObj kvs) = Suc (fields_depth kvs)"
| "json_depth v = 0"
| "items_depth [] = 0"
| "items_depth (v # vs) = max (json_depth v) (items_depth vs)"
| "fields_depth [] = 0"
| "fields_depth ((k, v) # kvs) = max (json_depth v) (fields_depth kvs)"

lemma lex_newline: "json_lex (newline n @ s) = json_lex s"
proof -
  have "json_lex (replicate m (CHR '' '') @ s) = json_lex s" for m
    by (induction m) (simp_all add: json_lex.simps(2) is_ws_def)
  then show ?thesis by (simp add: newline_def json_lex.simps(2) is_ws_def)
qed

lemma lex_punctuation:
  "json_lex (CHR ''{'' # s) = map_option (Cons TObj) (json_lex s)"
  "json_lex (CHR ''}'' # s) = map_option (Cons TObjEnd) (json_lex s)"
  "json_lex (CHR ''['' # s) = map_option (Cons TArr) (json_lex s)"
  "json_lex (CHR '']'' # s) = map_option (Cons TArrEnd) (json_lex s)"
  "json_lex (CHR '':'' # s) = map_option (Cons TColon) (json_lex s)"
  "json_lex (CHR '','' # s) = map_option (Cons TComma) (json_lex s)"
  "json_lex (CHR '' '' # s) = json_lex s"
  by (simp_all add: json_lex.simps(2) is_ws_def punctuation_def)

lemma lex_quote: "utf8_valid s \<Longrightarrow> json_lex (quote s @ t) = map_option (Cons (TScalar (JStr s))) (json_lex t)"
  by (simp add: quote_def json_lex.simps(2) is_ws_def punctuation_def unquote_quote_body)

lemma lex_words:
  "json_lex (''null'' @ t) = map_option (Cons (TScalar JNull)) (json_lex t)"
  "json_lex (''true'' @ t) = map_option (Cons (TScalar (JBool True))) (json_lex t)"
  "json_lex (''false'' @ t) = map_option (Cons (TScalar (JBool False))) (json_lex t)"
  by (simp_all add: json_lex.simps(2) is_ws_def punctuation_def)

lemmas lex_simps = lex_newline lex_punctuation lex_quote option.map_comp o_def

lemma map_option_append_Nil: "map_option ((@) []) x = x"
  by (cases x) auto

lemma lex_text:
  "json_plain v \<Longrightarrow> json_lex (json_text n v @ s) = map_option ((@) (json_tokens v)) (json_lex s)"
  "items_plain vs \<Longrightarrow> json_lex (items_text n vs @ s) = map_option ((@) (items_tokens vs)) (json_lex s)"
  "fields_plain kvs \<Longrightarrow> json_lex (fields_text n kvs @ s) = map_option ((@) (fields_tokens kvs)) (json_lex s)"
proof (induction n v and n vs and n kvs arbitrary: s and s and s rule: json_text_items_text_fields_text.induct)
  case (1 n)
  then show ?case using lex_words(1) [of s] by simp
next
  case (2 n b)
  then show ?case using lex_words(2,3) [of s] by simp
qed (auto simp: lex_simps map_option_append_Nil intro!: option.map_cong)

text \<open>Running the machine over the tokens of a value.\<close>

lemma start_value_tokens:
  "json_tokens v = t # ts \<Longrightarrow> t \<noteq> TArrEnd \<and> t \<noteq> TObjEnd \<and> t \<noteq> TComma \<and> t \<noteq> TColon"
  by (cases v) auto

lemma run_value_or_end:
  assumes "vs \<noteq> []"
  shows "json_run (Parsing WantValueOrEnd st) (items_tokens vs @ ts) = json_run (Parsing WantValue st) (items_tokens vs @ ts)"
proof -
  obtain v ws where vs: "vs = v # ws" using assms by (cases vs) auto
  obtain t us where t: "json_tokens v = t # us" by (cases v) auto
  have "json_step (Parsing WantValueOrEnd st) t = json_step (Parsing WantValue st) t"
    using start_value_tokens [OF t] by (cases st; cases t; cases "hd st") auto
  then show ?thesis by (simp add: vs t)
qed

lemma run_tokens:
  "json_depth v + length st \<le> max_depth \<Longrightarrow>
     json_run (Parsing WantValue st) (json_tokens v @ ts) = json_run (complete v st) ts"
  "items_depth vs + Suc (length st) \<le> max_depth \<Longrightarrow> vs \<noteq> [] \<Longrightarrow>
     json_run (Parsing WantValue (FArr acc # st)) (items_tokens vs @ TArrEnd # ts) =
     json_run (complete (JArr (rev acc @ vs)) st) ts"
  "fields_depth kvs + Suc (length st) \<le> max_depth \<Longrightarrow> kvs \<noteq> [] \<Longrightarrow>
     json_run (Parsing WantKey (FObj kacc k0 # st)) (fields_tokens kvs @ TObjEnd # ts) =
     json_run (complete (JObj (rev kacc @ kvs)) st) ts"
proof (induction v and vs and kvs arbitrary: st ts and st ts acc and st ts kacc k0 rule: json_tokens_items_tokens_fields_tokens.induct)
  case (1 vs)
  show ?case
  proof (cases "vs = []")
    case True
    with 1 show ?thesis by (simp add: start_value_def open_frame_def)
  next
    case False
    have "json_run (Parsing WantValueOrEnd (FArr [] # st)) (items_tokens vs @ TArrEnd # ts) = json_run (complete (JArr vs) st) ts"
      unfolding run_value_or_end [OF False] using 1(1) [of st "[]" ts] 1(2) False by simp
    with 1 show ?thesis by (simp add: start_value_def open_frame_def)
  qed
next
  case (2 kvs)
  show ?case
  proof (cases kvs)
    case Nil
    with 2 show ?thesis by (simp add: start_value_def open_frame_def)
  next
    case (Cons kv rest)
    obtain k v where kv: "kv = (k, v)" by fastforce
    have "json_run (Parsing WantKeyOrEnd (FObj [] [] # st)) (fields_tokens kvs @ TObjEnd # ts) =
        json_run (Parsing WantKey (FObj [] [] # st)) (fields_tokens kvs @ TObjEnd # ts)"
      by (simp add: Cons kv)
    also have "\<dots> = json_run (complete (JObj kvs) st) ts" using 2(1) [of st "[]" "[]" ts] 2(2) Cons by simp
    finally show ?thesis using 2(2) by (simp add: start_value_def open_frame_def)
  qed
next
  case (5 v vs)
  then show ?case by (cases "vs = []") (auto simp: start_value_def)
qed (auto simp: start_value_def)

lemma json_parse_text:
  assumes "json_plain v" and "json_depth v \<le> max_depth"
  shows "json_parse (json_text n v) = Some v"
  using lex_text(1) [OF assms(1), of n "[]"] run_tokens(1) [of v "[]" "[]"] assms(2)
  by (simp add: json_parse_def)

lemma json_text_not_Nil: "json_plain v \<Longrightarrow> json_text n v \<noteq> []"
  by (cases v) (auto simp: quote_def)

lemma items_plain_iff: "items_plain vs \<longleftrightarrow> list_all json_plain vs"
  by (induction vs) auto

lemma fields_plain_iff: "fields_plain kvs \<longleftrightarrow> list_all (\<lambda>(k, v). utf8_valid k \<and> json_plain v) kvs"
  by (induction kvs) auto

lemma items_depth_le: "items_depth vs \<le> n \<longleftrightarrow> list_all (\<lambda>v. json_depth v \<le> n) vs"
  by (induction vs) auto

lemma fields_depth_le: "fields_depth kvs \<le> n \<longleftrightarrow> list_all (\<lambda>(k, v). json_depth v \<le> n) kvs"
  by (induction kvs) auto

end
