(* ===== verification/Targets.thy ===== *)
theory Targets
  imports Api File_Store Json
begin

text \<open>
  \<open>internal/physicalmeasurement/config.go\<close>: the target of a measurement in the format
  Prometheus' file discovery reads, its JSON text and the loading of a target file. The lemmas give
  the labels of a target and the round trip through the JSON text.
\<close>

section \<open>Targets\<close>

record FileSDTarget =
  sd_Targets :: "string list"
  sd_Labels :: labels

text \<open>The map \<open>labels\<close> is made by the caller and not nil.\<close>

definition applyDefaultAndAdditionalLabels :: "PhysicalMeasurement \<Rightarrow> labels \<Rightarrow> labels" where
  "applyDefaultAndAdditionalLabels m ls =
     (let ls = fmupd ''name'' (pm_Name m) ls;
          ls = fmupd ''instance'' (pspec_Ip (pm_Spec m)) ls
      in case pspec_AdditionalLabels (pm_Spec m) of
           None \<Rightarrow> ls
         | Some added \<Rightarrow> (let merged = added in merged ++\<^sub>f ls))"

definition CreateFileSDTarget :: "PhysicalMeasurement \<Rightarrow> FileSDTarget" where
  "CreateFileSDTarget m =
     (let ls =
        (if pspec_Type (pm_Spec m) = PhysicalMeasurementTypePrometheusExporter
         then fmupd ''type'' ''prometheus-exporter'' fmempty
         else fmupd ''type'' ''snmp'' (fmupd ''job'' (pspec_MeasurementDevice (pm_Spec m))
                (fmupd ''__param_auth'' (pspec_MeasurementDevice (pm_Spec m))
                  (fmupd ''__param_module'' (pspec_MeasurementDevice (pm_Spec m)) fmempty))))
      in \<lparr>sd_Targets = [pspec_Ip (pm_Spec m)], sd_Labels = applyDefaultAndAdditionalLabels m ls\<rparr>)"

section \<open>The JSON of target files\<close>

text \<open>
  \<open>json.MarshalIndent\<close> of a list of targets: the fields in the order of the struct, the labels in
  the order of their names. The slices and maps the code builds are not nil.
\<close>

definition target_json :: "FileSDTarget \<Rightarrow> json" where
  "target_json t =
     JObj [(''targets'', JArr (map JStr (sd_Targets t))),
           (''labels'', JObj (map (\<lambda>k. (k, JStr (the (fmlookup (sd_Labels t) k))))
              (sorted_list_of_fset (fmdom (sd_Labels t)))))]"

definition MarshalFileSDTargets :: "FileSDTarget list \<Rightarrow> sys_error + bytes" where
  "MarshalFileSDTargets targets = Inr (json_text 0 (JArr (map target_json targets)))"

text \<open>
  \<open>json.Unmarshal\<close> into a list of targets, as documented: a null leaves a fresh element zero and
  makes a slice or map empty, an array resets a slice and appends, an object adds to a map,
  fields are matched without regard to case, unknown fields are skipped, and any other type is an
  error. The text of the error is a parameter.
\<close>

definition json_string :: "json \<Rightarrow> string option" where
  "json_string v = (case v of JStr s \<Rightarrow> Some s | JNull \<Rightarrow> Some [] | _ \<Rightarrow> None)"

fun json_strings :: "json list \<Rightarrow> string list option" where
  "json_strings [] = Some []"
| "json_strings (v # vs) =
     (case (json_string v, json_strings vs) of (Some s, Some ss) \<Rightarrow> Some (s # ss) | _ \<Rightarrow> None)"

fun json_labels :: "(bytes \<times> json) list \<Rightarrow> labels \<Rightarrow> labels option" where
  "json_labels [] ls = Some ls"
| "json_labels ((k, v) # kvs) ls =
     (case json_string v of None \<Rightarrow> None | Some s \<Rightarrow> json_labels kvs (fmupd k s ls))"

text \<open>Case folding of field names: ASCII letters, and the long s (U+017F) for an s.\<close>

fun fold_name :: "bytes \<Rightarrow> bytes" where
  "fold_name [] = []"
| "fold_name (c # cs) =
     (if c = CHR 0xC5 then
        (case cs of [] \<Rightarrow> [c] | d # ds \<Rightarrow> if d = CHR 0xBF then CHR ''s'' # fold_name ds else c # fold_name cs)
      else if between 65 90 c then char_of (byte c + 32) # fold_name cs else c # fold_name cs)"

fun target_fields :: "(bytes \<times> json) list \<Rightarrow> FileSDTarget \<Rightarrow> FileSDTarget option" where
  "target_fields [] t = Some t"
| "target_fields ((k, v) # kvs) t =
     (if fold_name k = ''targets'' then
        (case v of
           JNull \<Rightarrow> target_fields kvs (t\<lparr>sd_Targets := []\<rparr>)
         | JArr vs \<Rightarrow>
             (case json_strings vs of None \<Rightarrow> None | Some ss \<Rightarrow> target_fields kvs (t\<lparr>sd_Targets := ss\<rparr>))
         | _ \<Rightarrow> None)
      else if fold_name k = ''labels'' then
        (case v of
           JNull \<Rightarrow> target_fields kvs (t\<lparr>sd_Labels := fmempty\<rparr>)
         | JObj ls \<Rightarrow>
             (case json_labels ls (sd_Labels t) of
                None \<Rightarrow> None | Some m \<Rightarrow> target_fields kvs (t\<lparr>sd_Labels := m\<rparr>))
         | _ \<Rightarrow> None)
      else target_fields kvs t)"

definition json_target :: "json \<Rightarrow> FileSDTarget option" where
  "json_target v =
     (case v of
        JNull \<Rightarrow> Some \<lparr>sd_Targets = [], sd_Labels = fmempty\<rparr>
      | JObj kvs \<Rightarrow> target_fields kvs \<lparr>sd_Targets = [], sd_Labels = fmempty\<rparr>
      | _ \<Rightarrow> None)"

fun json_targets :: "json list \<Rightarrow> FileSDTarget list option" where
  "json_targets [] = Some []"
| "json_targets (v # vs) =
     (case (json_target v, json_targets vs) of (Some t, Some ts) \<Rightarrow> Some (t # ts) | _ \<Rightarrow> None)"

definition json_Unmarshal_targets :: "(bytes \<Rightarrow> sys_error) \<Rightarrow> bytes \<Rightarrow> sys_error + FileSDTarget list" where
  "json_Unmarshal_targets json_error data =
     (case json_parse data of
        Some JNull \<Rightarrow> Inr []
      | Some (JArr vs) \<Rightarrow> (case json_targets vs of None \<Rightarrow> Inl (json_error data) | Some ts \<Rightarrow> Inr ts)
      | _ \<Rightarrow> Inl (json_error data))"

definition LoadFileSDTargets ::
    "(bytes \<Rightarrow> sys_error) \<Rightarrow> FileStore \<Rightarrow> string \<Rightarrow> osfs \<Rightarrow> (gerror + FileSDTarget list) \<times> osfs" where
  "LoadFileSDTargets json_error filestore path fs =
     (case fsReadAll filestore path fs of
        (Inl err, fs1) \<Rightarrow> (Inl err, fs1)
      | (Inr data, fs1) \<Rightarrow>
          (case json_Unmarshal_targets json_error data of
             Inl err \<Rightarrow> (Inl (SysErr err), fs1)
           | Inr targets \<Rightarrow> (Inr targets, fs1)))"

subsection \<open>The round trip\<close>

definition valid_target :: "FileSDTarget \<Rightarrow> bool" where
  "valid_target t \<longleftrightarrow> list_all utf8_valid (sd_Targets t)
     \<and> list_all (\<lambda>k. utf8_valid k \<and> utf8_valid (the (fmlookup (sd_Labels t) k))) (sorted_list_of_fset (fmdom (sd_Labels t)))"

lemma json_strings_JStr: "json_strings (map JStr ss) = Some ss"
  by (induction ss) (simp_all add: json_string_def)

lemma json_labels_of:
  "json_labels (map (\<lambda>k. (k, JStr (f k))) ks) ls = Some (fold (\<lambda>k. fmupd k (f k)) ks ls)"
  by (induction ks arbitrary: ls) (simp_all add: json_string_def)

lemma fold_fmupd: "fmlookup (fold (\<lambda>k. fmupd k (f k)) ks ls) x = (if x \<in> set ks then Some (f x) else fmlookup ls x)"
  by (induction ks arbitrary: ls) auto

lemma labels_rebuilt: "fold (\<lambda>k. fmupd k (the (fmlookup m k))) (sorted_list_of_fset (fmdom m)) fmempty = m"
  by (rule fmap_ext) (auto simp: fold_fmupd fmlookup_dom_iff)

lemma json_target_json: "json_target (target_json t) = Some t"
proof -
  have "fold_name ''targets'' = ''targets''" "fold_name ''labels'' = ''labels''" by code_simp+
  then show ?thesis
    by (simp add: json_target_def target_json_def json_strings_JStr json_labels_of labels_rebuilt)
qed

lemma target_json_plain: "valid_target t \<Longrightarrow> json_plain (target_json t)"
proof -
  have "utf8_valid ''targets''" "utf8_valid ''labels''" by code_simp+
  then show "valid_target t \<Longrightarrow> json_plain (target_json t)"
    by (auto simp: target_json_def valid_target_def items_plain_iff fields_plain_iff list_all_iff)
qed

lemma target_json_depth: "json_depth (target_json t) \<le> 2"
proof -
  have "items_depth (map JStr ss) = 0" for ss by (induction ss) simp_all
  moreover have "fields_depth (map (\<lambda>k. (k, JStr (f k))) ks) = 0" for f ks by (induction ks) simp_all
  ultimately show ?thesis by (simp add: target_json_def)
qed

lemma targets_roundtrip:
  assumes "list_all valid_target ts" and "MarshalFileSDTargets ts = Inr b"
  shows "json_Unmarshal_targets json_error b = Inr ts"
proof -
  have "json_parse (json_text 0 (JArr (map target_json ts))) = Some (JArr (map target_json ts))"
  proof (rule json_parse_text)
    show "json_plain (JArr (map target_json ts))"
      using assms(1) target_json_plain by (auto simp: items_plain_iff list_all_iff)
    have "items_depth (map target_json ts) \<le> 2"
      using target_json_depth by (simp add: items_depth_le list_all_iff)
    then show "json_depth (JArr (map target_json ts)) \<le> max_depth" by (simp add: max_depth_def)
  qed
  moreover have "json_targets (map target_json ts) = Some ts"
    by (induction ts) (simp_all add: json_target_json)
  ultimately show ?thesis
    using assms(2) by (simp add: MarshalFileSDTargets_def json_Unmarshal_targets_def)
qed

text \<open>
  Property C15: target files survive the trip through JSON. Unmarshalling the marshalled targets
  gives the targets back, whatever characters their strings hold (quotes, control characters,
  HTML, line separators), as long as the strings are valid UTF-8.
\<close>

theorem targets_json_roundtrip:
  assumes "list_all valid_target ts" and "MarshalFileSDTargets ts = Inr b"
  shows "json_Unmarshal_targets json_error b = Inr ts"
  using assms by (rule targets_roundtrip)

theorem targets_json_roundtrip_witness:
  "\<exists>b. MarshalFileSDTargets [\<lparr>sd_Targets = [''<10.0.0.1>''], sd_Labels = fmupd ''na\<newline>me'' [CHR 0x22, CHR 0xC3, CHR 0xA9] fmempty\<rparr>] = Inr b
    \<and> json_Unmarshal_targets LibError b =
        Inr [\<lparr>sd_Targets = [''<10.0.0.1>''], sd_Labels = fmupd ''na\<newline>me'' [CHR 0x22, CHR 0xC3, CHR 0xA9] fmempty\<rparr>]"
proof -
  let ?t = "\<lparr>sd_Targets = [''<10.0.0.1>''], sd_Labels = fmupd ''na\<newline>me'' [CHR 0x22, CHR 0xC3, CHR 0xA9] fmempty\<rparr>"
  have "utf8_valid ''<10.0.0.1>''" "utf8_valid ''na\<newline>me''" "utf8_valid [CHR 0x22, CHR 0xC3, CHR 0xA9]" by code_simp+
  then have "list_all valid_target [?t]" by (simp add: valid_target_def list_all_iff)
  then show ?thesis
    using targets_json_roundtrip [of "[?t]"] by (simp add: MarshalFileSDTargets_def)
qed

section \<open>The labels of a target\<close>

text \<open>The labels the program sets itself; the additional labels of the spec only fill other names.\<close>

definition target_labels :: "PhysicalMeasurement \<Rightarrow> string \<Rightarrow> string option" where
  "target_labels m =
     (if pspec_Type (pm_Spec m) = ''prometheus-exporter'' then [''type'' \<mapsto> ''prometheus-exporter'']
      else [''type'' \<mapsto> ''snmp'', ''job'' \<mapsto> pspec_MeasurementDevice (pm_Spec m),
            ''__param_auth'' \<mapsto> pspec_MeasurementDevice (pm_Spec m),
            ''__param_module'' \<mapsto> pspec_MeasurementDevice (pm_Spec m)])
     (''name'' \<mapsto> pm_Name m, ''instance'' \<mapsto> pspec_Ip (pm_Spec m))"

text \<open>
  The target of a measurement is its address, labelled with its name, address, type
  and, for SNMP, the device as module, authentication and job; additional labels of the spec
  never replace one of these.
\<close>

theorem CreateFileSDTarget_labels:
  "sd_Targets (CreateFileSDTarget m) = [pspec_Ip (pm_Spec m)] \<and>
   fmlookup (sd_Labels (CreateFileSDTarget m)) l =
     (case target_labels m l of
        Some v \<Rightarrow> Some v
      | None \<Rightarrow> (case pspec_AdditionalLabels (pm_Spec m) of
                   None \<Rightarrow> None | Some added \<Rightarrow> fmlookup added l))"
  by (auto simp: CreateFileSDTarget_def applyDefaultAndAdditionalLabels_def target_labels_def Let_def
      PhysicalMeasurementTypePrometheusExporter_def split: option.splits)

end
