(* ===== verification/Phys_Meas.thy ===== *)
theory Phys_Meas
  imports Cluster Targets Lifecycle
begin

text \<open>
  \<open>internal/controller/physicalmeasurement_controller.go\<close> and the writing of target files
  (\<open>internal/physicalmeasurement/config.go\<close>): the reconciler that keeps the target file of each
  PhysicalMeasurement on the volume. The lemmas give the outcomes of a run, what \<open>Ready\<close> means,
  that readers only ever see whole target files, and that no target file outlives its
  measurement.
\<close>

section \<open>The environment\<close>

record 'k pm_env = "'k ctl_env" +
  pm_renameio :: renameio
  get_PM :: "'k \<Rightarrow> NamespacedName \<Rightarrow> PhysicalMeasurement \<times> sys_error option"
  get_MD_error :: "'k \<Rightarrow> NamespacedName \<Rightarrow> sys_error option"
  NewHelper_PM :: "PhysicalMeasurement \<Rightarrow> sys_error option"
  Patch_PM :: "PhysicalMeasurement \<Rightarrow> PhysicalMeasurement \<Rightarrow> 'k \<Rightarrow> sys_error option \<times> 'k"

type_synonym 'k pm_step = "(PhysicalMeasurement, 'k world) step"

definition WriteFileSDTargets ::
    "('k, 'a) pm_env_scheme \<Rightarrow> string \<Rightarrow> bytes \<Rightarrow> osfs \<Rightarrow> gerror option \<times> osfs" where
  "WriteFileSDTargets E path data fs = VolumeFileStore_Write (pm_renameio E) [] path data fs"

section \<open>Steps\<close>

definition prometheusTargetsDir :: string where
  "prometheusTargetsDir = ''prometheus/targets''"

definition getTargetFileSubdir :: "PhysicalMeasurement \<Rightarrow> string" where
  "getTargetFileSubdir m =
     (if pspec_Type (pm_Spec m) = PhysicalMeasurementTypePrometheusExporter then ''prometheus-exporter''
      else ''snmp'')"

definition set_pm ::
    "('k, 'a) ctl_env_scheme \<Rightarrow> ConditionType \<Rightarrow> ConditionStatus \<Rightarrow> ConditionReason \<Rightarrow> string
      \<Rightarrow> PhysicalMeasurement \<Rightarrow> PhysicalMeasurement" where
  "set_pm E = pm_UpdateStatusCondition (kube E)"

definition pm_finalizers :: "(string list \<Rightarrow> string list) \<Rightarrow> PhysicalMeasurement \<Rightarrow> PhysicalMeasurement" where
  "pm_finalizers f m = m\<lparr>pm_Meta := (pm_Meta m)\<lparr>meta_Finalizers := f (meta_Finalizers (pm_Meta m))\<rparr>\<rparr>"

definition pm_reconcileDeletion :: "('k, 'a) pm_env_scheme \<Rightarrow> 'k pm_step" where
  "pm_reconcileDeletion E m w =
     (if meta_DeletionTimestamp (pm_Meta m) = None then (Ret Continue, m, w)
      else if \<not> ContainsFinalizer (kube E) (meta_Finalizers (pm_Meta m)) PhysicalMeasurementFinalizer
      then (Ret Stop, m, w)
      else
        (let subdir = getTargetFileSubdir m;
             targetPath = filepath_Join [VolumeLocation E, prometheusTargetsDir, subdir, pm_Name m @ ''.json'']
         in case os_Remove targetPath (w_fs w) of
              (err, fs) \<Rightarrow>
                (if err \<noteq> None \<and> \<not> sys_is_not_exist (the err)
                 then (Ret (Error (SysErr (the err))),
                       set_pm E ConditionApplied ConditionFalse ReasonCleanupFailed
                         (''Error deleting target file: '' @ sys_error_Error (the err)) m, w\<lparr>w_fs := fs\<rparr>)
                 else (Ret Stop,
                       pm_finalizers (\<lambda>fs. RemoveFinalizer (kube E) fs PhysicalMeasurementFinalizer) m,
                       w\<lparr>w_fs := fs\<rparr>))))"

definition pm_ensureFinalizerIsSet :: "('k, 'a) pm_env_scheme \<Rightarrow> 'k pm_step" where
  "pm_ensureFinalizerIsSet E m w =
     (if ContainsFinalizer (kube E) (meta_Finalizers (pm_Meta m)) PhysicalMeasurementFinalizer
      then (Ret Continue, m, w)
      else (Ret Stop, pm_finalizers (\<lambda>fs. AddFinalizer (kube E) fs PhysicalMeasurementFinalizer) m, w))"

definition pm_reconcileValidation :: "('k, 'a) pm_env_scheme \<Rightarrow> 'k pm_step" where
  "pm_reconcileValidation E m w =
     (let deviceName = pspec_MeasurementDevice (pm_Spec m) in
      if deviceName = [] then
        (Ret Continue, set_pm E ConditionValidated ConditionTrue ReasonReconciled ''Validation successful'' m, w)
      else
        (case get_MD_error E (w_k w)
                \<lparr>req_Namespace = meta_Namespace (pm_Meta m), req_Name = deviceName\<rparr> of
           Some err \<Rightarrow>
             (if sys_is_api_not_found err then
                (Ret (Requeue EndpointRequeueDelay),
                 set_pm E ConditionValidated ConditionFalse ReasonDependencyUnavailable
                   (''MeasurementDevice '' @ deviceName @ '' does not exist'') m, w)
              else
                (Ret (Error (SysErr err)),
                 set_pm E ConditionValidated ConditionFalse ReasonInvalidSpec
                   (''Error getting MeasurementDevice '' @ deviceName @ '': '' @ sys_error_Error err) m, w))
         | None \<Rightarrow>
             (Ret Continue,
              set_pm E ConditionValidated ConditionTrue ReasonReconciled ''Validation successful'' m, w)))"

definition pm_apply_failed ::
    "('k, 'a) ctl_env_scheme \<Rightarrow> string \<Rightarrow> gerror \<Rightarrow> PhysicalMeasurement \<Rightarrow> 'k world
      \<Rightarrow> StepResult go \<times> PhysicalMeasurement \<times> 'k world" where
  "pm_apply_failed E msg err m w =
     (Ret (Error err), set_pm E ConditionApplied ConditionFalse ReasonApplyFailed (msg @ gerror_Error err) m, w)"

definition writeTargetFile ::
    "('k, 'a) pm_env_scheme \<Rightarrow> string \<Rightarrow> string \<Rightarrow> bytes \<Rightarrow> 'k pm_step" where
  "writeTargetFile E targetsDir targetPath desired m w =
     (case os_MkdirAll targetsDir (w_fs w) of
        (Some err, fs) \<Rightarrow> pm_apply_failed E ''Error creating targets directory: '' (SysErr err) m (w\<lparr>w_fs := fs\<rparr>)
      | (None, fs) \<Rightarrow>
          (case WriteFileSDTargets E targetPath desired fs of
             (Some err, fs1) \<Rightarrow> pm_apply_failed E ''Error writing target file: '' err m (w\<lparr>w_fs := fs1\<rparr>)
           | (None, fs1) \<Rightarrow>
               (Ret Continue,
                set_pm E ConditionApplied ConditionTrue ReasonReconciled
                  ''Target file has been generated successfully'' m, w\<lparr>w_fs := fs1\<rparr>)))"

definition pm_reconcileTargetFile :: "('k, 'a) pm_env_scheme \<Rightarrow> 'k pm_step" where
  "pm_reconcileTargetFile E m w =
     (let target = CreateFileSDTarget m in
      case MarshalFileSDTargets [target] of
        Inl err \<Rightarrow> pm_apply_failed E ''Error marshalling target file: '' (SysErr err) m w
      | Inr desired \<Rightarrow>
          (let subdir = getTargetFileSubdir m;
               targetsDir = filepath_Join [VolumeLocation E, prometheusTargetsDir, subdir];
               targetPath = filepath_Join [targetsDir, pm_Name m @ ''.json'']
           in case os_ReadFile targetPath (w_fs w) of
                (rd, fs) \<Rightarrow>
                  (let w1 = w\<lparr>w_fs := fs\<rparr>;
                       observed = (case rd of Inl _ \<Rightarrow> [] | Inr b \<Rightarrow> b)
                   in if isl rd \<and> \<not> sys_is_not_exist (projl rd)
                      then pm_apply_failed E ''Error reading target file: '' (SysErr (projl rd)) m w1
                      else if observed \<noteq> desired then writeTargetFile E targetsDir targetPath desired m w1
                      else (Ret Continue,
                            set_pm E ConditionApplied ConditionTrue ReasonReconciled
                              ''Target file is up to date'' m, w1))))"

definition pm_reconcileReady :: "('k, 'a) pm_env_scheme \<Rightarrow> 'k pm_step" where
  "pm_reconcileReady E m w =
     (Ret Continue,
      set_pm E ConditionReady ConditionTrue ReasonReconciled ''Reconciliation completed successfully'' m, w)"

definition pm_steps :: "('k, 'a) pm_env_scheme \<Rightarrow> 'k pm_step list" where
  "pm_steps E =
     [pm_reconcileDeletion E, pm_ensureFinalizerIsSet E, pm_reconcileValidation E,
      pm_reconcileTargetFile E, pm_reconcileReady E]"

definition pm_run ::
    "('k, 'a) pm_env_scheme \<Rightarrow> PhysicalMeasurement \<Rightarrow> 'k world
      \<Rightarrow> (Result \<times> gerror option) go \<times> PhysicalMeasurement \<times> 'k world" where
  "pm_run E m w =
     Run (pm_steps E)
       (set_pm E ConditionReady ConditionUnknown ReasonReconciling ''Reconciliation is in progress'' m) w"

definition pm_Reconcile ::
    "('k, 'a) pm_env_scheme \<Rightarrow> NamespacedName \<Rightarrow> 'k world \<Rightarrow> (Result \<times> gerror option) go \<times> 'k world" where
  "pm_Reconcile E req w =
     (case get_PM E (w_k w) req of
        (_, Some err) \<Rightarrow>
          (if sys_is_api_not_found err then (Ret (empty_Result, None), w)
           else (Ret (empty_Result, Some (SysErr err)), w))
      | (m, None) \<Rightarrow>
          (case NewHelper_PM E m of
             Some err \<Rightarrow> (Ret (empty_Result, Some (SysErr err)), w)
           | None \<Rightarrow>
               (case pm_run E m w of
                  (out, m', w1) \<Rightarrow>
                    (case Patch_PM E m m' (w_k w1) of
                       (perr, k) \<Rightarrow>
                         (case out of
                            Panic t \<Rightarrow> (Panic t, w1\<lparr>w_k := k\<rparr>)
                          | Ret (result, reterr) \<Rightarrow>
                              (Ret (result, case perr of None \<Rightarrow> reterr
                                            | Some err \<Rightarrow> errors_Join [reterr, Some (SysErr err)]),
                               w1\<lparr>w_k := k\<rparr>))))))"

section \<open>The target file on the volume\<close>

definition target_key :: "('k, 'a) ctl_env_scheme \<Rightarrow> PhysicalMeasurement \<Rightarrow> fpath" where
  "target_key E m =
     path_norm (filepath_Join [VolumeLocation E, prometheusTargetsDir, getTargetFileSubdir m, pm_Name m @ ''.json''])"

definition target_bytes :: "PhysicalMeasurement \<Rightarrow> sys_error + bytes" where
  "target_bytes m = MarshalFileSDTargets [CreateFileSDTarget m]"

text \<open>What the reconciler relies on: renameio replaces a file as a whole, the helpers behave as documented.\<close>

definition pm_libs :: "('k, 'a) pm_env_scheme \<Rightarrow> bool" where
  "pm_libs E \<longleftrightarrow> kube_lib (kube E) \<and> renameio_api (pm_renameio E)"

lemma targetPath_key:
  "path_norm (filepath_Join [filepath_Join [VolumeLocation E, prometheusTargetsDir, getTargetFileSubdir m],
     pm_Name m @ ''.json'']) = target_key E m"
  using path_norm_Join_snoc [of "[VolumeLocation E, prometheusTargetsDir, getTargetFileSubdir m]"]
  by (simp add: target_key_def prometheusTargetsDir_def)

lemma set_pm_simps [simp]:
  "pm_Spec (set_pm E t s r msg m) = pm_Spec m" "pm_Meta (set_pm E t s r msg m) = pm_Meta m"
  by (simp_all add: set_pm_def)

lemma set_pm_target [simp]:
  "getTargetFileSubdir (set_pm E t s r msg m) = getTargetFileSubdir m"
  "CreateFileSDTarget (set_pm E t s r msg m) = CreateFileSDTarget m"
  "target_key E' (set_pm E t s r msg m) = target_key E' m"
  "target_bytes (set_pm E t s r msg m) = target_bytes m"
  by (simp_all add: target_key_def target_bytes_def getTargetFileSubdir_def CreateFileSDTarget_def
      applyDefaultAndAdditionalLabels_def)

lemma set_pm_cond_is:
  assumes "kube_lib (kube E)"
  shows "cond_is (pm_GetConditions (set_pm E t s r msg m)) t' s' \<longleftrightarrow>
    (if t' = t then s' = s else cond_is (pm_GetConditions m) t' s')"
  by (simp add: set_pm_def pm.cond_is_update [OF assms])

lemma pm_finalizers_simps [simp]:
  "pm_Spec (pm_finalizers f m) = pm_Spec m"
  "pm_Name (pm_finalizers f m) = pm_Name m"
  "meta_Finalizers (pm_Meta (pm_finalizers f m)) = f (meta_Finalizers (pm_Meta m))"
  "pm_GetConditions (pm_finalizers f m) = pm_GetConditions m"
  by (simp_all add: pm_finalizers_def pm_GetConditions_def)

lemma fmupd_same: "fmlookup m k = Some v \<Longrightarrow> fmupd k v m = m"
  by (rule fmap_ext) auto

lemma target_key_split:
  assumes "CHR ''/'' \<notin> set (pm_Name m)"
  shows "target_key E m = (fst (path_norm (VolumeLocation E)),
     snd (path_norm (VolumeLocation E)) @ [''prometheus'', ''targets'', getTargetFileSubdir m, pm_Name m @ ''.json''])"
proof -
  have n: "plain_name (pm_Name m @ ''.json'')" using assms by (auto simp: plain_name_def append_eq_Cons_conv)
  have s: "plain_name (getTargetFileSubdir m)" by (auto simp: plain_name_def getTargetFileSubdir_def)
  have d: "plain_rel prometheusTargetsDir" "rel_comps prometheusTargetsDir = [''prometheus'', ''targets'']"
    by (simp_all add: prometheusTargetsDir_def plain_rel_def is_rooted_def rel_comps_def plain_name_def)
  let ?es = "[prometheusTargetsDir, getTargetFileSubdir m, pm_Name m @ ''.json'']"
  have "path_norm (filepath_Join (VolumeLocation E # ?es)) =
      (fst (path_norm (VolumeLocation E)), snd (path_norm (VolumeLocation E)) @ concat (map rel_comps ?es))"
    by (rule path_norm_Join) (use n s d in \<open>auto simp: plain_rel_plain_name\<close>)
  with n s d show ?thesis
    by (simp add: target_key_def rel_comps_plain_name)
qed

text \<open>The step that brings the target file up to date: nothing changes, or the whole file is there.\<close>

lemma target_step_cases:
  assumes libs: "pm_libs E" and step: "pm_reconcileTargetFile E m w = (res, m', w')"
  obtains (failed) err msg where "res = Ret (Error err)"
      "m' = set_pm E ConditionApplied ConditionFalse ReasonApplyFailed msg m"
      "fs_files (w_fs w') = fs_files (w_fs w)"
  | (applied) desired msg where "res = Ret Continue" "target_bytes m = Inr desired"
      "m' = set_pm E ConditionApplied ConditionTrue ReasonReconciled msg m"
      "fs_files (w_fs w') = fmupd (target_key E m) desired (fs_files (w_fs w))"
proof (cases "target_bytes m")
  case (Inl err)
  with step failed show ?thesis
    by (simp add: pm_reconcileTargetFile_def pm_apply_failed_def target_bytes_def) blast
next
  case (Inr desired)
  from libs have rio: "renameio_api (pm_renameio E)"
    and ne: "desired \<noteq> []" using Inr libs by (auto simp: pm_libs_def target_bytes_def MarshalFileSDTargets_def)
  let ?dir = "filepath_Join [VolumeLocation E, prometheusTargetsDir, getTargetFileSubdir m]"
  let ?path = "filepath_Join [?dir, pm_Name m @ ''.json'']"
  obtain rd fs where rd: "os_ReadFile ?path (w_fs w) = (rd, fs)" by fastforce
  let ?w1 = "w\<lparr>w_fs := fs\<rparr>"
  have files: "fs_files fs = fs_files (w_fs w)" using os_ReadFile_files(1) [OF rd] .
  consider (err) e where "rd = Inl e" "\<not> sys_is_not_exist e" | (same) "rd = Inr desired"
    | (differs) "pm_reconcileTargetFile E m w = writeTargetFile E ?dir ?path desired m ?w1"
  proof -
    have "\<not> (isl rd \<and> \<not> sys_is_not_exist (projl rd)) \<Longrightarrow> rd \<noteq> Inr desired \<Longrightarrow>
        pm_reconcileTargetFile E m w = writeTargetFile E ?dir ?path desired m ?w1"
      using Inr rd ne
      by (cases rd) (simp_all add: pm_reconcileTargetFile_def target_bytes_def Let_def)
    with that show thesis by (cases rd) auto
  qed
  then show ?thesis
  proof cases
    case err
    with Inr rd step files show ?thesis
      by (intro failed) (auto simp: pm_reconcileTargetFile_def target_bytes_def Let_def pm_apply_failed_def)
  next
    case same
    then have "fmlookup (fs_files (w_fs w)) (target_key E m) = Some desired"
      using os_ReadFile_Inr rd targetPath_key by metis
    with same Inr rd step files show ?thesis
      by (intro applied) (auto simp: pm_reconcileTargetFile_def target_bytes_def Let_def fmupd_same)
  next
    case differs
    obtain e1 fs1 where mk: "os_MkdirAll ?dir fs = (e1, fs1)" by fastforce
    obtain e2 fs2 where wr: "VolumeFileStore_Write (pm_renameio E) [] ?path desired fs1 = (e2, fs2)" by fastforce
    note mkf = os_MkdirAll_files(1) [OF mk]
    have key: "volume_key [] ?path = target_key E m"
      using targetPath_key [of E m] by (simp add: volume_key_def VolumeFileStore_Resolve_def path_norm_Join_empty_root)
    show ?thesis
    proof (cases "e1 = None \<and> e2 = None")
      case True
      with renameio_api.vfs_write_ok [OF rio] wr key mkf files
      have "fs_files fs2 = fmupd (target_key E m) desired (fs_files (w_fs w))" by metis
      with True differs step Inr mk wr show ?thesis
        by (intro applied) (auto simp: writeTargetFile_def WriteFileSDTargets_def)
    next
      case False
      have "e2 \<noteq> None \<Longrightarrow> fs_files fs2 = fs_files (w_fs w)"
        using renameio_api.vfs_write_error [OF rio] wr mkf files by (metis not_None_eq)
      with False differs step mk wr mkf files show ?thesis
        by (cases e1; cases e2)
          (auto intro!: failed simp: writeTargetFile_def WriteFileSDTargets_def pm_apply_failed_def)
    qed
  qed
qed

lemma target_step_same:
  assumes "pm_reconcileTargetFile E m w = (res, m', w')" and "target_bytes m = Inr desired"
    and "fmlookup (fs_files (w_fs w)) (target_key E m) = Some desired"
  shows "fs_files (w_fs w') = fs_files (w_fs w) \<and> fs_dirs (w_fs w') = fs_dirs (w_fs w)"
proof -
  let ?path = "filepath_Join [filepath_Join [VolumeLocation E, prometheusTargetsDir, getTargetFileSubdir m],
    pm_Name m @ ''.json'']"
  obtain rd fs where rd: "os_ReadFile ?path (w_fs w) = (rd, fs)" by fastforce
  have "rd = Inr desired \<or> (\<exists>e. rd = Inl e \<and> \<not> sys_is_not_exist e)"
    using os_ReadFile_Inr [of ?path "w_fs w"] os_ReadFile_NotExist [of ?path "w_fs w"] rd assms(3)
    unfolding targetPath_key by (cases rd) auto
  with assms(1,2) rd have "w' = w\<lparr>w_fs := fs\<rparr>"
    by (auto simp: pm_reconcileTargetFile_def target_bytes_def Let_def pm_apply_failed_def)
  with os_ReadFile_files(1,2) [OF rd] show ?thesis by simp
qed

section \<open>The outcomes of a run\<close>

definition pm_started :: "('k, 'a) ctl_env_scheme \<Rightarrow> PhysicalMeasurement \<Rightarrow> PhysicalMeasurement" where
  "pm_started E m =
     set_pm E ConditionReady ConditionUnknown ReasonReconciling ''Reconciliation is in progress'' m"

definition pm_validated :: "('k, 'a) ctl_env_scheme \<Rightarrow> PhysicalMeasurement \<Rightarrow> PhysicalMeasurement" where
  "pm_validated E m =
     set_pm E ConditionValidated ConditionTrue ReasonReconciled ''Validation successful'' (pm_started E m)"

lemma pm_started_simps [simp]:
  "pm_Spec (pm_started E m) = pm_Spec m" "pm_Meta (pm_started E m) = pm_Meta m"
  "pm_Spec (pm_validated E m) = pm_Spec m" "pm_Meta (pm_validated E m) = pm_Meta m"
  "target_key E' (pm_started E m) = target_key E' m" "target_key E' (pm_validated E m) = target_key E' m"
  "target_bytes (pm_validated E m) = target_bytes m"
  "getTargetFileSubdir (pm_started E m) = getTargetFileSubdir m"
  "getTargetFileSubdir (pm_validated E m) = getTargetFileSubdir m"
  "CreateFileSDTarget (pm_validated E m) = CreateFileSDTarget m"
  by (simp_all add: pm_started_def pm_validated_def)

abbreviation pm_has_finalizer :: "PhysicalMeasurement \<Rightarrow> bool" where
  "pm_has_finalizer m \<equiv> PhysicalMeasurementFinalizer \<in> set (meta_Finalizers (pm_Meta m))"

abbreviation pm_deleting :: "PhysicalMeasurement \<Rightarrow> bool" where
  "pm_deleting m \<equiv> meta_DeletionTimestamp (pm_Meta m) \<noteq> None"

text \<open>The answer of the API about the device a measurement names.\<close>

abbreviation device_error :: "('k, 'a) pm_env_scheme \<Rightarrow> PhysicalMeasurement \<Rightarrow> 'k \<Rightarrow> sys_error option" where
  "device_error E m k \<equiv>
     (if pspec_MeasurementDevice (pm_Spec m) = [] then None
      else get_MD_error E k \<lparr>req_Namespace = meta_Namespace (pm_Meta m),
             req_Name = pspec_MeasurementDevice (pm_Spec m)\<rparr>)"

lemma pm_deletion_run:
  assumes lib: "kube_lib (kube E)" and del: "pm_deleting m" and run: "pm_run E m w = (out, m', w')"
  obtains (gone) "\<not> pm_has_finalizer m" "out = Ret (empty_Result, None)" "m' = pm_started E m" "w' = w"
  | (failed) err msg where "pm_has_finalizer m" "out = Ret (empty_Result, Some err)"
      "m' = set_pm E ConditionApplied ConditionFalse ReasonCleanupFailed msg (pm_started E m)"
      "fs_files (w_fs w') = fs_files (w_fs w)"
  | (cleaned) "pm_has_finalizer m" "out = Ret (empty_Result, None)"
      "m' = pm_finalizers (\<lambda>fs. RemoveFinalizer (kube E) fs PhysicalMeasurementFinalizer) (pm_started E m)"
      "fs_files (w_fs w') = fmdrop (target_key E m) (fs_files (w_fs w))"
proof (cases "pm_has_finalizer m")
  case False
  with assms gone show ?thesis
    by (auto simp: pm_run_def pm_steps_def pm_started_def [symmetric] pm_reconcileDeletion_def
        kube_lib.ContainsFinalizer_iff)
next
  case fin: True
  let ?p = "filepath_Join [VolumeLocation E, prometheusTargetsDir, getTargetFileSubdir m, pm_Name m @ ''.json'']"
  obtain e fs where rm: "os_Remove ?p (w_fs w) = (e, fs)" by fastforce
  note files = os_Remove_files [OF rm, folded target_key_def]
  have sub: "getTargetFileSubdir (pm_started E m) = getTargetFileSubdir m" by (simp add: getTargetFileSubdir_def)
  show ?thesis
  proof (cases "e \<noteq> None \<and> \<not> sys_is_not_exist (the e)")
    case True
    then have "fs_files fs = fs_files (w_fs w)"
      using rm by (auto simp: os_Remove_def Let_def split: option.splits os_fault.splits if_splits)
    with True lib del fin run rm sub failed show ?thesis
      by (auto simp: pm_run_def pm_steps_def pm_started_def [symmetric] pm_reconcileDeletion_def
          kube_lib.ContainsFinalizer_iff Let_def)
  next
    case False
    then have "fmlookup (fs_files fs) (target_key E m) = None" using files(2) by (cases e) auto
    then have "fs_files fs = fmdrop (target_key E m) (fs_files (w_fs w))"
      using files(1) by (metis fmdrop_idle fmdom_notI)
    moreover have "pm_reconcileDeletion E (pm_started E m) w = (Ret Stop, pm_finalizers
        (\<lambda>fs. RemoveFinalizer (kube E) fs PhysicalMeasurementFinalizer) (pm_started E m), w\<lparr>w_fs := fs\<rparr>)"
      using False lib del fin rm sub
      by (auto simp: pm_reconcileDeletion_def kube_lib.ContainsFinalizer_iff Let_def)
    ultimately show ?thesis
      using run fin cleaned by (auto simp: pm_run_def pm_steps_def pm_started_def [symmetric])
  qed
qed

lemma pm_live_run:
  assumes libs: "pm_libs E" and del: "\<not> pm_deleting m" and run: "pm_run E m w = (out, m', w')"
  obtains (finalizer_added) "\<not> pm_has_finalizer m" "out = Ret (empty_Result, None)" "w' = w"
      "m' = pm_finalizers (\<lambda>fs. AddFinalizer (kube E) fs PhysicalMeasurementFinalizer) (pm_started E m)"
  | (missing) err where "pm_has_finalizer m" "device_error E m (w_k w) = Some err" "sys_is_api_not_found err"
      "out = Ret (\<lparr>RequeueAfter = EndpointRequeueDelay\<rparr>, None)" "w' = w"
      "m' = set_pm E ConditionValidated ConditionFalse ReasonDependencyUnavailable
              (''MeasurementDevice '' @ pspec_MeasurementDevice (pm_Spec m) @ '' does not exist'') (pm_started E m)"
  | (unreadable) err msg where "pm_has_finalizer m" "device_error E m (w_k w) = Some err"
      "\<not> sys_is_api_not_found err" "out = Ret (empty_Result, Some (SysErr err))" "w' = w"
      "m' = set_pm E ConditionValidated ConditionFalse ReasonInvalidSpec msg (pm_started E m)"
  | (failed) err msg where "pm_has_finalizer m" "device_error E m (w_k w) = None"
      "out = Ret (empty_Result, Some err)"
      "m' = set_pm E ConditionApplied ConditionFalse ReasonApplyFailed msg (pm_validated E m)"
      "fs_files (w_fs w') = fs_files (w_fs w)"
  | (ready) desired msg where "pm_has_finalizer m" "device_error E m (w_k w) = None"
      "out = Ret (empty_Result, None)" "target_bytes m = Inr desired"
      "m' = set_pm E ConditionReady ConditionTrue ReasonReconciled ''Reconciliation completed successfully''
              (set_pm E ConditionApplied ConditionTrue ReasonReconciled msg (pm_validated E m))"
      "fs_files (w_fs w') = fmupd (target_key E m) desired (fs_files (w_fs w))"
proof -
  have lib: "kube_lib (kube E)" using libs by (simp add: pm_libs_def)
  show thesis
  proof (cases "pm_has_finalizer m")
    case False
    with lib del run finalizer_added show ?thesis
      by (auto simp: pm_run_def pm_steps_def pm_started_def [symmetric] pm_reconcileDeletion_def
          pm_ensureFinalizerIsSet_def kube_lib.ContainsFinalizer_iff)
  next
    case fin: True
    have run3: "Run [pm_reconcileValidation E, pm_reconcileTargetFile E, pm_reconcileReady E]
        (pm_started E m) w = (out, m', w')"
      using lib del fin run
      by (simp add: pm_run_def pm_steps_def pm_started_def [symmetric] pm_reconcileDeletion_def
          pm_ensureFinalizerIsSet_def kube_lib.ContainsFinalizer_iff)
    show ?thesis
    proof (cases "device_error E m (w_k w)")
      case (Some err)
      with run3 fin missing unreadable show ?thesis
        by (cases "sys_is_api_not_found err") (auto simp: pm_reconcileValidation_def Let_def split: if_splits)
    next
      case None
      then have "pm_reconcileValidation E (pm_started E m) w = (Ret Continue, pm_validated E m, w)"
        by (auto simp: pm_reconcileValidation_def pm_validated_def Let_def split: if_splits)
      with run3 have run2: "Run [pm_reconcileTargetFile E, pm_reconcileReady E] (pm_validated E m) w = (out, m', w')"
        by simp
      obtain res m2 w2 where st: "pm_reconcileTargetFile E (pm_validated E m) w = (res, m2, w2)"
        by (metis prod_cases3)
      from libs st show ?thesis
      proof (cases rule: target_step_cases)
        case (failed err msg)
        with run2 st fin None that(4) show ?thesis by auto
      next
        case (applied desired msg)
        with run2 st fin None that(5) show ?thesis by (auto simp: pm_reconcileReady_def)
      qed
    qed
  qed
qed

section \<open>Properties of a run\<close>

text \<open>A run does one of three things to the files: nothing, drop the target file, or put it whole.\<close>

lemma pm_run_files:
  assumes "pm_libs E" and "pm_run E m w = (out, m', w')"
  shows "fs_files (w_fs w') = fs_files (w_fs w) \<or>
    (pm_deleting m \<and> fs_files (w_fs w') = fmdrop (target_key E m) (fs_files (w_fs w))) \<or>
    (\<not> pm_deleting m \<and> (\<exists>desired. target_bytes m = Inr desired
       \<and> fs_files (w_fs w') = fmupd (target_key E m) desired (fs_files (w_fs w))))"
proof (cases "pm_deleting m")
  case True
  have "kube_lib (kube E)" using assms(1) by (simp add: pm_libs_def)
  from this True assms(2) show ?thesis by (cases rule: pm_deletion_run) (use True in auto)
next
  case False
  from assms(1) False assms(2) show ?thesis by (cases rule: pm_live_run) (use False in auto)
qed

lemma pm_ready_facts:
  assumes "pm_libs E" and "pm_run E m w = (out, m', w')"
    and "cond_is (pm_GetConditions m') ConditionReady ConditionTrue"
  shows "out = Ret (empty_Result, None) \<and> meta_DeletionTimestamp (pm_Meta m) = None
    \<and> PhysicalMeasurementFinalizer \<in> set (meta_Finalizers (pm_Meta m'))
    \<and> device_error E m (w_k w) = None
    \<and> cond_is (pm_GetConditions m') ConditionValidated ConditionTrue
    \<and> cond_is (pm_GetConditions m') ConditionApplied ConditionTrue
    \<and> (\<exists>desired. target_bytes m = Inr desired
         \<and> fmlookup (fs_files (w_fs w')) (target_key E m) = Some desired)"
proof -
  have lib: "kube_lib (kube E)" using assms(1) by (simp add: pm_libs_def)
  note set_pm_cond_is [OF lib, simp]
  show ?thesis
  proof (cases "pm_deleting m")
    case True
    from lib True assms(2) show ?thesis
      by (cases rule: pm_deletion_run) (use assms(3) in \<open>auto simp: pm_started_def\<close>)
  next
    case False
    from assms(1) False assms(2) show ?thesis
      by (cases rule: pm_live_run)
        (use assms(3) False in \<open>auto simp: pm_started_def pm_validated_def split: if_splits\<close>)
  qed
qed

lemma pm_ready_content:
  assumes "pm_libs E" and "pm_run E m w = (out, m', w')"
    and "cond_is (pm_GetConditions m') ConditionReady ConditionTrue"
  shows "\<exists>desired. target_bytes m = Inr desired
         \<and> fmlookup (fs_files (w_fs w')) (target_key E m) = Some desired"
  using pm_ready_facts [OF assms] by blast

text \<open>
  Property C3: a run that leaves a PhysicalMeasurement with \<open>Ready\<close> true returned without an
  error, on a measurement that is not being deleted, carries the finalizer and whose device (if
  it names one) exists; \<open>Validated\<close> and \<open>Applied\<close> are true, and the target file on the
  volume is the JSON of exactly this measurement's target.
\<close>

theorem pm_ready_means_target:
  assumes "pm_libs E" and "pm_run E m w = (out, m', w')"
    and "cond_is (pm_GetConditions m') ConditionReady ConditionTrue"
  shows "out = Ret (empty_Result, None) \<and> meta_DeletionTimestamp (pm_Meta m) = None
    \<and> PhysicalMeasurementFinalizer \<in> set (meta_Finalizers (pm_Meta m'))
    \<and> device_error E m (w_k w) = None
    \<and> cond_is (pm_GetConditions m') ConditionValidated ConditionTrue
    \<and> cond_is (pm_GetConditions m') ConditionApplied ConditionTrue
    \<and> (\<exists>desired. target_bytes m = Inr desired
         \<and> fmlookup (fs_files (w_fs w')) (target_key E m) = Some desired)"
  using assms by (rule pm_ready_facts)

text \<open>
  Property C21: Prometheus never reads a partially written target file. Whatever fails during a
  run, the target file afterwards is what it was before, the complete new target, or (for a
  measurement being deleted) gone; no other file changes.
\<close>

theorem pm_target_atomic:
  assumes "pm_libs E" and "pm_run E m w = (out, m', w')"
  shows "(fmlookup (fs_files (w_fs w')) q = fmlookup (fs_files (w_fs w)) q) \<or>
    (q = target_key E m \<and> meta_DeletionTimestamp (pm_Meta m) \<noteq> None \<and> fmlookup (fs_files (w_fs w')) q = None) \<or>
    (q = target_key E m \<and> (\<exists>desired. target_bytes m = Inr desired
       \<and> fmlookup (fs_files (w_fs w')) q = Some desired))"
  using pm_run_files [OF assms] by (auto split: if_splits)

text \<open>
  Property C20: the finalizer of a measurement is given up only while it is being deleted and with
  its target file (that of its current type) gone from the volume.
\<close>

theorem pm_finalizer_released_after_cleanup:
  assumes "pm_libs E" and "pm_run E m w = (out, m', w')"
    and "PhysicalMeasurementFinalizer \<in> set (meta_Finalizers (pm_Meta m))"
    and "PhysicalMeasurementFinalizer \<notin> set (meta_Finalizers (pm_Meta m'))"
  shows "meta_DeletionTimestamp (pm_Meta m) \<noteq> None
    \<and> fmlookup (fs_files (w_fs w')) (target_key E m) = None"
proof (cases "pm_deleting m")
  case True
  have "kube_lib (kube E)" using assms(1) by (simp add: pm_libs_def)
  from this True assms(2) show ?thesis
    by (cases rule: pm_deletion_run) (use assms(3,4) True in \<open>auto\<close>)
next
  case False
  from assms(1) False assms(2) show ?thesis
    by (cases rule: pm_live_run) (use assms(3,4) in \<open>auto\<close>)
qed

text \<open>
  A measurement whose device does not exist is retried after thirty seconds and not
  applied: nothing on the volume changes, and \<open>Validated\<close> is false with reason
  DependencyUnavailable.
\<close>

theorem pm_missing_device_requeues:
  assumes "pm_libs E" and "meta_DeletionTimestamp (pm_Meta m) = None"
    and "PhysicalMeasurementFinalizer \<in> set (meta_Finalizers (pm_Meta m))"
    and "device_error E m (w_k w) = Some err" and "sys_is_api_not_found err"
  shows "\<exists>m'. pm_run E m w = (Ret (\<lparr>RequeueAfter = 30\<rparr>, None), m', w) \<and>
    FindStatusCondition (pm_GetConditions m') ''Validated'' =
      Some \<lparr>cond_Type = ''Validated'', cond_Status = ConditionFalse,
            cond_Reason = ''DependencyUnavailable'',
            cond_Message = ''MeasurementDevice '' @ pspec_MeasurementDevice (pm_Spec m) @ '' does not exist'',
            cond_ObservedGeneration = meta_Generation (pm_Meta m)\<rparr>"
proof -
  obtain out m' w' where run: "pm_run E m w = (out, m', w')" by (metis prod_cases3)
  have lib: "kube_lib (kube E)" using assms(1) by (simp add: pm_libs_def)
  note find = pm.find_update [OF lib, where t' = ConditionValidated, unfolded ConditionType_string.simps]
  have "\<not> pm_deleting m" using assms(2) by simp
  from assms(1) this run show ?thesis
    by (cases rule: pm_live_run)
      (use assms(3-5) run in \<open>auto simp: EndpointRequeueDelay_def set_pm_def find new_condition_def
        split: if_splits\<close>)
qed

text \<open>
  Property C30: a measurement owns one target file per type and a run only ever touches the one of
  its current type: with another type in the spec, the file written for the old type stays as
  it is, also when the measurement is deleted.
\<close>

theorem pm_other_type_untouched:
  assumes "pm_libs E" and "pm_run E m w = (out, m', w')"
    and "pm_Name old = pm_Name m" and "getTargetFileSubdir old \<noteq> getTargetFileSubdir m"
    and "CHR ''/'' \<notin> set (pm_Name m)"
  shows "fmlookup (fs_files (w_fs w')) (target_key E old) = fmlookup (fs_files (w_fs w)) (target_key E old)"
proof -
  have "target_key E old \<noteq> target_key E m"
    using assms(3-5) by (auto simp: target_key_split)
  with pm_run_files [OF assms(1,2)] show ?thesis by auto
qed

text \<open>
  What Prometheus loads is what the spec says. After a run that sets \<open>Ready\<close>,
  \<open>LoadFileSDTargets\<close> on the target file returns exactly this measurement's target, or an
  input/output error that is not a missing file.
\<close>

theorem pm_load_after_ready:
  assumes libs: "pm_libs E" and run: "pm_run E m w = (out, m', w')"
    and ready: "cond_is (pm_GetConditions m') ConditionReady ConditionTrue"
    and valid: "valid_target (CreateFileSDTarget m)"
    and path: "volume_key root path = target_key E m"
    and load: "LoadFileSDTargets json_error (VolumeFileStore (pm_renameio E) root) path (w_fs w') = (r, fs)"
  shows "r = Inr [CreateFileSDTarget m] \<or> (\<exists>e. r = Inl e \<and> \<not> errors_Is_NotExist e)"
proof -
  from pm_ready_content [OF libs run ready] obtain desired where d: "target_bytes m = Inr desired"
    "fmlookup (fs_files (w_fs w')) (target_key E m) = Some desired" by blast
  obtain rd fs1 where rd: "VolumeFileStore_ReadAll root path (w_fs w') = (rd, fs1)" by fastforce
  have "json_Unmarshal_targets json_error desired = Inr [CreateFileSDTarget m]"
    using d(1) valid targets_roundtrip [of "[CreateFileSDTarget m]"] by (simp add: target_bytes_def)
  with load rd d path vfs_read_ok [of root path "w_fs w'"] vfs_read_missing [of root path "w_fs w'"] show ?thesis
    by (cases rd) (auto simp: LoadFileSDTargets_def VolumeFileStore_def)
qed

text \<open>
  A target file that is already up to date is not written again: the run leaves
  every file and directory of the volume as it is.
\<close>

theorem pm_up_to_date_untouched:
  assumes "pm_libs E" and "meta_DeletionTimestamp (pm_Meta m) = None"
    and "target_bytes m = Inr desired"
    and "fmlookup (fs_files (w_fs w)) (target_key E m) = Some desired"
    and "pm_run E m w = (out, m', w')"
  shows "fs_files (w_fs w') = fs_files (w_fs w) \<and> fs_dirs (w_fs w') = fs_dirs (w_fs w)"
proof -
  have lib: "kube_lib (kube E)" using assms(1) by (simp add: pm_libs_def)
  have tgt: "fs_files (w_fs v') = fs_files (w_fs v) \<and> fs_dirs (w_fs v') = fs_dirs (w_fs v)"
    if "pm_reconcileTargetFile E (set_pm E t s rs msg m1) v = (res, m2, v')" "w_fs v = w_fs w"
      "target_bytes m1 = Inr desired" "target_key E m1 = target_key E m" for t s rs msg m1 m2 v v' res
    using target_step_same [OF that(1), of desired] that(2-4) assms(4) by simp
  show ?thesis
    using assms(2,3,5) lib tgt [OF _ refl]
    by (auto simp: pm_run_def pm_steps_def pm_reconcileDeletion_def pm_ensureFinalizerIsSet_def
        pm_reconcileValidation_def pm_reconcileReady_def Let_def
        split: if_splits option.splits go.splits Action.splits prod.splits)
qed

section \<open>No target file outlives its measurement\<close>

text \<open>
  The measurement named \<open>n\<close> of a type with the given subdirectory follows the finalizer protocol:
  what it owns is its target file. Edits that change the type leave this life cycle.
\<close>

definition pm_life :: "('k, 'a) pm_env_scheme \<Rightarrow> PhysicalMeasurement \<Rightarrow> (PhysicalMeasurement, 'k world) life" where
  "pm_life E m0 =
     \<lparr>life_meta = pm_Meta,
      life_set_finalizers = (\<lambda>fs m. m\<lparr>pm_Meta := (pm_Meta m)\<lparr>meta_Finalizers := fs\<rparr>\<rparr>),
      life_named = (\<lambda>m. pm_Name m = pm_Name m0 \<and> getTargetFileSubdir m = getTargetFileSubdir m0),
      life_finalizer = PhysicalMeasurementFinalizer, life_run = (\<lambda>m w. snd (pm_run E m w)),
      life_owned = (\<lambda>w. pm_libs E \<and> fmlookup (fs_files (w_fs w)) (target_key E m0) \<noteq> None)\<rparr>"

lemma pm_run_guarded:
  assumes libs: "pm_libs E" and run: "pm_run E m w = (out, m', w')"
    and own: "fmlookup (fs_files (w_fs w)) (target_key E m) \<noteq> None \<Longrightarrow> pm_has_finalizer m"
    and own': "fmlookup (fs_files (w_fs w')) (target_key E m) \<noteq> None"
  shows "pm_has_finalizer m \<and> pm_has_finalizer m'"
proof (cases "pm_deleting m")
  case True
  have "kube_lib (kube E)" using libs by (simp add: pm_libs_def)
  from this True run show ?thesis by (cases rule: pm_deletion_run) (use own own' in auto)
next
  case False
  from libs False run show ?thesis by (cases rule: pm_live_run) (use own own' in auto)
qed

interpretation pm_life: life_cycle "pm_life E m0"
proof unfold_locales
  fix d w d' w'
  let ?L = "pm_life E m0"
  assume a: "life_named ?L d" "life_run ?L d w = (d', w')" "life_owned ?L w \<Longrightarrow> life_guarded ?L d" "life_owned ?L w'"
  from a(2) obtain out where "pm_run E d w = (out, d', w')" by (cases "pm_run E d w") (auto simp: pm_life_def)
  moreover from a(1) have "target_key E d = target_key E m0" by (simp add: pm_life_def target_key_def)
  ultimately show "life_guarded ?L d \<and> life_guarded ?L d'"
    using a(3,4) pm_run_guarded [of E d w out d' w'] by (auto simp: pm_life_def)
qed (simp_all add: pm_life_def getTargetFileSubdir_def)

text \<open>
  Property C6: no target file is orphaned while the type stays. However a measurement is created,
  edited (its type apart), deleted and reconciled, and whichever patches are lost, a measurement
  the API server no longer stores has left no target file for Prometheus to scrape.
\<close>

theorem pm_no_orphaned_target:
  assumes "pm_libs E" and "life_reachable (pm_life E m) (None, w)"
  shows "fmlookup (fs_files (w_fs w)) (target_key E m) = None"
  using pm_life.nothing_left [OF assms(2)] assms(1) by (simp add: pm_life_def)

section \<open>An example\<close>

definition ex_pm :: PhysicalMeasurement where
  "ex_pm = \<lparr>pm_Meta = \<lparr>meta_Name = ''pdu-1'', meta_Namespace = ''default'', meta_UID = ''u'',
       meta_Generation = 1, meta_DeletionTimestamp = None, meta_Finalizers = [PhysicalMeasurementFinalizer]\<rparr>,
     pm_Spec = \<lparr>pspec_Type = ''snmp'', pspec_Ip = ''10.0.0.1'', pspec_MeasurementDevice = ''dev'',
       pspec_AdditionalLabels = None\<rparr>,
     pm_Status = \<lparr>pstat_ObservedGeneration = 0, pstat_Conditions = []\<rparr>\<rparr>"

definition ex_pm_env :: "unit pm_env" where
  "ex_pm_env = \<lparr>get_ConfigMap = (\<lambda>k ns n. Inl (ApiNotFound n)), get_Secret = (\<lambda>k ns n. Inl (ApiNotFound n)),
     parse_template = (\<lambda>t. Inr (\<lambda>ps. Inr t)), kube = klib_reference, VolumeLocation = ''/data'',
     PrometheusServiceHost = ''prometheus'', PrometheusServicePort = ''9090'',
     http_Post = (\<lambda>u fs k. (Inr 200, k)),
     pm_renameio = rio_reference, get_PM = (\<lambda>k req. (ex_pm, None)),
     get_MD_error = (\<lambda>k req. if req_Name req = ''dev'' then None else Some (ApiNotFound (req_Name req))),
     NewHelper_PM = (\<lambda>m. None), Patch_PM = (\<lambda>m m' k. (None, k))\<rparr>"

definition ex_pm_text :: bytes where
  "ex_pm_text = json_text 0 (JArr [target_json (CreateFileSDTarget ex_pm)])"

definition ex_pm_world :: "unit world" where
  "ex_pm_world = \<lparr>w_fs = \<lparr>fs_files = fmupd (target_key ex_pm_env ex_pm) ex_pm_text fmempty,
      fs_dirs = {||}, fs_fault = (\<lambda>_. None), fs_clock = 0\<rparr>, w_k = ()\<rparr>"

lemma ex_pm_libs: "pm_libs ex_pm_env"
  by (simp add: pm_libs_def ex_pm_env_def klib_ref.kube_lib_axioms rio_ref.renameio_api_axioms)

lemma ex_pm_bytes: "target_bytes ex_pm = Inr ex_pm_text"
  by (simp add: target_bytes_def MarshalFileSDTargets_def ex_pm_text_def)

lemma ex_pm_valid: "valid_target (CreateFileSDTarget ex_pm)"
  unfolding valid_target_def
  by (auto simp: list_all_iff CreateFileSDTarget_def applyDefaultAndAdditionalLabels_def ex_pm_def
      PhysicalMeasurementTypePrometheusExporter_def Let_def byte_def intro!: utf8_valid_ascii)

lemma ex_pm_content: "fmlookup (fs_files (w_fs ex_pm_world)) (target_key ex_pm_env ex_pm) = Some ex_pm_text"
  by (simp add: ex_pm_world_def)

lemma ex_pm_meta [simp]:
  "meta_DeletionTimestamp (pm_Meta ex_pm) = None" "pm_Name ex_pm = ''pdu-1''"
  "meta_Finalizers (pm_Meta ex_pm) = [PhysicalMeasurementFinalizer]"
  by (simp_all add: ex_pm_def)

lemma ex_pm_device: "device_error ex_pm_env ex_pm k = None"
  by (simp add: ex_pm_env_def ex_pm_def)

text \<open>The example reads the file it finds up to date.\<close>

lemma ex_pm_read:
  "os_ReadFile (filepath_Join [filepath_Join [VolumeLocation ex_pm_env, prometheusTargetsDir,
      getTargetFileSubdir ex_pm], ''pdu-1.json'']) (w_fs ex_pm_world) =
     (Inr ex_pm_text, os_tick (os_tick (w_fs ex_pm_world)))"
  using targetPath_key [of ex_pm_env ex_pm]
  by (simp add: os_ReadFile_def os_Open_def io_ReadAll_def next_fault_def is_file_def ex_pm_world_def os_tick_def)

lemma ex_pm_run:
  obtains m' w' where "pm_run ex_pm_env ex_pm ex_pm_world = (Ret (empty_Result, None), m', w')"
    "cond_is (pm_GetConditions m') ConditionReady ConditionTrue"
proof -
  have lib: "kube_lib (kube ex_pm_env)" using ex_pm_libs by (simp add: pm_libs_def)
  obtain out m' w' where run: "pm_run ex_pm_env ex_pm ex_pm_world = (out, m', w')" by (metis prod_cases3)
  have step: "\<exists>m2 w2. pm_reconcileTargetFile ex_pm_env (pm_validated ex_pm_env ex_pm) ex_pm_world
      = (Ret Continue, m2, w2)"
    using ex_pm_read ex_pm_bytes
    by (simp add: pm_reconcileTargetFile_def target_bytes_def)
  have val: "pm_reconcileValidation ex_pm_env (pm_started ex_pm_env ex_pm) ex_pm_world =
      (Ret Continue, pm_validated ex_pm_env ex_pm, ex_pm_world)"
    using ex_pm_device [of "()"]
    by (simp add: pm_reconcileValidation_def pm_validated_def Let_def split: if_splits)
  have "pm_run ex_pm_env ex_pm ex_pm_world =
      Run [pm_reconcileTargetFile ex_pm_env, pm_reconcileReady ex_pm_env] (pm_validated ex_pm_env ex_pm) ex_pm_world"
    using lib val
    by (simp add: pm_run_def pm_steps_def pm_started_def [symmetric] pm_reconcileDeletion_def
        pm_ensureFinalizerIsSet_def kube_lib.ContainsFinalizer_iff)
  with step obtain m2 w2 where "pm_run ex_pm_env ex_pm ex_pm_world = (Ret (empty_Result, None),
      set_pm ex_pm_env ConditionReady ConditionTrue ReasonReconciled ''Reconciliation completed successfully'' m2, w2)"
    by (auto simp: pm_reconcileReady_def)
  with that show thesis by (simp add: set_pm_cond_is [OF lib])
qed

definition ex_pm_deleting :: PhysicalMeasurement where
  "ex_pm_deleting = ex_pm\<lparr>pm_Meta := (pm_Meta ex_pm)\<lparr>meta_DeletionTimestamp := Some 1\<rparr>\<rparr>"

lemma ex_pm_deleting_simps [simp]:
  "meta_DeletionTimestamp (pm_Meta ex_pm_deleting) = Some 1" "pm_Name ex_pm_deleting = ''pdu-1''"
  "meta_Finalizers (pm_Meta ex_pm_deleting) = [PhysicalMeasurementFinalizer]"
  "getTargetFileSubdir ex_pm_deleting = getTargetFileSubdir ex_pm"
  "target_key E ex_pm_deleting = target_key E ex_pm"
  by (simp_all add: ex_pm_deleting_def getTargetFileSubdir_def target_key_def)

lemma ex_pm_deletion:
  "pm_run ex_pm_env ex_pm_deleting ex_pm_world =
     (Ret (empty_Result, None),
      pm_finalizers (\<lambda>fs. removeAll PhysicalMeasurementFinalizer fs) (pm_started ex_pm_env ex_pm_deleting),
      ex_pm_world\<lparr>w_fs := (os_tick (w_fs ex_pm_world))\<lparr>fs_files := fmempty\<rparr>\<rparr>)"
proof -
  have lib: "kube_lib (kube ex_pm_env)" using ex_pm_libs by (simp add: pm_libs_def)
  have "os_Remove (filepath_Join [VolumeLocation ex_pm_env, prometheusTargetsDir, getTargetFileSubdir ex_pm,
      ''pdu-1.json'']) (w_fs ex_pm_world) = (None, (os_tick (w_fs ex_pm_world))\<lparr>fs_files := fmempty\<rparr>)"
    using target_key_def [of ex_pm_env ex_pm]
    by (simp add: os_Remove_def Let_def next_fault_def is_file_def ex_pm_world_def os_tick_def
        fmdrop_fmupd_same)
  then have "pm_reconcileDeletion ex_pm_env (pm_started ex_pm_env ex_pm_deleting) ex_pm_world =
      (Ret Stop, pm_finalizers (\<lambda>fs. RemoveFinalizer (kube ex_pm_env) fs PhysicalMeasurementFinalizer)
         (pm_started ex_pm_env ex_pm_deleting),
       ex_pm_world\<lparr>w_fs := (os_tick (w_fs ex_pm_world))\<lparr>fs_files := fmempty\<rparr>\<rparr>)"
    by (simp add: pm_reconcileDeletion_def kube_lib.ContainsFinalizer_iff [OF lib] Let_def)
  then show ?thesis
    by (simp add: pm_run_def pm_steps_def pm_started_def [symmetric])
      (simp add: ex_pm_env_def klib_reference_def)
qed

theorem pm_ready_means_target_witness:
  "\<exists>m' w'. pm_run ex_pm_env ex_pm ex_pm_world = (Ret (empty_Result, None), m', w')
     \<and> fmlookup (fs_files (w_fs w')) (target_key ex_pm_env ex_pm) = Some ex_pm_text"
proof -
  obtain m' w' where run: "pm_run ex_pm_env ex_pm ex_pm_world = (Ret (empty_Result, None), m', w')"
    "cond_is (pm_GetConditions m') ConditionReady ConditionTrue" by (rule ex_pm_run)
  from pm_ready_means_target [OF ex_pm_libs run] run show ?thesis by (auto simp: ex_pm_bytes)
qed

theorem pm_target_atomic_witness:
  "\<exists>out m' w'. pm_run ex_pm_env ex_pm_deleting ex_pm_world = (out, m', w')
     \<and> fmlookup (fs_files (w_fs w')) (True, [''x'']) = fmlookup (fs_files (w_fs ex_pm_world)) (True, [''x''])"
proof -
  have "(True, [''x'']) \<noteq> target_key ex_pm_env ex_pm"
    by (auto simp: target_key_split ex_pm_env_def dest!: arg_cong [of _ _ length])
  with pm_target_atomic [OF ex_pm_libs ex_pm_deletion, of "(True, [''x''])"] ex_pm_deletion
  show ?thesis by auto
qed

theorem pm_finalizer_released_after_cleanup_witness:
  "fmlookup (fs_files ((os_tick (w_fs ex_pm_world))\<lparr>fs_files := fmempty\<rparr>)) (target_key ex_pm_env ex_pm) = None
   \<and> meta_DeletionTimestamp (pm_Meta ex_pm_deleting) \<noteq> None"
  using pm_finalizer_released_after_cleanup [OF ex_pm_libs ex_pm_deletion] by simp

definition ex_pm_missing :: PhysicalMeasurement where
  "ex_pm_missing = ex_pm\<lparr>pm_Spec := (pm_Spec ex_pm)\<lparr>pspec_MeasurementDevice := ''missing''\<rparr>\<rparr>"

theorem pm_missing_device_requeues_witness:
  "\<exists>m'. pm_run ex_pm_env ex_pm_missing ex_pm_world = (Ret (\<lparr>RequeueAfter = 30\<rparr>, None), m', ex_pm_world)"
proof -
  have "device_error ex_pm_env ex_pm_missing (w_k ex_pm_world) = Some (ApiNotFound ''missing'')"
    by (simp add: ex_pm_missing_def ex_pm_env_def)
  from pm_missing_device_requeues [OF ex_pm_libs _ _ this] show ?thesis by (auto simp: ex_pm_missing_def)
qed

definition ex_pm_exporter :: PhysicalMeasurement where
  "ex_pm_exporter = ex_pm_deleting\<lparr>pm_Spec := (pm_Spec ex_pm)\<lparr>pspec_Type := ''prometheus-exporter''\<rparr>\<rparr>"

theorem pm_other_type_untouched_witness:
  "\<exists>out m' w'. pm_run ex_pm_env ex_pm_exporter ex_pm_world = (out, m', w')
     \<and> fmlookup (fs_files (w_fs w')) (target_key ex_pm_env ex_pm) = Some ex_pm_text"
proof -
  obtain out m' w' where run: "pm_run ex_pm_env ex_pm_exporter ex_pm_world = (out, m', w')" by (metis prod_cases3)
  have "pm_Name ex_pm = pm_Name ex_pm_exporter" "getTargetFileSubdir ex_pm \<noteq> getTargetFileSubdir ex_pm_exporter"
    "CHR ''/'' \<notin> set (pm_Name ex_pm_exporter)"
    by (simp_all add: ex_pm_exporter_def ex_pm_deleting_def getTargetFileSubdir_def
        PhysicalMeasurementTypePrometheusExporter_def ex_pm_def)
  from pm_other_type_untouched [OF ex_pm_libs run this] run show ?thesis by (simp add: ex_pm_content)
qed

theorem pm_load_after_ready_witness:
  "\<exists>r fs (w' :: unit world). LoadFileSDTargets LibError (VolumeFileStore rio_reference [])
      (filepath_Join [VolumeLocation ex_pm_env, prometheusTargetsDir, getTargetFileSubdir ex_pm, ''pdu-1.json''])
      (w_fs w') = (r, fs)
    \<and> (r = Inr [CreateFileSDTarget ex_pm] \<or> (\<exists>e. r = Inl e \<and> errors_Is_NotExist e = False))"
proof -
  obtain m' w' where run: "pm_run ex_pm_env ex_pm ex_pm_world = (Ret (empty_Result, None), m', w')"
    "cond_is (pm_GetConditions m') ConditionReady ConditionTrue" by (rule ex_pm_run)
  let ?path = "filepath_Join [VolumeLocation ex_pm_env, prometheusTargetsDir, getTargetFileSubdir ex_pm, ''pdu-1.json'']"
  have key: "volume_key [] ?path = target_key ex_pm_env ex_pm"
    using target_key_def [of ex_pm_env ex_pm]
    by (simp add: volume_key_def VolumeFileStore_Resolve_def path_norm_Join_empty_root)
  have valid: "valid_target (CreateFileSDTarget ex_pm)" by (rule ex_pm_valid)
  have rio: "pm_renameio ex_pm_env = rio_reference" by (simp add: ex_pm_env_def)
  obtain r fs where load: "LoadFileSDTargets LibError (VolumeFileStore rio_reference []) ?path (w_fs w') = (r, fs)"
    by fastforce
  have "r = Inr [CreateFileSDTarget ex_pm] \<or> (\<exists>e. r = Inl e \<and> \<not> errors_Is_NotExist e)"
    by (rule pm_load_after_ready [OF ex_pm_libs run]) (use valid key load rio in auto)
  with load show ?thesis by auto
qed

theorem pm_up_to_date_untouched_witness:
  "\<exists>m' w'. pm_run ex_pm_env ex_pm ex_pm_world = (Ret (empty_Result, None), m', w')
     \<and> fs_files (w_fs w') = fs_files (w_fs ex_pm_world) \<and> fs_dirs (w_fs w') = fs_dirs (w_fs ex_pm_world)"
proof -
  obtain m' w' where run: "pm_run ex_pm_env ex_pm ex_pm_world = (Ret (empty_Result, None), m', w')"
    by (rule ex_pm_run)
  from pm_up_to_date_untouched [OF ex_pm_libs _ ex_pm_bytes ex_pm_content run] run show ?thesis by simp
qed

theorem pm_no_orphaned_target_witness:
  "\<exists>w. life_reachable (pm_life ex_pm_env ex_pm) (None, w)
     \<and> fmlookup (fs_files (w_fs w)) (target_key ex_pm_env ex_pm) = None"
proof -
  let ?L = "pm_life ex_pm_env ex_pm" and ?w = "ex_pm_world\<lparr>w_fs := (os_tick (w_fs ex_pm_world))\<lparr>fs_files := fmempty\<rparr>\<rparr>"
  have "life_reachable ?L (None, ?w)" by (rule life_reachable.init) (simp add: pm_life_def)
  then have "life_reachable ?L (Some ex_pm, ?w)"
    by (rule life_reachable.step) (rule life_step.create, simp_all add: pm_life_def)
  then have "life_reachable ?L (Some ex_pm, ex_pm_world)"
    by (rule life_reachable.step) (rule life_step.other, simp add: pm_life_def)
  then have "life_reachable ?L (life_stored ?L ex_pm_deleting (meta_Finalizers (life_meta ?L ex_pm)), ex_pm_world)"
    by (rule life_reachable.step)
      (rule life_step.delete [where t = 1], simp_all add: pm_life_def ex_pm_deleting_def getTargetFileSubdir_def)
  moreover have "life_stored ?L ex_pm_deleting (meta_Finalizers (life_meta ?L ex_pm)) = Some ex_pm_deleting"
    by (simp add: life_stored_def pm_life_def ex_pm_deleting_def ex_pm_def)
  ultimately have "life_reachable ?L (Some ex_pm_deleting, ex_pm_world)" by simp
  then have "life_reachable ?L (life_stored ?L ex_pm_deleting []
      , ?w)"
    using reconcile_patched [of ?L ex_pm_deleting ex_pm_world _ ?w] ex_pm_deletion
    by (auto simp: pm_life_def intro: life_reachable.step)
  moreover have "life_stored ?L ex_pm_deleting [] = None" by (simp add: life_stored_def pm_life_def)
  ultimately have gone: "life_reachable ?L (None, ?w)" by simp
  with pm_no_orphaned_target [OF ex_pm_libs gone] show ?thesis by blast
qed

end
