(* ===== verification/Interleaving.thy ===== *)
theory Interleaving
  imports Dcr_Watch Phys_Meas Md_Examples
begin

text \<open>
  The three reconcilers on one volume. The manager runs them in any order, one object at a time per controller; an event
  is one reconciliation, and the volume goes from event to event. The theorems say which files an event can
  touch, that no two objects share one (the merged SNMP file apart), and that what a reconciliation
  established stays until the next one for the same object.
\<close>

section \<open>Events\<close>

record ('v, 'k) operator =
  op_dcr :: "'k dcr_env"
  op_pm :: "'k pm_env"
  op_md :: "('v, 'k) md_env"

datatype event = DcrEvent DataCenterResource | PmEvent PhysicalMeasurement | MdEvent MeasurementDevice

fun event_step :: "('v, 'k) operator \<Rightarrow> event \<Rightarrow> 'k world \<Rightarrow> 'k world" where
  "event_step op (DcrEvent d) w = (case dcr_run (op_dcr op) d w of (out, d', w') \<Rightarrow> w')"
| "event_step op (PmEvent m) w = (case pm_run (op_pm op) m w of (out, m', w') \<Rightarrow> w')"
| "event_step op (MdEvent m) w = (case md_run (op_md op) m w of (out, m', w') \<Rightarrow> w')"

definition event_run :: "('v, 'k) operator \<Rightarrow> event list \<Rightarrow> 'k world \<Rightarrow> 'k world" where
  "event_run op evs w = fold (event_step op) evs w"

text \<open>All controllers get the same volume, and the libraries keep their contracts.\<close>

definition operator_ok :: "('v, 'k) operator \<Rightarrow> renameio \<Rightarrow> string \<Rightarrow> bool" where
  "operator_ok op rio root \<longleftrightarrow>
     kube_lib (kube (op_dcr op)) \<and> pm_libs (op_pm op) \<and> md_libs (op_md op) rio root
   \<and> VolumeLocation (op_dcr op) = root \<and> VolumeLocation (op_pm op) = root"

fun event_keys :: "('v, 'k) operator \<Rightarrow> string \<Rightarrow> event \<Rightarrow> fpath set" where
  "event_keys op root (DcrEvent d) = {rule_key (op_dcr op) (dcr_Name d)}"
| "event_keys op root (PmEvent m) = {target_key (op_pm op) m}"
| "event_keys op root (MdEvent m) = md_keys root m"

text \<open>Names and UIDs have no slash (the API server admits none).\<close>

fun plain_event :: "event \<Rightarrow> bool" where
  "plain_event (DcrEvent d) = (CHR ''/'' \<notin> set (dcr_Name d))"
| "plain_event (PmEvent m) = (CHR ''/'' \<notin> set (pm_Name m))"
| "plain_event (MdEvent m) = (CHR ''/'' \<notin> set (md_UID m))"

text \<open>Events on one object as far as its files go: the namespace is not part of a file's name.\<close>

fun same_object :: "event \<Rightarrow> event \<Rightarrow> bool" where
  "same_object (DcrEvent d) (DcrEvent e) = (dcr_Name d = dcr_Name e)"
| "same_object (PmEvent m) (PmEvent n) = (pm_Name m = pm_Name n \<and> getTargetFileSubdir m = getTargetFileSubdir n)"
| "same_object (MdEvent m) (MdEvent n) = (md_UID m = md_UID n)"
| "same_object _ _ = False"

section \<open>One writer per file\<close>

lemma rule_key_split:
  assumes "CHR ''/'' \<notin> set n"
  shows "rule_key E n = (fst (path_norm (VolumeLocation E)), snd (path_norm (VolumeLocation E)) @ [''prometheus'', ''rules'', n @ ''.yml''])"
proof -
  have dir: "plain_rel prometheusRulesDir" "rel_comps prometheusRulesDir = [''prometheus'', ''rules'']"
    by (simp_all add: prometheusRulesDir_def plain_rel_def is_rooted_def rel_comps_def plain_name_def)
  then show ?thesis
    using rule_key_dir [OF assms, of E] path_norm_Join [of "[prometheusRulesDir]" "VolumeLocation E"] by simp
qed

lemmas key_splits = rule_key_split target_key_split device_keys

lemma one_writer:
  assumes "operator_ok op rio root" and "plain_event a" and "plain_event b"
    and "q \<in> event_keys op root a" and "q \<in> event_keys op root b" and "q \<noteq> volume_key root SnmpMergedFile"
  shows "same_object a b"
  using assms
  by (cases a; cases b) (auto simp: operator_ok_def md_keys_def key_splits device_keys_distinct)

lemma event_frame:
  assumes "operator_ok op rio root" and "q \<notin> event_keys op root ev"
  shows "fmlookup (fs_files (w_fs (event_step op ev w))) q = fmlookup (fs_files (w_fs w)) q"
proof (cases ev)
  case (DcrEvent d)
  obtain out d' w' where run: "dcr_run (op_dcr op) d w = (out, d', w')" by (metis prod.collapse)
  from dcr_frame.Run_R [OF run [unfolded dcr_run_def]] assms(2) DcrEvent run show ?thesis
    by (cases q) (simp add: dcr_kept_def same_files_but_def)
next
  case (PmEvent m)
  obtain out m' w' where run: "pm_run (op_pm op) m w = (out, m', w')" by (metis prod.collapse)
  have "pm_libs (op_pm op)" using assms(1) by (simp add: operator_ok_def)
  from pm_run_files [OF this run] assms(2) PmEvent run show ?thesis by auto
next
  case (MdEvent m)
  obtain out m' w' where run: "md_run (op_md op) m w = (out, m', w')" by (metis prod.collapse)
  have "md_libs (op_md op) rio root" using assms(1) by (simp add: operator_ok_def)
  from md_run_kept(3) [OF this run] assms(2) MdEvent run show ?thesis by simp
qed

lemma events_frame:
  assumes "operator_ok op rio root" and "list_all (\<lambda>ev. q \<notin> event_keys op root ev) evs"
  shows "fmlookup (fs_files (w_fs (event_run op evs w))) q = fmlookup (fs_files (w_fs w)) q"
  using assms(2)
  by (induction evs arbitrary: w) (simp_all add: event_run_def event_frame [OF assms(1)])


section \<open>Objects of different namespaces\<close>


section \<open>Examples\<close>

definition ex_operator :: "(string, unit) operator" where
  "ex_operator = \<lparr>op_dcr = ex_env, op_pm = ex_pm_env, op_md = ex_md_env\<rparr>"

lemma ex_operator_ok: "operator_ok ex_operator rio_reference ''/data''"
  using ex_env_lib ex_pm_libs ex_md_libs
  by (simp add: operator_ok_def ex_operator_def) (simp add: ex_env_def ex_pm_env_def)

lemma ex_ready_rules:
  obtains data where "fmlookup (fs_files (w_fs (event_step ex_operator (DcrEvent ex_pdu_normal) ex_world)))
    (rule_key ex_env ''pdu-1'') = Some data"
proof -
  obtain d' w' where run: "dcr_run ex_env ex_pdu_normal ex_world = (Ret (empty_Result, None), d', w')"
    and ready: "cond_is (dcr_GetConditions d') ConditionReady ConditionTrue" by (rule ex_pdu_converges)
  from dcr_ready_applied [OF ex_env_lib run ready] obtain k where "rule_applied ex_env ex_pdu_normal k w'" by metis
  with that run show thesis by (auto simp: rule_applied_def rule_content_def ex_operator_def)
qed


definition ex_pdu_elsewhere :: DataCenterResource where
  "ex_pdu_elsewhere = ex_pdu\<lparr>dcr_Meta := (dcr_Meta ex_pdu)\<lparr>meta_Namespace := ''other''\<rparr>\<rparr>"

definition ex_ruled_world :: "unit world" where
  "ex_ruled_world = ex_world\<lparr>w_fs := put_file (rule_key ex_env ''pdu-1'') ''groups'' ex_fs\<rparr>"

lemma ex_ruled_deletion:
  "dcr_run ex_env ex_pdu_deleting ex_ruled_world =
     (Ret (empty_Result, None),
      dcr_finalizers (\<lambda>fs. removeAll DataCenterResourceGraphFinalizer fs) (started ex_env ex_pdu_deleting),
      snd (deleteRuleFile ex_env ex_pdu_deleting ex_ruled_world))"
proof -
  have "fst (deleteRuleFile ex_env ex_pdu_deleting ex_ruled_world) = None"
    by (simp add: deleteRuleFile_def os_Remove_def rule_key_def ex_ruled_world_def put_file_def next_fault_def
        is_file_def Let_def) (simp add: ex_fs_def)
  then have "deleteRuleFile ex_env (started ex_env ex_pdu_deleting) ex_ruled_world =
      (None, snd (deleteRuleFile ex_env ex_pdu_deleting ex_ruled_world))"
    by (auto simp: deleteRuleFile_def split: prod.splits option.splits)
  moreover have "reloadPrometheus ex_env w = (None, w)" for w
    by (simp add: reloadPrometheus_def post_def ex_env_def)
  ultimately show ?thesis
    by (simp add: dcr_run_def dcr_steps_def started_def [symmetric] dcr_reconcileDeletion_def
        kube_lib.ContainsFinalizer_iff [OF ex_env_lib])
      (simp add: ex_env_def klib_reference_def)
qed


end
