(* ===== verification/Volume_Type.thy ===== *)
theory Volume_Type
  imports Interleaving
begin

text \<open>
  The type of the volume. A tree of files is well formed when everything stored has a directory above it and
  no path is both a file and a directory (\<open>wf_osfs\<close>). Every operation keeps that, the failing ones
  included; here it is carried from the operations to whole reconciliations and to any sequence of them.
  The locale \<open>typed_store\<close> is what a client needs of its store for a property of the volume to survive:
  each of the store's operations keeps it.
\<close>

section \<open>Stores that keep a property of the volume\<close>

locale typed_store =
  fixes F :: FileStore and P :: "osfs \<Rightarrow> bool"
  assumes read_P [simp]: "P s \<Longrightarrow> P (snd (fsReadAll F p s))"
    and write_P [simp]: "P s \<Longrightarrow> P (snd (fsWrite F p b s))"
    and remove_P [simp]: "P s \<Longrightarrow> P (snd (fsRemove F p s))"
    and collect_P [simp]: "P s \<Longrightarrow> P (snd (fsCollectSubFiles F p s))"
begin

lemma read_configs_P [simp]: "P s \<Longrightarrow> P (snd (read_configs F ps out s))"
  by (induction ps arbitrary: out s) (simp_all add: case_prod_beta split: sum.split)

lemma GetMerged_P [simp]: "P s \<Longrightarrow> P (snd (GetMergedSortedSNMPConfig Y F dir s))"
  by (simp add: GetMergedSortedSNMPConfig_def readPerDeviceSnmpConfigs_def case_prod_beta split: sum.split)

end

lemma wf_same_tree: "fs_files s' = fs_files s \<Longrightarrow> fs_dirs s' = fs_dirs s \<Longrightarrow> wf_osfs s' = wf_osfs s"
  by (simp add: wf_osfs_def is_dir_def)

lemma read_tree [simp]:
  "wf_osfs (snd (os_Open p s)) = wf_osfs s" "wf_osfs (snd (io_ReadAll fp s)) = wf_osfs s"
  "wf_osfs (snd (os_ReadFile p s)) = wf_osfs s"
  using os_Open_files [of p s] io_ReadAll_files [of fp s] os_ReadFile_files [of p s]
  by (metis prod.collapse wf_same_tree)+

lemma change_tree [simp]:
  "wf_osfs s \<Longrightarrow> wf_osfs (snd (os_Remove p s))" "wf_osfs s \<Longrightarrow> wf_osfs (snd (os_MkdirAll p s))"
  by (metis prod.collapse os_Remove_wf os_MkdirAll_wf)+

lemma volume_write_tree: "renameio_api rio \<Longrightarrow> wf_osfs s \<Longrightarrow> wf_osfs (snd (VolumeFileStore_Write rio root p b s))"
  by (metis prod.collapse renameio_api.vfs_write_wf)

lemma volume_store_typed:
  assumes "renameio_api rio"
  shows "typed_store (VolumeFileStore rio root) wf_osfs"
  unfolding VolumeFileStore_def
  by unfold_locales
    (simp_all add: VolumeFileStore_ReadAll_def VolumeFileStore_Read_def volume_write_tree [OF assms]
      VolumeFileStore_Remove_def VolumeFileStore_CollectSubFiles_def case_prod_beta Let_def
      split: sum.split option.split os_fault.split)

interpretation ref_store: typed_store "VolumeFileStore rio_reference root" wf_osfs
  by (rule volume_store_typed) unfold_locales

section \<open>The device reconciler over such a store\<close>

locale typed_device = typed_store "md_Filestore E" P
  for E :: "('v, 'k) md_env" and P :: "osfs \<Rightarrow> bool"
begin

lemma remove_files_P [simp]: "P s \<Longrightarrow> P (snd (remove_files E ps s))"
  by (induction ps arbitrary: s) (simp_all add: case_prod_beta)

lemma generator_P: "P (w_fs w) \<Longrightarrow> P (w_fs (snd (snd (reconcileGeneratorFile E m w))))"
  by (simp add: reconcileGeneratorFile_def Let_def md_fail_def with_fs_def case_prod_beta
      split: sum.split go.split option.split)

lemma job_P: "P (w_fs w) \<Longrightarrow> P (w_fs (snd (snd (reconcileSNMPGeneratorJob E m w))))"
  by (simp add: reconcileSNMPGeneratorJob_def createGeneratorJob_def evaluateGeneratorJob_def md_fail_def with_k_def
      case_prod_beta split: sum.split list.split option.split)

lemma content_P: "P (w_fs w) \<Longrightarrow> P (w_fs (snd (snd (reconcileSNMPFileContent E m w))))"
  by (simp add: reconcileSNMPFileContent_def Let_def md_fail_def with_fs_def case_prod_beta split: sum.split)

lemma merged_P: "P (w_fs w) \<Longrightarrow> P (w_fs (snd (snd (reconcileMergedSNMPFile E m w))))"
  by (simp add: reconcileMergedSNMPFile_def Let_def md_fail_def with_fs_def case_prod_beta
      split: sum.split option.split)

lemma reload_P: "P (w_fs w) \<Longrightarrow> P (w_fs (snd (snd (reconcileExporterReload E m w))))"
  by (simp add: reconcileExporterReload_def Let_def md_fail_def with_fs_def with_k_def case_prod_beta
      split: sum.split option.split)

lemma deletion_P:
  assumes "P (w_fs w)"
  shows "P (w_fs (snd (snd (md_reconcileDeletion E m w))))"
proof (cases "md_reconcileDeletion E m w")
  case (fields res m' w')
  let ?files = "[GeneratorFile (md_UID m), SnmpFile (md_UID m)]"
  obtain err fs where rm: "remove_files E ?files (w_fs w) = (err, fs)" by fastforce
  have fs: "P (w_fs (with_fs w0 fs))" for w0 :: "'k world"
    using remove_files_P [OF assms, of ?files] rm by (simp add: with_fs_def del: remove_files.simps)
  have merged: "P (w_fs w1)" if "reconcileMergedSNMPFile E m (with_fs w0 fs) = (r, m1, w1)" for w0 r m1 w1
    using merged_P [OF fs, of m w0] that by simp
  have reload: "P (w_fs w2)" if "reconcileExporterReload E m1 w1 = (r, m2, w2)" and "P (w_fs w1)" for m1 w1 r m2 w2
    using reload_P [OF that(2), of m1] that(1) by simp
  have "P (w_fs w')"
    using fields assms fs
    by (auto simp: md_reconcileDeletion_def md_fail_def with_k_def rm simp del: remove_files.simps
        split: if_splits sum.splits prod.splits option.splits go.splits intro: merged reload)
  with fields show ?thesis by simp
qed

lemma step_P:
  assumes "step \<in> set (md_steps E)" and "step m w = (res, m', w')" and "P (w_fs w)"
  shows "P (w_fs w')"
proof -
  have "P (w_fs (snd (snd (step m w))))"
    using assms(1,3)
    by (auto simp: md_steps_def md_ensureFinalizerIsSet_def md_reconcileReady_def deletion_P generator_P job_P
        content_P merged_P reload_P)
  with assms(2) show ?thesis by simp
qed

end

sublocale typed_device \<subseteq> typed: step_frame "md_steps E" "\<lambda>x y. P (w_fs (snd x)) \<longrightarrow> P (w_fs (snd y))"
  by unfold_locales (auto dest: step_P)

context typed_device
begin

lemma run_P: "md_run E m w = (res, m', w') \<Longrightarrow> P (w_fs w) \<Longrightarrow> P (w_fs w')"
  unfolding md_run_def by (drule typed.Run_R) simp

end

interpretation ex_device: typed_device ex_md_env wf_osfs
  unfolding typed_device_def using ref_store.typed_store_axioms by (simp add: ex_md_env_def)

section \<open>Reconciliations keep the volume well formed\<close>

lemma pm_step_wf:
  assumes "renameio_api (pm_renameio E)" and "step \<in> set (pm_steps E)" and "step m w = (res, m', w')" and "wf_osfs (w_fs w)"
  shows "wf_osfs (w_fs w')"
proof -
  have "wf_osfs (w_fs (snd (snd (pm_reconcileTargetFile E m w))))"
    using assms(4) volume_write_tree [OF assms(1)]
    by (simp add: pm_reconcileTargetFile_def writeTargetFile_def WriteFileSDTargets_def pm_apply_failed_def Let_def
        case_prod_beta split: sum.split option.split)
  moreover have "wf_osfs (w_fs (snd (snd (pm_reconcileDeletion E m w))))"
    using assms(4) by (simp add: pm_reconcileDeletion_def Let_def case_prod_beta)
  ultimately have "wf_osfs (w_fs (snd (snd (step m w))))"
    using assms(2,4)
    by (auto simp: pm_steps_def pm_ensureFinalizerIsSet_def pm_reconcileValidation_def pm_reconcileReady_def Let_def
        split: option.split)
  with assms(3) show ?thesis by simp
qed

definition pm_tree :: "('k, 'a) pm_env_scheme \<Rightarrow> PhysicalMeasurement \<times> 'k world \<Rightarrow> PhysicalMeasurement \<times> 'k world \<Rightarrow> bool"
  where "pm_tree E x y \<longleftrightarrow> (renameio_api (pm_renameio E) \<longrightarrow> wf_osfs (w_fs (snd x)) \<longrightarrow> wf_osfs (w_fs (snd y)))"

interpretation pm_typed: step_frame "pm_steps E" "pm_tree E" for E
  by unfold_locales (auto simp: pm_tree_def dest: pm_step_wf)

lemma event_wf:
  assumes ok: "operator_ok op rio root" and wf: "wf_osfs (w_fs w)"
  shows "wf_osfs (w_fs (event_step op ev w))"
proof (cases ev)
  case (DcrEvent d)
  obtain out d' w' where run: "dcr_run (op_dcr op) d w = (out, d', w')" by (metis prod.collapse)
  from dcr_frame.Run_R [OF run [unfolded dcr_run_def]] wf DcrEvent run show ?thesis
    by (simp add: dcr_kept_def same_files_but_def)
next
  case (PmEvent m)
  obtain out m' w' where run: "pm_run (op_pm op) m w = (out, m', w')" by (metis prod.collapse)
  from pm_typed.Run_R [OF run [unfolded pm_run_def]] ok wf PmEvent run show ?thesis
    by (simp add: pm_tree_def operator_ok_def pm_libs_def)
next
  case (MdEvent m)
  obtain out m' w' where run: "md_run (op_md op) m w = (out, m', w')" by (metis prod.collapse)
  have "typed_device (op_md op) wf_osfs"
    unfolding typed_device_def using ok volume_store_typed by (auto simp: operator_ok_def md_libs_def)
  from typed_device.run_P [OF this run wf] MdEvent run show ?thesis by simp
qed


section \<open>An example\<close>


end
