(* ===== verification/Regex.thy ===== *)
theory Regex
  imports Prelude
begin

text \<open>
  The anchored regular expressions of the sources, matched the way Go's \<open>regexp\<close> documents it
  (the whole text for \<open>^...$\<close>). The matcher takes derivatives; \<open>accepts\<close> is the declarative
  reading of an expression, and the matcher decides it.
\<close>

datatype rexp =
    RNone
  | REmpty
  | RChar "char \<Rightarrow> bool"
  | RSeq rexp rexp
  | RAlt rexp rexp
  | RStar rexp

definition RPlus :: "rexp \<Rightarrow> rexp" where
  "RPlus r = RSeq r (RStar r)"

inductive accepts :: "rexp \<Rightarrow> string \<Rightarrow> bool" where
  empty: "accepts REmpty []"
| char: "p c \<Longrightarrow> accepts (RChar p) [c]"
| seq: "accepts r s \<Longrightarrow> accepts r' t \<Longrightarrow> accepts (RSeq r r') (s @ t)"
| alt_left: "accepts r s \<Longrightarrow> accepts (RAlt r r') s"
| alt_right: "accepts r' s \<Longrightarrow> accepts (RAlt r r') s"
| star_done: "accepts (RStar r) []"
| star_more: "accepts r s \<Longrightarrow> accepts (RStar r) t \<Longrightarrow> accepts (RStar r) (s @ t)"

inductive_cases accepts_noneE: "accepts RNone s"
inductive_cases accepts_emptyE: "accepts REmpty s"
inductive_cases accepts_charE: "accepts (RChar p) s"
inductive_cases accepts_seqE: "accepts (RSeq r r') s"
inductive_cases accepts_altE: "accepts (RAlt r r') s"

lemmas accepts_elims = accepts_noneE accepts_emptyE accepts_charE accepts_seqE accepts_altE

fun eats_nothing :: "rexp \<Rightarrow> bool" where
  "eats_nothing RNone = False"
| "eats_nothing REmpty = True"
| "eats_nothing (RChar p) = False"
| "eats_nothing (RSeq r r') = (eats_nothing r \<and> eats_nothing r')"
| "eats_nothing (RAlt r r') = (eats_nothing r \<or> eats_nothing r')"
| "eats_nothing (RStar r) = True"

fun after :: "char \<Rightarrow> rexp \<Rightarrow> rexp" where
  "after c RNone = RNone"
| "after c REmpty = RNone"
| "after c (RChar p) = (if p c then REmpty else RNone)"
| "after c (RSeq r r') =
     (if eats_nothing r then RAlt (RSeq (after c r) r') (after c r') else RSeq (after c r) r')"
| "after c (RAlt r r') = RAlt (after c r) (after c r')"
| "after c (RStar r) = RSeq (after c r) (RStar r)"

definition rmatch :: "rexp \<Rightarrow> string \<Rightarrow> bool" where
  "rmatch r s = eats_nothing (fold after s r)"

lemma eats_nothing_iff: "eats_nothing r \<longleftrightarrow> accepts r []"
proof (induction r)
  case (RSeq r r')
  have "accepts (RSeq r r') [] \<longleftrightarrow> accepts r [] \<and> accepts r' []"
    using accepts.seq [of r "[]" r' "[]"] by (auto elim!: accepts_seqE)
  with RSeq show ?case by simp
qed (auto intro: accepts.intros elim: accepts_elims)

lemma star_Cons:
  "accepts (RStar r) (c # s) \<longleftrightarrow> (\<exists>u v. s = u @ v \<and> accepts r (c # u) \<and> accepts (RStar r) v)"
proof
  have "accepts r' x \<Longrightarrow> r' = RStar r \<Longrightarrow> x = c # s \<Longrightarrow>
      \<exists>u v. s = u @ v \<and> accepts r (c # u) \<and> accepts (RStar r) v" for r' x
    by (induction arbitrary: s rule: accepts.induct) (auto simp: append_eq_Cons_conv)
  then show "accepts (RStar r) (c # s) \<Longrightarrow> \<exists>u v. s = u @ v \<and> accepts r (c # u) \<and> accepts (RStar r) v" by blast
next
  assume "\<exists>u v. s = u @ v \<and> accepts r (c # u) \<and> accepts (RStar r) v"
  then show "accepts (RStar r) (c # s)" using accepts.star_more [of r "c # _"] by fastforce
qed

lemma seq_Cons:
  "accepts (RSeq r r') (c # s) \<longleftrightarrow>
     (\<exists>u v. s = u @ v \<and> accepts r (c # u) \<and> accepts r' v) \<or> (accepts r [] \<and> accepts r' (c # s))"
proof
  assume "accepts (RSeq r r') (c # s)"
  then show "(\<exists>u v. s = u @ v \<and> accepts r (c # u) \<and> accepts r' v) \<or> (accepts r [] \<and> accepts r' (c # s))"
    by (auto elim!: accepts_seqE simp: append_eq_Cons_conv Cons_eq_append_conv)
next
  assume "(\<exists>u v. s = u @ v \<and> accepts r (c # u) \<and> accepts r' v) \<or> (accepts r [] \<and> accepts r' (c # s))"
  then show "accepts (RSeq r r') (c # s)"
    using accepts.seq [of r "c # _" r'] accepts.seq [of r "[]" r'] by fastforce
qed

lemma accepts_seq_iff: "accepts (RSeq r r') s \<longleftrightarrow> (\<exists>u v. s = u @ v \<and> accepts r u \<and> accepts r' v)"
  using accepts.seq [of r _ r'] by (auto elim!: accepts_seqE)

lemma accepts_alt_iff: "accepts (RAlt r r') s \<longleftrightarrow> accepts r s \<or> accepts r' s"
  by (auto intro: accepts.alt_left accepts.alt_right elim: accepts_altE)

lemma accepts_after: "accepts (after c r) s \<longleftrightarrow> accepts r (c # s)"
proof (induction r arbitrary: s)
  case (RSeq r r')
  then show ?case
    by (simp add: seq_Cons accepts_seq_iff [of "after c r" r' s] accepts_alt_iff eats_nothing_iff)
next
  case (RAlt r r')
  then show ?case by (simp add: accepts_alt_iff)
next
  case (RStar r)
  then show ?case by (simp add: star_Cons accepts_seq_iff)
qed (auto intro: accepts.intros elim: accepts_elims)

lemma rmatch_iff: "rmatch r s \<longleftrightarrow> accepts r s"
proof -
  have "eats_nothing (fold after s r) \<longleftrightarrow> accepts r s"
    by (induction s arbitrary: r) (simp_all add: eats_nothing_iff accepts_after)
  then show ?thesis by (simp add: rmatch_def)
qed

text \<open>Repeating a class of characters.\<close>

lemma accepts_star_char: "accepts (RStar (RChar p)) s \<longleftrightarrow> list_all p s"
proof (induction s)
  case Nil
  then show ?case by (simp add: accepts.star_done)
next
  case (Cons c s)
  have "accepts (RChar p) (c # u) \<longleftrightarrow> u = [] \<and> p c" for u
    by (auto intro: accepts.char elim: accepts_charE)
  with Cons show ?case by (auto simp: star_Cons)
qed

lemma accepts_plus:
  assumes "\<not> accepts r []"
  shows "accepts (RPlus r) s \<longleftrightarrow> s \<noteq> [] \<and> accepts (RStar r) s"
proof
  assume "accepts (RPlus r) s"
  with assms show "s \<noteq> [] \<and> accepts (RStar r) s"
    by (auto simp: RPlus_def accepts_seq_iff intro: accepts.star_more)
next
  assume "s \<noteq> [] \<and> accepts (RStar r) s"
  then obtain c u v where "s = (c # u) @ v" "accepts r (c # u)" "accepts (RStar r) v"
    by (cases s) (auto simp: star_Cons)
  then show "accepts (RPlus r) s" unfolding RPlus_def by (metis accepts.seq)
qed

lemma accepts_plus_char: "accepts (RPlus (RChar p)) s \<longleftrightarrow> s \<noteq> [] \<and> list_all p s"
proof -
  have "\<not> accepts (RChar p) []" by (auto elim: accepts_charE)
  then show ?thesis by (simp add: accepts_plus accepts_star_char)
qed

end
