(* ===== verification/Configuration.thy ===== *)
theory Configuration
  imports Cluster Regex
begin

text \<open>
  Package \<open>internal/configuration\<close>: the environment variables the operator needs and their
  validation at start-up. The process environment, the resolver, the dialer and
  \<open>validation.IsDNS1123Label\<close> are parameters (record \<open>start_env\<close>); the error types are in theory
  \<open>Errors\<close>, and a nil error in a list of errors is \<^const>\<open>None\<close>. The lemmas say what the pattern of claim
  names accepts and exactly which environments pass.
\<close>

section \<open>Names and errors\<close>

definition ChanticoVolumeLocationEnv :: string where
  "ChanticoVolumeLocationEnv = ''CHANTICO_DATA_PATH''"

definition ChanticoVolumeClaimEnv :: string where
  "ChanticoVolumeClaimEnv = ''CHANTICO_PERSISTENT_VOLUME_CLAIM_NAME''"

definition ChanticoPrometheusServiceHostEnv :: string where
  "ChanticoPrometheusServiceHostEnv = ''CHANTICO_PROMETHEUS_SERVICE_HOST''"

definition ChanticoPrometheusServicePortEnv :: string where
  "ChanticoPrometheusServicePortEnv = ''CHANTICO_PROMETHEUS_SERVICE_PORT''"

definition ChanticoNamespaceEnv :: string where
  "ChanticoNamespaceEnv = ''CHANTICO_NAMESPACE''"

definition ChanticoWatchNamespaceEnv :: string where
  "ChanticoWatchNamespaceEnv = ''CHANTICO_WATCH_NAMESPACE''"

definition AllNamespaces :: string where
  "AllNamespaces = ''*''"

text \<open>\<open>Unwrap\<close> of the error types (package errors are in theory \<open>Errors\<close>), and the text of a \<open>strconv\<close> error.\<close>

fun cfg_error_Unwrap :: "cfg_error \<Rightarrow> sys_error option" where
  "cfg_error_Unwrap (InvalidError v val reason err) = err"
| "cfg_error_Unwrap (ConnectError t vs val reason err) = err"
| "cfg_error_Unwrap _ = None"

fun num_error_text :: "num_error \<Rightarrow> string" where
  "num_error_text ErrSyntax = ''invalid syntax''"
| "num_error_text ErrRange = ''value out of range''"

definition NumError :: "string \<Rightarrow> string \<Rightarrow> num_error \<Rightarrow> sys_error" where
  "NumError func v err = LibError (''strconv.'' @ func @ '': parsing '' @ strconv_Quote v @ '': '' @ num_error_text err)"

definition quoted :: "string \<Rightarrow> string" where
  "quoted s = CHR 0x27 # s @ [CHR 0x27]"

section \<open>Validators\<close>

record start_env =
  os_LookupEnv :: "string \<Rightarrow> string option"
  net_LookupHost :: "string \<Rightarrow> sys_error + string list"
  net_Dial :: "string \<Rightarrow> sys_error option"
  conn_Close :: "string \<Rightarrow> sys_error option"
  IsDNS1123Label :: "string \<Rightarrow> string list"

definition is_alpha :: "char \<Rightarrow> bool" where
  "is_alpha c \<longleftrightarrow> c \<in> set ''abcdefghijklmnopqrstuvwxyzABCDEFGHIJKLMNOPQRSTUVWXYZ''"

text \<open>\<open>^([[:alpha:]]*-)+([[:alpha:]]*)$\<close>\<close>

definition claim_block :: rexp where
  "claim_block = RSeq (RStar (RChar is_alpha)) (RChar (\<lambda>c. c = CHR ''-''))"

definition claim_regex :: rexp where
  "claim_regex = RSeq (RPlus claim_block) (RStar (RChar is_alpha))"

definition validateClaim :: "string \<Rightarrow> string \<Rightarrow> cfg_error option" where
  "validateClaim varName v =
     (if \<not> rmatch claim_regex v
      then Some (InvalidError varName v (''PVC name should look like '' @ quoted ''chantico-snmp-prometheus-volume-claim'') None)
      else None)"

definition validateLocation :: "string \<Rightarrow> string \<Rightarrow> osfs \<Rightarrow> cfg_error option \<times> osfs" where
  "validateLocation varName v fs =
     (case os_Stat v fs of
        (Inl err, fs1) \<Rightarrow>
          (Some (InvalidError varName v (''cannot find directory, should look like '' @
             quoted ''.chantico-persistent-volume'' @ '' or an absolute path'') (Some err)), fs1)
      | (Inr isDir, fs1) \<Rightarrow>
          (if \<not> isDir
           then (Some (InvalidError varName v (''must be a directory, should look like '' @
                  quoted ''.chantico-persistent-volume'' @ '' or an absolute path'') None), fs1)
           else (None, fs1)))"

definition validateHost :: "start_env \<Rightarrow> string \<Rightarrow> string \<Rightarrow> cfg_error option" where
  "validateHost S varName v =
     (case net_LookupHost S v of
        Inl err \<Rightarrow>
          Some (ConnectError ConnectErrorTypeHost [varName] v ''error looking up host (is it a valid address?)''
            (Some err))
      | Inr addrs \<Rightarrow>
          (if length addrs = 0
           then Some (ConnectError ConnectErrorTypeHost [varName] v
                  ''lookup for host returned empty, is it a valid address?'' None)
           else None))"

definition validatePort :: "string \<Rightarrow> string \<Rightarrow> cfg_error option" where
  "validatePort varName v =
     (case strconv_ParseUint v 16 of
        (_, Some err) \<Rightarrow>
          Some (InvalidError varName v ''error converting to a 16-bit integer, is it a valid port?''
            (Some (NumError ''ParseUint'' v err)))
      | (_, None) \<Rightarrow> None)"

definition validateHostPort :: "start_env \<Rightarrow> string list \<Rightarrow> string \<Rightarrow> string \<Rightarrow> cfg_error option" where
  "validateHostPort S varNames host port =
     (let addr = net_JoinHostPort host port in
      case net_Dial S addr of
        Some err \<Rightarrow>
          Some (ConnectError ConnectErrorTypeAddress varNames addr
            ''If this is a development environment, make sure port forwarding has started'' (Some err))
      | None \<Rightarrow>
          (case conn_Close S addr of
             Some err \<Rightarrow>
               Some (ConnectError ConnectErrorTypeAddress varNames addr ''error closing connection to host''
                 (Some err))
           | None \<Rightarrow> None))"

text \<open>The value is returned next to the error; a missing variable reads as the empty string.\<close>

definition validateVar ::
    "start_env \<Rightarrow> string \<Rightarrow> (string \<Rightarrow> string \<Rightarrow> osfs \<Rightarrow> cfg_error option \<times> osfs) \<Rightarrow> osfs
      \<Rightarrow> (string \<times> cfg_error option) \<times> osfs" where
  "validateVar S varName extraTest fs =
     (case os_LookupEnv S varName of
        None \<Rightarrow> (([], Some (UnsetError varName)), fs)
      | Some v \<Rightarrow>
          (if v = [] then ((v, Some (EmptyError varName)), fs)
           else (case extraTest varName v fs of (err, fs1) \<Rightarrow> ((v, err), fs1))))"

definition lookupNamespace :: "start_env \<Rightarrow> string \<Rightarrow> bool \<Rightarrow> string \<times> cfg_error option" where
  "lookupNamespace S envName allNamespacesAllowed =
     (case os_LookupEnv S envName of
        None \<Rightarrow> ([], Some (UnsetError envName))
      | Some ns \<Rightarrow>
          (if ns = [] then (ns, Some (EmptyError envName))
           else if allNamespacesAllowed \<and> ns = AllNamespaces then (ns, None)
           else
             (let errMsgs = IsDNS1123Label S ns in
              if length errMsgs > 0 then (ns, Some (InvalidError envName ns (strings_Join errMsgs ''; '') None))
              else (ns, None))))"

definition validateNamespaces :: "start_env \<Rightarrow> string \<times> string \<times> cfg_error option list" where
  "validateNamespaces S =
     (let (podNamespace, podErr) = lookupNamespace S ChanticoNamespaceEnv False;
          (watchNamespace, watchErr) = lookupNamespace S ChanticoWatchNamespaceEnv True
      in if podErr \<noteq> None then ([], [], [podErr, watchErr])
         else
           (case watchErr of
              Some e \<Rightarrow>
                (if e = UnsetError ChanticoWatchNamespaceEnv then (podNamespace, podNamespace, [])
                 else ([], [], [watchErr]))
            | None \<Rightarrow> (podNamespace, watchNamespace, [])))"

section \<open>ValidateEnv\<close>

record validatedEnv =
  env_VolumeLocation :: string
  env_VolumeClaim :: string
  env_PrometheusServiceHost :: string
  env_PrometheusServicePort :: string
  env_PodNamespace :: string
  env_WatchNamespace :: string

definition ignoring_fs :: "(string \<Rightarrow> string \<Rightarrow> cfg_error option) \<Rightarrow> string \<Rightarrow> string \<Rightarrow> osfs \<Rightarrow> cfg_error option \<times> osfs" where
  "ignoring_fs f varName v fs = (f varName v, fs)"

definition varsToValidate ::
    "start_env \<Rightarrow> (string \<times> (string \<Rightarrow> string \<Rightarrow> osfs \<Rightarrow> cfg_error option \<times> osfs)
      \<times> (string \<Rightarrow> validatedEnv \<Rightarrow> validatedEnv)) list" where
  "varsToValidate S =
     [(ChanticoVolumeClaimEnv, ignoring_fs validateClaim, \<lambda>v ret. ret\<lparr>env_VolumeClaim := v\<rparr>),
      (ChanticoVolumeLocationEnv, validateLocation, \<lambda>v ret. ret\<lparr>env_VolumeLocation := v\<rparr>),
      (ChanticoPrometheusServiceHostEnv, ignoring_fs (validateHost S), \<lambda>v ret. ret\<lparr>env_PrometheusServiceHost := v\<rparr>),
      (ChanticoPrometheusServicePortEnv, ignoring_fs validatePort, \<lambda>v ret. ret\<lparr>env_PrometheusServicePort := v\<rparr>)]"

fun validate_vars ::
    "start_env \<Rightarrow> (string \<times> (string \<Rightarrow> string \<Rightarrow> osfs \<Rightarrow> cfg_error option \<times> osfs)
      \<times> (string \<Rightarrow> validatedEnv \<Rightarrow> validatedEnv)) list
      \<Rightarrow> validatedEnv \<Rightarrow> cfg_error option list \<Rightarrow> osfs \<Rightarrow> validatedEnv \<times> cfg_error option list \<times> osfs" where
  "validate_vars S [] ret errs fs = (ret, errs, fs)"
| "validate_vars S ((varName, validator, field) # vs) ret errs fs =
     (case validateVar S varName validator fs of
        ((v, err), fs1) \<Rightarrow>
          (if err \<noteq> None then validate_vars S vs ret (errs @ [err]) fs1
           else validate_vars S vs (field v ret) errs fs1))"

definition ValidateEnv :: "start_env \<Rightarrow> osfs \<Rightarrow> (validatedEnv \<times> cfg_error option list) \<times> osfs" where
  "ValidateEnv S fs =
     (let (podNamespace, watchNamespace, nsErrs) = validateNamespaces S;
          ret = \<lparr>env_VolumeLocation = [], env_VolumeClaim = [], env_PrometheusServiceHost = [],
                 env_PrometheusServicePort = [], env_PodNamespace = podNamespace, env_WatchNamespace = watchNamespace\<rparr>
      in case validate_vars S (varsToValidate S) ret nsErrs fs of
           (ret, errs, fs1) \<Rightarrow>
             (if env_PrometheusServiceHost ret \<noteq> [] \<and> env_PrometheusServicePort ret \<noteq> [] then
                (case validateHostPort S [ChanticoPrometheusServiceHostEnv, ChanticoPrometheusServicePortEnv]
                        (env_PrometheusServiceHost ret) (env_PrometheusServicePort ret) of
                   None \<Rightarrow> ((ret, errs), fs1)
                 | Some err \<Rightarrow>
                     ((ret\<lparr>env_PrometheusServiceHost := [], env_PrometheusServicePort := []\<rparr>, errs @ [Some err]), fs1))
              else ((ret, errs), fs1)))"

section \<open>What the claim pattern accepts\<close>

definition claim_char :: "char \<Rightarrow> bool" where
  "claim_char c \<longleftrightarrow> is_alpha c \<or> c = CHR ''-''"

lemma accepts_claim_block: "accepts claim_block s \<longleftrightarrow> (\<exists>u. s = u @ ''-'' \<and> list_all is_alpha u)"
  by (auto simp: claim_block_def accepts_seq_iff accepts_star_char intro: accepts.char elim!: accepts_charE)

lemma claim_blocks_only:
  "accepts (RStar claim_block) s \<Longrightarrow> list_all claim_char s \<and> (s = [] \<or> last s = CHR ''-'')"
proof (induction "RStar claim_block" s rule: accepts.induct)
  case (star_more s t)
  then show ?case by (auto simp: accepts_claim_block list_all_iff claim_char_def split: if_splits)
qed simp

lemma claim_blocks_all:
  "list_all claim_char s \<Longrightarrow> last s = CHR ''-'' \<Longrightarrow> accepts (RStar claim_block) s"
proof (induction s rule: length_induct)
  case (1 s)
  show ?case
  proof (cases "s = []")
    case True
    then show ?thesis by (simp add: accepts.star_done)
  next
    case False
    with 1(3) have "CHR ''-'' \<in> set s" by (metis last_in_set)
    then obtain u v where s: "s = u @ CHR ''-'' # v" and u: "CHR ''-'' \<notin> set u"
      by (meson split_list_first)
    from 1(2) s u have "accepts claim_block (u @ ''-'')"
      by (auto simp: accepts_claim_block list_all_iff claim_char_def)
    moreover have "accepts (RStar claim_block) v"
      using 1 s by (cases "v = []") (simp_all add: accepts.star_done)
    ultimately show ?thesis using accepts.star_more [of claim_block "u @ ''-''" v] s by simp
  qed
qed

lemma claim_regex_iff:
  "rmatch claim_regex s \<longleftrightarrow> list_all claim_char s \<and> CHR ''-'' \<in> set s"
proof -
  have plus: "accepts (RPlus claim_block) u \<longleftrightarrow> u \<noteq> [] \<and> list_all claim_char u \<and> last u = CHR ''-''" for u
    using claim_blocks_only [of u] claim_blocks_all [of u] accepts_plus [of claim_block u]
    by (auto simp: accepts_claim_block)
  show ?thesis
  proof
    assume "rmatch claim_regex s"
    then obtain u v where s: "s = u @ v" "list_all is_alpha v" and u: "accepts (RPlus claim_block) u"
      by (auto simp: rmatch_iff claim_regex_def accepts_seq_iff accepts_star_char)
    from u have "CHR ''-'' \<in> set u" by (metis plus last_in_set)
    with s u show "list_all claim_char s \<and> CHR ''-'' \<in> set s"
      by (auto simp: plus list_all_iff claim_char_def)
  next
    assume s: "list_all claim_char s \<and> CHR ''-'' \<in> set s"
    then obtain u v where v: "s = (u @ ''-'') @ v" "CHR ''-'' \<notin> set v" by (auto dest: split_list_last)
    with s have "list_all is_alpha v" by (auto simp: list_all_iff claim_char_def)
    moreover from s v have "accepts (RPlus claim_block) (u @ ''-'')" by (simp add: plus)
    ultimately show "rmatch claim_regex s"
      unfolding rmatch_iff claim_regex_def accepts_seq_iff accepts_star_char using v by blast
  qed
qed

section \<open>What ValidateEnv promises\<close>

text \<open>The settings of an environment the operator can start with.\<close>

definition namespace_ok :: "start_env \<Rightarrow> string \<Rightarrow> bool" where
  "namespace_ok S ns \<longleftrightarrow> ns \<noteq> [] \<and> IsDNS1123Label S ns = []"

definition claim_ok :: "string \<Rightarrow> bool" where
  "claim_ok v \<longleftrightarrow> list_all claim_char v \<and> CHR ''-'' \<in> set v"

definition location_ok :: "osfs \<Rightarrow> string \<Rightarrow> bool" where
  "location_ok fs v \<longleftrightarrow> v \<noteq> [] \<and> next_fault fs = None \<and> is_dir fs (path_norm v)"

definition host_ok :: "start_env \<Rightarrow> string \<Rightarrow> bool" where
  "host_ok S v \<longleftrightarrow> v \<noteq> [] \<and> (case net_LookupHost S v of Inl _ \<Rightarrow> False | Inr addrs \<Rightarrow> addrs \<noteq> [])"

definition port_ok :: "string \<Rightarrow> bool" where
  "port_ok v \<longleftrightarrow> v \<noteq> [] \<and> list_all is_digit v \<and> decimal_val v < 65536"

definition address_ok :: "start_env \<Rightarrow> string \<Rightarrow> string \<Rightarrow> bool" where
  "address_ok S host port \<longleftrightarrow>
     net_Dial S (net_JoinHostPort host port) = None \<and> conn_Close S (net_JoinHostPort host port) = None"

lemma validateClaim_None: "validateClaim n v = None \<longleftrightarrow> claim_ok v"
  by (simp add: validateClaim_def claim_regex_iff claim_ok_def)

lemma validateLocation_None: "v \<noteq> [] \<Longrightarrow> fst (validateLocation n v fs) = None \<longleftrightarrow> location_ok fs v"
  by (auto simp: validateLocation_def os_Stat_def location_ok_def split: option.splits os_fault.splits)

lemma validateHost_None: "v \<noteq> [] \<Longrightarrow> validateHost S n v = None \<longleftrightarrow> host_ok S v"
  by (auto simp: validateHost_def host_ok_def split: sum.splits)

lemma validatePort_None: "validatePort n v = None \<longleftrightarrow> port_ok v"
  by (simp add: validatePort_def strconv_ParseUint_def port_ok_def)

lemma validateHostPort_None: "validateHostPort S ns h p = None \<longleftrightarrow> address_ok S h p"
  by (auto simp: validateHostPort_def address_ok_def Let_def split: option.splits)

lemmas validators_None = validateClaim_None validateLocation_None validateHost_None validatePort_None
  validateHostPort_None

lemma validateVar_None:
  "fst (validateVar S n f fs) = (v, None) \<longleftrightarrow> os_LookupEnv S n = Some v \<and> v \<noteq> [] \<and> fst (f n v fs) = None"
  by (auto simp: validateVar_def split: option.splits prod.splits)

lemma lookupNamespace_None:
  "lookupNamespace S n a = (ns, None) \<longleftrightarrow>
     os_LookupEnv S n = Some ns \<and> (namespace_ok S ns \<or> a \<and> ns = AllNamespaces)"
  by (auto simp: lookupNamespace_def namespace_ok_def AllNamespaces_def Let_def split: option.splits)

text \<open>Only the watch variable may be missing.\<close>

definition watch_ok :: "start_env \<Rightarrow> string \<Rightarrow> string \<Rightarrow> bool" where
  "watch_ok S pod ns \<longleftrightarrow>
     (case os_LookupEnv S ChanticoWatchNamespaceEnv of
        None \<Rightarrow> ns = pod
      | Some w \<Rightarrow> ns = w \<and> (namespace_ok S w \<or> w = AllNamespaces))"

lemma validateNamespaces_Nil:
  "validateNamespaces S = (pod, ns, []) \<longleftrightarrow>
     os_LookupEnv S ChanticoNamespaceEnv = Some pod \<and> namespace_ok S pod \<and> watch_ok S pod ns"
proof -
  obtain p pe where p: "lookupNamespace S ChanticoNamespaceEnv False = (p, pe)" by fastforce
  obtain w we where w: "lookupNamespace S ChanticoWatchNamespaceEnv True = (w, we)" by fastforce
  have unset: "we = Some (UnsetError ChanticoWatchNamespaceEnv) \<longleftrightarrow> os_LookupEnv S ChanticoWatchNamespaceEnv = None"
    using w by (auto simp: lookupNamespace_def Let_def split: option.splits if_splits)
  show ?thesis
    using lookupNamespace_None [of S ChanticoNamespaceEnv False pod]
      lookupNamespace_None [of S ChanticoWatchNamespaceEnv True ns] unset p w
    by (auto simp: validateNamespaces_def watch_ok_def split: option.splits if_splits)
qed

definition vars_ok :: "start_env \<Rightarrow> osfs \<Rightarrow> validatedEnv \<Rightarrow> bool" where
  "vars_ok S fs env \<longleftrightarrow>
     os_LookupEnv S ChanticoVolumeClaimEnv = Some (env_VolumeClaim env) \<and> claim_ok (env_VolumeClaim env) \<and>
     os_LookupEnv S ChanticoVolumeLocationEnv = Some (env_VolumeLocation env) \<and>
     location_ok fs (env_VolumeLocation env) \<and>
     os_LookupEnv S ChanticoPrometheusServiceHostEnv = Some (env_PrometheusServiceHost env) \<and>
     host_ok S (env_PrometheusServiceHost env) \<and>
     os_LookupEnv S ChanticoPrometheusServicePortEnv = Some (env_PrometheusServicePort env) \<and>
     port_ok (env_PrometheusServicePort env)"

definition start_ok :: "start_env \<Rightarrow> osfs \<Rightarrow> validatedEnv \<Rightarrow> bool" where
  "start_ok S fs env \<longleftrightarrow>
     os_LookupEnv S ChanticoNamespaceEnv = Some (env_PodNamespace env) \<and> namespace_ok S (env_PodNamespace env) \<and>
     watch_ok S (env_PodNamespace env) (env_WatchNamespace env) \<and>
     vars_ok S fs env \<and> address_ok S (env_PrometheusServiceHost env) (env_PrometheusServicePort env)"

lemma validate_vars_Nil:
  "validate_vars S vs ret errs fs = (ret', [], fs') \<Longrightarrow> errs = []"
proof (induction S vs ret errs fs rule: validate_vars.induct)
  case (2 S varName validator field vs ret errs fs)
  then show ?case by (cases "validateVar S varName validator fs") (auto split: if_splits prod.splits)
qed simp

lemma validate_vars_step:
  "validate_vars S ((n, f, field) # vs) ret [] fs = (ret', [], fs') \<longleftrightarrow>
     (\<exists>v. os_LookupEnv S n = Some v \<and> v \<noteq> [] \<and> fst (f n v fs) = None
        \<and> validate_vars S vs (field v ret) [] (snd (f n v fs)) = (ret', [], fs'))"
proof -
  obtain v err fs1 where r: "validateVar S n f fs = ((v, err), fs1)" by (metis prod.collapse)
  show ?thesis
    using validateVar_None [of S n f fs] r validate_vars_Nil [of S vs ret "[err]" fs1 ret' fs']
    by (auto simp: validateVar_def split: option.splits if_splits prod.splits)
qed

lemma env_eq_iff:
  "(a::validatedEnv) = b \<longleftrightarrow> env_VolumeLocation a = env_VolumeLocation b \<and> env_VolumeClaim a = env_VolumeClaim b
     \<and> env_PrometheusServiceHost a = env_PrometheusServiceHost b
     \<and> env_PrometheusServicePort a = env_PrometheusServicePort b
     \<and> env_PodNamespace a = env_PodNamespace b \<and> env_WatchNamespace a = env_WatchNamespace b"
  by auto

lemma ok_not_Nil [simp]: "\<not> claim_ok []" "\<not> location_ok fs []" "\<not> host_ok S []" "\<not> port_ok []"
  by (simp_all add: claim_ok_def location_ok_def host_ok_def port_ok_def)

lemma validate_vars_ok:
  "(\<exists>fs'. validate_vars S (varsToValidate S) ret [] fs = (r, [], fs')) \<longleftrightarrow>
     vars_ok S fs r \<and> env_PodNamespace r = env_PodNamespace ret \<and> env_WatchNamespace r = env_WatchNamespace ret"
  by (auto simp: varsToValidate_def validate_vars_step ignoring_fs_def validators_None vars_ok_def env_eq_iff [of _ r]
        simp del: validate_vars.simps(2) cong: conj_cong)

lemma ValidateEnv_start_ok:
  "fst (ValidateEnv S fs) = (env, []) \<longleftrightarrow> start_ok S fs env"
proof -
  obtain pod ns nsErrs where n: "validateNamespaces S = (pod, ns, nsErrs)" by (metis prod.collapse)
  let ?ret = "\<lparr>env_VolumeLocation = [], env_VolumeClaim = [], env_PrometheusServiceHost = [],
                 env_PrometheusServicePort = [], env_PodNamespace = pod, env_WatchNamespace = ns\<rparr>"
  obtain ret errs fs1 where v: "validate_vars S (varsToValidate S) ?ret nsErrs fs = (ret, errs, fs1)"
    by (metis prod.collapse)
  have "fst (ValidateEnv S fs) = (env, []) \<longleftrightarrow>
      nsErrs = [] \<and> errs = [] \<and> ret = env
      \<and> address_ok S (env_PrometheusServiceHost env) (env_PrometheusServicePort env)"
    using n v validate_vars_ok [of S ?ret fs ret] validate_vars_Nil [of S _ ?ret nsErrs fs ret fs1]
      validateHostPort_None [of S "[ChanticoPrometheusServiceHostEnv, ChanticoPrometheusServicePortEnv]"
        "env_PrometheusServiceHost ret" "env_PrometheusServicePort ret"]
    by (auto simp: ValidateEnv_def vars_ok_def split: if_splits option.splits)
  also have "\<dots> \<longleftrightarrow> nsErrs = [] \<and> (\<exists>fs'. validate_vars S (varsToValidate S) ?ret [] fs = (env, [], fs'))
      \<and> address_ok S (env_PrometheusServiceHost env) (env_PrometheusServicePort env)"
    using v by auto
  also have "\<dots> \<longleftrightarrow> validateNamespaces S = (env_PodNamespace env, env_WatchNamespace env, []) \<and> vars_ok S fs env
      \<and> address_ok S (env_PrometheusServiceHost env) (env_PrometheusServicePort env)"
    unfolding validate_vars_ok n by auto
  finally show ?thesis unfolding validateNamespaces_Nil start_ok_def by simp
qed

text \<open>
  What a returned field can hold when there are errors too: a field that is not empty has passed its
  check.
\<close>

definition field_ok :: "start_env \<Rightarrow> string \<Rightarrow> (string \<Rightarrow> bool) \<Rightarrow> string \<Rightarrow> bool" where
  "field_ok S n ok v \<longleftrightarrow> v = [] \<or> os_LookupEnv S n = Some v \<and> ok v"

definition fields_ok :: "start_env \<Rightarrow> osfs \<Rightarrow> validatedEnv \<Rightarrow> bool" where
  "fields_ok S fs env \<longleftrightarrow>
     field_ok S ChanticoVolumeClaimEnv claim_ok (env_VolumeClaim env) \<and>
     field_ok S ChanticoVolumeLocationEnv (location_ok fs) (env_VolumeLocation env) \<and>
     field_ok S ChanticoPrometheusServiceHostEnv (host_ok S) (env_PrometheusServiceHost env) \<and>
     field_ok S ChanticoPrometheusServicePortEnv port_ok (env_PrometheusServicePort env)"

lemma validate_vars_one:
  assumes "validate_vars S ((n, f, field) # vs) ret errs fs = R"
  obtains ret1 errs1 fs1 where "validate_vars S vs ret1 errs1 fs1 = R"
    "ret1 = ret \<or> (\<exists>v. ret1 = field v ret \<and> os_LookupEnv S n = Some v \<and> v \<noteq> [] \<and> fst (f n v fs) = None)"
    "fs1 = fs \<or> (\<exists>v. fs1 = snd (f n v fs))"
proof -
  obtain v err fs1 where r: "validateVar S n f fs = ((v, err), fs1)" by (metis prod.collapse)
  from r have fs1: "fs1 = fs \<or> (\<exists>v. fs1 = snd (f n v fs))"
    by (auto simp: validateVar_def split: option.splits if_splits prod.splits intro: exI [of _ v])
  show thesis
  proof (cases err)
    case None
    with r have "os_LookupEnv S n = Some v \<and> v \<noteq> [] \<and> fst (f n v fs) = None"
      using validateVar_None [of S n f fs v] by simp
    with None assms r fs1 that [of "field v ret" errs fs1] show thesis by auto
  next
    case (Some e)
    with assms r fs1 that [of ret "errs @ [err]" fs1] show thesis by auto
  qed
qed

lemma validate_vars_fields:
  assumes "validate_vars S (varsToValidate S) ret errs fs = (r, errs', fs')"
    and "env_VolumeClaim ret = []" "env_VolumeLocation ret = []" "env_PrometheusServiceHost ret = []"
      "env_PrometheusServicePort ret = []"
  shows "fields_ok S fs r"
  using assms unfolding varsToValidate_def
  by (elim validate_vars_one)
    (auto simp: ignoring_fs_def validators_None fields_ok_def field_ok_def simp del: validate_vars.simps(2))

text \<open>
  Property C17: the operator starts exactly with a sound environment. \<open>ValidateEnv\<close> reports no error
  just when every variable is set and sound (the claim pattern, an existing directory, a host that
  resolves, a port below 65536 that accepts a connection, DNS labels for the namespaces, the watch
  namespace alone optional), and the fields it returns are then the values of the variables.
\<close>

theorem ValidateEnv_accepts_iff:
  "fst (ValidateEnv S fs) = (env, []) \<longleftrightarrow> start_ok S fs env"
  by (rule ValidateEnv_start_ok)

text \<open>
  No unchecked setting leaves \<open>ValidateEnv\<close>, errors or not. A field that is not empty
  holds the value of its variable and has passed its check; the host and the port are returned
  together only if the address accepted a connection.
\<close>

theorem ValidateEnv_fields_checked:
  assumes "ValidateEnv S fs = ((env, errs), fs')"
  shows "fields_ok S fs env"
    and "env_PrometheusServiceHost env \<noteq> [] \<Longrightarrow> env_PrometheusServicePort env \<noteq> [] \<Longrightarrow>
      address_ok S (env_PrometheusServiceHost env) (env_PrometheusServicePort env)"
proof -
  obtain pod ns nsErrs where n: "validateNamespaces S = (pod, ns, nsErrs)" by (metis prod.collapse)
  let ?ret = "\<lparr>env_VolumeLocation = [], env_VolumeClaim = [], env_PrometheusServiceHost = [],
                 env_PrometheusServicePort = [], env_PodNamespace = pod, env_WatchNamespace = ns\<rparr>"
  obtain ret es fs1 where v: "validate_vars S (varsToValidate S) ?ret nsErrs fs = (ret, es, fs1)"
    by (metis prod.collapse)
  from validate_vars_fields [OF v] have "fields_ok S fs ret" by simp
  with n v assms show "fields_ok S fs env"
    by (auto simp: ValidateEnv_def fields_ok_def field_ok_def split: if_splits option.splits)
  show "address_ok S (env_PrometheusServiceHost env) (env_PrometheusServicePort env)"
    if "env_PrometheusServiceHost env \<noteq> []" "env_PrometheusServicePort env \<noteq> []"
    using n v assms that validateHostPort_None [of S _ "env_PrometheusServiceHost env" "env_PrometheusServicePort env"]
    by (auto simp: ValidateEnv_def split: if_splits option.splits)
qed

text \<open>A faulty pod namespace is reported next to the result for the watch namespace, which may be nil.\<close>

lemma validateNamespaces_nil_error:
  assumes "lookupNamespace S ChanticoNamespaceEnv False = (p, Some e)"
    and "lookupNamespace S ChanticoWatchNamespaceEnv True = (w, None)"
  shows "validateNamespaces S = ([], [], [Some e, None])"
  using assms by (simp add: validateNamespaces_def)

end
