(* ===== verification/Operator.thy ===== *)
theory Operator
  imports Configuration
begin

text \<open>
  The start of the operator, \<open>cmd/operator/main.go\<close>: the options of the manager built from the flags
  and the environment, the registration of the three controllers and of the probes, and the exits.
  The controller-runtime manager is a parameter (record \<open>manager_ops\<close>: the error of each call);
  \<open>main\<close> is modelled as the list of the calls it makes on it and the way it ends. Parsing the
  command line is left to the \<open>flag\<close> package: the flags are a record.
\<close>

section \<open>Flags and options\<close>

record flags =
  metricsAddr :: string
  probeAddr :: string
  enableLeaderElection :: bool
  secureMetrics :: bool
  enableHTTP2 :: bool

definition default_flags :: flags where
  "default_flags = \<lparr>metricsAddr = ''0'', probeAddr = '':8081'', enableLeaderElection = False,
     secureMetrics = True, enableHTTP2 = False\<rparr>"

text \<open>The part of \<open>tls.Config\<close> the operator sets, and the functions that set it.\<close>

record tls_config =
  NextProtos :: "string list"

type_synonym tls_option = "tls_config \<Rightarrow> tls_config"

definition disableHTTP2 :: tls_option where
  "disableHTTP2 c = c\<lparr>NextProtos := [''http/1.1'']\<rparr>"

definition tlsOpts :: "flags \<Rightarrow> tls_option list" where
  "tlsOpts f = (if \<not> enableHTTP2 f then [disableHTTP2] else [])"

datatype filter_provider = WithAuthenticationAndAuthorization

record metrics_options =
  BindAddress :: string
  SecureServing :: bool
  TLSOpts :: "tls_option list"
  FilterProvider :: "filter_provider option"

definition metricsServerOptions :: "flags \<Rightarrow> metrics_options" where
  "metricsServerOptions f =
     \<lparr>BindAddress = metricsAddr f, SecureServing = secureMetrics f, TLSOpts = tlsOpts f,
      FilterProvider = (if secureMetrics f then Some WithAuthenticationAndAuthorization else None)\<rparr>"

text \<open>\<open>cache.Options.DefaultNamespaces\<close>: \<^const>\<open>None\<close> (nil) stands for every namespace.\<close>

definition configureWatchNamespace :: "validatedEnv \<Rightarrow> string fset option" where
  "configureWatchNamespace env =
     (if env_WatchNamespace env \<noteq> AllNamespaces then
        (let namespaces = {|env_WatchNamespace env|} in
         if env_PodNamespace env \<noteq> env_WatchNamespace env
         then Some (finsert (env_PodNamespace env) namespaces) else Some namespaces)
      else None)"

record manager_options =
  mgr_Metrics :: metrics_options
  mgr_WebhookTLSOpts :: "tls_option list"
  mgr_HealthProbeBindAddress :: string
  mgr_LeaderElection :: bool
  mgr_LeaderElectionID :: string
  mgr_Cache :: "string fset option"

definition manager_options_of :: "flags \<Rightarrow> validatedEnv \<Rightarrow> manager_options" where
  "manager_options_of f env =
     \<lparr>mgr_Metrics = metricsServerOptions f, mgr_WebhookTLSOpts = tlsOpts f,
      mgr_HealthProbeBindAddress = probeAddr f, mgr_LeaderElection = enableLeaderElection f,
      mgr_LeaderElectionID = ''c8b0fb2f.chantico-project.github.io'', mgr_Cache = configureWatchNamespace env\<rparr>"

section \<open>Starting up\<close>

text \<open>The reconcilers; the one of measurement devices gets the file store rooted at the volume.\<close>

datatype reconciler =
    MeasurementDeviceReconciler string
  | PhysicalMeasurementReconciler
  | DataCenterResourceReconciler

datatype call =
    NewManager manager_options
  | SetupWithManager reconciler
  | AddHealthzCheck string
  | AddReadyzCheck string
  | Start

datatype exit = Exit nat | Returned

record manager_ops =
  GetConfig :: "sys_error option"
  mgr_call :: "call \<Rightarrow> sys_error option"

text \<open>The calls of \<open>main\<close> in order: each failure is logged and exits with status 1.\<close>

fun run_calls :: "manager_ops \<Rightarrow> call list \<Rightarrow> call list \<times> exit" where
  "run_calls M [] = ([], Returned)"
| "run_calls M (c # cs) =
     (case mgr_call M c of
        Some err \<Rightarrow> ([c], Exit 1)
      | None \<Rightarrow> (let (done_calls, e) = run_calls M cs in (c # done_calls, e)))"

definition setup_calls :: "flags \<Rightarrow> validatedEnv \<Rightarrow> call list" where
  "setup_calls f env =
     [NewManager (manager_options_of f env),
      SetupWithManager (MeasurementDeviceReconciler (env_VolumeLocation env)),
      SetupWithManager PhysicalMeasurementReconciler,
      SetupWithManager DataCenterResourceReconciler,
      AddHealthzCheck ''healthz'',
      AddReadyzCheck ''readyz'',
      Start]"

definition operator_main :: "start_env \<Rightarrow> flags \<Rightarrow> manager_ops \<Rightarrow> osfs \<Rightarrow> (call list \<times> exit) \<times> osfs" where
  "operator_main S f M fs =
     (case ValidateEnv S fs of
        ((env, errs), fs1) \<Rightarrow>
          (if errs \<noteq> [] then (([], Exit 1), fs1)
           else if GetConfig M \<noteq> None then (([], Exit 1), fs1)
           else (run_calls M (setup_calls f env), fs1)))"

section \<open>What has happened when the manager starts\<close>

lemma run_calls_prefix:
  "run_calls M cs = (done_calls, e) \<Longrightarrow> \<exists>later. cs = done_calls @ later"
proof (induction M cs arbitrary: done_calls rule: run_calls.induct)
  case (2 M c cs)
  then show ?case by (cases "run_calls M cs") (auto split: option.splits)
qed simp

lemma run_calls_reached:
  "run_calls M (cs @ [c]) = (done_calls, e) \<Longrightarrow> c \<notin> set cs \<Longrightarrow> c \<in> set done_calls \<Longrightarrow>
     done_calls = cs @ [c] \<and> list_all (\<lambda>d. mgr_call M d = None) cs"
proof (induction cs arbitrary: done_calls)
  case Nil
  then show ?case by (auto split: option.splits)
next
  case (Cons d cs)
  then show ?case by (cases "run_calls M (cs @ [c])") (auto split: option.splits)
qed

lemma setup_calls_split:
  "setup_calls f env = butlast (setup_calls f env) @ [Start]" "Start \<notin> set (butlast (setup_calls f env))"
  by (simp_all add: setup_calls_def)


section \<open>An operator that starts\<close>

definition ex_start :: start_env where
  "ex_start =
     \<lparr>os_LookupEnv = map_of
        [(ChanticoVolumeLocationEnv, ''/data''), (ChanticoVolumeClaimEnv, ''chantico-claim''),
         (ChanticoPrometheusServiceHostEnv, ''prometheus''), (ChanticoPrometheusServicePortEnv, ''9090''),
         (ChanticoNamespaceEnv, ''chantico'')],
      net_LookupHost = (\<lambda>h. Inr [''10.0.0.1'']), net_Dial = (\<lambda>a. None), conn_Close = (\<lambda>a. None),
      IsDNS1123Label = (\<lambda>s. if list_all is_alpha s then [] else [''not a label''])\<rparr>"

definition ex_start_fs :: osfs where
  "ex_start_fs = \<lparr>fs_files = fmempty, fs_dirs = {|path_norm ''/data''|}, fs_fault = (\<lambda>n. None), fs_clock = 0\<rparr>"

definition ex_manager :: manager_ops where
  "ex_manager = \<lparr>GetConfig = None, mgr_call = (\<lambda>c. None)\<rparr>"

definition ex_valid_env :: validatedEnv where
  "ex_valid_env =
     \<lparr>env_VolumeLocation = ''/data'', env_VolumeClaim = ''chantico-claim'', env_PrometheusServiceHost = ''prometheus'',
      env_PrometheusServicePort = ''9090'', env_PodNamespace = ''chantico'', env_WatchNamespace = ''chantico''\<rparr>"

lemma ex_start_ok: "start_ok ex_start ex_start_fs ex_valid_env"
proof -
  have "claim_ok ''chantico-claim''" "list_all is_alpha ''chantico''" by code_simp+
  moreover have "port_ok ''9090''" by (simp add: port_ok_def decimal_val_def is_digit_def digit_val_def)
  ultimately show ?thesis
    by (simp add: start_ok_def vars_ok_def watch_ok_def namespace_ok_def location_ok_def host_ok_def address_ok_def
        ex_start_def ex_start_fs_def ex_valid_env_def next_fault_def is_dir_def ChanticoVolumeLocationEnv_def
        ChanticoVolumeClaimEnv_def ChanticoPrometheusServiceHostEnv_def ChanticoPrometheusServicePortEnv_def
        ChanticoNamespaceEnv_def ChanticoWatchNamespaceEnv_def)
qed

lemma ex_operator_main: "fst (operator_main ex_start default_flags ex_manager ex_start_fs) =
    (setup_calls default_flags ex_valid_env, Returned)"
proof -
  have "fst (ValidateEnv ex_start ex_start_fs) = (ex_valid_env, [])"
    by (simp add: ValidateEnv_start_ok ex_start_ok)
  then show ?thesis
    by (auto simp: operator_main_def ex_manager_def setup_calls_def split: prod.splits)
qed


end
