(* ===== verification/Webapp.thy ===== *)
theory Webapp
  imports Cluster Dcr_Validate
begin

text \<open>
  The web application, \<open>cmd/webapp\<close> and \<open>internal/webapp\<close>: its configuration, the start-up checks and
  the end of \<open>Run\<close>, the resources read from the cluster as nodes of a graph, the Mermaid text of
  the graph and the home page. The clients of \<open>client-go\<close>, the embedded templates and the listener are parameters
  (record \<open>web_env\<close>); a rendered page is the data handed to its template.
\<close>

section \<open>Configuration\<close>

record config =
  cfg_Port :: int
  cfg_KubeconfigPath :: string

definition DefaultPort :: int where
  "DefaultPort = 8080"

definition DefaultKubeconfigPath :: string where
  "DefaultKubeconfigPath = ''~/.kube/config''"

definition loadPortConfig :: "(string \<Rightarrow> string) \<Rightarrow> gerror + int" where
  "loadPortConfig get =
     (let portStr = get ''PORT'' in
      if portStr \<noteq> [] then
        (case strconv_Atoi portStr of
           (port, Some err) \<Rightarrow> Inl (Errorf ''PORT must be a valid integer'')
         | (port, None) \<Rightarrow>
             (if port < 1 \<or> port > 65535 then Inl (Errorf ''PORT must be between 1 and 65535'')
              else Inr port))
      else Inr DefaultPort)"

definition pathExists :: "string \<Rightarrow> osfs \<Rightarrow> bool \<times> osfs" where
  "pathExists p fs = (case os_Stat p fs of (Inl err, fs1) \<Rightarrow> (False, fs1) | (Inr _, fs1) \<Rightarrow> (True, fs1))"

text \<open>\<open>home\<close> is the result of \<open>os.UserHomeDir\<close>, the empty string when that fails.\<close>

definition expandPath :: "string \<Rightarrow> string \<Rightarrow> string" where
  "expandPath home path =
     (if strings_HasPrefix path ''~/'' then filepath_Join [home, drop 2 path] else path)"

definition loadKubeconfigPath :: "string \<Rightarrow> (string \<Rightarrow> string) \<Rightarrow> osfs \<Rightarrow> (gerror + string) \<times> osfs" where
  "loadKubeconfigPath home get fs =
     (let kubeconfigPath = get ''KUBECONFIG'' in
      if kubeconfigPath \<noteq> [] then
        (case pathExists kubeconfigPath fs of
           (ok, fs1) \<Rightarrow>
             (if \<not> ok then (Inl (Errorf (''kubeconfig not found at '' @ kubeconfigPath)), fs1)
              else (Inr kubeconfigPath, fs1)))
      else if get ''KUBERNETES_SERVICE_HOST'' \<noteq> [] then (Inr [], fs)
      else (Inr (expandPath home DefaultKubeconfigPath), fs))"

fun error_of :: "gerror + 'a \<Rightarrow> gerror option" where
  "error_of (Inl e) = Some e"
| "error_of (Inr x) = None"

definition loadConfig :: "string \<Rightarrow> (string \<Rightarrow> string) \<Rightarrow> osfs \<Rightarrow> (gerror + config) \<times> osfs" where
  "loadConfig home get fs =
     (let port = loadPortConfig get; (kubeconfigPath, fs1) = loadKubeconfigPath home get fs in
      case errors_Join [error_of port, error_of kubeconfigPath] of
        Some err \<Rightarrow> (Inl err, fs1)
      | None \<Rightarrow> (Inr \<lparr>cfg_Port = projr port, cfg_KubeconfigPath = projr kubeconfigPath\<rparr>, fs1))"

definition newWithGetter :: "string \<Rightarrow> (string \<Rightarrow> string) \<Rightarrow> osfs \<Rightarrow> (gerror + config) \<times> osfs" where
  "newWithGetter home get fs = (case loadConfig home get fs of (Inl err, fs1) \<Rightarrow> (Inl err, fs1) | (Inr cfg, fs1) \<Rightarrow> (Inr cfg, fs1))"

section \<open>The graph\<close>

datatype Node = Node (node_Name: string) (node_Parents: "Node list")

fun node_lines :: "Node \<Rightarrow> string list" where
  "node_lines (Node name parents) =
     (if length parents = 0 then [name] else map (\<lambda>parent. name @ ''-->'' @ node_Name parent) parents)"

definition GenerateMermaidString :: "Node list \<Rightarrow> string" where
  "GenerateMermaidString nodes =
     (if length nodes = 0 then []
      else strings_Join (foldl (\<lambda>output node. output @ node_lines node) [''flowchart TB''] nodes) [CHR 0x0A])"

section \<open>The cluster\<close>

text \<open>\<open>rest.Config\<close> matters by its host alone.\<close>

record web_env =
  InClusterConfig :: "sys_error + string"
  BuildConfigFromFlags :: "string \<Rightarrow> sys_error + string"
  LoadFromFile_CurrentContext :: "string \<Rightarrow> sys_error + string"
  core_AddToScheme :: "sys_error option"
  chantico_AddToScheme :: "sys_error option"
  client_New :: "string \<Rightarrow> sys_error option"
  client_List :: "sys_error + DataCenterResource list"
  html_New :: "sys_error option"

record KubernetesClient =
  CurrentContext :: string
  Host :: string

definition loadKubeconfig :: "web_env \<Rightarrow> string \<Rightarrow> sys_error + (string \<times> string)" where
  "loadKubeconfig W kubeconfigPath =
     (case BuildConfigFromFlags W kubeconfigPath of
        Inl err \<Rightarrow> Inl err
      | Inr cfg \<Rightarrow>
          (case LoadFromFile_CurrentContext W kubeconfigPath of
             Inl err \<Rightarrow> Inl err
           | Inr ctx \<Rightarrow> Inr (cfg, ctx)))"

definition loadRESTConfig :: "web_env \<Rightarrow> string \<Rightarrow> sys_error + (string \<times> string)" where
  "loadRESTConfig W kubeconfigPath =
     (if kubeconfigPath = [] then
        (case InClusterConfig W of Inl err \<Rightarrow> Inl err | Inr cfg \<Rightarrow> Inr (cfg, ''in-cluster''))
      else loadKubeconfig W kubeconfigPath)"

definition newScheme :: "web_env \<Rightarrow> sys_error option" where
  "newScheme W =
     (case core_AddToScheme W of
        Some err \<Rightarrow> Some err
      | None \<Rightarrow> (case chantico_AddToScheme W of Some err \<Rightarrow> Some err | None \<Rightarrow> None))"

definition kubernetes_New :: "web_env \<Rightarrow> string \<Rightarrow> sys_error + KubernetesClient" where
  "kubernetes_New W kubeconfigPath =
     (case loadRESTConfig W kubeconfigPath of
        Inl err \<Rightarrow> Inl err
      | Inr (cfg, currentContext) \<Rightarrow>
          (case newScheme W of
             Some err \<Rightarrow> Inl err
           | None \<Rightarrow>
               (case client_New W cfg of
                  Some err \<Rightarrow> Inl err
                | None \<Rightarrow> Inr \<lparr>CurrentContext = currentContext, Host = cfg\<rparr>)))"

definition dcr_node :: "DataCenterResource \<Rightarrow> Node" where
  "dcr_node d =
     (let ns = meta_Namespace (dcr_Meta d) in
      Node (ns @ ''-'' @ dcr_Name d)
        (foldl (\<lambda>ps parent. ps @ [Node (ns @ ''-'' @ parent) []]) [] (ParentNames (dcr_Spec d))))"

definition GetDataCenterResources :: "web_env \<Rightarrow> gerror + Node list" where
  "GetDataCenterResources W =
     (case client_List W of
        Inl err \<Rightarrow> Inl (Wrapf ''failed to list DataCenterResources'' (SysErr err))
      | Inr items \<Rightarrow> Inr (map dcr_node items))"

section \<open>The server\<close>

record HTTPServer =
  server_Addr :: string
  server_port :: int

definition http_New :: "int \<Rightarrow> HTTPServer" where
  "http_New port = \<lparr>server_Addr = '':'' @ strconv_Itoa port, server_port = port\<rparr>"

datatype page =
    HomePageData string string string
  | ErrorPageData string string string
  | NoPage

record response =
  status :: nat
  body :: page

definition HomePage :: "web_env \<Rightarrow> KubernetesClient \<Rightarrow> response" where
  "HomePage W k =
     (case GetDataCenterResources W of
        Inl err \<Rightarrow> \<lparr>status = 500, body = ErrorPageData (gerror_Error err) (Host k) (CurrentContext k)\<rparr>
      | Inr nodes \<Rightarrow>
          \<lparr>status = 200, body = HomePageData (GenerateMermaidString nodes) (Host k) (CurrentContext k)\<rparr>)"

text \<open>The pattern \<open>GET /\<close> matches every path, for \<open>GET\<close> and \<open>HEAD\<close>.\<close>

definition serve :: "web_env \<Rightarrow> KubernetesClient \<Rightarrow> string \<Rightarrow> response" where
  "serve W k method =
     (if method = ''GET'' \<or> method = ''HEAD'' then HomePage W k else \<lparr>status = 405, body = NoPage\<rparr>)"

text \<open>
  \<open>HTTPServer.Run\<close> sends what \<open>ListenAndServe\<close> returns unless the server was closed; \<open>app.Run\<close>
  waits for an interrupt, after which \<open>Shutdown\<close> ends it, or for that message. Either may come first.
\<close>

datatype listen_end = ServerClosed | ListenError sys_error

fun HTTPServer_Run :: "listen_end \<Rightarrow> sys_error option" where
  "HTTPServer_Run ServerClosed = None"
| "HTTPServer_Run (ListenError err) = Some err"

datatype run_event = Interrupted "sys_error option" | ServerFailed sys_error

fun run_event_error :: "run_event \<Rightarrow> gerror option" where
  "run_event_error (Interrupted stop) = map_option SysErr stop"
| "run_event_error (ServerFailed err) = Some (SysErr err)"

definition startup_checks :: "web_env \<Rightarrow> config \<Rightarrow> gerror option + KubernetesClient" where
  "startup_checks W cfg =
     (let k = kubernetes_New W (cfg_KubeconfigPath cfg);
          errs = (case k of Inl err \<Rightarrow> [Some (SysErr err)] | Inr _ \<Rightarrow> [])
            @ (case html_New W of Some err \<Rightarrow> [Some (SysErr err)] | None \<Rightarrow> [])
      in if length errs > 0 then Inl (errors_Join errs) else Inr (projr k))"

inductive app_Run :: "web_env \<Rightarrow> config \<Rightarrow> listen_end option \<Rightarrow> gerror option \<Rightarrow> bool" where
  not_started: "startup_checks W cfg = Inl err \<Longrightarrow> app_Run W cfg None err"
| interrupted: "startup_checks W cfg = Inr k \<Longrightarrow> app_Run W cfg listen (run_event_error (Interrupted stop))"
| failed: "startup_checks W cfg = Inr k \<Longrightarrow> HTTPServer_Run l = Some err \<Longrightarrow>
    app_Run W cfg (Some l) (run_event_error (ServerFailed err))"

text \<open>\<open>cmd/webapp/main.go\<close>: a configuration error panics, an error of \<open>Run\<close> is printed.\<close>

datatype main_end = Panicked gerror | Printed gerror | Ended

definition webapp_main :: "gerror + config \<Rightarrow> (config \<Rightarrow> gerror option) \<Rightarrow> main_end" where
  "webapp_main app run =
     (case app of
        Inl err \<Rightarrow> Panicked err
      | Inr cfg \<Rightarrow> (case run cfg of Some err \<Rightarrow> Printed err | None \<Rightarrow> Ended))"

section \<open>Properties\<close>

lemma loadPortConfig_Inr:
  "loadPortConfig get = Inr p \<longleftrightarrow>
     (if get ''PORT'' = [] then p = DefaultPort
      else strconv_ParseInt (get ''PORT'') = (p, None) \<and> 1 \<le> p \<and> p \<le> 65535)"
  by (auto simp: loadPortConfig_def strconv_Atoi_def Let_def split: prod.splits option.splits)

lemma error_of_None: "error_of x = None \<longleftrightarrow> (\<exists>y. x = Inr y)"
  by (cases x) auto

lemma loadConfig_Inr:
  "loadConfig home get fs = (Inr cfg, fs') \<longleftrightarrow>
     loadPortConfig get = Inr (cfg_Port cfg) \<and> loadKubeconfigPath home get fs = (Inr (cfg_KubeconfigPath cfg), fs')"
  by (cases "loadPortConfig get"; cases "loadKubeconfigPath home get fs"; cases cfg)
    (auto simp: loadConfig_def errors_Join_None_iff error_of_None Let_def errors_Join_def List.map_filter_def
      split: option.splits)

text \<open>
  The web server binds a port it can bind. A configuration that loads has a port between 1
  and 65535, the one in \<open>PORT\<close> or the default, the address of the server is that port printed in
  decimal, and the Kubernetes configuration is a path that exists, or the default path outside of
  a cluster, or the service account inside of one.
\<close>

theorem webapp_config_sound:
  assumes "newWithGetter home get fs = (Inr cfg, fs')"
  shows "1 \<le> cfg_Port cfg \<and> cfg_Port cfg \<le> 65535
    \<and> strconv_ParseInt (tl (server_Addr (http_New (cfg_Port cfg)))) = (cfg_Port cfg, None)
    \<and> (get ''PORT'' = [] \<and> cfg_Port cfg = DefaultPort \<or> strconv_ParseInt (get ''PORT'') = (cfg_Port cfg, None))
    \<and> (if get ''KUBECONFIG'' \<noteq> [] then
         cfg_KubeconfigPath cfg = get ''KUBECONFIG''
         \<and> (is_dir fs (path_norm (get ''KUBECONFIG'')) \<or> is_file fs (path_norm (get ''KUBECONFIG'')))
       else if get ''KUBERNETES_SERVICE_HOST'' \<noteq> [] then cfg_KubeconfigPath cfg = []
       else cfg_KubeconfigPath cfg = filepath_Join [home, ''.kube/config''])"
proof -
  from assms have port: "loadPortConfig get = Inr (cfg_Port cfg)"
    and kube: "loadKubeconfigPath home get fs = (Inr (cfg_KubeconfigPath cfg), fs')"
    by (auto simp: newWithGetter_def loadConfig_Inr split: prod.splits sum.splits)
  from port have bounds: "1 \<le> cfg_Port cfg \<and> cfg_Port cfg \<le> 65535"
    by (auto simp: loadPortConfig_Inr DefaultPort_def split: if_splits)
  then have "strconv_ParseInt (strconv_Itoa (cfg_Port cfg)) = (cfg_Port cfg, None)"
    by (intro strconv_ParseInt_Itoa) auto
  moreover from kube have "if get ''KUBECONFIG'' \<noteq> [] then
         cfg_KubeconfigPath cfg = get ''KUBECONFIG''
         \<and> (is_dir fs (path_norm (get ''KUBECONFIG'')) \<or> is_file fs (path_norm (get ''KUBECONFIG'')))
       else if get ''KUBERNETES_SERVICE_HOST'' \<noteq> [] then cfg_KubeconfigPath cfg = []
       else cfg_KubeconfigPath cfg = filepath_Join [home, ''.kube/config'']"
    by (auto simp: loadKubeconfigPath_def pathExists_def os_Stat_def expandPath_def DefaultKubeconfigPath_def
        strings_HasPrefix_def Let_def split: if_splits prod.splits option.splits os_fault.splits)
  moreover from port have "get ''PORT'' = [] \<and> cfg_Port cfg = DefaultPort
      \<or> strconv_ParseInt (get ''PORT'') = (cfg_Port cfg, None)"
    by (auto simp: loadPortConfig_Inr split: if_splits)
  ultimately show ?thesis using bounds by (simp add: http_New_def)
qed

theorem webapp_config_sound_witness:
  "\<exists>cfg. newWithGetter ''/root'' (\<lambda>v. if v = ''PORT'' then ''9000'' else [])
       \<lparr>fs_files = fmempty, fs_dirs = {||}, fs_fault = (\<lambda>n. None), fs_clock = 0\<rparr>
     = (Inr cfg, \<lparr>fs_files = fmempty, fs_dirs = {||}, fs_fault = (\<lambda>n. None), fs_clock = 0\<rparr>)
     \<and> 1 \<le> cfg_Port cfg \<and> cfg_Port cfg \<le> 65535 \<and> cfg_KubeconfigPath cfg = filepath_Join [''/root'', ''.kube/config'']"
proof -
  let ?get = "\<lambda>v. if v = ''PORT'' then ''9000'' else []"
  let ?fs = "\<lparr>fs_files = fmempty, fs_dirs = {||}, fs_fault = (\<lambda>n. None), fs_clock = 0\<rparr>"
  let ?cfg = "\<lparr>cfg_Port = 9000, cfg_KubeconfigPath = expandPath ''/root'' DefaultKubeconfigPath\<rparr>"
  have "strconv_ParseInt ''9000'' = (9000, None)"
    by (simp add: strconv_ParseInt_def is_digit_def decimal_val_def digit_val_def)
  then have "newWithGetter ''/root'' ?get ?fs = (Inr ?cfg, ?fs)"
    using loadConfig_Inr [of "''/root''" ?get ?fs ?cfg ?fs]
    by (simp add: newWithGetter_def loadPortConfig_Inr loadKubeconfigPath_def)
  with webapp_config_sound [OF this] show ?thesis by (intro exI [of _ ?cfg]) simp
qed

text \<open>The lines of a diagram and the edges they draw.\<close>

lemma foldl_append_concat: "foldl (\<lambda>out x. out @ f x) acc xs = acc @ concat (map f xs)"
  by (induction xs arbitrary: acc) simp_all

lemma dcr_node_simps:
  "node_Name (dcr_node d) = meta_Namespace (dcr_Meta d) @ ''-'' @ dcr_Name d"
  "map node_Name (node_Parents (dcr_node d)) =
     map (\<lambda>p. meta_Namespace (dcr_Meta d) @ ''-'' @ p) (ParentNames (dcr_Spec d))"
  by (simp_all add: dcr_node_def Let_def foldl_append_concat [of "\<lambda>x. [Node (_ @ x) _]"] comp_def
      foldl_append_concat concat_map_singleton del: ParentNames_map)

lemma node_lines_alt:
  "node_lines n = (if node_Parents n = [] then [node_Name n]
     else map (\<lambda>p. node_Name n @ ''-->'' @ p) (map node_Name (node_Parents n)))"
  by (cases n) simp

definition plain_label :: "string \<Rightarrow> bool" where
  "plain_label s \<longleftrightarrow> CHR 0x0A \<notin> set s \<and> CHR ''>'' \<notin> set s"

definition plain_resource :: "DataCenterResource \<Rightarrow> bool" where
  "plain_resource d \<longleftrightarrow> plain_label (meta_Namespace (dcr_Meta d)) \<and> plain_label (dcr_Name d)
     \<and> list_all plain_label (ParentNames (dcr_Spec d))"

lemma diagram_lines:
  assumes "nodes \<noteq> []" and "\<And>n l. n \<in> set nodes \<Longrightarrow> l \<in> set (node_lines n) \<Longrightarrow> CHR 0x0A \<notin> set l"
  shows "strings_Split (GenerateMermaidString nodes) (CHR 0x0A) = ''flowchart TB'' # concat (map node_lines nodes)"
  unfolding GenerateMermaidString_def foldl_append_concat
  using assms by (simp, intro strings_Split_Join) auto

lemma edge_inject:
  assumes "CHR ''>'' \<notin> set a" "CHR ''>'' \<notin> set c" "a @ ''-->'' @ b = c @ ''-->'' @ d"
  shows "a = c \<and> b = d"
proof -
  have "takeWhile (\<lambda>x. x \<noteq> CHR ''>'') (e @ ''-->'' @ f) = e @ ''--''" if "CHR ''>'' \<notin> set e" for e f
    using that by (subst takeWhile_append2) auto
  from this [OF assms(1), of b] this [OF assms(2), of d] assms(3) have "a @ ''--'' = c @ ''--''" by metis
  with assms(3) show ?thesis by simp
qed

definition node_name :: "DataCenterResource \<Rightarrow> string \<Rightarrow> string" where
  "node_name d name = meta_Namespace (dcr_Meta d) @ ''-'' @ name"

lemma dcr_lines:
  "node_lines (dcr_node d) =
     (if ParentNames (dcr_Spec d) = [] then [node_name d (dcr_Name d)]
      else map (\<lambda>p. node_name d (dcr_Name d) @ ''-->'' @ node_name d p) (ParentNames (dcr_Spec d)))"
proof -
  have "node_Parents (dcr_node d) = [] \<longleftrightarrow> ParentNames (dcr_Spec d) = []"
    using dcr_node_simps(2) [of d] by (metis map_is_Nil_conv)
  then show ?thesis unfolding node_lines_alt dcr_node_simps by (simp add: node_name_def comp_def)
qed

lemma plain_resource_name:
  assumes "plain_resource d"
  shows "plain_label (node_name d (dcr_Name d))" and "p \<in> set (ParentNames (dcr_Spec d)) \<Longrightarrow> plain_label (node_name d p)"
  using assms by (auto simp: plain_resource_def plain_label_def node_name_def list_all_iff simp del: ParentNames_map)

lemma not_an_edge: "CHR ''>'' \<notin> set t \<Longrightarrow> a @ ''-->'' @ b \<noteq> t"
  by (rule notI, drule arg_cong [where f = set]) auto

lemma edge_line_iff:
  assumes "plain_resource d" and "CHR ''>'' \<notin> set child"
  shows "child @ ''-->'' @ par \<in> set (node_lines (dcr_node d)) \<longleftrightarrow>
    child = node_name d (dcr_Name d) \<and> par \<in> node_name d ` set (ParentNames (dcr_Spec d))"
proof -
  have plain: "CHR ''>'' \<notin> set (node_name d (dcr_Name d))"
    using plain_resource_name(1) [OF assms(1)] by (simp add: plain_label_def)
  then have "child @ ''-->'' @ par \<noteq> node_name d (dcr_Name d)" by (rule not_an_edge)
  moreover have "child @ ''-->'' @ par = node_name d (dcr_Name d) @ ''-->'' @ q \<longleftrightarrow>
      child = node_name d (dcr_Name d) \<and> par = q" for q
    using edge_inject [OF assms(2) plain] by blast
  ultimately show ?thesis unfolding dcr_lines by (auto simp del: ParentNames_map append.simps)
qed

text \<open>
  Property C40: the home page draws exactly the parent references of the cluster. When the resources
  can be listed, the page is answered with status 200 and its diagram, read line by line, has an edge
  from one node to another just when a listed resource with the first name refers to a parent
  with the second, both in the resource's namespace; a resource without parents is a line of its own.
\<close>

theorem home_page_edges:
  assumes "client_List W = Inr ds" and "ds \<noteq> []" and "list_all plain_resource ds"
    and "CHR ''>'' \<notin> set child"
  shows "\<exists>diagram. HomePage W k = \<lparr>status = 200, body = HomePageData diagram (Host k) (CurrentContext k)\<rparr>
    \<and> (child @ ''-->'' @ par \<in> set (strings_Split diagram (CHR 0x0A)) \<longleftrightarrow>
        (\<exists>d \<in> set ds. child = node_name d (dcr_Name d) \<and> par \<in> node_name d ` set (ParentNames (dcr_Spec d))))
    \<and> (\<forall>d \<in> set ds. ParentNames (dcr_Spec d) = [] \<longrightarrow>
        node_name d (dcr_Name d) \<in> set (strings_Split diagram (CHR 0x0A)))"
proof -
  have no_newline: "CHR 0x0A \<notin> set l" if "d \<in> set ds" "l \<in> set (node_lines (dcr_node d))" for d l
  proof -
    from that(1) assms(3) have "plain_resource d" by (simp add: list_all_iff)
    with that(2) plain_resource_name [of d] show ?thesis
      by (auto simp: dcr_lines plain_label_def split: if_splits simp del: ParentNames_map)
  qed
  have lines: "strings_Split (GenerateMermaidString (map dcr_node ds)) (CHR 0x0A) =
      ''flowchart TB'' # concat (map (\<lambda>d. node_lines (dcr_node d)) ds)"
    using diagram_lines [of "map dcr_node ds"] assms(2) no_newline by (auto simp: comp_def)
  have "child @ ''-->'' @ par \<noteq> ''flowchart TB''"
    by (rule not_an_edge) simp
  then have "child @ ''-->'' @ par \<in> set (strings_Split (GenerateMermaidString (map dcr_node ds)) (CHR 0x0A)) \<longleftrightarrow>
      (\<exists>d \<in> set ds. child @ ''-->'' @ par \<in> set (node_lines (dcr_node d)))"
    by (auto simp: lines)
  with edge_line_iff [OF _ assms(4)] assms(3) have
    "child @ ''-->'' @ par \<in> set (strings_Split (GenerateMermaidString (map dcr_node ds)) (CHR 0x0A)) \<longleftrightarrow>
      (\<exists>d \<in> set ds. child = node_name d (dcr_Name d) \<and> par \<in> node_name d ` set (ParentNames (dcr_Spec d)))"
    unfolding list_all_iff by blast
  moreover have "\<forall>d \<in> set ds. ParentNames (dcr_Spec d) = [] \<longrightarrow>
      node_name d (dcr_Name d) \<in> set (strings_Split (GenerateMermaidString (map dcr_node ds)) (CHR 0x0A))"
    by (auto simp: lines dcr_lines)
  ultimately show ?thesis
    using assms(1) by (auto simp: HomePage_def GetDataCenterResources_def simp del: ParentNames_map append.simps)
qed

definition ex_web :: web_env where
  "ex_web = \<lparr>InClusterConfig = Inr ''https://10.0.0.1'', BuildConfigFromFlags = (\<lambda>p. Inl (OsError p)),
     LoadFromFile_CurrentContext = (\<lambda>p. Inl (OsError p)), core_AddToScheme = None, chantico_AddToScheme = None,
     client_New = (\<lambda>c. None), client_List = Inr [ex_pdu, ex_server], html_New = None\<rparr>"

theorem home_page_edges_witness:
  "\<exists>diagram. HomePage ex_web \<lparr>CurrentContext = [], Host = []\<rparr> = \<lparr>status = 200, body = HomePageData diagram [] []\<rparr>
     \<and> node_name ex_server ''server-1'' @ ''-->'' @ node_name ex_server ''pdu-1'' \<in> set (strings_Split diagram (CHR 0x0A))
     \<and> node_name ex_pdu ''pdu-1'' \<in> set (strings_Split diagram (CHR 0x0A))"
proof -
  have listed: "client_List ex_web = Inr [ex_pdu, ex_server]" by (simp add: ex_web_def)
  have "plain_resource ex_pdu" "plain_resource ex_server" "CHR ''>'' \<notin> set (node_name ex_server ''server-1'')"
    by (simp_all add: plain_resource_def plain_label_def node_name_def ex_defs)
  then have plain: "list_all plain_resource [ex_pdu, ex_server]"
    and child: "CHR ''>'' \<notin> set (node_name ex_server ''server-1'')" by simp_all
  have facts: "ParentNames (dcr_Spec ex_pdu) = []" "dcr_Name ex_pdu = ''pdu-1''" "dcr_Name ex_server = ''server-1''"
    "ParentNames (dcr_Spec ex_server) = [''pdu-1'']" by (simp_all add: ex_defs)
  from home_page_edges [OF listed _ plain child, of "\<lparr>CurrentContext = [], Host = []\<rparr>" "node_name ex_server ''pdu-1''"]
  show ?thesis using facts by (auto simp del: ParentNames_map append.simps)
qed

text \<open>
  The name of a node does not tell a namespace from a name: two resources of different namespaces can be
  one node of the diagram.
\<close>

lemma node_names_collide:
  "\<exists>d e. meta_Namespace (dcr_Meta d) \<noteq> meta_Namespace (dcr_Meta e) \<and> dcr_Name d \<noteq> dcr_Name e
     \<and> node_Name (dcr_node d) = node_Name (dcr_node e)"
proof -
  let ?d = "ex_pdu\<lparr>dcr_Meta := (dcr_Meta ex_pdu)\<lparr>meta_Namespace := ''a-b'', meta_Name := ''c''\<rparr>\<rparr>"
  let ?e = "ex_pdu\<lparr>dcr_Meta := (dcr_Meta ex_pdu)\<lparr>meta_Namespace := ''a'', meta_Name := ''b-c''\<rparr>\<rparr>"
  have "node_Name (dcr_node ?d) = node_Name (dcr_node ?e)" by (simp add: dcr_node_simps)
  then show ?thesis by (intro exI [of _ ?d] exI [of _ ?e]) simp
qed

end
