(* ===== verification/Postmortem.thy ===== *)
theory Postmortem
  imports Cluster File_Store
begin

text \<open>
  Package \<open>internal/postmortem\<close>: a report of a failure, its text, and saving it on the data volume
  before the process panics. The call stack, the caller and the cluster client are parameters
  (record \<open>pm_runtime\<close>), as is the verb \<open>%#v\<close> on values of any type; a cluster configuration is
  taken to be found (\<open>GetConfigOrDie\<close> exits otherwise). A \<open>time.Time\<close> is its number of
  microseconds since 1970.
\<close>

section \<open>States and their texts\<close>

definition lines :: "string list \<Rightarrow> string" where
  "lines ls = strings_Join ls [CHR 0x0A]"

definition fence :: string where
  "fence = [CHR 0x60, CHR 0x60, CHR 0x60]"

record 'a ClusterState =
  CRDStates :: "'a list"

definition ClusterState_Markdown :: "('a list \<Rightarrow> string) \<Rightarrow> 'a ClusterState \<Rightarrow> string" where
  "ClusterState_Markdown go_syntax cs =
     lines [[], ''- CRDs state:'', fence, go_syntax (CRDStates cs), fence, []]"

record 'a ChanticoState =
  cs_Error :: "gerror option"
  cs_File :: string
  cs_Line :: int
  cs_FunctionName :: string
  cs_Stack :: string
  cs_LoggedVariables :: "'a list"

definition ChanticoState_Markdown :: "('a list \<Rightarrow> string) \<Rightarrow> 'a ChanticoState \<Rightarrow> string" where
  "ChanticoState_Markdown go_syntax cs =
     lines
       [[], ''- File: '' @ cs_File cs, ''- Line: '' @ strconv_Itoa (cs_Line cs), ''- FunctionName: '' @ cs_FunctionName cs,
        ''- Error:'', fence, (case cs_Error cs of None \<Rightarrow> ''%!s(<nil>)'' | Some e \<Rightarrow> gerror_Error e), fence,
        ''- Stack:'', fence, cs_Stack cs, fence,
        ''- Logged variables:'', fence, go_syntax (cs_LoggedVariables cs), fence, []]"

section \<open>The report\<close>

record 'a PostMortem =
  pmo_Timestamp :: int
  pmo_ClusterState :: "'a ClusterState"
  pmo_ChanticoState :: "'a ChanticoState"

text \<open>The zero value of \<open>time.Time\<close> is the first of January of year 1.\<close>

definition zero_Time :: int where
  "zero_Time = -62135596800000000"

record 'a pm_runtime =
  debug_Stack :: string
  runtime_Caller :: "(string option \<times> string \<times> int) option"
  pm_client_New :: "sys_error option"
  list_devices :: "sys_error option \<times> MeasurementDevice list"
  any_string :: "string \<Rightarrow> 'a"
  any_devices :: "MeasurementDevice list \<Rightarrow> 'a"

definition NewPostMortem :: "'a pm_runtime \<Rightarrow> gerror option \<Rightarrow> 'a list \<Rightarrow> 'a PostMortem option" where
  "NewPostMortem R err args =
     (case runtime_Caller R of
        None \<Rightarrow> None
      | Some (fn, file, line) \<Rightarrow>
          (let chanticoState =
                 \<lparr>cs_Error = err, cs_File = file, cs_Line = line,
                  cs_FunctionName = (case fn of None \<Rightarrow> [] | Some name \<Rightarrow> name),
                  cs_Stack = debug_Stack R, cs_LoggedVariables = args\<rparr>
           in case pm_client_New R of
                Some e \<Rightarrow> None
              | None \<Rightarrow>
                  (let (e, items) = list_devices R;
                       states = (if e \<noteq> None then [any_string R ''Could not find any measurementDevices''] else [])
                   in Some \<lparr>pmo_Timestamp = zero_Time,
                            pmo_ClusterState = \<lparr>CRDStates = states @ [any_devices R items]\<rparr>,
                            pmo_ChanticoState = chanticoState\<rparr>)))"

text \<open>The headings carry a symbol of four bytes of UTF-8.\<close>

definition symbol :: "char \<Rightarrow> char \<Rightarrow> string" where
  "symbol b c = [CHR 0xF0, CHR 0x9F, b, c]"

definition PostMortem_Markdown :: "('a list \<Rightarrow> string) \<Rightarrow> 'a PostMortem \<Rightarrow> string" where
  "PostMortem_Markdown go_syntax pm =
     lines
       [[], ''---'', ''name: '' @ symbol (CHR 0x90) (CHR 0x9B) @ '' Bug Report'',
        ''about: Report a problem or unexpected behavior in the system'',
        ''title: '' @ [CHR 0x27] @ ''[BUG] '' @ [CHR 0x27], ''labels: bug'',
        ''assignees: '' @ [CHR 0x27, CHR 0x27], [], ''---'', [],
        ''## '' @ symbol (CHR 0x90) (CHR 0x9E) @ '' Description'', [],
        ''A clear and concise description of what the bug is, where it happens, and what the expected behavior should be.'',
        [], ''---'', [],
        ''## '' @ symbol (CHR 0x94) (CHR 0x81) @ '' How to Reproduce'', [],
        ''### Cluster state'', [], ClusterState_Markdown go_syntax (pmo_ClusterState pm), [],
        ''### Chantico state'', [], ChanticoState_Markdown go_syntax (pmo_ChanticoState pm), [], ''---'', [],
        ''## '' @ symbol (CHR 0xA7) (CHR 0xAA) @ '' Suggested Testing or Validation'', [],
        ''Explain how the fix can be verified. Mention test cases, test environments, or steps to revalidate.'', [],
        ''---'', [],
        ''## '' @ symbol (CHR 0x93) (CHR 0x82) @ '' Logs, Screenshots, or Code Snippets'', [],
        ''Include logs, screenshots, or relevant code snippets to support the bug report.'', [], ''---'', []]"

text \<open>Saving ends in a panic with the returned text, whether the file could be written or not.\<close>

definition postmortem_file :: "string \<Rightarrow> 'a PostMortem \<Rightarrow> string" where
  "postmortem_file location pm = location @ ''/bugs/bug'' @ strconv_Itoa (pmo_Timestamp pm) @ ''.md''"

definition SaveAndQuit ::
    "('a list \<Rightarrow> string) \<Rightarrow> renameio \<Rightarrow> string \<Rightarrow> 'a PostMortem \<Rightarrow> osfs \<Rightarrow> string \<times> osfs" where
  "SaveAndQuit go_syntax rio location pm fs =
     (let filename = postmortem_file location pm in
      case VolumeFileStore_Write rio [] filename (PostMortem_Markdown go_syntax pm) fs of
        (Some err, fs1) \<Rightarrow>
          (''Could not save postmortem at location '' @ filename @ [CHR 0x0A] @ ''Post mortem content:''
             @ PostMortem_Markdown go_syntax pm @ [CHR 0x0A], fs1)
      | (None, fs1) \<Rightarrow> (''New postmortem generated and saved at '' @ filename, fs1))"

section \<open>Where reports go\<close>

lemma NewPostMortem_Timestamp:
  "NewPostMortem R err args = Some pm \<Longrightarrow> pmo_Timestamp pm = zero_Time"
  by (auto simp: NewPostMortem_def Let_def split: option.splits prod.splits)

lemma SaveAndQuit_files:
  assumes "renameio_api rio" and "SaveAndQuit go_syntax rio location pm fs = (msg, fs')"
  shows "fs_files fs' = fs_files fs \<or>
    fs_files fs' = fmupd (volume_key [] (postmortem_file location pm)) (PostMortem_Markdown go_syntax pm) (fs_files fs)"
  using assms(2) renameio_api.vfs_write_ok [OF assms(1)] renameio_api.vfs_write_error [OF assms(1)]
  by (auto simp: SaveAndQuit_def Let_def split: prod.splits option.splits)

text \<open>
  The time of a report is never set, so every report is written to the one file \<open>bugs/bug-62135596800000000.md\<close>
  and replaces the report before it.
\<close>

lemma postmortem_replaces_previous:
  assumes "renameio_api rio"
    and "NewPostMortem R1 e1 a1 = Some p1" and "NewPostMortem R2 e2 a2 = Some p2"
    and "SaveAndQuit go_syntax rio location p1 fs = (m1, fs1)"
    and "VolumeFileStore_Write rio [] (postmortem_file location p2) (PostMortem_Markdown go_syntax p2) fs1 = (None, fs2)"
  shows "postmortem_file location p1 = postmortem_file location p2"
    and "fs_files fs2 = fmupd (volume_key [] (postmortem_file location p1)) (PostMortem_Markdown go_syntax p2) (fs_files fs)"
proof -
  show same: "postmortem_file location p1 = postmortem_file location p2"
    using assms(2,3) by (simp add: postmortem_file_def NewPostMortem_Timestamp)
  from renameio_api.vfs_write_ok [OF assms(1,5)] SaveAndQuit_files [OF assms(1,4)]
  show "fs_files fs2 = fmupd (volume_key [] (postmortem_file location p1)) (PostMortem_Markdown go_syntax p2) (fs_files fs)"
    by (auto simp: same intro: fmap_ext)
qed

end
