(* ===== verification/Stresstest.thy ===== *)
theory Stresstest
  imports Dcr_Validate Regex
begin

text \<open>
  The load generator \<open>dev/stresstest\<close>: devices built from a MIB file, measurements for every device, two
  layers of data center resources over the measurements, their creation in a cluster and the clean-up. Random
  numbers and the clock are parameters (record \<open>chance\<close>): every call of \<open>rand.Intn\<close>, \<open>rand.Perm\<close> and
  \<open>time.Now\<close> is identified by the index of the resource it is made for, so any sequence of answers is
  covered. A call that ends the program (\<open>log.Fatalf\<close>) or panics is the left value of a sum.
\<close>

section \<open>Ends of the program, loops and slices\<close>

datatype stop = LogFatal string | RuntimePanic string

text \<open>A loop that appends one result per element, up to the first end of the program.\<close>

fun collect :: "('a \<Rightarrow> stop + 'b) \<Rightarrow> 'a list \<Rightarrow> stop + 'b list" where
  "collect f [] = Inr []"
| "collect f (x # xs) =
     (case f x of
        Inl s \<Rightarrow> Inl s
      | Inr y \<Rightarrow> (case collect f xs of Inl s \<Rightarrow> Inl s | Inr ys \<Rightarrow> Inr (y # ys)))"

text \<open>\<open>xs[i]\<close> on a slice, \<open>int\<close> arithmetic at 64 bits, and a range over an integer.\<close>

definition slice_get :: "'a list \<Rightarrow> int \<Rightarrow> stop + 'a" where
  "slice_get xs i =
     (if 0 \<le> i \<and> i < int (length xs) then Inr (xs ! nat i) else Inl (RuntimePanic ''index out of range''))"

definition wrap64 :: "int \<Rightarrow> int" where
  "wrap64 i = sint (word_of_int i :: int64)"

definition int_range :: "int \<Rightarrow> int list" where
  "int_range n = map int [0..<nat n]"

record chance =
  room :: int
  md_now :: "int \<Rightarrow> int"
  pm_now :: "int \<Rightarrow> int"
  dcr_now :: "int \<Rightarrow> int"
  draw_count :: "int \<Rightarrow> int \<Rightarrow> int"
  draw_perm :: "int \<Rightarrow> int \<Rightarrow> int list"
  draw_ip :: "int \<Rightarrow> int \<Rightarrow> int"
  draw_walk :: "int \<Rightarrow> int \<Rightarrow> int"

text \<open>
  \<open>make([]T, 0, c)\<close> panics on a capacity that is negative or beyond the address space (at most \<open>room\<close>
  elements); \<open>rand.Intn\<close> panics on a bound that is not positive.
\<close>

definition make_slice :: "chance \<Rightarrow> int \<Rightarrow> stop option" where
  "make_slice C c = (if c < 0 \<or> room C < c then Some (RuntimePanic ''makeslice: cap out of range'') else None)"

definition rand_Intn :: "(int \<Rightarrow> int) \<Rightarrow> int \<Rightarrow> stop + int" where
  "rand_Intn draw n = (if n \<le> 0 then Inl (RuntimePanic ''invalid argument to Intn'') else Inr (draw n))"

section \<open>Measurement devices\<close>

text \<open>
  \<open>bufio.Scanner\<close> over the lines of a file: the newline and one carriage return before it are dropped, text
  after the last newline is a line when it is not empty, and a line that fills the buffer of 64 KiB is
  \<open>ErrTooLong\<close>.
\<close>

definition MaxScanTokenSize :: nat where
  "MaxScanTokenSize = 64 * 1024"

definition dropCR :: "string \<Rightarrow> string" where
  "dropCR l = (if l \<noteq> [] \<and> last l = CHR 0x0D then butlast l else l)"

definition raw_lines :: "bytes \<Rightarrow> string list" where
  "raw_lines b = (let ls = strings_Split b (CHR 0x0A) in if last ls = [] then butlast ls else ls)"

datatype mib_error = MibRead sys_error | MibTooLong

definition scan_lines :: "bytes \<Rightarrow> mib_error + string list" where
  "scan_lines b =
     (if list_ex (\<lambda>l. MaxScanTokenSize \<le> length l) (raw_lines b) then Inl MibTooLong
      else Inr (map dropCR (raw_lines b)))"

text \<open>The regular expression \<open>^([A-Za-z0-9_\-]+)\s+OBJECT-TYPE\<close> and its first group.\<close>

definition name_char :: "char \<Rightarrow> bool" where
  "name_char c \<longleftrightarrow> is_digit c \<or> (65 \<le> (of_char c :: nat) \<and> (of_char c :: nat) \<le> 90) \<or>
     (97 \<le> (of_char c :: nat) \<and> (of_char c :: nat) \<le> 122) \<or> c = CHR ''_'' \<or> c = CHR ''-''"

definition perl_space :: "char \<Rightarrow> bool" where
  "perl_space c \<longleftrightarrow> c \<in> {CHR 0x09, CHR 0x0A, CHR 0x0C, CHR 0x0D, CHR 0x20}"

definition object_type_name :: "string \<Rightarrow> string option" where
  "object_type_name line =
     (let name = takeWhile name_char line; rest = dropWhile name_char line; tail = dropWhile perl_space rest
      in if name \<noteq> [] \<and> tail \<noteq> rest \<and> strings_HasPrefix tail ''OBJECT-TYPE'' then Some name else None)"

definition parseMIB :: "(string \<Rightarrow> sys_error + bytes) \<Rightarrow> string \<Rightarrow> mib_error + string list" where
  "parseMIB read path =
     (case read path of
        Inl err \<Rightarrow> Inl (MibRead err)
      | Inr b \<Rightarrow>
          (case scan_lines b of
             Inl err \<Rightarrow> Inl err
           | Inr ls \<Rightarrow> Inr (List.map_filter object_type_name ls)))"

definition stress_name :: "string \<Rightarrow> int \<Rightarrow> int \<Rightarrow> string" where
  "stress_name prefix now idx = prefix @ ''-'' @ strconv_Itoa now @ ''-'' @ strconv_Itoa idx"

definition stress_meta :: "string \<Rightarrow> string \<Rightarrow> ObjectMeta" where
  "stress_meta name namespace = zero_ObjectMeta\<lparr>meta_Name := name, meta_Namespace := namespace\<rparr>"

definition stress_device :: "string \<Rightarrow> string list \<Rightarrow> string \<Rightarrow> MeasurementDevice" where
  "stress_device namespace walks name =
     \<lparr>md_Meta = stress_meta name namespace,
      md_Spec = \<lparr>mspec_Walks = walks,
        mspec_AuthFrom = Some \<lparr>sel_Value = ''community: public'' @ CHR 0x0A # ''version: 2'', sel_ValueFrom = None\<rparr>\<rparr>,
      md_Status = \<lparr>mstat_ObservedGeneration = 0, mstat_ConfigHash = [], mstat_Conditions = []\<rparr>\<rparr>"

definition generateMeasurementDevice ::
    "chance \<Rightarrow> string \<Rightarrow> string list \<Rightarrow> int \<Rightarrow> stop + MeasurementDevice" where
  "generateMeasurementDevice C namespace allWalks idx =
     (let n = int (length allWalks) in
      case (if n > 1 then (case rand_Intn (draw_count C idx) n of Inl s \<Rightarrow> Inl s | Inr d \<Rightarrow> Inr (d + 1)) else Inr 1) of
        Inl s \<Rightarrow> Inl s
      | Inr subCount \<Rightarrow>
          (let perm = draw_perm C idx n in
           case collect (\<lambda>i. case slice_get perm i of Inl s \<Rightarrow> Inl s | Inr p \<Rightarrow> slice_get allWalks p) (int_range subCount) of
             Inl s \<Rightarrow> Inl s
           | Inr walks \<Rightarrow>
               Inr (stress_device namespace walks (stress_name ''stresstest-md'' (md_now C idx) idx))))"

definition generateMeasurementDevices ::
    "chance \<Rightarrow> (string \<Rightarrow> sys_error + bytes) \<Rightarrow> string \<Rightarrow> string \<Rightarrow> int \<Rightarrow> stop + MeasurementDevice list" where
  "generateMeasurementDevices C read namespace path n =
     (case make_slice C n of
        Some s \<Rightarrow> Inl s
      | None \<Rightarrow>
          (case parseMIB read path of
             Inl err \<Rightarrow> Inl (LogFatal ''failed to parse MIB'')
           | Inr allWalks \<Rightarrow>
               (if allWalks = [] then Inl (LogFatal ''failed to parse MIB'')
                else collect (generateMeasurementDevice C namespace allWalks) (int_range n))))"

section \<open>Physical measurements\<close>

definition ips :: "string list" where
  "ips = [''chantico-snmp-mock:1161'', ''chantico-snmp-mock-2:1161'']"

definition generatePhysicalMeasurement ::
    "chance \<Rightarrow> string \<Rightarrow> MeasurementDevice \<Rightarrow> int \<Rightarrow> string list \<Rightarrow> stop + PhysicalMeasurement" where
  "generatePhysicalMeasurement C namespace measurementDevice idx addresses =
     (if addresses = [] then Inl (LogFatal ''no ip provided'')
      else
        (case rand_Intn (draw_ip C idx) (int (length addresses)) of
           Inl s \<Rightarrow> Inl s
         | Inr d \<Rightarrow>
             (case slice_get addresses d of
                Inl s \<Rightarrow> Inl s
              | Inr ip \<Rightarrow>
                  Inr \<lparr>pm_Meta = stress_meta (stress_name ''stresstest-pm'' (pm_now C idx) idx) namespace,
                       pm_Spec = \<lparr>pspec_Type = ''snmp'', pspec_Ip = ip,
                         pspec_MeasurementDevice = md_Name measurementDevice, pspec_AdditionalLabels = None\<rparr>,
                       pm_Status = \<lparr>pstat_ObservedGeneration = 0, pstat_Conditions = []\<rparr>\<rparr>)))"

record MeasurementDevicePhysicalMeasurementCombination =
  comb_MeasurementDevice :: MeasurementDevice
  comb_PhysicalMeasurements :: PhysicalMeasurement

text \<open>
  The nested loops in the order of the code: the measurements \<open>idx, idx + 1, ...\<close> of the first device, then
  those of the next.
\<close>

fun device_index :: "MeasurementDevice list \<Rightarrow> nat \<Rightarrow> nat \<Rightarrow> (MeasurementDevice \<times> nat) list" where
  "device_index [] per idx = []"
| "device_index (md # mds) per idx = map (\<lambda>i. (md, i)) [idx..<idx + per] @ device_index mds per (idx + per)"

definition generatePhysicalMeasurements ::
    "chance \<Rightarrow> string \<Rightarrow> MeasurementDevice list \<Rightarrow> int
      \<Rightarrow> stop + PhysicalMeasurement list \<times> MeasurementDevicePhysicalMeasurementCombination list" where
  "generatePhysicalMeasurements C namespace measurementDevices nb =
     (if nb \<le> 0 \<or> measurementDevices = [] then Inr ([], [])
      else
        (case make_slice C (wrap64 (int (length measurementDevices) * nb)) of
           Some s \<Rightarrow> Inl s
         | None \<Rightarrow>
             (case collect (\<lambda>(md, i).
                 case generatePhysicalMeasurement C namespace md (int i) ips of
                   Inl s \<Rightarrow> Inl s
                 | Inr pm \<Rightarrow> Inr \<lparr>comb_MeasurementDevice = md, comb_PhysicalMeasurements = pm\<rparr>)
                 (device_index measurementDevices (nat nb) 0) of
                Inl s \<Rightarrow> Inl s
              | Inr combs \<Rightarrow> Inr (map comb_PhysicalMeasurements combs, combs))))"

section \<open>Data center resources\<close>

record DataCenterResourceBuilder =
  b_Parents :: "ParentRef list"
  b_EnergyMetric :: string
  b_Physicalmeasurement :: string
  b_Name :: string
  b_Type :: string
  b_Namespace :: string

definition NewDataCenterResourceBuilder :: DataCenterResourceBuilder where
  "NewDataCenterResourceBuilder =
     \<lparr>b_Parents = [], b_EnergyMetric = [], b_Physicalmeasurement = [], b_Name = [], b_Type = [], b_Namespace = []\<rparr>"

definition AddEnergyMetric :: "string \<Rightarrow> string \<Rightarrow> DataCenterResourceBuilder \<Rightarrow> DataCenterResourceBuilder" where
  "AddEnergyMetric energyMetric physicalMeasurement d =
     d\<lparr>b_EnergyMetric := energyMetric, b_Physicalmeasurement := physicalMeasurement\<rparr>"

definition AddParent :: "ParentRef \<Rightarrow> DataCenterResourceBuilder \<Rightarrow> DataCenterResourceBuilder" where
  "AddParent parent d = d\<lparr>b_Parents := b_Parents d @ [parent]\<rparr>"

definition SetName :: "chance \<Rightarrow> int \<Rightarrow> DataCenterResourceBuilder \<Rightarrow> DataCenterResourceBuilder" where
  "SetName C idx d = d\<lparr>b_Name := stress_name ''stresstest-dcr'' (dcr_now C idx) idx\<rparr>"

definition SetType :: "string \<Rightarrow> DataCenterResourceBuilder \<Rightarrow> DataCenterResourceBuilder" where
  "SetType typ d = d\<lparr>b_Type := typ\<rparr>"

definition SetNamespace :: "string \<Rightarrow> DataCenterResourceBuilder \<Rightarrow> DataCenterResourceBuilder" where
  "SetNamespace namespace d = d\<lparr>b_Namespace := namespace\<rparr>"

definition Build :: "DataCenterResourceBuilder \<Rightarrow> DataCenterResource" where
  "Build d =
     zero_DataCenterResource\<lparr>dcr_Meta := stress_meta (b_Name d) (b_Namespace d),
       dcr_Spec := \<lparr>dspec_Type = b_Type d, dspec_PhysicalMeasurements = [b_Physicalmeasurement d],
         dspec_Parents = b_Parents d, dspec_EnergyMetric = b_EnergyMetric d,
         dspec_EnergyMetricFrom = None, dspec_AdditionalLabels = None\<rparr>\<rparr>"

definition root_of ::
    "chance \<Rightarrow> string \<Rightarrow> nat \<times> MeasurementDevicePhysicalMeasurementCombination \<Rightarrow> stop + DataCenterResource" where
  "root_of C namespace = (\<lambda>(idx, mdPm).
     let walks = mspec_Walks (md_Spec (comb_MeasurementDevice mdPm)) in
     case rand_Intn (draw_walk C (int idx)) (int (length walks)) of
       Inl s \<Rightarrow> Inl s
     | Inr d \<Rightarrow>
         (case slice_get walks d of
            Inl s \<Rightarrow> Inl s
          | Inr walk \<Rightarrow>
              Inr (Build (SetNamespace namespace (SetType ''pdu'' (SetName C (int idx)
                (AddEnergyMetric walk (pm_Name (comb_PhysicalMeasurements mdPm)) NewDataCenterResourceBuilder)))))))"

definition generateDcRootLayer ::
    "chance \<Rightarrow> string \<Rightarrow> MeasurementDevicePhysicalMeasurementCombination list \<Rightarrow> stop + DataCenterResource list" where
  "generateDcRootLayer C namespace mdPmCombination = collect (root_of C namespace) (enumerate 0 mdPmCombination)"

text \<open>
  \<open>fmt.Sprintf("%f", 1/float64(k))\<close>: the quotient rounded to a double (53 bits, ties to even), then its
  exact value rounded to six decimals (ties to even). A division by zero prints as infinity.
\<close>

definition round_even :: "nat \<Rightarrow> nat \<Rightarrow> nat" where
  "round_even p q =
     (let d = p div q; r = p mod q
      in if 2 * r < q then d else if q < 2 * r then d + 1 else if even d then d else d + 1)"

fun bit_count :: "nat \<Rightarrow> nat" where
  "bit_count n = (if n = 0 then 0 else Suc (bit_count (n div 2)))"

declare bit_count.simps [simp del]

definition float64_of :: "nat \<Rightarrow> nat" where
  "float64_of k = (let e = 2 ^ (bit_count k - 53) in round_even k e * e)"

definition millionths :: "nat \<Rightarrow> nat" where
  "millionths k =
     (let x = float64_of k; scale = 2 ^ (52 + bit_count (x - 1))
      in round_even (round_even scale x * 10 ^ 6) scale)"

definition six_digits :: "nat \<Rightarrow> string" where
  "six_digits n = map (\<lambda>e. digit_char (n div 10 ^ e mod 10)) [5, 4, 3, 2, 1, 0]"

definition share_text :: "int \<Rightarrow> string" where
  "share_text k =
     (if k = 0 then ''+Inf''
      else (if k < 0 then ''-'' else []) @ nat_decimal (millionths (nat \<bar>k\<bar>) div 10 ^ 6) @ ''.''
           @ six_digits (millionths (nat \<bar>k\<bar>) mod 10 ^ 6))"

definition parent_ref :: "int \<Rightarrow> DataCenterResource \<Rightarrow> ParentRef" where
  "parent_ref expansionRate dcr =
     \<lparr>pref_Name = dcr_Name dcr, pref_Coefficient = share_text (wrap64 (expansionRate - 1)), pref_CoefficientFrom = None\<rparr>"

text \<open>The loops that hand every root to the next children in turn.\<close>

fun assign_children ::
    "ParentRef \<Rightarrow> int \<Rightarrow> nat \<Rightarrow> DataCenterResourceBuilder list \<times> int \<Rightarrow> stop + DataCenterResourceBuilder list \<times> int" where
  "assign_children pref m 0 (dcrBuilders, childId) = Inr (dcrBuilders, childId)"
| "assign_children pref m (Suc k) (dcrBuilders, childId) =
     (case slice_get dcrBuilders childId of
        Inl s \<Rightarrow> Inl s
      | Inr b \<Rightarrow>
          assign_children pref m k (dcrBuilders[nat childId := AddParent pref b], (childId + 1) mod m))"

fun assign_parents ::
    "int \<Rightarrow> int \<Rightarrow> DataCenterResource list \<Rightarrow> DataCenterResourceBuilder list \<times> int
      \<Rightarrow> stop + DataCenterResourceBuilder list \<times> int" where
  "assign_parents expansionRate m [] s = Inr s"
| "assign_parents expansionRate m (dcr # dcrs) s =
     (case assign_children (parent_ref expansionRate dcr) m (nat expansionRate) s of
        Inl e \<Rightarrow> Inl e
      | Inr s' \<Rightarrow> assign_parents expansionRate m dcrs s')"

definition new_child :: "chance \<Rightarrow> string \<Rightarrow> int \<Rightarrow> int \<Rightarrow> DataCenterResourceBuilder" where
  "new_child C namespace n i =
     SetType ''baremetal'' (SetNamespace namespace (SetName C (i + n) NewDataCenterResourceBuilder))"

definition generateDcFirstLayer ::
    "chance \<Rightarrow> string \<Rightarrow> DataCenterResource list \<Rightarrow> int \<Rightarrow> stop + DataCenterResource list" where
  "generateDcFirstLayer C namespace rootDCRS expansionRate =
     (let n = int (length rootDCRS); m = wrap64 (n * wrap64 (expansionRate - 1)) in
      case make_slice C m of
        Some s \<Rightarrow> Inl s
      | None \<Rightarrow>
          (case assign_parents expansionRate m rootDCRS (map (new_child C namespace n) (int_range m), 0) of
             Inl s \<Rightarrow> Inl s
           | Inr (dcrBuilders, childId) \<Rightarrow> Inr (map Build dcrBuilders)))"

definition generateDataCenterResources ::
    "chance \<Rightarrow> string \<Rightarrow> MeasurementDevicePhysicalMeasurementCombination list \<Rightarrow> int
      \<Rightarrow> stop + DataCenterResource list" where
  "generateDataCenterResources C namespace mdPmCombinations expansionRate =
     (case generateDcRootLayer C namespace mdPmCombinations of
        Inl s \<Rightarrow> Inl s
      | Inr rootDCRS \<Rightarrow>
          (case generateDcFirstLayer C namespace rootDCRS expansionRate of
             Inl s \<Rightarrow> Inl s
           | Inr dcrs \<Rightarrow> Inr (rootDCRS @ dcrs)))"

section \<open>The shape of the first layer\<close>

definition hand :: "nat \<Rightarrow> nat \<times> ParentRef \<Rightarrow> DataCenterResourceBuilder list \<Rightarrow> DataCenterResourceBuilder list" where
  "hand m = (\<lambda>(k, p) bs. bs[k mod m := AddParent p (bs ! (k mod m))])"

lemma hand_length [simp]: "length (hand m e bs) = length bs" "length (fold (hand m) es bs) = length bs"
proof -
  show one: "length (hand m e bs) = length bs" for e bs by (simp add: hand_def split: prod.splits)
  show "length (fold (hand m) es bs) = length bs" by (induction es arbitrary: bs) (simp_all add: one)
qed

text \<open>Handing out a list of numbered references appends to child \<open>j\<close> those whose number is \<open>j\<close> modulo \<open>m\<close>.\<close>

lemma hand_nth:
  assumes "length bs = m" and "j < m"
  shows "fold (hand m) es bs ! j =
    (bs ! j)\<lparr>b_Parents := b_Parents (bs ! j) @ map snd (filter (\<lambda>e. fst e mod m = j) es)\<rparr>"
  using assms(1)
proof (induction es arbitrary: bs)
  case (Cons e es)
  have "hand m e bs ! j =
      (bs ! j)\<lparr>b_Parents := b_Parents (bs ! j) @ (if fst e mod m = j then [snd e] else [])\<rparr>"
    using Cons.prems assms(2) by (auto simp: hand_def AddParent_def nth_list_update split: prod.splits)
  with Cons show ?case by auto
qed simp

lemma assign_children_hand:
  assumes "0 < m"
  shows "length bs = m \<Longrightarrow> assign_children p (int m) t (bs, int (K mod m)) =
    Inr (fold (hand m) (map (\<lambda>k. (k, p)) [K..<K + t]) bs, int ((K + t) mod m))"
proof (induction t arbitrary: bs K)
  case (Suc t)
  have next_id: "(int (K mod m) + 1) mod int m = int (Suc K mod m)"
    by (metis mod_Suc_eq of_nat_Suc of_nat_mod add.commute)
  have "slice_get bs (int (K mod m)) = Inr (bs ! (K mod m))" using assms Suc.prems by (simp add: slice_get_def)
  then have "assign_children p (int m) (Suc t) (bs, int (K mod m)) =
      assign_children p (int m) t (hand m (K, p) bs, int (Suc K mod m))"
    by (simp add: next_id hand_def)
  also have "\<dots> = Inr (fold (hand m) (map (\<lambda>k. (k, p)) [Suc K..<Suc K + t]) (hand m (K, p) bs), int ((Suc K + t) mod m))"
    using Suc.IH [of "hand m (K, p) bs" "Suc K"] Suc.prems by simp
  also have "[K..<K + Suc t] = K # [Suc K..<Suc K + t]" by (simp add: upt_conv_Cons)
  then have "fold (hand m) (map (\<lambda>k. (k, p)) [Suc K..<Suc K + t]) (hand m (K, p) bs) =
      fold (hand m) (map (\<lambda>k. (k, p)) [K..<K + Suc t]) bs" by simp
  finally show ?case by simp
qed simp

fun edges :: "int \<Rightarrow> nat \<Rightarrow> DataCenterResource list \<Rightarrow> (nat \<times> ParentRef) list" where
  "edges r K [] = []"
| "edges r K (d # ds) = map (\<lambda>k. (k, parent_ref r d)) [K..<K + nat r] @ edges r (K + nat r) ds"

lemma assign_parents_hand:
  assumes "0 < m"
  shows "length bs = m \<Longrightarrow> \<exists>c. assign_parents r (int m) ds (bs, int (K mod m)) = Inr (fold (hand m) (edges r K ds) bs, c)"
proof (induction ds arbitrary: bs K)
  case (Cons d ds)
  show ?case
    using Cons.IH [of "fold (hand m) (map (\<lambda>k. (k, parent_ref r d)) [K..<K + nat r]) bs" "K + nat r"]
    by (simp add: assign_children_hand [OF assms Cons.prems] Cons.prems)
qed simp

lemma edges_closed:
  assumes "0 < r"
  shows "edges r K ds = map (\<lambda>k. (k, parent_ref r (ds ! ((k - K) div nat r)))) [K..<K + length ds * nat r]"
proof (induction ds arbitrary: K)
  case (Cons d ds)
  have "[K..<K + length (d # ds) * nat r] = [K..<K + nat r] @ [K + nat r..<K + nat r + length ds * nat r]"
    using upt_add_eq_append [of K "K + nat r" "length ds * nat r"] by (simp add: add.assoc)
  moreover have "map (\<lambda>k. (k, parent_ref r ((d # ds) ! ((k - K) div nat r)))) [K..<K + nat r] =
      map (\<lambda>k. (k, parent_ref r d)) [K..<K + nat r]"
    by (rule map_cong) auto
  moreover have "map (\<lambda>k. (k, parent_ref r ((d # ds) ! ((k - K) div nat r)))) [K + nat r..<K + nat r + length ds * nat r] =
      map (\<lambda>k. (k, parent_ref r (ds ! ((k - (K + nat r)) div nat r)))) [K + nat r..<K + nat r + length ds * nat r]"
  proof (rule map_cong)
    fix k assume "k \<in> set [K + nat r..<K + nat r + length ds * nat r]"
    then have "k - K = (k - (K + nat r)) + nat r" by auto
    then have "(k - K) div nat r = Suc ((k - (K + nat r)) div nat r)"
      using div_add_self2 [of "nat r" "k - (K + nat r)"] assms by (simp only: Suc_eq_plus1 add.commute)
    then show "(k, parent_ref r ((d # ds) ! ((k - K) div nat r))) = (k, parent_ref r (ds ! ((k - (K + nat r)) div nat r)))"
      by simp
  qed simp
  ultimately show ?case using Cons.IH [of "K + nat r"] by simp
qed simp

lemma wrap64_id: "- (2 ^ 63) \<le> i \<Longrightarrow> i < 2 ^ 63 \<Longrightarrow> wrap64 i = i"
  by (simp add: wrap64_def signed_of_int signed_take_bit_int_eq_self)

text \<open>The children the documentation describes: the references, numbered root by root, go round the children.\<close>

definition layer_child :: "chance \<Rightarrow> string \<Rightarrow> DataCenterResource list \<Rightarrow> int \<Rightarrow> nat \<Rightarrow> DataCenterResource" where
  "layer_child C namespace roots r j =
     Build ((new_child C namespace (int (length roots)) (int j))\<lparr>b_Parents :=
       map (\<lambda>k. parent_ref r (roots ! (k div nat r)))
         (filter (\<lambda>k. k mod (length roots * nat (r - 1)) = j) [0..<length roots * nat r])\<rparr>)"

text \<open>
  With an expansion rate of at least two, \<open>generateDcFirstLayer\<close> returns exactly these children, and no index
  of its loops is out of range.
\<close>

lemma first_layer:
  assumes r: "2 \<le> r" and room: "int (length roots) * (r - 1) \<le> room C" "room C < 2 ^ 63"
  shows "generateDcFirstLayer C namespace roots r =
    Inr (map (layer_child C namespace roots r) [0..<length roots * nat (r - 1)])"
proof (cases "roots = []")
  case True
  then show ?thesis using room
    by (simp add: generateDcFirstLayer_def make_slice_def int_range_def wrap64_id)
next
  case False
  define m where "m = length roots * nat (r - 1)"
  have "1 \<le> int (length roots)" using False by (cases roots) simp_all
  then have "1 * (r - 1) \<le> int (length roots) * (r - 1)" using r by (intro mult_right_mono) simp_all
  then have small: "r - 1 \<le> room C" using room(1) by (metis mult_1 order_trans)
  then have "wrap64 (r - 1) = r - 1" using r room by (intro wrap64_id) simp_all
  moreover have m_int: "int m = int (length roots) * (r - 1)" using r by (simp add: m_def)
  then have "wrap64 (int (length roots) * (r - 1)) = int m" using room r by (subst wrap64_id) simp_all
  ultimately have m: "wrap64 (int (length roots) * wrap64 (r - 1)) = int m" by simp
  have pos: "0 < m" using False r by (simp add: m_def)
  have fits: "make_slice C (int m) = None" using room m_int by (simp add: make_slice_def)
  define bs where "bs = map (new_child C namespace (int (length roots))) (int_range (int m))"
  have len: "length bs = m" by (simp add: bs_def int_range_def)
  obtain c where run: "assign_parents r (int m) roots (bs, 0) = Inr (fold (hand m) (edges r 0 roots) bs, c)"
    using assign_parents_hand [OF pos len, of r roots 0] by auto
  have "map Build (fold (hand m) (edges r 0 roots) bs) = map (layer_child C namespace roots r) [0..<m]"
  proof (rule nth_equalityI)
    fix j assume "j < length (map Build (fold (hand m) (edges r 0 roots) bs))"
    then have "j < m" by (simp add: len)
    then have "bs ! j = new_child C namespace (int (length roots)) (int j)" "b_Parents (bs ! j) = []"
      by (simp_all add: bs_def int_range_def new_child_def SetType_def SetNamespace_def SetName_def
          NewDataCenterResourceBuilder_def)
    with \<open>j < m\<close> r show "map Build (fold (hand m) (edges r 0 roots) bs) ! j = map (layer_child C namespace roots r) [0..<m] ! j"
      by (simp add: len hand_nth edges_closed filter_map comp_def layer_child_def m_def)
  qed (simp add: len)
  then show ?thesis
    by (simp add: generateDcFirstLayer_def m fits bs_def [symmetric] run m_def [symmetric])
qed

section \<open>Names\<close>

lemma last_segment: "c \<notin> set t \<Longrightarrow> last (strings_Split (s @ c # t) c) = t"
  by (simp add: strings_Split_append strings_Split_plain)

lemma stress_name_index:
  assumes "stress_name p t i = stress_name q u j" and "0 \<le> i" and "0 \<le> j"
  shows "i = j"
proof -
  have digits: "CHR ''-'' \<notin> set (strconv_Itoa k)" if "0 \<le> k" for k
    using nat_decimal_digits [of "nat k"] that by (auto simp: strconv_Itoa_def list_all_iff)
  have seg: "last (strings_Split (stress_name p t k) (CHR ''-'')) = strconv_Itoa k" if "0 \<le> k" for p t k
    using last_segment [OF digits [OF that], of "p @ ''-'' @ strconv_Itoa t"] by (simp add: stress_name_def)
  then have "strconv_Itoa i = strconv_Itoa j" using assms by metis
  with assms(2,3) show ?thesis by (simp add: strconv_Itoa_def)
qed

section \<open>The generated graph\<close>

lemma collect_ok:
  "(\<And>x. x \<in> set xs \<Longrightarrow> \<exists>y. f x = Inr y) \<Longrightarrow> \<exists>ys. collect f xs = Inr ys"
  by (induction xs) (fastforce split: sum.splits)+

lemma collect_nth:
  "collect f xs = Inr ys \<Longrightarrow> length ys = length xs \<and> (\<forall>i < length xs. f (xs ! i) = Inr (ys ! i))"
proof (induction xs arbitrary: ys)
  case (Cons x xs)
  then obtain y zs where "f x = Inr y" "collect f xs = Inr zs" "ys = y # zs" by (auto split: sum.splits)
  with Cons.IH [of zs] show ?case by (auto simp: nth_Cons split: nat.splits)
qed simp

lemma live_distinct:
  assumes "distinct (map dcr_Name ds)" and "d \<in> set ds"
    and "\<And>e. e \<in> set ds \<Longrightarrow> meta_DeletionTimestamp (dcr_Meta e) = None"
  shows "fmlookup (live ds) (dcr_Name d) = Some d"
proof -
  have other: "x \<notin> dcr_Name ` set es \<Longrightarrow> fmlookup (live_map es acc) x = fmlookup acc x" for x es acc
    by (induction es arbitrary: acc) auto
  have "distinct (map dcr_Name es) \<Longrightarrow> d \<in> set es \<Longrightarrow> set es \<subseteq> set ds \<Longrightarrow>
      fmlookup (live_map es acc) (dcr_Name d) = Some d" for es acc
  proof (induction es arbitrary: acc)
    case (Cons e es)
    then show ?case using assms(3) [of e] by (auto simp: other)
  qed simp
  with assms(1,2) show ?thesis by (simp add: live_def)
qed

text \<open>A resource whose parents are listed resources without parents is accepted.\<close>

lemma two_layers_accepted:
  assumes names: "distinct (map dcr_Name ds)" and "d \<in> set ds"
    and alive: "\<And>e. e \<in> set ds \<Longrightarrow> meta_DeletionTimestamp (dcr_Meta e) = None"
    and roots: "\<And>n. n \<in> set (ParentNames (dcr_Spec d)) \<Longrightarrow>
      \<exists>e \<in> set ds. dcr_Name e = n \<and> ParentNames (dcr_Spec e) = [] \<and> e \<noteq> d"
  shows "snd (snd (validateGraph d ds pms)) = None"
proof -
  note look = live_distinct [OF names _ alive]
  let ?ps = "ParentNames (dcr_Spec d)"
  have parent: "\<exists>e. fmlookup (live ds) n = Some e \<and> ParentNames (dcr_Spec e) = [] \<and> n \<noteq> dcr_Name d"
    if n: "n \<in> set ?ps" for n
  proof -
    obtain e where "e \<in> set ds" "dcr_Name e = n" "ParentNames (dcr_Spec e) = []" "e \<noteq> d" using roots [OF n] by blast
    then show ?thesis using look [of e] look [OF assms(2)] by auto
  qed
  have "set (parents_in (live ds) n) \<subseteq> set ?ps" if "n \<in> set ?ps" for n
    using parent [OF that] by (auto simp: parents_in_def)
  then have "ancestors (live ds) ?ps = set ?ps"
    by (intro equalityI ancestors_base ancestors_least order_refl)
  moreover have "self_current d ds" using look [OF assms(2)] by (simp add: self_current_def)
  moreover have "\<forall>a \<in> set ?ps. a |\<in>| fmdom (live ds)" using parent by (meson fmdomI)
  moreover have "dcr_Name d \<notin> set ?ps" using parent by blast
  ultimately show ?thesis using validateGraph_accepts [of d ds pms] by (simp only: simp_thms)
qed

text \<open>The root layer: one resource per measurement, without parents, metered by a walk of its device.\<close>

lemma root_layer:
  assumes walks: "\<And>c. c \<in> set combs \<Longrightarrow> mspec_Walks (md_Spec (comb_MeasurementDevice c)) \<noteq> []"
    and draws: "\<And>i n. 0 < n \<Longrightarrow> 0 \<le> draw_walk C i n \<and> draw_walk C i n < n"
  obtains roots where "generateDcRootLayer C namespace combs = Inr roots" and "length roots = length combs"
    and "\<And>i. i < length combs \<Longrightarrow> \<exists>walk \<in> set (mspec_Walks (md_Spec (comb_MeasurementDevice (combs ! i)))).
      roots ! i = Build (SetNamespace namespace (SetType ''pdu'' (SetName C (int i)
        (AddEnergyMetric walk (pm_Name (comb_PhysicalMeasurements (combs ! i))) NewDataCenterResourceBuilder))))"
proof -
  have one: "\<exists>walk \<in> set (mspec_Walks (md_Spec (comb_MeasurementDevice c))). root_of C namespace (i, c) =
      Inr (Build (SetNamespace namespace (SetType ''pdu'' (SetName C (int i)
        (AddEnergyMetric walk (pm_Name (comb_PhysicalMeasurements c)) NewDataCenterResourceBuilder)))))"
    if "c \<in> set combs" for i c
  proof -
    let ?ws = "mspec_Walks (md_Spec (comb_MeasurementDevice c))"
    have "0 \<le> draw_walk C (int i) (int (length ?ws))" "draw_walk C (int i) (int (length ?ws)) < int (length ?ws)"
      using draws [of "int (length ?ws)" "int i"] walks [OF that] by simp_all
    then show ?thesis using walks [OF that]
      by (intro bexI [of _ "?ws ! nat (draw_walk C (int i) (int (length ?ws)))"])
        (simp_all add: root_of_def rand_Intn_def slice_get_def nat_less_iff Let_def)
  qed
  have "\<exists>y. root_of C namespace x = Inr y" if "x \<in> set (enumerate 0 combs)" for x
    using that one [of "snd x" "fst x"] nth_mem [of "fst x" combs] by (auto simp: in_set_enumerate_eq)
  then obtain roots where run: "generateDcRootLayer C namespace combs = Inr roots"
    using collect_ok [of "enumerate 0 combs" "root_of C namespace"] by (auto simp: generateDcRootLayer_def)
  note at = collect_nth [OF run [unfolded generateDcRootLayer_def]]
  show thesis
  proof (rule that [OF run])
    show "length roots = length combs" using at by simp
    fix i assume "i < length combs"
    then have "root_of C namespace (i, combs ! i) = Inr (roots ! i)" using at by (simp add: nth_enumerate_eq)
    with one [of "combs ! i" i] \<open>i < length combs\<close>
    show "\<exists>walk \<in> set (mspec_Walks (md_Spec (comb_MeasurementDevice (combs ! i)))).
      roots ! i = Build (SetNamespace namespace (SetType ''pdu'' (SetName C (int i)
        (AddEnergyMetric walk (pm_Name (comb_PhysicalMeasurements (combs ! i))) NewDataCenterResourceBuilder))))"
      by auto
  qed
qed

lemmas builder_defs = Build_def SetNamespace_def SetType_def SetName_def AddEnergyMetric_def
  NewDataCenterResourceBuilder_def stress_meta_def zero_DataCenterResource_def zero_ObjectMeta_def

lemma layer_child_simps:
  "dcr_Name (layer_child C namespace roots r j) = stress_name ''stresstest-dcr'' (dcr_now C (int j + int (length roots))) (int j + int (length roots))"
  "meta_DeletionTimestamp (dcr_Meta (layer_child C namespace roots r j)) = None"
  "dspec_Type (dcr_Spec (layer_child C namespace roots r j)) = ''baremetal''"
  "dspec_AdditionalLabels (dcr_Spec (layer_child C namespace roots r j)) = None"
  "dspec_Parents (dcr_Spec (layer_child C namespace roots r j)) =
     map (\<lambda>k. parent_ref r (roots ! (k div nat r)))
       (filter (\<lambda>k. k mod (length roots * nat (r - 1)) = j) [0..<length roots * nat r])"
  by (simp_all add: layer_child_def new_child_def builder_defs)

lemma first_reference:
  assumes "2 \<le> r" and "j < n * nat (r - 1)"
  shows "filter (\<lambda>k. k mod (n * nat (r - 1)) = j) [0..<n * nat r] \<noteq> []"
proof -
  have "n * nat (r - 1) \<le> n * nat r" using assms(1) by (intro mult_le_mono2) simp
  then have "j < n * nat r" using assms(2) by (rule less_le_trans [rotated])
  then have "j \<in> set (filter (\<lambda>k. k mod (n * nat (r - 1)) = j) [0..<n * nat r])" using assms(2) by simp
  then show ?thesis by (metis empty_iff empty_set)
qed

lemma reference_root: "0 < r \<Longrightarrow> k < n * nat r \<Longrightarrow> k div nat r < n"
  by (metis less_mult_imp_div_less mult.commute)

text \<open>The two layers together: distinct names, live, and references to roots only.\<close>

lemma two_layers:
  assumes r: "2 \<le> r"
    and roots: "\<And>i. i < length roots \<Longrightarrow> dcr_Name (roots ! i) = stress_name ''stresstest-dcr'' (dcr_now C (int i)) (int i)
      \<and> meta_DeletionTimestamp (dcr_Meta (roots ! i)) = None \<and> dspec_Parents (dcr_Spec (roots ! i)) = []"
    and ds_def: "ds = roots @ map (layer_child C namespace roots r) [0..<length roots * nat (r - 1)]"
  shows "distinct (map dcr_Name ds)" and "d \<in> set ds \<Longrightarrow> snd (snd (validateGraph d ds pms)) = None"
proof -
  let ?n = "length roots" and ?m = "length roots * nat (r - 1)"
  have name: "\<exists>t. dcr_Name (ds ! i) = stress_name ''stresstest-dcr'' t (int i)" if "i < ?n + ?m" for i
    using that roots [of i] by (auto simp: ds_def nth_append layer_child_simps)
  have len: "length ds = ?n + ?m" by (simp add: ds_def)
  show names: "distinct (map dcr_Name ds)"
    unfolding distinct_conv_nth length_map len
  proof (intro allI impI notI)
    fix i j assume "i < ?n + ?m" "j < ?n + ?m" "i \<noteq> j" "map dcr_Name ds ! i = map dcr_Name ds ! j"
    moreover from this obtain t u where "dcr_Name (ds ! i) = stress_name ''stresstest-dcr'' t (int i)"
      "dcr_Name (ds ! j) = stress_name ''stresstest-dcr'' u (int j)" using name by blast
    ultimately have "int i = int j" using len stress_name_index [of _ t "int i" _ u "int j"] by simp
    with \<open>i \<noteq> j\<close> show False by simp
  qed
  have alive: "meta_DeletionTimestamp (dcr_Meta e) = None" if "e \<in> set ds" for e
    using that roots by (auto simp: ds_def layer_child_simps in_set_conv_nth)
  assume d: "d \<in> set ds"
  show "snd (snd (validateGraph d ds pms)) = None"
  proof (rule two_layers_accepted [OF names d alive])
    fix x assume x: "x \<in> set (ParentNames (dcr_Spec d))"
    then have "d \<notin> set roots" using roots by (auto simp: in_set_conv_nth)
    with d obtain j where "d = layer_child C namespace roots r j" by (auto simp: ds_def)
    with x r obtain k where k: "x = dcr_Name (roots ! (k div nat r))" "k < ?n * nat r"
      by (auto simp: layer_child_simps parent_ref_def)
    then have "roots ! (k div nat r) \<in> set roots" "k div nat r < ?n" using reference_root [of r k ?n] r by simp_all
    with k roots \<open>d \<notin> set roots\<close>
    show "\<exists>e \<in> set ds. dcr_Name e = x \<and> ParentNames (dcr_Spec e) = [] \<and> e \<noteq> d"
      by (intro bexI [of _ "roots ! (k div nat r)"]) (auto simp: ds_def)
  qed
qed

lemma Validate_of_graph:
  assumes "snd (snd (validateGraph d ds pms)) = None" and "dspec_AdditionalLabels (dcr_Spec d) = None"
    and "dspec_Type (dcr_Spec d) \<in> {''pdu'', ''baremetal''}"
  shows "snd (snd (Validate valid order d ds pms)) = None"
  using assms validateResourceType_None_iff [of d]
  by (auto simp: Validate_def validators_def validateAdditionalLabelNames_def split: prod.splits option.splits)

text \<open>
  Every generated graph is one the operator accepts: whatever walks and times are drawn, the generator
  returns \<open>rate\<close> resources per measurement with pairwise different names, each of them passes
  \<open>Validate\<close> in a cluster that holds them all, and each has a parent or is the resource of a measurement,
  metered by one of the walks of its device.
\<close>

lemma graph_valid:
  assumes walks: "\<And>c. c \<in> set combs \<Longrightarrow> mspec_Walks (md_Spec (comb_MeasurementDevice c)) \<noteq> []"
    and draws: "\<And>i n. 0 < n \<Longrightarrow> 0 \<le> draw_walk C i n \<and> draw_walk C i n < n"
    and r: "2 \<le> r" and room: "int (length combs) * (r - 1) \<le> room C" "room C < 2 ^ 63"
  shows "\<exists>ds. generateDataCenterResources C namespace combs r = Inr ds \<and>
    length ds = length combs * nat r \<and> distinct (map dcr_Name ds) \<and>
    (\<forall>d \<in> set ds. snd (snd (Validate valid order d ds pms)) = None \<and>
       (dspec_Parents (dcr_Spec d) \<noteq> [] \<or>
        (\<exists>c \<in> set combs. dspec_PhysicalMeasurements (dcr_Spec d) = [pm_Name (comb_PhysicalMeasurements c)] \<and>
           dspec_EnergyMetric (dcr_Spec d) \<in> set (mspec_Walks (md_Spec (comb_MeasurementDevice c))))))"
proof -
  obtain roots where gen: "generateDcRootLayer C namespace combs = Inr roots" and len: "length roots = length combs"
    and root: "\<And>i. i < length combs \<Longrightarrow> \<exists>walk \<in> set (mspec_Walks (md_Spec (comb_MeasurementDevice (combs ! i)))).
      roots ! i = Build (SetNamespace namespace (SetType ''pdu'' (SetName C (int i)
        (AddEnergyMetric walk (pm_Name (comb_PhysicalMeasurements (combs ! i))) NewDataCenterResourceBuilder))))"
    using root_layer [OF walks draws] by blast
  define ds where "ds = roots @ map (layer_child C namespace roots r) [0..<length roots * nat (r - 1)]"
  have run: "generateDataCenterResources C namespace combs r = Inr ds"
    using first_layer [of r roots C namespace] r room
    by (simp add: generateDataCenterResources_def gen len ds_def)
  have rootless: "dcr_Name (roots ! i) = stress_name ''stresstest-dcr'' (dcr_now C (int i)) (int i)
      \<and> meta_DeletionTimestamp (dcr_Meta (roots ! i)) = None \<and> dspec_Parents (dcr_Spec (roots ! i)) = []"
    if "i < length roots" for i
    using root [of i] that len by (auto simp: builder_defs)
  note layers = two_layers [OF r rootless ds_def]
  have kind: "dspec_Type (dcr_Spec d) \<in> {''pdu'', ''baremetal''} \<and> dspec_AdditionalLabels (dcr_Spec d) = None"
    if "d \<in> set ds" for d
    using that root len by (fastforce simp: ds_def layer_child_simps builder_defs in_set_conv_nth)
  have "snd (snd (Validate valid order d ds pms)) = None" if "d \<in> set ds" for d
    using layers(2) [OF _ that] kind [OF that] by (intro Validate_of_graph) auto
  moreover have "dspec_Parents (dcr_Spec d) \<noteq> [] \<or>
      (\<exists>c \<in> set combs. dspec_PhysicalMeasurements (dcr_Spec d) = [pm_Name (comb_PhysicalMeasurements c)] \<and>
         dspec_EnergyMetric (dcr_Spec d) \<in> set (mspec_Walks (md_Spec (comb_MeasurementDevice c))))"
    if "d \<in> set ds" for d
  proof (cases "d \<in> set roots")
    case True
    then obtain i where "i < length combs" "d = roots ! i" using len by (auto simp: in_set_conv_nth)
    then show ?thesis using root [of i] by (auto simp: builder_defs intro!: bexI [of _ "combs ! i"])
  next
    case False
    with that obtain j where "d = layer_child C namespace roots r j" "j < length roots * nat (r - 1)"
      by (auto simp: ds_def)
    then show ?thesis using first_reference [OF r] by (simp add: layer_child_simps del: filter_empty_conv)
  qed
  moreover have "nat r = Suc (nat (r - 1))" using r by simp
  then have "length ds = length combs * nat r" by (simp add: ds_def len)
  ultimately show ?thesis using run layers(1) by blast
qed

section \<open>Properties of the generated resources\<close>

definition ex_chance :: chance where
  "ex_chance = \<lparr>room = 2 ^ 40, md_now = (\<lambda>i. 1700000000), pm_now = (\<lambda>i. 1700000000), dcr_now = (\<lambda>i. 1700000000),
     draw_count = (\<lambda>i n. n - 1), draw_perm = (\<lambda>i n. int_range n), draw_ip = (\<lambda>i n. 0), draw_walk = (\<lambda>i n. 0)\<rparr>"

text \<open>
  Property C36: an expansion rate of one, which asks for no resource beyond the measurements' own, crashes the
  generator: there are no children, but the loop still hands each root to the first of them. A rate below
  one asks \<open>make\<close> for a negative capacity. Either way nothing is generated.
\<close>

theorem expansion_rate_one_panics:
  assumes "r \<le> 1" and "roots \<noteq> []" and "- (2 ^ 63) \<le> int (length roots) * (r - 1)" and "0 \<le> room C"
  shows "generateDcFirstLayer C namespace roots r =
    Inl (RuntimePanic (if r = 1 then ''index out of range'' else ''makeslice: cap out of range''))"
proof -
  have n: "1 \<le> int (length roots)" using assms(2) by (cases roots) simp_all
  then have "int (length roots) * (r - 1) \<le> 1 * (r - 1)" using assms(1) by (intro mult_right_mono_neg) simp_all
  then have le: "int (length roots) * (r - 1) \<le> r - 1" by simp
  have big: "0 < (2::int) ^ 63" by simp
  have "wrap64 (r - 1) = r - 1" using le big assms(1,3) by (intro wrap64_id) linarith+
  moreover have "wrap64 (int (length roots) * (r - 1)) = int (length roots) * (r - 1)"
    using le big assms(1,3) by (intro wrap64_id) linarith+
  ultimately have m: "wrap64 (int (length roots) * wrap64 (r - 1)) = int (length roots) * (r - 1)" by simp
  show ?thesis
  proof (cases "r = 1")
    case True
    then show ?thesis using assms(2,4) m
      by (cases roots) (simp_all add: generateDcFirstLayer_def make_slice_def int_range_def slice_get_def)
  next
    case False
    then have "int (length roots) * (r - 1) < 0" using le assms(1) by linarith
    then show ?thesis using False by (simp add: generateDcFirstLayer_def m make_slice_def)
  qed
qed

theorem expansion_rate_one_panics_witness:
  "generateDcFirstLayer ex_chance ''chantico'' [ex_pdu] 1 = Inl (RuntimePanic ''index out of range'')"
  using expansion_rate_one_panics [of 1 "[ex_pdu]" ex_chance "''chantico''"] by (simp add: ex_chance_def)

section \<open>The shares of a root\<close>

lemma mset_by_residue:
  assumes "\<And>k. k \<in> set xs \<Longrightarrow> f k < m"
  shows "mset (concat (map (\<lambda>j. filter (\<lambda>k. f k = j) xs) [0..<m])) = mset xs"
  using assms
proof (induction xs)
  case (Cons x xs)
  have "mset (concat (map (\<lambda>j. filter (\<lambda>k. f k = j) (x # xs)) [0..<m])) =
      (\<Sum>j \<in> {0..<m}. (if f x = j then {#x#} else {#}) + mset (filter (\<lambda>k. f k = j) xs))"
    by (simp add: mset_concat interv_sum_list_conv_sum_set_nat comp_def if_distrib cong: if_cong)
      (rule sum.cong, auto)
  also have "\<dots> = {#x#} + (\<Sum>j \<in> {0..<m}. mset (filter (\<lambda>k. f k = j) xs))"
    using Cons.prems [of x] by (simp add: sum.distrib)
  also have "(\<Sum>j \<in> {0..<m}. mset (filter (\<lambda>k. f k = j) xs)) = mset xs"
    using Cons by (simp add: mset_concat interv_sum_list_conv_sum_set_nat comp_def)
  finally show ?case by simp
qed simp

lemma residues_of_root:
  assumes "0 < (r::nat)" and "i < n"
  shows "length (filter (\<lambda>k. k div r = i) [0..<n * r]) = r"
proof -
  have "i * r + r \<le> n * r" using mult_le_mono1 [of "Suc i" n r] assms(2) by simp
  moreover have "k div r = i \<longleftrightarrow> i * r \<le> k \<and> k < i * r + r" for k
  proof -
    have "k div r = i \<longleftrightarrow> i \<le> k div r \<and> k div r < Suc i" by auto
    also have "\<dots> \<longleftrightarrow> i * r \<le> k \<and> k < Suc i * r"
      by (simp only: less_eq_div_iff_mult_less_eq [OF assms(1)] div_less_iff_less_mult [OF assms(1)])
    finally show ?thesis by (simp add: add.commute)
  qed
  ultimately have "{k. k < n * r \<and> k div r = i} = {i * r..<i * r + r}"
    by (simp add: set_eq_iff) (meson less_le_trans)
  then show ?thesis
    using distinct_card [of "filter (\<lambda>k. k div r = i) [0..<n * r]"] by (simp add: conj_commute)
qed


lemma share_half: "share_text 2 = ''0.500000''"
proof -
  have "bit_count 2 = 2" "bit_count 1 = 1" by (simp_all add: bit_count.simps)
  then have "float64_of 2 = 2" "bit_count (Suc 0) = 1" by (simp_all add: float64_of_def round_even_def)
  then have "millionths 2 = 500000" by (simp add: millionths_def round_even_def)
  then show ?thesis by (simp add: share_text_def six_digits_def nat_decimal.simps digit_char_def char_of_def bit_0)
qed


end
