(* ===== verification/Stress_Run.thy ===== *)
theory Stress_Run
  imports Stresstest
begin

text \<open>
  The load generator as a program: the walks it finds in a MIB file, the resources of a whole run, and
  \<open>main\<close>, which asks for consent and then creates the resources or deletes those of former runs. The
  Kubernetes client is a parameter (record \<open>cluster_api\<close>); the locale \<open>object_api\<close> states what the API
  server promises of listing, creating and deleting. Log lines and delays have no effect on the model.
\<close>

section \<open>The regular expression of parseMIB\<close>

definition name_rexp :: rexp where
  "name_rexp = RPlus (RChar name_char)"

definition space_rexp :: rexp where
  "space_rexp = RPlus (RChar perl_space)"

lemma space_not_name: "perl_space c \<Longrightarrow> \<not> name_char c"
  by (auto simp: perl_space_def name_char_def is_digit_def)

text \<open>The hand-written matcher finds exactly the matches of the expression, and the group is determined by the line.\<close>

lemma object_type_name_iff:
  "object_type_name line = Some name \<longleftrightarrow>
     (\<exists>space rest. line = name @ space @ ''OBJECT-TYPE'' @ rest \<and> accepts name_rexp name \<and> accepts space_rexp space)"
proof
  let ?r = "dropWhile name_char line"
  assume "object_type_name line = Some name"
  then have name: "name = takeWhile name_char line" "name \<noteq> []" and sp: "dropWhile perl_space ?r \<noteq> ?r"
    and pre: "strings_HasPrefix (dropWhile perl_space ?r) ''OBJECT-TYPE''"
    by (auto simp: object_type_name_def Let_def split: if_splits)
  obtain rest where "dropWhile perl_space ?r = ''OBJECT-TYPE'' @ rest" using pre by (auto simp: strings_HasPrefix_iff)
  then have "line = name @ takeWhile perl_space ?r @ ''OBJECT-TYPE'' @ rest" using name(1) by (metis takeWhile_dropWhile_id)
  moreover have "takeWhile perl_space ?r \<noteq> []" using sp by (metis append_Nil takeWhile_dropWhile_id)
  moreover have "list_all name_char name" "list_all perl_space (takeWhile perl_space ?r)"
    unfolding name(1) list_all_iff by (auto dest: set_takeWhileD)
  ultimately show "\<exists>space rest. line = name @ space @ ''OBJECT-TYPE'' @ rest \<and> accepts name_rexp name \<and> accepts space_rexp space"
    using name(2) by (auto simp: name_rexp_def space_rexp_def accepts_plus_char)
next
  assume "\<exists>space rest. line = name @ space @ ''OBJECT-TYPE'' @ rest \<and> accepts name_rexp name \<and> accepts space_rexp space"
  then obtain space rest where line: "line = name @ space @ ''OBJECT-TYPE'' @ rest"
    and name: "name \<noteq> []" "list_all name_char name" and space: "space \<noteq> []" "list_all perl_space space"
    by (auto simp: name_rexp_def space_rexp_def accepts_plus_char)
  have "\<not> name_char (hd space)" using space by (cases space) (auto dest: space_not_name)
  then have "takeWhile name_char line = name" "dropWhile name_char line = space @ ''OBJECT-TYPE'' @ rest"
    using line name space(1) by (cases space; simp add: list_all_iff takeWhile_append2 dropWhile_append2)+
  moreover have "dropWhile perl_space (space @ ''OBJECT-TYPE'' @ rest) = ''OBJECT-TYPE'' @ rest"
    using space(2) by (simp add: list_all_iff dropWhile_append2 perl_space_def)
  ultimately show "object_type_name line = Some name"
    using name(1) space(1) by (simp add: object_type_name_def strings_HasPrefix_def)
qed

section \<open>The resources of a run\<close>

text \<open>What Go promises of the random numbers.\<close>

definition fair :: "chance \<Rightarrow> bool" where
  "fair C \<longleftrightarrow>
     (\<forall>i n. 0 < n \<longrightarrow> 0 \<le> draw_count C i n \<and> draw_count C i n < n) \<and>
     (\<forall>i n. 0 < n \<longrightarrow> 0 \<le> draw_ip C i n \<and> draw_ip C i n < n) \<and>
     (\<forall>i n. 0 < n \<longrightarrow> 0 \<le> draw_walk C i n \<and> draw_walk C i n < n) \<and>
     (\<forall>i n. mset (draw_perm C i n) = mset (int_range n))"

lemma stress_name_prefix: "strings_HasPrefix (stress_name p t i) p"
  by (simp add: stress_name_def)

lemma int_range_nth: "i < nat n \<Longrightarrow> int_range n ! i = int i"
  by (simp add: int_range_def)

lemma perm_nth:
  assumes "mset p = mset (int_range n)" and "i < nat n"
  shows "length p = nat n" and "0 \<le> p ! i" and "p ! i < n"
proof -
  show len: "length p = nat n" using mset_eq_length [OF assms(1)] by (simp add: int_range_def)
  have "p ! i \<in> set (int_range n)" using assms(2) len mset_eq_setD [OF assms(1)] by (metis nth_mem)
  then show "0 \<le> p ! i" "p ! i < n" by (auto simp: int_range_def)
qed

lemma device_generated:
  assumes C: "fair C" and walks: "allWalks \<noteq> []"
  obtains md where "generateMeasurementDevice C namespace allWalks idx = Inr md"
    and "mspec_Walks (md_Spec md) \<noteq> []" and "set (mspec_Walks (md_Spec md)) \<subseteq> set allWalks"
    and "md_Name md = stress_name ''stresstest-md'' (md_now C idx) idx"
proof -
  define n where "n = int (length allWalks)"
  define k where "k = (if n > 1 then draw_count C idx n + 1 else 1)"
  have n: "0 < n" using walks by (simp add: n_def)
  then have "0 \<le> draw_count C idx n" "draw_count C idx n < n" using C by (auto simp: fair_def)
  then have k: "1 \<le> k" "k \<le> n" using n by (auto simp: k_def)
  let ?f = "\<lambda>i. case slice_get (draw_perm C idx n) i of Inl s \<Rightarrow> Inl s | Inr p \<Rightarrow> slice_get allWalks p"
  have perm: "mset (draw_perm C idx n) = mset (int_range n)" using C by (simp add: fair_def)
  have step: "\<exists>w \<in> set allWalks. ?f i = Inr w" if "i \<in> set (int_range k)" for i
  proof -
    have i: "0 \<le> i" "i < n" "nat i < nat n" using that k by (auto simp: int_range_def)
    note p = perm_nth [OF perm i(3)]
    have "nat (draw_perm C idx n ! nat i) < length allWalks" using p n_def by (simp add: nat_less_iff)
    then show ?thesis using i p by (intro bexI [of _ "allWalks ! nat (draw_perm C idx n ! nat i)"])
        (simp_all add: slice_get_def n_def [symmetric])
  qed
  then obtain ws where ws: "collect ?f (int_range k) = Inr ws" using collect_ok [of "int_range k" ?f] by blast
  have at: "length ws = nat k" "\<And>i. i < nat k \<Longrightarrow> ?f (int_range k ! i) = Inr (ws ! i)"
    using collect_nth [OF ws] by (simp_all add: int_range_def)
  have "ws ! i \<in> set allWalks" if "i < nat k" for i
    using step [of "int_range k ! i"] at(2) [OF that] that nth_mem [of i "int_range k"] by (simp add: int_range_def)
  then have "ws \<noteq> []" "set ws \<subseteq> set allWalks" using k at(1) by (auto simp: in_set_conv_nth)
  moreover have "(if n > 1 then (case rand_Intn (draw_count C idx) n of Inl s \<Rightarrow> Inl s | Inr d \<Rightarrow> Inr (d + 1)) else Inr 1) = Inr k"
    using n by (simp add: rand_Intn_def k_def)
  ultimately show thesis
    using ws that [of "stress_device namespace ws (stress_name ''stresstest-md'' (md_now C idx) idx)"]
    by (simp add: generateMeasurementDevice_def n_def [symmetric] stress_device_def stress_meta_def)
qed

lemma devices_generated:
  assumes C: "fair C" and mib: "parseMIB read path = Inr allWalks" "allWalks \<noteq> []" and n: "0 \<le> n" "n \<le> room C"
  obtains mds where "generateMeasurementDevices C read namespace path n = Inr mds" and "length mds = nat n"
    and "\<And>md. md \<in> set mds \<Longrightarrow> mspec_Walks (md_Spec md) \<noteq> [] \<and> set (mspec_Walks (md_Spec md)) \<subseteq> set allWalks"
    and "\<And>md. md \<in> set mds \<Longrightarrow> strings_HasPrefix (md_Name md) ''stresstest-md''"
proof -
  let ?g = "generateMeasurementDevice C namespace allWalks"
  have one: "\<exists>md. ?g i = Inr md \<and> mspec_Walks (md_Spec md) \<noteq> [] \<and> set (mspec_Walks (md_Spec md)) \<subseteq> set allWalks \<and>
      strings_HasPrefix (md_Name md) ''stresstest-md''" for i
    using device_generated [OF C mib(2), of namespace i] by (metis stress_name_prefix)
  then obtain mds where mds: "collect ?g (int_range n) = Inr mds" using collect_ok [of "int_range n" ?g] by blast
  note at = collect_nth [OF mds]
  have good: "mspec_Walks (md_Spec md) \<noteq> [] \<and> set (mspec_Walks (md_Spec md)) \<subseteq> set allWalks \<and>
      strings_HasPrefix (md_Name md) ''stresstest-md''" if md: "md \<in> set mds" for md
  proof -
    obtain j where "j < length mds" "md = mds ! j" using md by (auto simp: in_set_conv_nth)
    with at one [of "int_range n ! j"] show ?thesis by auto
  qed
  show thesis
  proof (rule that)
    show "generateMeasurementDevices C read namespace path n = Inr mds"
      using n mib mds by (simp add: generateMeasurementDevices_def make_slice_def)
    show "length mds = nat n" using at by (simp add: int_range_def)
  qed (use good in auto)
qed

lemma length_device_index: "length (device_index mds per idx) = length mds * per"
  by (induction mds per idx rule: device_index.induct) simp_all

lemma in_device_index: "(md, i) \<in> set (device_index mds per idx) \<Longrightarrow> md \<in> set mds"
  by (induction mds per idx rule: device_index.induct) auto

lemma measurements_generated:
  assumes C: "fair C" and nb: "0 \<le> nb" and room: "int (length mds) * nb \<le> room C" "room C < 2 ^ 63"
  obtains combs where "generatePhysicalMeasurements C namespace mds nb = Inr (map comb_PhysicalMeasurements combs, combs)"
    and "length combs = length mds * nat nb"
    and "\<And>c. c \<in> set combs \<Longrightarrow> comb_MeasurementDevice c \<in> set mds \<and>
      pspec_MeasurementDevice (pm_Spec (comb_PhysicalMeasurements c)) = md_Name (comb_MeasurementDevice c) \<and>
      pspec_Type (pm_Spec (comb_PhysicalMeasurements c)) = PhysicalMeasurementTypeSNMP \<and>
      pspec_Ip (pm_Spec (comb_PhysicalMeasurements c)) \<in> set ips \<and>
      strings_HasPrefix (pm_Name (comb_PhysicalMeasurements c)) ''stresstest-pm''"
proof (cases "nb = 0 \<or> mds = []")
  case True
  then show ?thesis using that [of "[]"] nb by (auto simp: generatePhysicalMeasurements_def)
next
  case False
  then have loop: "0 < nb" "mds \<noteq> []" using nb by auto
  let ?f = "\<lambda>(md, i). case generatePhysicalMeasurement C namespace md (int i) ips of
      Inl s \<Rightarrow> Inl s | Inr pm \<Rightarrow> Inr \<lparr>comb_MeasurementDevice = md, comb_PhysicalMeasurements = pm\<rparr>"
  have one: "\<exists>c. ?f (md, i) = Inr c \<and> comb_MeasurementDevice c = md \<and>
      pspec_MeasurementDevice (pm_Spec (comb_PhysicalMeasurements c)) = md_Name md \<and>
      pspec_Type (pm_Spec (comb_PhysicalMeasurements c)) = PhysicalMeasurementTypeSNMP \<and>
      pspec_Ip (pm_Spec (comb_PhysicalMeasurements c)) \<in> set ips \<and>
      strings_HasPrefix (pm_Name (comb_PhysicalMeasurements c)) ''stresstest-pm''" for md i
  proof -
    have two: "int (length ips) = 2" "ips \<noteq> []" by (simp_all add: ips_def)
    have d: "0 \<le> draw_ip C (int i) 2" "draw_ip C (int i) 2 < 2" using C by (simp_all add: fair_def)
    then have "ips ! nat (draw_ip C (int i) 2) \<in> set ips" by (intro nth_mem) (simp add: ips_def nat_less_iff)
    then show ?thesis using d two
      by (simp add: generatePhysicalMeasurement_def rand_Intn_def slice_get_def stress_meta_def stress_name_prefix
          PhysicalMeasurementTypeSNMP_def zero_ObjectMeta_def)
  qed
  let ?ix = "device_index mds (nat nb) 0"
  have "\<exists>c. ?f x = Inr c" for x using one [of "fst x" "snd x"] by (cases x) auto
  then obtain combs where combs: "collect ?f ?ix = Inr combs" using collect_ok [of ?ix ?f] by blast
  note at = collect_nth [OF combs]
  have pos: "0 \<le> int (length mds) * nb" using nb by simp
  have "wrap64 t = t" "make_slice C t = None" if "t = int (length mds) * nb" for t
    using room pos unfolding that [symmetric] by (simp_all add: wrap64_id make_slice_def)
  then have gen: "generatePhysicalMeasurements C namespace mds nb = Inr (map comb_PhysicalMeasurements combs, combs)"
    using loop combs by (simp add: generatePhysicalMeasurements_def)
  show ?thesis
  proof (rule that [OF gen])
    show "length combs = length mds * nat nb" using at by (simp add: length_device_index)
    fix c assume "c \<in> set combs"
    then obtain j where j: "j < length ?ix" "c = combs ! j" using at by (auto simp: in_set_conv_nth)
    obtain md i where ix: "?ix ! j = (md, i)" by fastforce
    then have "md \<in> set mds" using j(1) in_device_index [of md i mds "nat nb" 0] nth_mem [of j ?ix] by simp
    moreover have "?f (md, i) = Inr c" using at j ix by auto
    ultimately show "comb_MeasurementDevice c \<in> set mds \<and>
      pspec_MeasurementDevice (pm_Spec (comb_PhysicalMeasurements c)) = md_Name (comb_MeasurementDevice c) \<and>
      pspec_Type (pm_Spec (comb_PhysicalMeasurements c)) = PhysicalMeasurementTypeSNMP \<and>
      pspec_Ip (pm_Spec (comb_PhysicalMeasurements c)) \<in> set ips \<and>
      strings_HasPrefix (pm_Name (comb_PhysicalMeasurements c)) ''stresstest-pm''"
      using one [of md i] by auto
  qed
qed

section \<open>The program\<close>

text \<open>The flags, and what \<open>parseFlags\<close> returns when none is given.\<close>

record stressTestFlags =
  flag_mibPath :: string
  flag_namespace :: string
  nbMeasurementDevices :: int
  nbPhysicalMeasurementPerMeasurementDevices :: int
  nbDataCenterResourcePerMeasurement :: int
  delay_ms :: int
  flag_cleanup :: bool

definition default_stress_flags :: stressTestFlags where
  "default_stress_flags =
     \<lparr>flag_mibPath = ''./dev/mibs/TNO-PDU-MIB.txt'', flag_namespace = ''chantico'', nbMeasurementDevices = 2,
      nbPhysicalMeasurementPerMeasurementDevices = 4, nbDataCenterResourcePerMeasurement = 3, delay_ms = 100,
      flag_cleanup = False\<rparr>"

text \<open>What \<open>createKubernetesClient\<close> meets: the errors of the library calls and the answer the user types.\<close>

record client_setup =
  AddToScheme_error :: "sys_error option"
  GetConfig_error :: "sys_error option"
  New_error :: "sys_error option"
  RawConfig_error :: "sys_error option"
  response :: string

definition stress_createKubernetesClient :: "client_setup \<Rightarrow> stop option" where
  "stress_createKubernetesClient S =
     (if AddToScheme_error S \<noteq> None then Some (LogFatal ''failed to add API to scheme'')
      else if GetConfig_error S \<noteq> None then Some (LogFatal ''unable to get kubeconfig'')
      else if New_error S \<noteq> None then Some (LogFatal ''failed to create kubernetes client'')
      else if RawConfig_error S \<noteq> None then Some (LogFatal ''failed to load kubeconfig'')
      else if response S \<noteq> ''y'' \<and> response S \<noteq> ''Y'' then Some (LogFatal ''Operation cancelled by user'')
      else None)"

datatype kube_object = ObjMD MeasurementDevice | ObjPM PhysicalMeasurement | ObjDCR DataCenterResource

datatype object_kind = KindMD | KindPM | KindDCR

type_synonym object_id = "object_kind \<times> string \<times> string"

fun object_id :: "kube_object \<Rightarrow> object_id" where
  "object_id (ObjMD md) = (KindMD, meta_Namespace (md_Meta md), md_Name md)"
| "object_id (ObjPM pm) = (KindPM, meta_Namespace (pm_Meta pm), pm_Name pm)"
| "object_id (ObjDCR d) = (KindDCR, meta_Namespace (dcr_Meta d), dcr_Name d)"

record 'k cluster_api =
  api_List :: "object_kind \<Rightarrow> string \<Rightarrow> 'k \<Rightarrow> sys_error + string list"
  api_Delete :: "object_id \<Rightarrow> 'k \<Rightarrow> sys_error option \<times> 'k"
  api_Create :: "kube_object \<Rightarrow> 'k \<Rightarrow> sys_error option \<times> 'k"

text \<open>A failing \<open>Delete\<close> or \<open>Create\<close> is logged and the loop goes on.\<close>

fun delete_items :: "'k cluster_api \<Rightarrow> object_kind \<Rightarrow> string \<Rightarrow> string \<Rightarrow> string list \<Rightarrow> 'k \<Rightarrow> 'k" where
  "delete_items A kind namespace pattern [] k = k"
| "delete_items A kind namespace pattern (name # names) k =
     delete_items A kind namespace pattern names
       (if strings_HasPrefix name pattern then snd (api_Delete A (kind, namespace, name) k) else k)"

definition deleteResourcesByPattern ::
    "'k cluster_api \<Rightarrow> string \<Rightarrow> string \<Rightarrow> object_kind \<Rightarrow> 'k \<Rightarrow> sys_error option \<times> 'k" where
  "deleteResourcesByPattern A namespace pattern kind k =
     (case api_List A kind namespace k of
        Inl err \<Rightarrow> (Some err, k)
      | Inr items \<Rightarrow> (None, delete_items A kind namespace pattern items k))"

fun create_items :: "'k cluster_api \<Rightarrow> kube_object list \<Rightarrow> 'k \<Rightarrow> 'k" where
  "create_items A [] k = k"
| "create_items A (obj # objs) k = create_items A objs (snd (api_Create A obj k))"

lemma create_items_append: "create_items A (xs @ ys) k = create_items A ys (create_items A xs k)"
  by (induction xs arbitrary: k) simp_all

definition generate_all ::
    "chance \<Rightarrow> (string \<Rightarrow> sys_error + bytes) \<Rightarrow> stressTestFlags
      \<Rightarrow> stop + MeasurementDevice list \<times> PhysicalMeasurement list \<times> DataCenterResource list" where
  "generate_all C read cfg =
     (case generateMeasurementDevices C read (flag_namespace cfg) (flag_mibPath cfg) (nbMeasurementDevices cfg) of
        Inl s \<Rightarrow> Inl s
      | Inr mds \<Rightarrow>
          (case generatePhysicalMeasurements C (flag_namespace cfg) mds (nbPhysicalMeasurementPerMeasurementDevices cfg) of
             Inl s \<Rightarrow> Inl s
           | Inr (pms, mdpms) \<Rightarrow>
               (case generateDataCenterResources C (flag_namespace cfg) mdpms (nbDataCenterResourcePerMeasurement cfg) of
                  Inl s \<Rightarrow> Inl s
                | Inr dcrs \<Rightarrow> Inr (mds, pms, dcrs))))"

definition stresstest_main ::
    "client_setup \<Rightarrow> 'k cluster_api \<Rightarrow> chance \<Rightarrow> (string \<Rightarrow> sys_error + bytes) \<Rightarrow> stressTestFlags \<Rightarrow> 'k \<Rightarrow> stop option \<times> 'k" where
  "stresstest_main S A C read cfg k =
     (case stress_createKubernetesClient S of
        Some s \<Rightarrow> (Some s, k)
      | None \<Rightarrow>
          (if flag_cleanup cfg then
             (let k1 = snd (deleteResourcesByPattern A (flag_namespace cfg) ''stresstest-md'' KindMD k);
                  k2 = snd (deleteResourcesByPattern A (flag_namespace cfg) ''stresstest-pm'' KindPM k1);
                  k3 = snd (deleteResourcesByPattern A (flag_namespace cfg) ''stresstest-dcr'' KindDCR k2)
              in (None, k3))
           else
             (case generate_all C read cfg of
                Inl s \<Rightarrow> (Some s, k)
              | Inr (mds, pms, dcrs) \<Rightarrow>
                  (None, create_items A (map ObjDCR dcrs) (create_items A (map ObjPM pms) (create_items A (map ObjMD mds) k))))))"

section \<open>What a run generates\<close>

text \<open>
  Property C34: a run of the stress test generates what its flags ask for, and the operator can work with all
  of it. From a MIB file with at least one object, and with an expansion rate of at least two, no random draw
  leads to a panic: there are as many devices, measurements and resources as asked for; a device has walks,
  all of them objects of the MIB; a measurement refers to a generated device and polls a mock; the resources
  have different names and each passes the operator's validation among them.
\<close>

theorem stresstest_generates:
  assumes C: "fair C" and mib: "parseMIB read (flag_mibPath cfg) = Inr walks" "walks \<noteq> []"
    and n: "0 \<le> nbMeasurementDevices cfg" "nbMeasurementDevices cfg \<le> room C"
    and nb: "0 \<le> nbPhysicalMeasurementPerMeasurementDevices cfg"
    and r: "2 \<le> nbDataCenterResourcePerMeasurement cfg"
    and room: "nbMeasurementDevices cfg * nbPhysicalMeasurementPerMeasurementDevices cfg *
      (nbDataCenterResourcePerMeasurement cfg - 1) \<le> room C" "room C < 2 ^ 63"
  shows "\<exists>mds pms dcrs. generate_all C read cfg = Inr (mds, pms, dcrs) \<and>
    length mds = nat (nbMeasurementDevices cfg) \<and>
    length pms = length mds * nat (nbPhysicalMeasurementPerMeasurementDevices cfg) \<and>
    length dcrs = length pms * nat (nbDataCenterResourcePerMeasurement cfg) \<and>
    (\<forall>md \<in> set mds. mspec_Walks (md_Spec md) \<noteq> [] \<and> set (mspec_Walks (md_Spec md)) \<subseteq> set walks) \<and>
    (\<forall>pm \<in> set pms. pspec_MeasurementDevice (pm_Spec pm) \<in> md_Name ` set mds \<and>
       pspec_Type (pm_Spec pm) = PhysicalMeasurementTypeSNMP \<and> pspec_Ip (pm_Spec pm) \<in> set ips) \<and>
    distinct (map dcr_Name dcrs) \<and>
    (\<forall>d \<in> set dcrs. snd (snd (Validate valid order d dcrs pms)) = None)"
proof -
  let ?ns = "flag_namespace cfg" and ?nb = "nbPhysicalMeasurementPerMeasurementDevices cfg"
  let ?r = "nbDataCenterResourcePerMeasurement cfg"
  obtain mds where mds: "generateMeasurementDevices C read ?ns (flag_mibPath cfg) (nbMeasurementDevices cfg) = Inr mds"
    "length mds = nat (nbMeasurementDevices cfg)"
    and dev: "\<And>md. md \<in> set mds \<Longrightarrow> mspec_Walks (md_Spec md) \<noteq> [] \<and> set (mspec_Walks (md_Spec md)) \<subseteq> set walks"
    using devices_generated [OF C mib n, of ?ns] by metis
  have size: "int (length mds) * ?nb * (?r - 1) \<le> room C" using room mds(2) n by simp
  have "int (length mds) * ?nb * 1 \<le> int (length mds) * ?nb * (?r - 1)" using r nb by (intro mult_left_mono) simp_all
  then have fit: "int (length mds) * ?nb \<le> room C" using size by (metis mult.right_neutral order_trans)
  obtain combs where combs: "generatePhysicalMeasurements C ?ns mds ?nb = Inr (map comb_PhysicalMeasurements combs, combs)"
      "length combs = length mds * nat ?nb"
    and comb: "\<And>c. c \<in> set combs \<Longrightarrow> comb_MeasurementDevice c \<in> set mds \<and>
      pspec_MeasurementDevice (pm_Spec (comb_PhysicalMeasurements c)) = md_Name (comb_MeasurementDevice c) \<and>
      pspec_Type (pm_Spec (comb_PhysicalMeasurements c)) = PhysicalMeasurementTypeSNMP \<and>
      pspec_Ip (pm_Spec (comb_PhysicalMeasurements c)) \<in> set ips"
    using measurements_generated [OF C nb fit room(2), of ?ns] by metis
  let ?pms = "map comb_PhysicalMeasurements combs"
  have "\<exists>ds. generateDataCenterResources C ?ns combs ?r = Inr ds \<and>
      length ds = length combs * nat ?r \<and> distinct (map dcr_Name ds) \<and>
      (\<forall>d \<in> set ds. snd (snd (Validate valid order d ds ?pms)) = None \<and>
       (dspec_Parents (dcr_Spec d) \<noteq> [] \<or>
        (\<exists>c \<in> set combs. dspec_PhysicalMeasurements (dcr_Spec d) = [pm_Name (comb_PhysicalMeasurements c)] \<and>
           dspec_EnergyMetric (dcr_Spec d) \<in> set (mspec_Walks (md_Spec (comb_MeasurementDevice c))))))"
  proof (rule graph_valid)
    show "mspec_Walks (md_Spec (comb_MeasurementDevice c)) \<noteq> []" if "c \<in> set combs" for c
      using comb [OF that] dev by blast
    show "0 \<le> draw_walk C i k \<and> draw_walk C i k < k" if "0 < k" for i k using C that by (simp add: fair_def)
    show "int (length combs) * (?r - 1) \<le> room C" using size combs(2) nb by simp
  qed (rule r room)+
  then obtain ds where "generateDataCenterResources C ?ns combs ?r = Inr ds" "length ds = length combs * nat ?r"
      "distinct (map dcr_Name ds)" "\<forall>d \<in> set ds. snd (snd (Validate valid order d ds ?pms)) = None" by blast
  then have "generate_all C read cfg = Inr (mds, ?pms, ds)" by (simp add: generate_all_def mds combs)
  moreover have "\<forall>pm \<in> set ?pms. pspec_MeasurementDevice (pm_Spec pm) \<in> md_Name ` set mds \<and>
      pspec_Type (pm_Spec pm) = PhysicalMeasurementTypeSNMP \<and> pspec_Ip (pm_Spec pm) \<in> set ips"
    using comb by auto
  ultimately show ?thesis
    using mds(2) dev combs(2) \<open>length ds = _\<close> \<open>distinct _\<close> \<open>\<forall>d \<in> set ds. _\<close>
    by (intro exI [of _ mds] exI [of _ ?pms] exI [of _ ds]) simp
qed

definition ex_mib :: bytes where
  "ex_mib = ''pduPower OBJECT-TYPE'' @ [CHR 0x0A] @ ''pduEnergy  OBJECT-TYPE'' @ [CHR 0x0D, CHR 0x0A] @ ''END''"

definition ex_fair_chance :: chance where
  "ex_fair_chance = ex_chance\<lparr>draw_count := (\<lambda>i n. 0)\<rparr>"

lemma ex_fair: "fair ex_fair_chance"
  by (simp add: fair_def ex_fair_chance_def ex_chance_def)

lemma ex_mib_walks: "parseMIB (\<lambda>p. Inr ex_mib) path = Inr [''pduPower'', ''pduEnergy'']"
proof -
  have "raw_lines ex_mib = [''pduPower OBJECT-TYPE'', ''pduEnergy  OBJECT-TYPE'' @ [CHR 0x0D], ''END'']" by code_simp
  then show ?thesis
    by (simp add: parseMIB_def scan_lines_def MaxScanTokenSize_def dropCR_def object_type_name_def name_char_def
        perl_space_def is_digit_def strings_HasPrefix_def List.map_filter_simps Let_def)
qed

theorem stresstest_generates_witness:
  "\<exists>mds pms dcrs. generate_all ex_fair_chance (\<lambda>p. Inr ex_mib) default_stress_flags = Inr (mds, pms, dcrs) \<and>
     length mds = 2 \<and> length pms = 8 \<and> length dcrs = 24 \<and>
     list_all (\<lambda>d. snd (snd (Validate (\<lambda>l. True) key_order d dcrs pms)) = None) dcrs"
  using stresstest_generates [OF ex_fair ex_mib_walks, of default_stress_flags "\<lambda>l. True" key_order]
  by (fastforce simp: default_stress_flags_def ex_fair_chance_def ex_chance_def list_all_iff)

section \<open>What a run leaves in the cluster\<close>

locale object_api =
  fixes A :: "'k cluster_api" and live_objects :: "'k \<Rightarrow> object_id set"
  assumes List_live: "api_List A kind namespace k = Inr names \<Longrightarrow> (kind, namespace, name) \<in> live_objects k \<Longrightarrow> name \<in> set names"
    and Delete_ok: "api_Delete A x k = (None, k') \<Longrightarrow> live_objects k' = live_objects k - {x}"
    and Delete_fails: "api_Delete A x k = (Some e, k') \<Longrightarrow> live_objects k' = live_objects k"
    and Create_ok: "api_Create A obj k = (None, k') \<Longrightarrow> live_objects k' = insert (object_id obj) (live_objects k)"
    and Create_fails: "api_Create A obj k = (Some e, k') \<Longrightarrow> live_objects k' = live_objects k"
begin

lemma create_items_live:
  "live_objects k \<subseteq> live_objects (create_items A objs k) \<and>
   live_objects (create_items A objs k) \<subseteq> live_objects k \<union> object_id ` set objs"
proof (induction objs arbitrary: k)
  case (Cons obj objs)
  have "live_objects k \<subseteq> live_objects (snd (api_Create A obj k)) \<and>
    live_objects (snd (api_Create A obj k)) \<subseteq> insert (object_id obj) (live_objects k)"
    by (cases "api_Create A obj k"; cases "fst (api_Create A obj k)") (auto dest: Create_ok Create_fails)
  then show ?case using Cons [of "snd (api_Create A obj k)"] by auto
qed simp

lemma delete_items_live:
  assumes "\<And>x k. fst (api_Delete A x k) = None"
  shows "live_objects (delete_items A kind namespace pattern names k) =
    live_objects k - {(kind, namespace, name) |name. name \<in> set names \<and> strings_HasPrefix name pattern}"
proof (induction names arbitrary: k)
  case (Cons name names)
  have "live_objects (snd (api_Delete A x k)) = live_objects k - {x}" for x
    using assms [of x k] by (cases "api_Delete A x k") (auto dest: Delete_ok)
  with Cons show ?case by auto
qed simp

lemma deleteResourcesByPattern_live:
  assumes "\<And>x k. fst (api_Delete A x k) = None" and "\<And>kind namespace k. \<exists>names. api_List A kind namespace k = Inr names"
  shows "live_objects (snd (deleteResourcesByPattern A namespace pattern kind k)) =
    live_objects k - {(kind, namespace, name) |name. strings_HasPrefix name pattern}"
proof -
  obtain names where names: "api_List A kind namespace k = Inr names" using assms(2) by blast
  then show ?thesis using delete_items_live [OF assms(1)] List_live [OF names]
    by (auto simp: deleteResourcesByPattern_def)
qed

end

fun kind_pattern :: "object_kind \<Rightarrow> string" where
  "kind_pattern KindMD = ''stresstest-md''"
| "kind_pattern KindPM = ''stresstest-pm''"
| "kind_pattern KindDCR = ''stresstest-dcr''"

text \<open>The objects of a namespace that the clean-up is after.\<close>

definition stress_objects :: "string \<Rightarrow> object_id set" where
  "stress_objects namespace = {(kind, namespace, name) |kind name. strings_HasPrefix name (kind_pattern kind)}"

lemma stress_objects_kinds:
  "stress_objects ns = {(KindMD, ns, name) |name. strings_HasPrefix name ''stresstest-md''} \<union>
     {(KindPM, ns, name) |name. strings_HasPrefix name ''stresstest-pm''} \<union>
     {(KindDCR, ns, name) |name. strings_HasPrefix name ''stresstest-dcr''}"
  (is "?L = ?R")
proof (rule set_eqI)
  show "x \<in> ?L \<longleftrightarrow> x \<in> ?R" for x by (cases x; cases "fst x") (auto simp: stress_objects_def)
qed

context object_api
begin

lemma cleanup_live:
  assumes "\<And>x k. fst (api_Delete A x k) = None" and "\<And>kind namespace k. \<exists>names. api_List A kind namespace k = Inr names"
    and "flag_cleanup cfg" and "stress_createKubernetesClient S = None"
  shows "fst (stresstest_main S A C read cfg k) = None"
    "live_objects (snd (stresstest_main S A C read cfg k)) = live_objects k - stress_objects (flag_namespace cfg)"
  using assms(3,4) deleteResourcesByPattern_live [OF assms(1,2)]
  by (auto simp: stresstest_main_def stress_objects_kinds Let_def)

end

text \<open>Whatever is drawn, the generated resources are in the namespace of the run and carry the prefix of their kind.\<close>

lemma collect_all:
  assumes "collect f xs = Inr ys" and "\<And>x y. f x = Inr y \<Longrightarrow> P y" and "y \<in> set ys"
  shows "P y"
  using assms(2,3) collect_nth [OF assms(1)] by (metis in_set_conv_nth)

definition labelled :: "string \<Rightarrow> string \<Rightarrow> ObjectMeta \<Rightarrow> bool" where
  "labelled namespace prefix m \<longleftrightarrow> meta_Namespace m = namespace \<and> strings_HasPrefix (meta_Name m) prefix"

lemma stress_meta_labelled [simp]: "labelled namespace p (stress_meta (stress_name p t i) namespace)"
  by (simp add: labelled_def stress_meta_def stress_name_prefix)

lemma device_labelled:
  "generateMeasurementDevice C namespace ws i = Inr md \<Longrightarrow> labelled namespace ''stresstest-md'' (md_Meta md)"
  by (auto simp: generateMeasurementDevice_def stress_device_def Let_def split: sum.splits)

lemma measurement_labelled:
  "generatePhysicalMeasurement C namespace md i addresses = Inr pm \<Longrightarrow> labelled namespace ''stresstest-pm'' (pm_Meta pm)"
  by (auto simp: generatePhysicalMeasurement_def split: sum.splits if_splits)

lemma root_labelled:
  "root_of C namespace x = Inr d \<Longrightarrow> labelled namespace ''stresstest-dcr'' (dcr_Meta d)"
  by (auto simp: root_of_def Build_def SetNamespace_def SetType_def SetName_def Let_def split: prod.splits sum.splits)

definition same_label :: "DataCenterResourceBuilder \<Rightarrow> DataCenterResourceBuilder \<Rightarrow> bool" where
  "same_label b c \<longleftrightarrow> b_Name b = b_Name c \<and> b_Namespace b = b_Namespace c"

lemma assign_children_labels:
  "assign_children pref m t (bs, c) = Inr (bs', c') \<Longrightarrow> list_all2 same_label bs bs'"
proof (induction t arbitrary: bs c)
  case 0
  then show ?case by (simp add: list_all2_refl same_label_def)
next
  case (Suc t)
  then obtain b where b: "slice_get bs c = Inr b"
    and rest: "assign_children pref m t (bs[nat c := AddParent pref b], (c + 1) mod m) = Inr (bs', c')"
    by (auto split: sum.splits)
  have "list_all2 same_label bs (bs[nat c := AddParent pref b])"
    using b by (auto simp: list_all2_conv_all_nth nth_list_update slice_get_def same_label_def AddParent_def split: if_splits)
  moreover have "list_all2 same_label (bs[nat c := AddParent pref b]) bs'" using Suc.IH [OF rest] .
  ultimately show ?case
    by (rule list_all2_trans [rotated]) (simp add: same_label_def)
qed

lemma assign_parents_labels:
  "assign_parents r m ds (bs, c) = Inr (bs', c') \<Longrightarrow> list_all2 same_label bs bs'"
proof (induction ds arbitrary: bs c)
  case Nil
  then show ?case by (simp add: list_all2_refl same_label_def)
next
  case (Cons d ds)
  then obtain bs1 c1 where one: "assign_children (parent_ref r d) m (nat r) (bs, c) = Inr (bs1, c1)"
    and rest: "assign_parents r m ds (bs1, c1) = Inr (bs', c')" by (auto split: sum.splits)
  show ?case
    by (rule list_all2_trans [OF _ assign_children_labels [OF one] Cons.IH [OF rest]]) (simp add: same_label_def)
qed

lemma layer_labelled:
  assumes "generateDcFirstLayer C namespace roots r = Inr ds" and "d \<in> set ds"
  shows "labelled namespace ''stresstest-dcr'' (dcr_Meta d)"
proof -
  obtain m bs c where "assign_parents r m roots (map (new_child C namespace (int (length roots))) (int_range m), 0) = Inr (bs, c)"
    and ds: "ds = map Build bs"
    using assms(1) by (auto simp: generateDcFirstLayer_def Let_def split: option.splits sum.splits)
  then have labels: "list_all2 same_label (map (new_child C namespace (int (length roots))) (int_range m)) bs"
    using assign_parents_labels by blast
  obtain b where b: "b \<in> set bs" "d = Build b" using assms(2) ds by auto
  obtain i where "same_label (new_child C namespace (int (length roots)) i) b"
    using labels b(1) by (fastforce simp: list_all2_conv_all_nth in_set_conv_nth)
  then have "b_Namespace b = namespace"
      "b_Name b = stress_name ''stresstest-dcr'' (dcr_now C (i + int (length roots))) (i + int (length roots))"
    by (simp_all add: same_label_def new_child_def SetType_def SetNamespace_def SetName_def)
  then show ?thesis by (simp add: b(2) Build_def)
qed

lemma generated_in_stress_objects:
  assumes "generate_all C read cfg = Inr (mds, pms, dcrs)"
    and "obj \<in> set (map ObjMD mds @ map ObjPM pms @ map ObjDCR dcrs)"
  shows "object_id obj \<in> stress_objects (flag_namespace cfg)"
proof -
  let ?ns = "flag_namespace cfg"
  obtain combs where
      mds: "generateMeasurementDevices C read ?ns (flag_mibPath cfg) (nbMeasurementDevices cfg) = Inr mds"
    and pms: "generatePhysicalMeasurements C ?ns mds (nbPhysicalMeasurementPerMeasurementDevices cfg) = Inr (pms, combs)"
    and dcrs: "generateDataCenterResources C ?ns combs (nbDataCenterResourcePerMeasurement cfg) = Inr dcrs"
    using assms(1) by (auto simp: generate_all_def split: sum.splits)
  obtain ws where devices: "collect (generateMeasurementDevice C ?ns ws) (int_range (nbMeasurementDevices cfg)) = Inr mds"
    using mds by (auto simp: generateMeasurementDevices_def split: option.splits sum.splits if_splits)
  have md: "labelled ?ns ''stresstest-md'' (md_Meta md)" if "md \<in> set mds" for md
    by (rule collect_all [OF devices _ that]) (rule device_labelled)
  have comb: "labelled ?ns ''stresstest-pm'' (pm_Meta (comb_PhysicalMeasurements c))" if "c \<in> set combs" for c
  proof (cases "combs = []")
    case False
    let ?f = "\<lambda>(md, i). case generatePhysicalMeasurement C ?ns md (int i) ips of
        Inl s \<Rightarrow> Inl s | Inr pm \<Rightarrow> Inr \<lparr>comb_MeasurementDevice = md, comb_PhysicalMeasurements = pm\<rparr>"
    obtain ix where "collect ?f ix = Inr combs"
      using pms False by (auto simp: generatePhysicalMeasurements_def split: option.splits sum.splits if_splits)
    then show ?thesis
      by (rule collect_all [OF _ _ that]) (auto split: prod.splits sum.splits dest: measurement_labelled)
  qed (use that in simp)
  then have pm: "labelled ?ns ''stresstest-pm'' (pm_Meta pm)" if "pm \<in> set pms" for pm
    using pms that by (auto simp: generatePhysicalMeasurements_def split: option.splits sum.splits if_splits)
  obtain roots ds where roots: "collect (root_of C ?ns) (enumerate 0 combs) = Inr roots"
    and ds: "generateDcFirstLayer C ?ns roots (nbDataCenterResourcePerMeasurement cfg) = Inr ds" "dcrs = roots @ ds"
    using dcrs by (auto simp: generateDataCenterResources_def generateDcRootLayer_def split: sum.splits)
  have dcr: "labelled ?ns ''stresstest-dcr'' (dcr_Meta d)" if "d \<in> set dcrs" for d
    using that ds layer_labelled [OF ds(1)] collect_all [OF roots, of "\<lambda>d. labelled ?ns ''stresstest-dcr'' (dcr_Meta d)", OF root_labelled] by auto
  show ?thesis using assms(2) md pm dcr by (auto simp: stress_objects_kinds labelled_def)
qed


text \<open>A server that keeps a list of object names and never fails.\<close>

definition ex_api :: "object_id list cluster_api" where
  "ex_api =
     \<lparr>api_List = (\<lambda>kind namespace k. Inr (map (snd \<circ> snd) (filter (\<lambda>x. fst x = kind \<and> fst (snd x) = namespace) k))),
      api_Delete = (\<lambda>x k. (None, removeAll x k)),
      api_Create = (\<lambda>obj k. (None, object_id obj # k))\<rparr>"

interpretation ex_api: object_api ex_api set
  by unfold_locales (force simp: ex_api_def)+

definition ex_setup :: client_setup where
  "ex_setup = \<lparr>AddToScheme_error = None, GetConfig_error = None, New_error = None, RawConfig_error = None, response = ''y''\<rparr>"


end
