(* ===== verification/Observe.thy ===== *)
theory Observe
  imports Api
begin

text \<open>
  The exporter of the stress test, \<open>dev/stresstest-observability/main.go\<close>: it lists the three kinds of resources
  over and over and publishes how many exist and how many are reconciled. The listings are a parameter, one
  per request: an error, or the items and the time the request took. The three list types have the \<open>Items\<close>
  field the code looks up by reflection. A gauge holds the number set last.
\<close>

section \<open>Metrics\<close>

record gauges =
  mdCreated :: nat
  mdReconciled :: nat
  pmCreated :: nat
  pmReconciled :: nat
  dcrCreated :: nat
  dcrReconciled :: nat
  latency :: nat

text \<open>The names under which \<open>newMetrics\<close> registers them; \<open>MustRegister\<close> panics on a name taken twice.\<close>

definition metric_names :: "string list" where
  "metric_names =
     [''measurement_device_created'', ''measurement_device_reconciled'', ''physical_measurement_created'',
      ''physical_measurement_reconciled'', ''datacenter_resources_created'', ''datacenter_resources_reconciled'',
      ''latency_seconds'']"

definition newMetrics :: "gauges go" where
  "newMetrics =
     (if distinct metric_names
      then Ret \<lparr>mdCreated = 0, mdReconciled = 0, pmCreated = 0, pmReconciled = 0, dcrCreated = 0, dcrReconciled = 0,
             latency = 0\<rparr>
      else Panic ''duplicate metrics collector registration attempted'')"

section \<open>One listing\<close>

text \<open>What the exporter reads of an item by reflection: the same fields of the three resources.\<close>

record item_view =
  item_Generation :: int64
  item_ObservedGeneration :: int64
  item_Conditions :: "Condition list"

definition md_view :: "MeasurementDevice \<Rightarrow> item_view" where
  "md_view m = \<lparr>item_Generation = meta_Generation (md_Meta m),
     item_ObservedGeneration = mstat_ObservedGeneration (md_Status m), item_Conditions = mstat_Conditions (md_Status m)\<rparr>"

definition pm_view :: "PhysicalMeasurement \<Rightarrow> item_view" where
  "pm_view m = \<lparr>item_Generation = meta_Generation (pm_Meta m),
     item_ObservedGeneration = pstat_ObservedGeneration (pm_Status m), item_Conditions = pstat_Conditions (pm_Status m)\<rparr>"

definition dcr_view :: "DataCenterResource \<Rightarrow> item_view" where
  "dcr_view d = \<lparr>item_Generation = meta_Generation (dcr_Meta d),
     item_ObservedGeneration = dstat_ObservedGeneration (dcr_Status d), item_Conditions = dstat_Conditions (dcr_Status d)\<rparr>"

text \<open>The loop over the conditions of an item, up to the first Ready one that is true.\<close>

fun is_ready :: "Condition list \<Rightarrow> bool" where
  "is_ready [] = False"
| "is_ready (condition # conditions) =
     (if cond_Type condition = ''Ready'' \<and> cond_Status condition = ConditionTrue then True else is_ready conditions)"

fun count_reconciled :: "item_view list \<Rightarrow> nat \<Rightarrow> nat" where
  "count_reconciled [] reconciled = reconciled"
| "count_reconciled (item # items) reconciled =
     (if item_ObservedGeneration item \<noteq> item_Generation item then count_reconciled items reconciled
      else count_reconciled items (if is_ready (item_Conditions item) then reconciled + 1 else reconciled))"

type_synonym listing = "unit + item_view list \<times> nat"

definition observeResource ::
    "listing \<Rightarrow> (nat \<Rightarrow> gauges \<Rightarrow> gauges) \<Rightarrow> (nat \<Rightarrow> gauges \<Rightarrow> gauges) \<Rightarrow> gauges \<Rightarrow> gauges" where
  "observeResource answer set_created set_reconciled m =
     (case answer of
        Inl err \<Rightarrow> m
      | Inr (items, elapsed) \<Rightarrow>
          set_reconciled (count_reconciled items 0) (set_created (length items) (m\<lparr>latency := elapsed\<rparr>)))"

text \<open>One turn of the endless loop of \<open>observe\<close>, and the turns of a stretch of time.\<close>

definition observe_turn :: "listing \<times> listing \<times> listing \<Rightarrow> gauges \<Rightarrow> gauges" where
  "observe_turn = (\<lambda>(mds, pms, dcrs) m.
     observeResource dcrs (\<lambda>n. dcrCreated_update (\<lambda>_. n)) (\<lambda>n. dcrReconciled_update (\<lambda>_. n))
       (observeResource pms (\<lambda>n. pmCreated_update (\<lambda>_. n)) (\<lambda>n. pmReconciled_update (\<lambda>_. n))
         (observeResource mds (\<lambda>n. mdCreated_update (\<lambda>_. n)) (\<lambda>n. mdReconciled_update (\<lambda>_. n)) m)))"

definition observe :: "(listing \<times> listing \<times> listing) list \<Rightarrow> gauges \<Rightarrow> gauges" where
  "observe turns m = fold observe_turn turns m"

text \<open>
  The start of the exporter: the errors of the library calls that build the client end the program
  (\<open>log.Fatal\<close>), then the gauges are registered and the loop runs. The metrics server beside it only
  reads them.
\<close>

record observe_setup =
  BuildConfig_error :: "sys_error option"
  core_AddToScheme_error :: "sys_error option"
  api_AddToScheme_error :: "sys_error option"
  NewClient_error :: "sys_error option"

definition observe_createKubernetesClient :: "observe_setup \<Rightarrow> sys_error option" where
  "observe_createKubernetesClient S =
     (case BuildConfig_error S of Some err \<Rightarrow> Some err
      | None \<Rightarrow>
          (case core_AddToScheme_error S of Some err \<Rightarrow> Some err
           | None \<Rightarrow>
               (case api_AddToScheme_error S of Some err \<Rightarrow> Some err | None \<Rightarrow> NewClient_error S)))"

definition observability_main :: "observe_setup \<Rightarrow> (listing \<times> listing \<times> listing) list \<Rightarrow> (sys_error + gauges) go" where
  "observability_main S turns =
     (case observe_createKubernetesClient S of
        Some err \<Rightarrow> Ret (Inl err)
      | None \<Rightarrow> (case newMetrics of Panic t \<Rightarrow> Panic t | Ret m \<Rightarrow> Ret (Inr (observe turns m))))"

section \<open>What the gauges say\<close>

text \<open>The names are all different: the exporter never panics, and it observes once it has a client.\<close>

lemma observability_main_runs:
  "observability_main S turns \<noteq> Panic t"
  "observe_createKubernetesClient S = None \<Longrightarrow> \<exists>m. newMetrics = Ret m \<and> observability_main S turns = Ret (Inr (observe turns m))"
  by (simp_all add: observability_main_def newMetrics_def metric_names_def split: option.split)

text \<open>Reconciled: the status is about the current generation, and the Ready condition is true.\<close>

definition reconciled :: "item_view \<Rightarrow> bool" where
  "reconciled item \<longleftrightarrow> item_ObservedGeneration item = item_Generation item \<and>
     cond_is (item_Conditions item) ConditionReady ConditionTrue"

definition one_of_each :: "item_view \<Rightarrow> bool" where
  "one_of_each item \<longleftrightarrow> distinct (map cond_Type (item_Conditions item))"

lemma is_ready_iff: "distinct (map cond_Type cs) \<Longrightarrow> is_ready cs \<longleftrightarrow> cond_is cs ConditionReady ConditionTrue"
proof (induction cs)
  case (Cons c cs)
  have "\<not> is_ready ds" if "''Ready'' \<notin> set (map cond_Type ds)" for ds
    using that by (induction ds) auto
  with Cons show ?case by (auto simp: cond_is_def FindStatusCondition_def)
qed (simp add: cond_is_def FindStatusCondition_def)

lemma count_reconciled:
  "list_all one_of_each items \<Longrightarrow> count_reconciled items n = n + length (filter reconciled items)"
  by (induction items n rule: count_reconciled.induct) (auto simp: reconciled_def one_of_each_def is_ready_iff)

lemma count_bound: "count_reconciled items n \<le> n + length items"
  by (induction items n rule: count_reconciled.induct) auto

text \<open>The items of the last listing that was answered, if any.\<close>

fun last_answer :: "listing list \<Rightarrow> item_view list option" where
  "last_answer [] = None"
| "last_answer (l # ls) =
     (case last_answer ls of Some items \<Rightarrow> Some items | None \<Rightarrow> (case l of Inl err \<Rightarrow> None | Inr (items, t) \<Rightarrow> Some items))"

definition gauge_pair :: "item_view list option \<Rightarrow> nat \<times> nat" where
  "gauge_pair a = (case a of None \<Rightarrow> (0, 0) | Some items \<Rightarrow> (length items, length (filter reconciled items)))"

lemma last_answer_snoc:
  "last_answer (ls @ [l]) = (case l of Inl err \<Rightarrow> last_answer ls | Inr (items, t) \<Rightarrow> Some items)"
  by (induction ls) (auto split: sum.splits option.splits)

definition sound_listing :: "listing \<Rightarrow> bool" where
  "sound_listing l \<longleftrightarrow> (case l of Inl err \<Rightarrow> True | Inr (items, t) \<Rightarrow> list_all one_of_each items)"

lemma observe_turn_gauges:
  assumes "sound_listing mds" "sound_listing pms" "sound_listing dcrs"
  shows "let m' = observe_turn (mds, pms, dcrs) m in
    (mdCreated m', mdReconciled m') = (case mds of Inl err \<Rightarrow> (mdCreated m, mdReconciled m) | Inr (items, t) \<Rightarrow> gauge_pair (Some items)) \<and>
    (pmCreated m', pmReconciled m') = (case pms of Inl err \<Rightarrow> (pmCreated m, pmReconciled m) | Inr (items, t) \<Rightarrow> gauge_pair (Some items)) \<and>
    (dcrCreated m', dcrReconciled m') = (case dcrs of Inl err \<Rightarrow> (dcrCreated m, dcrReconciled m) | Inr (items, t) \<Rightarrow> gauge_pair (Some items))"
  using assms
  by (auto simp: observe_turn_def observeResource_def gauge_pair_def sound_listing_def count_reconciled Let_def
      split: sum.splits)

text \<open>
  Property C38: the exporter starts, and its gauges are what the documentation says. After any number of turns
  the two gauges of each kind of resource are the number of items in the last listing of that kind the API
  server answered and the number of those whose status is about the current generation and Ready; a failing
  listing leaves them as they were, and before the first answer they are zero.
\<close>

theorem observe_counts_reconciled:
  assumes "\<And>a b c. (a, b, c) \<in> set turns \<Longrightarrow> sound_listing a \<and> sound_listing b \<and> sound_listing c"
  shows "\<exists>m0. newMetrics = Ret m0 \<and>
    (mdCreated (observe turns m0), mdReconciled (observe turns m0)) = gauge_pair (last_answer (map fst turns)) \<and>
    (pmCreated (observe turns m0), pmReconciled (observe turns m0)) = gauge_pair (last_answer (map (fst \<circ> snd) turns)) \<and>
    (dcrCreated (observe turns m0), dcrReconciled (observe turns m0)) = gauge_pair (last_answer (map (snd \<circ> snd) turns))"
proof -
  obtain m0 where m0: "newMetrics = Ret m0"
    and zero: "mdCreated m0 = 0" "mdReconciled m0 = 0" "pmCreated m0 = 0" "pmReconciled m0 = 0" "dcrCreated m0 = 0" "dcrReconciled m0 = 0"
    by (simp add: newMetrics_def metric_names_def)
  have "(mdCreated (observe turns m0), mdReconciled (observe turns m0)) = gauge_pair (last_answer (map fst turns)) \<and>
    (pmCreated (observe turns m0), pmReconciled (observe turns m0)) = gauge_pair (last_answer (map (fst \<circ> snd) turns)) \<and>
    (dcrCreated (observe turns m0), dcrReconciled (observe turns m0)) = gauge_pair (last_answer (map (snd \<circ> snd) turns))"
    using assms
  proof (induction turns rule: rev_induct)
    case Nil
    then show ?case by (simp add: observe_def gauge_pair_def zero)
  next
    case (snoc t turns)
    obtain a b c where t: "t = (a, b, c)" by (metis prod_cases3)
    have "observe (turns @ [t]) m0 = observe_turn (a, b, c) (observe turns m0)" by (simp add: observe_def t)
    moreover have "sound_listing a" "sound_listing b" "sound_listing c" using snoc.prems [of a b c] by (simp_all add: t)
    ultimately show ?case
      using snoc.IH snoc.prems observe_turn_gauges [of a b c "observe turns m0"]
      by (auto simp: t last_answer_snoc Let_def split: sum.splits)
  qed
  then show ?thesis using m0 by blast
qed

lemma gauge_none: "gauge_pair None = (0, 0)"
  by (simp add: gauge_pair_def)

definition ex_item :: "int64 \<Rightarrow> item_view" where
  "ex_item seen = \<lparr>item_Generation = 2, item_ObservedGeneration = seen,
     item_Conditions = [new_condition ConditionReady ConditionTrue ReasonReconciled [] seen]\<rparr>"

theorem observe_counts_reconciled_witness:
  "\<exists>m0. newMetrics = Ret m0 \<and>
     (let m = observe [(Inr ([ex_item 1, ex_item 2], 3), Inl (), Inl ()), (Inl (), Inl (), Inl ())] m0
      in mdCreated m = 2 \<and> mdReconciled m = 1 \<and> pmCreated m = 0)"
proof -
  have "gauge_pair (Some [ex_item 1, ex_item 2]) = (2, 1)"
    by (simp add: gauge_pair_def reconciled_def ex_item_def cond_is_def FindStatusCondition_def new_condition_def)
  moreover have "sound_listing (Inr ([ex_item 1, ex_item 2], 3))" "sound_listing (Inl ())"
    by (simp_all add: sound_listing_def one_of_each_def ex_item_def)
  ultimately show ?thesis
    using observe_counts_reconciled [of "[(Inr ([ex_item 1, ex_item 2], 3), Inl (), Inl ()), (Inl (), Inl (), Inl ())]"]
    by (auto simp: gauge_none Let_def)
qed

end
