(* ===== verification/Float64.thy ===== *)
theory Float64
  imports Prelude
begin

text \<open>
  Go's \<open>float64\<close>: the values of IEEE 754 binary64 and the operations the sources use, each the exact
  result rounded to the nearest value, ties to even. A finite value is the rational number it stands for (the
  sign of a zero is not recorded: no division by a zero of unknown sign occurs in the sources). A product and a sum are
  rounded one after the other, as on amd64; the platforms on which Go may fuse them are not covered.
\<close>

datatype float64 = NaN | PosInf | NegInf | Fin rat

section \<open>Rounding\<close>

fun bits :: "nat \<Rightarrow> nat" where
  "bits n = (if n = 0 then 0 else Suc (bits (n div 2)))"

declare bits.simps [simp del]

text \<open>The exponent of the largest power of two below a positive number.\<close>

definition ilog2 :: "rat \<Rightarrow> int" where
  "ilog2 x =
     (let (p, q) = quotient_of x; d = int (bits (nat p)) - int (bits (nat q))
      in if x < 2 powi d then d - 1 else d)"

text \<open>53 bits of precision, none below \<open>2\<^sup>-\<^sup>1\<^sup>0\<^sup>7\<^sup>4\<close>.\<close>

definition scale :: "rat \<Rightarrow> int" where
  "scale x = max (ilog2 \<bar>x\<bar> - 52) (- 1074)"

definition half_even :: "rat \<Rightarrow> int" where
  "half_even x =
     (let n = \<lfloor>x\<rfloor>; r = x - of_int n
      in if r < 1 / 2 then n else if 1 / 2 < r then n + 1 else if even n then n else n + 1)"

definition nearest :: "rat \<Rightarrow> rat" where
  "nearest x = (if x = 0 then 0 else of_int (half_even (x / 2 powi scale x)) * 2 powi scale x)"

definition to_float64 :: "rat \<Rightarrow> float64" where
  "to_float64 x =
     (let y = nearest x in if 2 ^ 1024 \<le> y then PosInf else if y \<le> - (2 ^ 1024) then NegInf else Fin y)"

section \<open>Operations\<close>

fun f_neg :: "float64 \<Rightarrow> float64" where
  "f_neg NaN = NaN"
| "f_neg PosInf = NegInf"
| "f_neg NegInf = PosInf"
| "f_neg (Fin x) = Fin (- x)"

fun f_add :: "float64 \<Rightarrow> float64 \<Rightarrow> float64" where
  "f_add (Fin x) (Fin y) = to_float64 (x + y)"
| "f_add NaN _ = NaN"
| "f_add _ NaN = NaN"
| "f_add PosInf NegInf = NaN"
| "f_add NegInf PosInf = NaN"
| "f_add PosInf _ = PosInf"
| "f_add NegInf _ = NegInf"
| "f_add _ PosInf = PosInf"
| "f_add _ NegInf = NegInf"

definition f_sub :: "float64 \<Rightarrow> float64 \<Rightarrow> float64" where
  "f_sub x y = f_add x (f_neg y)"

fun f_sign :: "float64 \<Rightarrow> rat" where
  "f_sign NaN = 0"
| "f_sign PosInf = 1"
| "f_sign NegInf = - 1"
| "f_sign (Fin x) = sgn x"

definition f_inf :: "rat \<Rightarrow> float64" where
  "f_inf s = (if s = 0 then NaN else if 0 < s then PosInf else NegInf)"

fun f_mul :: "float64 \<Rightarrow> float64 \<Rightarrow> float64" where
  "f_mul (Fin x) (Fin y) = to_float64 (x * y)"
| "f_mul x y = (if x = NaN \<or> y = NaN then NaN else f_inf (f_sign x * f_sign y))"

fun f_div :: "float64 \<Rightarrow> float64 \<Rightarrow> float64" where
  "f_div (Fin x) (Fin y) = (if y = 0 then f_inf (sgn x) else to_float64 (x / y))"
| "f_div (Fin x) PosInf = Fin 0"
| "f_div (Fin x) NegInf = Fin 0"
| "f_div PosInf (Fin y) = (if y < 0 then NegInf else PosInf)"
| "f_div NegInf (Fin y) = (if y < 0 then PosInf else NegInf)"
| "f_div _ _ = NaN"

fun f_less :: "float64 \<Rightarrow> float64 \<Rightarrow> bool" where
  "f_less (Fin x) (Fin y) = (x < y)"
| "f_less NegInf (Fin y) = True"
| "f_less (Fin x) PosInf = True"
| "f_less NegInf PosInf = True"
| "f_less _ _ = False"

text \<open>The builtins \<open>min\<close> and \<open>max\<close>: an argument that is not a number wins.\<close>

definition f_min :: "float64 \<Rightarrow> float64 \<Rightarrow> float64" where
  "f_min x y = (if x = NaN \<or> y = NaN then NaN else if f_less y x then y else x)"

definition f_max :: "float64 \<Rightarrow> float64 \<Rightarrow> float64" where
  "f_max x y = (if x = NaN \<or> y = NaN then NaN else if f_less x y then y else x)"

text \<open>\<open>int(f)\<close> cuts off the fraction; beyond 64 bits the result depends on the platform (parameter).\<close>

definition f_int :: "(float64 \<Rightarrow> int) \<Rightarrow> float64 \<Rightarrow> int" where
  "f_int beyond f =
     (case f of
        Fin x \<Rightarrow>
          (let n = (if x < 0 then \<lceil>x\<rceil> else \<lfloor>x\<rfloor>) in if - (2 ^ 63) \<le> n \<and> n < 2 ^ 63 then n else beyond f)
      | _ \<Rightarrow> beyond f)"

text \<open>\<open>%.6f\<close> of \<open>fmt\<close>: the exact value rounded to six decimals, ties to even.\<close>

definition pad_left :: "nat \<Rightarrow> string \<Rightarrow> string" where
  "pad_left n s = replicate (n - length s) (CHR ''0'') @ s"

fun fmt_6f :: "float64 \<Rightarrow> string" where
  "fmt_6f NaN = ''NaN''"
| "fmt_6f PosInf = ''+Inf''"
| "fmt_6f NegInf = ''-Inf''"
| "fmt_6f (Fin x) =
     (let n = nat (half_even (\<bar>x\<bar> * 10 ^ 6))
      in (if x < 0 then ''-'' else []) @ nat_decimal (n div 10 ^ 6) @ ''.'' @ pad_left 6 (nat_decimal (n mod 10 ^ 6)))"

section \<open>Rounding is monotone and keeps what is representable\<close>

lemma bits_bounds: "0 < n \<Longrightarrow> 2 ^ (bits n - 1) \<le> n \<and> n < 2 ^ bits n"
proof (induction n rule: bits.induct)
  case (1 n)
  show ?case
  proof (cases "n div 2 = 0")
    case True
    with 1 have "n = 1" by auto
    then show ?thesis by (simp add: bits.simps)
  next
    case False
    have b: "bits n = Suc (bits (n div 2))" "0 < bits (n div 2)"
      using 1(2) False by (subst bits.simps, simp)+
    have "2 ^ (bits (n div 2) - 1) \<le> n div 2" "n div 2 < 2 ^ bits (n div 2)" using 1 False by auto
    then have "2 * 2 ^ (bits (n div 2) - 1) \<le> n" "n < 2 * 2 ^ bits (n div 2)" by linarith+
    with b show ?thesis by (cases "bits (n div 2)") auto
  qed
qed

lemma bits_powi:
  assumes "0 < p"
  shows "2 powi (int (bits (nat p)) - 1) \<le> (of_int p :: rat)" "(of_int p :: rat) < 2 powi int (bits (nat p))"
proof -
  have b: "0 < bits (nat p)" using assms by (simp add: bits.simps [of "nat p"])
  have B: "2 ^ (bits (nat p) - 1) \<le> nat p" "nat p < 2 ^ bits (nat p)" using bits_bounds [of "nat p"] assms by auto
  have p: "(of_int p :: rat) = of_nat (nat p)" using assms by simp
  have "(of_nat (2 ^ (bits (nat p) - 1)) :: rat) \<le> of_nat (nat p)" using B(1) by (rule of_nat_mono)
  then have "(2 :: rat) ^ (bits (nat p) - 1) \<le> of_nat (nat p)" by (simp only: of_nat_power of_nat_numeral)
  moreover have "int (bits (nat p)) - 1 = int (bits (nat p) - 1)" using b by simp
  ultimately show "2 powi (int (bits (nat p)) - 1) \<le> (of_int p :: rat)" by (simp only: p power_int_of_nat)
  have "(of_nat (nat p) :: rat) < of_nat (2 ^ bits (nat p))" using B(2) by (simp only: of_nat_less_iff)
  then show "(of_int p :: rat) < 2 powi int (bits (nat p))" by (simp only: p of_nat_power of_nat_numeral power_int_of_nat)
qed

lemma pow2_pos [simp]: "0 < (2 :: rat) powi k"
  by (rule zero_less_power_int) simp

lemma pow2_split: "(2 :: rat) powi (i + j) = 2 powi i * 2 powi j" "(2 :: rat) powi (i - j) = 2 powi i / 2 powi j"
  by (simp_all add: power_int_add power_int_diff)

lemma ilog2_bounds:
  assumes "0 < x"
  shows "2 powi ilog2 x \<le> x" "x < 2 powi (ilog2 x + 1)"
proof -
  obtain p q where pq: "quotient_of x = (p, q)" by fastforce
  have q: "0 < q" using quotient_of_denom_pos [OF pq] .
  have x: "x = of_int p / of_int q" using quotient_of_div [OF pq] .
  have p: "0 < p" using assms q x by (simp add: zero_less_divide_iff)
  define d where "d = int (bits (nat p)) - int (bits (nat q))"
  note P = bits_powi [OF p] and Q = bits_powi [OF q]
  have q': "(0 :: rat) < of_int q" using q by simp
  have "x < 2 powi int (bits (nat p)) / 2 powi (int (bits (nat q)) - 1)"
    unfolding x by (rule frac_less) (use P(2) Q(1) p in auto)
  also have "\<dots> = 2 powi (d + 1)"
    unfolding pow2_split [symmetric] d_def by (rule arg_cong [where f = "power_int 2"]) simp
  finally have up: "x < 2 powi (d + 1)" .
  have "(2 :: rat) powi (d - 1) = 2 powi (int (bits (nat p)) - 1) / 2 powi int (bits (nat q))"
    unfolding pow2_split [symmetric] d_def by (rule arg_cong [where f = "power_int 2"]) simp
  also have "\<dots> < x" unfolding x by (rule frac_less2) (use P(1) Q(2) q' in auto)
  finally have low: "2 powi (d - 1) < x" .
  have "ilog2 x = (if x < 2 powi d then d - 1 else d)" by (simp add: ilog2_def pq d_def)
  with up low show "2 powi ilog2 x \<le> x" "x < 2 powi (ilog2 x + 1)" by (auto split: if_splits)
qed

lemma pow2_le_iff [simp]: "(2 :: rat) powi i \<le> 2 powi j \<longleftrightarrow> i \<le> j"
  using power_int_increasing [of i j "2 :: rat"] power_int_strict_increasing [of j i "2 :: rat"] by (cases "i \<le> j") auto

lemma pow2_less_iff [simp]: "(2 :: rat) powi i < 2 powi j \<longleftrightarrow> i < j"
  using pow2_le_iff [of j i] by (simp del: pow2_le_iff add: not_le [symmetric])

lemma ilog2_less: "0 < x \<Longrightarrow> x < 2 powi k \<Longrightarrow> ilog2 x < k"
  using ilog2_bounds(1) [of x] by (metis pow2_less_iff order.strict_trans1)

lemma ilog2_ge: "0 < x \<Longrightarrow> 2 powi k \<le> x \<Longrightarrow> k \<le> ilog2 x"
  using ilog2_bounds(2) [of x] pow2_less_iff [of k "ilog2 x + 1"] by linarith

lemma ilog2_mono: "0 < x \<Longrightarrow> x \<le> y \<Longrightarrow> ilog2 x \<le> ilog2 y"
  using ilog2_bounds(1) [of x] ilog2_ge [of y "ilog2 x"] by linarith

lemma half_even_of_int [simp]: "half_even (of_int n) = n"
  by (simp add: half_even_def)

lemma half_even_bounds: "\<lfloor>x\<rfloor> \<le> half_even x" "half_even x \<le> \<lfloor>x\<rfloor> + 1"
  by (simp_all add: half_even_def Let_def)

lemma half_even_mono:
  assumes "x \<le> y"
  shows "half_even x \<le> half_even y"
proof (cases "\<lfloor>x\<rfloor> = \<lfloor>y\<rfloor>")
  case True
  with assms show ?thesis by (auto simp: half_even_def Let_def)
next
  case False
  with assms have "\<lfloor>x\<rfloor> + 1 \<le> \<lfloor>y\<rfloor>" using floor_mono [OF assms] by simp
  with half_even_bounds(2) [of x] half_even_bounds(1) [of y] show ?thesis by linarith
qed

lemma half_even_le: "x \<le> of_int n \<Longrightarrow> half_even x \<le> n"
  using half_even_mono [of x "of_int n"] by simp

lemma half_even_ge: "of_int n \<le> x \<Longrightarrow> n \<le> half_even x"
  using half_even_mono [of "of_int n" x] by simp

lemma half_even_minus: "half_even (- x) = - half_even x"
proof (cases "x = of_int \<lfloor>x\<rfloor>")
  case True
  then show ?thesis by (metis half_even_of_int of_int_minus)
next
  case False
  then have "of_int \<lfloor>x\<rfloor> < x" using of_int_floor_le [of x] by linarith
  then have "\<lfloor>- x\<rfloor> = - \<lfloor>x\<rfloor> - 1"
    by (intro floor_unique) (use floor_correct [of x] in auto)
  then show ?thesis by (auto simp: half_even_def Let_def)
qed

text \<open>A power of two that is a multiple of the unit of \<open>x\<close> is not jumped over.\<close>

lemma pow2_unit:
  assumes "j \<le> i"
  obtains n :: int where "(2 :: rat) powi i / 2 powi j = of_int n"
  using assms that [of "2 ^ nat (i - j)"] by (simp add: pow2_split [symmetric] power_int_nonneg_exp)

lemma nearest_le_pow2:
  assumes "0 < x" and "scale x \<le> k" and "x \<le> 2 powi k"
  shows "nearest x \<le> 2 powi k"
proof -
  obtain n where n: "(2 :: rat) powi k / 2 powi scale x = of_int n" using assms(2) by (rule pow2_unit)
  have "x / 2 powi scale x \<le> of_int n" unfolding n [symmetric] using assms(3) by (intro divide_right_mono) auto
  then have "half_even (x / 2 powi scale x) \<le> n" by (rule half_even_le)
  then have "(of_int (half_even (x / 2 powi scale x)) :: rat) \<le> 2 powi k / 2 powi scale x" unfolding n by simp
  then show ?thesis using assms(1) by (simp add: nearest_def pos_le_divide_eq)
qed

lemma nearest_ge_pow2:
  assumes "0 < x" and "scale x \<le> k" and "2 powi k \<le> x"
  shows "2 powi k \<le> nearest x"
proof -
  obtain n where n: "(2 :: rat) powi k / 2 powi scale x = of_int n" using assms(2) by (rule pow2_unit)
  have "of_int n \<le> x / 2 powi scale x" unfolding n [symmetric] using assms(3) by (intro divide_right_mono) auto
  then have "n \<le> half_even (x / 2 powi scale x)" by (rule half_even_ge)
  then have "2 powi k / 2 powi scale x \<le> (of_int (half_even (x / 2 powi scale x)) :: rat)" unfolding n by simp
  then show ?thesis using assms(1) by (simp add: nearest_def pos_divide_le_eq)
qed

lemma nearest_mono_pos:
  assumes "0 < x" and "x \<le> y"
  shows "nearest x \<le> nearest y"
proof -
  have y: "0 < y" using assms by simp
  have le: "scale x \<le> scale y" using ilog2_mono [OF assms] assms by (simp add: scale_def)
  show ?thesis
  proof (cases "scale x = scale y")
    case True
    have "x / 2 powi scale y \<le> y / 2 powi scale y" using assms(2) by (intro divide_right_mono) auto
    from half_even_mono [OF this] show ?thesis using True assms(1) y by (simp add: nearest_def mult_right_mono)
  next
    case False
    with le have less: "scale x < scale y" by simp
    then have k: "scale y = ilog2 y - 52" "ilog2 x < ilog2 y" using assms(1) y by (auto simp: scale_def)
    have "x < 2 powi ilog2 y"
      using less_le_trans [OF ilog2_bounds(2) [OF assms(1)], of "2 powi ilog2 y"] k(2) by simp
    then have "nearest x \<le> 2 powi ilog2 y" using nearest_le_pow2 [OF assms(1)] less k(1) by simp
    also have "\<dots> \<le> nearest y" using nearest_ge_pow2 [OF y _ ilog2_bounds(1) [OF y]] k(1) by simp
    finally show ?thesis .
  qed
qed

lemma nearest_nonneg: "0 \<le> x \<Longrightarrow> 0 \<le> nearest x"
  using half_even_ge [of 0 "x / 2 powi scale x"] by (simp add: nearest_def)

lemma nearest_mono: "0 \<le> x \<Longrightarrow> x \<le> y \<Longrightarrow> nearest x \<le> nearest y"
  using nearest_mono_pos [of x y] nearest_nonneg [of y] by (cases "x = 0") (auto simp: nearest_def [of 0])

lemma nearest_minus: "nearest (- x) = - nearest x"
  by (simp add: nearest_def scale_def half_even_minus)

lemma nearest_unit:
  assumes "0 < y" and "k' = scale y" and "y / 2 powi k' = of_int n"
  shows "nearest y = y"
  using assms by (simp add: nearest_def) (simp add: field_simps)

lemma nearest_idem_pos:
  assumes "0 < x"
  shows "nearest (nearest x) = nearest x"
proof -
  define k e y where "k = scale x" and "e = ilog2 x" and "y = nearest x"
  define n where "n = half_even (x / 2 powi k)"
  have y: "y = of_int n * 2 powi k" using assms by (simp add: y_def nearest_def n_def k_def)
  have nonneg: "0 \<le> y" using nearest_nonneg [of x] assms by (simp add: y_def)
  show ?thesis
  proof (cases "y = 0")
    case True
    then show ?thesis by (simp add: y_def nearest_def [of 0])
  next
    case False
    with nonneg have pos: "0 < y" by simp
    show ?thesis
    proof (cases "scale y \<le> k")
      case True
      then obtain j where "(2 :: rat) powi k / 2 powi scale y = of_int j" by (rule pow2_unit)
      then have "of_int n * (2 powi k / 2 powi scale y) = (of_int (n * j) :: rat)" by simp
      then have "y / 2 powi scale y = of_int (n * j)" using y by (metis times_divide_eq_right)
      from nearest_unit [OF pos refl this] show ?thesis by (simp add: y_def)
    next
      case False
      then have up: "scale y = ilog2 y - 52" "e < ilog2 y" "- 1074 < ilog2 y - 52"
        using pos assms by (auto simp: scale_def k_def e_def)
      have "k \<le> max (e + 1) (- 1074)" using assms by (simp add: k_def scale_def e_def)
      moreover have "x \<le> 2 powi max (e + 1) (- 1074)"
        using less_le_trans [OF ilog2_bounds(2) [OF assms], of "2 powi max (e + 1) (- 1074)"] by (simp add: e_def)
      ultimately have "y \<le> 2 powi max (e + 1) (- 1074)" using nearest_le_pow2 [OF assms] by (simp add: y_def k_def)
      with ilog2_bounds(1) [OF pos] have "(2 :: rat) powi ilog2 y \<le> 2 powi max (e + 1) (- 1074)" by linarith
      with up have "ilog2 y = e + 1" "max (e + 1) (- 1074) = e + 1" by auto
      with \<open>y \<le> _\<close> ilog2_bounds(1) [OF pos] have "y = 2 powi ilog2 y" by simp
      then have "y / 2 powi scale y = 2 powi ilog2 y / 2 powi (ilog2 y - 52)" unfolding up(1) by (rule arg_cong)
      then have "y / 2 powi scale y = 2 powi 52" by (simp add: pow2_split)
      then show ?thesis using nearest_unit [OF pos refl, of "2 ^ 52"] by (simp add: y_def [symmetric])
    qed
  qed
qed

lemma nearest_idem [simp]: "nearest (nearest x) = nearest x"
  using nearest_idem_pos [of x] nearest_idem_pos [of "- x"] by (cases "0 < x"; cases "x = 0") (auto simp: nearest_minus nearest_def [of 0])

lemma nearest_1 [simp]: "nearest 1 = 1" "nearest 0 = 0"
proof -
  have "ilog2 1 = 0" by (simp add: ilog2_def bits.simps)
  then have "(1 :: rat) / 2 powi scale 1 = of_int (2 ^ 52)" by (simp add: scale_def)
  from nearest_unit [OF _ refl this] show "nearest 1 = 1" by simp
  show "nearest 0 = 0" by (simp add: nearest_def)
qed

section \<open>Values of the type\<close>

fun is_float64 :: "float64 \<Rightarrow> bool" where
  "is_float64 (Fin x) = (nearest x = x \<and> \<bar>x\<bar> < 2 ^ 1024)"
| "is_float64 _ = True"

lemma to_float64_is [simp]: "is_float64 (to_float64 x)"
  by (auto simp: to_float64_def Let_def)

lemma f_add_is [simp]: "is_float64 x \<Longrightarrow> is_float64 y \<Longrightarrow> is_float64 (f_add x y)"
  by (cases x; cases y) simp_all

lemma f_mul_is [simp]: "is_float64 (f_mul x y)"
  by (cases x; cases y) (simp_all add: f_inf_def)

lemma f_min_max_is [simp]:
  "is_float64 x \<Longrightarrow> is_float64 y \<Longrightarrow> is_float64 (f_min x y)" "is_float64 x \<Longrightarrow> is_float64 y \<Longrightarrow> is_float64 (f_max x y)"
  by (simp_all add: f_min_def f_max_def)

text \<open>Only the difference of two infinities, or a factor zero of one, is not a number.\<close>

lemma to_float64_not_NaN [simp]: "to_float64 x \<noteq> NaN"
  by (simp add: to_float64_def Let_def)

lemma f_add_Fin_not_NaN [simp]: "y \<noteq> NaN \<Longrightarrow> f_add (Fin x) y \<noteq> NaN"
  by (cases y) simp_all

lemma f_clamp:
  assumes "lo \<le> hi" and "v \<noteq> NaN"
  shows "\<exists>x. f_max (Fin lo) (f_min (Fin hi) v) = Fin x \<and> lo \<le> x \<and> x \<le> hi"
  using assms by (cases v) (auto simp: f_max_def f_min_def)

lemma nearest_abs: "\<bar>nearest x\<bar> = nearest \<bar>x\<bar>"
  using nearest_nonneg [of x] nearest_nonneg [of "- x"] by (cases "0 \<le> x") (auto simp: nearest_minus abs_if)

lemma nearest_le_2: "\<bar>x\<bar> \<le> 2 \<Longrightarrow> \<bar>nearest x\<bar> \<le> 2"
proof (cases "x = 0")
  case False
  assume x: "\<bar>x\<bar> \<le> 2"
  have "\<bar>x\<bar> < 2 powi 2" using x by simp
  from ilog2_less [OF _ this] False have "scale \<bar>x\<bar> \<le> 1" by (simp add: scale_def)
  with nearest_le_pow2 [of "\<bar>x\<bar>" 1] x False show ?thesis by (simp add: nearest_abs)
qed simp

lemma to_float64_small:
  assumes "\<bar>x\<bar> \<le> 2"
  shows "to_float64 x = Fin (nearest x)"
proof -
  have "(2 :: rat) ^ 1 < 2 ^ 1024" by (rule power_strict_increasing) auto
  with nearest_le_2 [OF assms] show ?thesis by (auto simp: to_float64_def Let_def)
qed

text \<open>A product with a factor in \<open>[-1, 1)\<close> drawn as \<open>2 r - 1\<close> is a number.\<close>

lemma random_factor:
  assumes "0 \<le> r" and "r < 1"
  shows "\<exists>z. f_sub (f_mul (Fin r) (Fin 2)) (Fin 1) = Fin z"
proof -
  have "\<bar>r * 2\<bar> \<le> 2" using assms by simp
  from to_float64_small [OF this] nearest_le_2 [OF this] nearest_nonneg [of "r * 2"] assms(1)
  have "f_mul (Fin r) (Fin 2) = Fin (nearest (r * 2))" "\<bar>nearest (r * 2) - 1\<bar> \<le> 2" by simp_all
  with to_float64_small show ?thesis by (auto simp: f_sub_def)
qed

lemma nearest_small_int:
  assumes "0 < n" and "n < 2 ^ 53"
  shows "nearest (of_int n) = of_int n"
proof -
  have n: "(0 :: rat) < of_int n" using assms(1) by simp
  have "(of_int n :: rat) < of_int (2 ^ 53)" using assms(2) by (simp only: of_int_less_iff)
  then have "(of_int n :: rat) < 2 powi 53" by simp
  from ilog2_less [OF n this] assms(1) have "scale (of_int n) \<le> 0" by (simp add: scale_def)
  then obtain j where "(2 :: rat) powi 0 / 2 powi scale (of_int n) = of_int j" by (rule pow2_unit)
  then have "of_int n / 2 powi scale (of_int n) = (of_int (n * j) :: rat)" by (simp add: divide_inverse)
  from nearest_unit [OF n refl this] show ?thesis .
qed

lemma is_float64_nat:
  assumes "0 < n" and "n < 2 ^ 53"
  shows "is_float64 (Fin (of_int n))"
proof -
  have "\<bar>of_int n :: rat\<bar> = of_int n" using assms(1) by simp
  also have "(of_int n :: rat) < of_int (2 ^ 53)" using assms(2) by (simp only: of_int_less_iff)
  also have "of_int (2 ^ 53) < (2 :: rat) ^ 1024" by simp
  finally show ?thesis using nearest_small_int [OF assms] by simp
qed

section \<open>Fractions of a total\<close>

text \<open>A sum of values that are not negative is at least each of them, rounded as it is.\<close>

lemma f_add_ge:
  assumes "is_float64 (Fin x)" and "is_float64 (Fin y)" and "0 \<le> x" and "0 \<le> y"
  shows "f_add (Fin x) (Fin y) = PosInf \<or> (\<exists>z. f_add (Fin x) (Fin y) = Fin z \<and> x \<le> z \<and> y \<le> z)"
proof -
  have "nearest x \<le> nearest (x + y)" "nearest y \<le> nearest (x + y)" using assms(3,4) by (simp_all add: nearest_mono)
  moreover have "- (2 ^ 1024) < (0 :: rat)" by simp
  then have "\<not> nearest (x + y) \<le> - (2 ^ 1024)" using nearest_nonneg [of "x + y"] assms(3,4) by linarith
  ultimately show ?thesis using assms(1,2) by (auto simp: to_float64_def Let_def)
qed

lemma f_div_fraction:
  assumes "0 \<le> x" and "x \<le> y" and "0 < y"
  shows "\<exists>z. f_div (Fin x) (Fin y) = Fin z \<and> 0 \<le> z \<and> z \<le> 1"
proof -
  have q: "0 \<le> x / y" "x / y \<le> 1" using assms by simp_all
  have "0 \<le> nearest (x / y)" "nearest (x / y) \<le> nearest 1"
    using nearest_nonneg [OF q(1)] nearest_mono [OF q] by simp_all
  moreover have "\<bar>x / y\<bar> \<le> 2" using q by linarith
  ultimately show ?thesis using to_float64_small [of "x / y"] assms(3) by simp
qed

end
