(* ===== verification/Mocks.thy ===== *)
theory Mocks
  imports Float64 Errors
begin

text \<open>
  The mock devices of the development environment, \<open>dev/mocks\<close>: the random walk of
  \<open>internal/simulation\<close> with its configuration, the SNMP responder \<open>cmd/snmp\<close> and the exporter of
  per-VM fractions \<open>cmd/vm-attribution\<close>. The environment (\<open>os.Getenv\<close>), the text reader for floats
  (\<open>strconv.ParseFloat\<close>), the answers of \<open>rand.Float64\<close> and the codec of gosnmp are parameters. A walk is locked
  while it moves, so the calls on it form a sequence; \<open>draw n\<close> is the answer to the n-th call of
  \<open>rand.Float64\<close>. Requests are served one at a time.
\<close>

section \<open>Configuration from the environment\<close>

definition EnvString :: "(string \<Rightarrow> string) \<Rightarrow> string \<Rightarrow> string \<Rightarrow> string" where
  "EnvString get name defaultValue = (let value = get name in if value \<noteq> [] then value else defaultValue)"

definition EnvFloat ::
    "(string \<Rightarrow> sys_error + float64) \<Rightarrow> (string \<Rightarrow> string) \<Rightarrow> string \<Rightarrow> float64 \<Rightarrow> float64" where
  "EnvFloat ParseFloat get name defaultValue =
     (let raw = get name in
      if raw = [] then defaultValue
      else (case ParseFloat raw of Inl err \<Rightarrow> defaultValue | Inr value \<Rightarrow> value))"

text \<open>
  \<open>strings.Fields\<close>: the words between white space, the spaces of Unicode in UTF-8 included. Their first
  bytes never occur inside another character.
\<close>

fun space_len :: "string \<Rightarrow> nat" where
  "space_len (a # b # c # s) =
     (if is_space a then 1
      else if a = CHR 0xC2 \<and> b \<in> {CHR 0x85, CHR 0xA0} then 2
      else if a = CHR 0xE1 \<and> b = CHR 0x9A \<and> c = CHR 0x80 then 3
      else if a = CHR 0xE2 \<and> b = CHR 0x80 \<and>
        (0x80 \<le> (of_char c :: nat) \<and> (of_char c :: nat) \<le> 0x8A \<or> c \<in> {CHR 0xA8, CHR 0xA9, CHR 0xAF}) then 3
      else if a = CHR 0xE2 \<and> b = CHR 0x81 \<and> c = CHR 0x9F then 3
      else if a = CHR 0xE3 \<and> b = CHR 0x80 \<and> c = CHR 0x80 then 3
      else 0)"
| "space_len [a, b] = (if is_space a then 1 else if a = CHR 0xC2 \<and> b \<in> {CHR 0x85, CHR 0xA0} then 2 else 0)"
| "space_len [a] = (if is_space a then 1 else 0)"
| "space_len [] = 0"

function split_spaces :: "string \<Rightarrow> string list" where
  "split_spaces [] = [[]]"
| "split_spaces (c # s) =
     (case space_len (c # s) of
        0 \<Rightarrow> (case split_spaces s of [] \<Rightarrow> [[c]] | w # ws \<Rightarrow> (c # w) # ws)
      | Suc k \<Rightarrow> [] # split_spaces (drop k s))"
  by pat_completeness auto
termination by (relation "measure length") auto

definition strings_Fields :: "string \<Rightarrow> string list" where
  "strings_Fields s = filter (\<lambda>w. w \<noteq> []) (split_spaces s)"

fun env_ints :: "string list \<Rightarrow> int list \<Rightarrow> int list option" where
  "env_ints [] vals = Some vals"
| "env_ints (field # rest) vals =
     (case strconv_Atoi field of
        (value, err) \<Rightarrow> (if err \<noteq> None \<or> value < 0 then None else env_ints rest (vals @ [value])))"

definition EnvInts :: "(string \<Rightarrow> string) \<Rightarrow> string \<Rightarrow> int list \<Rightarrow> int list" where
  "EnvInts get name defaultValues =
     (let raw = get name in
      if raw = [] then defaultValues
      else
        (let words = strings_Fields (map (\<lambda>c. if c = CHR '','' then CHR '' '' else c) raw) in
         if words = [] then defaultValues
         else (case env_ints words [] of None \<Rightarrow> defaultValues | Some vals \<Rightarrow> vals)))"

section \<open>The random walk\<close>

record Bounds =
  b_Min :: float64
  b_Max :: float64
  b_Start :: float64
  b_Variance :: float64

definition BoundsFromEnv ::
    "(string \<Rightarrow> sys_error + float64) \<Rightarrow> (string \<Rightarrow> string) \<Rightarrow> string \<Rightarrow> Bounds \<Rightarrow> Bounds" where
  "BoundsFromEnv ParseFloat get prefix defaults =
     \<lparr>b_Min = EnvFloat ParseFloat get (prefix @ ''_MIN'') (b_Min defaults),
      b_Max = EnvFloat ParseFloat get (prefix @ ''_MAX'') (b_Max defaults),
      b_Start = EnvFloat ParseFloat get (prefix @ ''_START'') (b_Start defaults),
      b_Variance = EnvFloat ParseFloat get (prefix @ ''_VARIANCE'') (b_Variance defaults)\<rparr>"

record Walk =
  walk_bounds :: Bounds
  walk_values :: "(string, float64) fmap"

definition NewWalk :: "Bounds \<Rightarrow> Walk" where
  "NewWalk bounds = \<lparr>walk_bounds = bounds, walk_values = fmempty\<rparr>"

text \<open>The walk next to the number of calls of \<open>rand.Float64\<close> so far.\<close>

definition Next :: "(nat \<Rightarrow> float64) \<Rightarrow> string \<Rightarrow> Walk \<times> nat \<Rightarrow> float64 \<times> Walk \<times> nat" where
  "Next draw key st =
     (case st of
        (w, n) \<Rightarrow>
          (let start = (case fmlookup (walk_values w) key of None \<Rightarrow> b_Start (walk_bounds w) | Some v \<Rightarrow> v);
               moved = f_add start (f_mul (f_sub (f_mul (draw n) (Fin 2)) (Fin 1)) (b_Variance (walk_bounds w)));
               value = f_max (b_Min (walk_bounds w)) (f_min (b_Max (walk_bounds w)) moved)
           in (value, w\<lparr>walk_values := fmupd key value (walk_values w)\<rparr>, Suc n)))"

text \<open>A loop that calls \<open>Next\<close> once per key.\<close>

fun Next_all :: "(nat \<Rightarrow> float64) \<Rightarrow> string list \<Rightarrow> Walk \<times> nat \<Rightarrow> float64 list \<times> Walk \<times> nat" where
  "Next_all draw [] st = ([], st)"
| "Next_all draw (key # keys) st =
     (case Next draw key st of
        (value, st1) \<Rightarrow> (case Next_all draw keys st1 of (vals, st2) \<Rightarrow> (value # vals, st2)))"

section \<open>The SNMP responder\<close>

datatype pdu_type = GetRequest | GetResponse | OtherPDU nat

datatype ber_type = Integer | OtherBER nat

datatype snmp_value = IntValue int | OtherValue string

record SnmpPDU =
  pdu_Name :: string
  pdu_Type :: ber_type
  pdu_Value :: snmp_value

record SnmpPacket =
  pk_Version :: int
  pk_Community :: string
  pk_PDUType :: pdu_type
  pk_RequestID :: int
  pk_Variables :: "SnmpPDU list"

record snmp_codec =
  SnmpDecodePacket :: "bytes \<Rightarrow> sys_error + SnmpPacket"
  MarshalMsg :: "SnmpPacket \<Rightarrow> sys_error + bytes"

definition MOCK_SNMP_bounds :: Bounds where
  "MOCK_SNMP_bounds = \<lparr>b_Min = Fin 200, b_Max = Fin 800, b_Start = Fin 500, b_Variance = Fin 10\<rparr>"

record snmp_mock =
  address :: string
  snmp_walk :: Walk

definition snmp_mock_of :: "(string \<Rightarrow> sys_error + float64) \<Rightarrow> (string \<Rightarrow> string) \<Rightarrow> snmp_mock" where
  "snmp_mock_of ParseFloat get =
     \<lparr>address = EnvString get ''MOCK_SNMP_ADDRESS'' '':1161'',
      snmp_walk = NewWalk (BoundsFromEnv ParseFloat get ''MOCK_SNMP_VALUE'' MOCK_SNMP_bounds)\<rparr>"

fun read_variables ::
    "(float64 \<Rightarrow> int) \<Rightarrow> (nat \<Rightarrow> float64) \<Rightarrow> SnmpPDU list \<Rightarrow> Walk \<times> nat \<Rightarrow> SnmpPDU list \<times> Walk \<times> nat" where
  "read_variables beyond draw [] st = ([], st)"
| "read_variables beyond draw (v # vs) st =
     (case Next draw (pdu_Name v) st of
        (value, st1) \<Rightarrow>
          (case read_variables beyond draw vs st1 of
             (rest, st2) \<Rightarrow> (v\<lparr>pdu_Type := Integer, pdu_Value := IntValue (f_int beyond value)\<rparr> # rest, st2)))"

text \<open>One datagram of the loop: the answer that is sent, if any.\<close>

definition answer ::
    "snmp_codec \<Rightarrow> (float64 \<Rightarrow> int) \<Rightarrow> (nat \<Rightarrow> float64) \<Rightarrow> bytes \<Rightarrow> Walk \<times> nat \<Rightarrow> bytes option \<times> Walk \<times> nat" where
  "answer C beyond draw buf st =
     (case SnmpDecodePacket C buf of
        Inl err \<Rightarrow> (None, st)
      | Inr packet \<Rightarrow>
          (if pk_PDUType packet = GetRequest then
             (case read_variables beyond draw (pk_Variables packet) st of
                (variables, st1) \<Rightarrow>
                  (case MarshalMsg C
                          \<lparr>pk_Version = pk_Version packet, pk_Community = pk_Community packet,
                           pk_PDUType = GetResponse, pk_RequestID = pk_RequestID packet, pk_Variables = variables\<rparr> of
                     Inl err \<Rightarrow> (None, st1)
                   | Inr out \<Rightarrow> (Some out, st1)))
           else (None, st)))"

text \<open>The loop over what \<open>ReadFrom\<close> returns (at most 2048 bytes of a datagram), and the answers it sends.\<close>

fun snmp_serve ::
    "snmp_codec \<Rightarrow> (float64 \<Rightarrow> int) \<Rightarrow> (nat \<Rightarrow> float64) \<Rightarrow> (sys_error + bytes) list \<Rightarrow> Walk \<times> nat
      \<Rightarrow> bytes list \<times> Walk \<times> nat" where
  "snmp_serve C beyond draw [] st = ([], st)"
| "snmp_serve C beyond draw (Inl err # inputs) st = snmp_serve C beyond draw inputs st"
| "snmp_serve C beyond draw (Inr datagram # inputs) st =
     (case answer C beyond draw (take 2048 datagram) st of
        (reply, st1) \<Rightarrow>
          (case snmp_serve C beyond draw inputs st1 of
             (replies, st2) \<Rightarrow> ((case reply of None \<Rightarrow> replies | Some out \<Rightarrow> out # replies), st2)))"

section \<open>The exporter of fractions\<close>

definition vmAttributionBase :: string where
  "vmAttributionBase =
     ''# HELP vm_attribution_coefficient Fraction of total system usage attributed to this VM.'' @ [CHR 0x0A] @
     ''# TYPE vm_attribution_coefficient gauge'' @ [CHR 0x0A]"

definition MOCK_VM_ATTR_bounds :: Bounds where
  "MOCK_VM_ATTR_bounds =
     \<lparr>b_Min = to_float64 (2 / 10), b_Max = Fin 1, b_Start = to_float64 (6 / 10), b_Variance = to_float64 (2 / 100)\<rparr>"

record vm_mock =
  hostName :: string
  vmIDs :: "int list"
  vm_port :: string

definition vm_mock_of :: "(string \<Rightarrow> string) \<Rightarrow> vm_mock" where
  "vm_mock_of get =
     \<lparr>hostName = EnvString get ''MOCK_VM_ATTR_HOST_NAME'' ''prometheus-mock-bm-1'',
      vmIDs = EnvInts get ''MOCK_VM_ATTR_VM_IDS'' [120, 121],
      vm_port = EnvString get ''MOCK_VM_ATTR_PORT'' ''9090''\<rparr>"

definition vm_weights :: "(string \<Rightarrow> sys_error + float64) \<Rightarrow> (string \<Rightarrow> string) \<Rightarrow> Walk" where
  "vm_weights ParseFloat get = NewWalk (BoundsFromEnv ParseFloat get ''MOCK_VM_ATTR_WEIGHT'' MOCK_VM_ATTR_bounds)"

definition attribution_line :: "string \<Rightarrow> int \<Rightarrow> float64 \<Rightarrow> string" where
  "attribution_line host vmID c =
     ''vm_attribution_coefficient{name='' @ [CHR 0x22] @ host @ [CHR 0x22] @ '',resource_consumer_id='' @ [CHR 0x22] @
     ''/qemu.slice/'' @ strconv_Itoa vmID @ ''.scope'' @ [CHR 0x22] @ ''} '' @ fmt_6f c @ [CHR 0x0A]"

definition simulateVMAttribution :: "vm_mock \<Rightarrow> (nat \<Rightarrow> float64) \<Rightarrow> Walk \<times> nat \<Rightarrow> string \<times> Walk \<times> nat" where
  "simulateVMAttribution M draw st =
     (case Next_all draw (map strconv_Itoa (vmIDs M)) st of
        (vmWeights, st1) \<Rightarrow>
          (let totalWeight = fold (\<lambda>v total. f_add total v) vmWeights (Fin 1)
           in (concat (map (\<lambda>(vmID, weight). attribution_line (hostName M) vmID (f_div weight totalWeight))
                         (zip (vmIDs M) vmWeights)), st1)))"

record http_answer =
  ans_status :: nat
  ans_type :: string
  ans_body :: string

definition metrics :: "vm_mock \<Rightarrow> (nat \<Rightarrow> float64) \<Rightarrow> string \<Rightarrow> Walk \<times> nat \<Rightarrow> http_answer \<times> Walk \<times> nat" where
  "metrics M draw meth st =
     (if meth \<noteq> ''GET'' then
        (\<lparr>ans_status = 405, ans_type = ''text/plain; charset=utf-8'', ans_body = ''Method not allowed'' @ [CHR 0x0A]\<rparr>, st)
      else
        (case simulateVMAttribution M draw st of
           (lines, st1) \<Rightarrow>
             (\<lparr>ans_status = 200, ans_type = ''text/plain; version=0.0.4; charset=utf-8'',
               ans_body = vmAttributionBase @ lines\<rparr>, st1)))"

section \<open>The walk stays within its bounds\<close>

text \<open>The configuration is finite and not empty, the draws are numbers, and so is what the walk has stored.\<close>

definition sane_bounds :: "Bounds \<Rightarrow> rat \<Rightarrow> rat \<Rightarrow> bool" where
  "sane_bounds b lo hi \<longleftrightarrow>
     b_Min b = Fin lo \<and> b_Max b = Fin hi \<and> lo \<le> hi \<and> is_float64 (Fin lo) \<and> is_float64 (Fin hi)
   \<and> (\<exists>s v. b_Start b = Fin s \<and> b_Variance b = Fin v \<and> is_float64 (Fin s))"

definition sane_draws :: "(nat \<Rightarrow> float64) \<Rightarrow> bool" where
  "sane_draws draw \<longleftrightarrow> (\<forall>n. \<exists>r. draw n = Fin r \<and> 0 \<le> r \<and> r < 1)"

fun within :: "rat \<Rightarrow> rat \<Rightarrow> float64 \<Rightarrow> bool" where
  "within lo hi (Fin x) = (lo \<le> x \<and> x \<le> hi \<and> is_float64 (Fin x))"
| "within lo hi _ = False"

definition walk_inv :: "rat \<Rightarrow> rat \<Rightarrow> Walk \<Rightarrow> bool" where
  "walk_inv lo hi w \<longleftrightarrow>
     sane_bounds (walk_bounds w) lo hi \<and> (\<forall>key v. fmlookup (walk_values w) key = Some v \<longrightarrow> within lo hi v)"

lemma NewWalk_inv: "sane_bounds b lo hi \<Longrightarrow> walk_inv lo hi (NewWalk b)"
  by (simp add: walk_inv_def NewWalk_def)

lemma within_Fin: "within lo hi f \<longleftrightarrow> (\<exists>x. f = Fin x \<and> lo \<le> x \<and> x \<le> hi \<and> is_float64 f)"
  by (cases f) auto

lemma Next_within:
  assumes "walk_inv lo hi w" and "sane_draws draw" and "Next draw key (w, n) = (value, w', n')"
  shows "within lo hi value" "walk_inv lo hi w'"
proof -
  obtain s v where b: "b_Min (walk_bounds w) = Fin lo" "b_Max (walk_bounds w) = Fin hi" "lo \<le> hi" "is_float64 (Fin lo)"
      "is_float64 (Fin hi)" "b_Start (walk_bounds w) = Fin s" "b_Variance (walk_bounds w) = Fin v" "is_float64 (Fin s)"
    using assms(1) by (auto simp: walk_inv_def sane_bounds_def)
  obtain x where x: "(case fmlookup (walk_values w) key of None \<Rightarrow> b_Start (walk_bounds w) | Some v \<Rightarrow> v) = Fin x"
      "is_float64 (Fin x)"
    using assms(1) b(6,8) by (cases "fmlookup (walk_values w) key") (auto simp: walk_inv_def within_Fin simp del: is_float64.simps)
  obtain r where "draw n = Fin r" "0 \<le> r" "r < 1" using assms(2) by (auto simp: sane_draws_def)
  then obtain z where z: "f_sub (f_mul (draw n) (Fin 2)) (Fin 1) = Fin z" using random_factor by metis
  define moved where "moved = f_add (Fin x) (f_mul (Fin z) (Fin v))"
  have moved: "moved \<noteq> NaN" "is_float64 moved"
    using f_add_is [OF x(2) f_mul_is [of "Fin z" "Fin v"]] by (simp_all add: moved_def)
  have out: "value = f_max (Fin lo) (f_min (Fin hi) moved)"
      "w' = w\<lparr>walk_values := fmupd key value (walk_values w)\<rparr>"
    using assms(3) x(1) b z by (auto simp: Next_def Let_def moved_def simp del: f_mul.simps f_add.simps)
  have "is_float64 value" unfolding out(1) using moved(2) b(4,5) by (simp del: is_float64.simps)
  with f_clamp [OF b(3) moved(1)] out(1) show within: "within lo hi value" by (auto simp del: is_float64.simps simp: within_Fin)
  with assms(1) out(2) show "walk_inv lo hi w'" by (auto simp: walk_inv_def)
qed

lemma Next_all_within:
  "walk_inv lo hi w \<Longrightarrow> sane_draws draw \<Longrightarrow> Next_all draw keys (w, n) = (vals, w', n') \<Longrightarrow>
    list_all (within lo hi) vals \<and> walk_inv lo hi w' \<and> length vals = length keys \<and> n' = n + length keys"
proof (induction keys arbitrary: w n vals)
  case (Cons key keys)
  obtain v1 w1 n1 where nx: "Next draw key (w, n) = (v1, w1, n1)" by (metis prod_cases3)
  obtain rest w2 n2 where r: "Next_all draw keys (w1, n1) = (rest, w2, n2)" by (metis prod_cases3)
  have n1: "n1 = Suc n" using nx by (auto simp: Next_def Let_def)
  have out: "vals = v1 # rest" "w2 = w'" "n2 = n'" using Cons.prems(3) nx r by auto
  from Cons.IH [OF Next_within(2) [OF Cons.prems(1,2) nx] Cons.prems(2) r [unfolded out(2,3)]]
  show ?case using Next_within(1) [OF Cons.prems(1,2) nx] n1 out(1) by simp
qed simp

text \<open>Each key has its own walk.\<close>

lemma Next_other:
  "Next draw key (w, n) = (value, w', n') \<Longrightarrow> k \<noteq> key \<Longrightarrow> fmlookup (walk_values w') k = fmlookup (walk_values w) k"
  by (auto simp: Next_def Let_def)

text \<open>
  The simulated readings stay within the configured bounds. Whatever keys are asked for in whatever
  order, and whatever is drawn, every reading is a finite value between the minimum and the maximum, rounding
  of the arithmetic included.
\<close>

theorem walk_stays_in_bounds:
  assumes "sane_bounds b lo hi" and "sane_draws draw"
  shows "list_all (within lo hi) (fst (Next_all draw keys (NewWalk b, n)))"
proof -
  obtain vals w' n' where "Next_all draw keys (NewWalk b, n) = (vals, w', n')" by (metis prod_cases3)
  with Next_all_within [OF NewWalk_inv [OF assms(1)] assms(2) this] show ?thesis by simp
qed

lemma f_int_within:
  assumes "within (of_int lo) (of_int hi) f" and "0 \<le> lo" and "hi < 2 ^ 63"
  shows "lo \<le> f_int beyond f" "f_int beyond f \<le> hi"
proof -
  obtain x where x: "f = Fin x" "of_int lo \<le> x" "x \<le> of_int hi" using assms(1) by (cases f) auto
  have "lo \<le> \<lfloor>x\<rfloor>" "\<lfloor>x\<rfloor> \<le> hi" using x(2,3) by (simp_all add: le_floor_iff floor_le_iff)
  moreover have "0 \<le> x" using x(2) assms(2) by (metis of_int_0_le_iff order_trans)
  moreover have "\<lfloor>x\<rfloor> < 2 ^ 63" "- (2 ^ 63) \<le> \<lfloor>x\<rfloor>" using \<open>\<lfloor>x\<rfloor> \<le> hi\<close> \<open>lo \<le> \<lfloor>x\<rfloor>\<close> assms(2,3) by linarith+
  ultimately have "f_int beyond f = \<lfloor>x\<rfloor>" unfolding f_int_def x(1) float64.case Let_def by auto
  with \<open>lo \<le> \<lfloor>x\<rfloor>\<close> \<open>\<lfloor>x\<rfloor> \<le> hi\<close> show "lo \<le> f_int beyond f" "f_int beyond f \<le> hi" by simp_all
qed

fun reading_of :: "int \<Rightarrow> int \<Rightarrow> SnmpPDU \<Rightarrow> bool" where
  "reading_of lo hi v = (pdu_Type v = Integer \<and> (\<exists>i. pdu_Value v = IntValue i \<and> lo \<le> i \<and> i \<le> hi))"

lemma read_variables_within:
  assumes "sane_draws draw" and "0 \<le> lo" and "hi < 2 ^ 63"
  shows "walk_inv (of_int lo) (of_int hi) w \<Longrightarrow> read_variables beyond draw vs (w, n) = (vs', w', n') \<Longrightarrow>
    map pdu_Name vs' = map pdu_Name vs \<and> list_all (reading_of lo hi) vs' \<and> walk_inv (of_int lo) (of_int hi) w'"
proof (induction vs arbitrary: w n vs')
  case (Cons v vs)
  obtain x w1 n1 where nx: "Next draw (pdu_Name v) (w, n) = (x, w1, n1)" by (metis prod_cases3)
  obtain rest w2 n2 where r: "read_variables beyond draw vs (w1, n1) = (rest, w2, n2)" by (metis prod_cases3)
  have out: "vs' = v\<lparr>pdu_Type := Integer, pdu_Value := IntValue (f_int beyond x)\<rparr> # rest" "w2 = w'" "n2 = n'"
    using Cons.prems(2) nx r by auto
  note moved = Next_within [OF Cons.prems(1) assms(1) nx]
  from Cons.IH [OF moved(2) r [unfolded out(2,3)]] f_int_within [OF moved(1) assms(2,3)] out(1) show ?case by simp
qed simp

text \<open>
  The responder answers a GET request for the variables asked for, in their order, each with an integer within the
  bounds, under the identifier of the request; anything else it leaves unanswered and the walk unmoved.
\<close>

theorem answer_within_bounds:
  assumes "walk_inv (of_int lo) (of_int hi) w" and "sane_draws draw" and "0 \<le> lo" and "hi < 2 ^ 63"
    and "answer C beyond draw buf (w, n) = (Some out, st)"
  shows "\<exists>packet vs. SnmpDecodePacket C buf = Inr packet \<and> pk_PDUType packet = GetRequest
    \<and> MarshalMsg C (packet\<lparr>pk_PDUType := GetResponse, pk_Variables := vs\<rparr>) = Inr out
    \<and> map pdu_Name vs = map pdu_Name (pk_Variables packet) \<and> list_all (reading_of lo hi) vs
    \<and> walk_inv (of_int lo) (of_int hi) (fst st)"
proof -
  obtain packet where p: "SnmpDecodePacket C buf = Inr packet" "pk_PDUType packet = GetRequest"
    using assms(5) by (auto simp: answer_def split: sum.splits if_splits)
  obtain vs w' n' where r: "read_variables beyond draw (pk_Variables packet) (w, n) = (vs, w', n')" by (metis prod_cases3)
  have "MarshalMsg C \<lparr>pk_Version = pk_Version packet, pk_Community = pk_Community packet, pk_PDUType = GetResponse,
      pk_RequestID = pk_RequestID packet, pk_Variables = vs\<rparr> = Inr out" "st = (w', n')"
    using assms(5) p r by (auto simp: answer_def split: sum.splits)
  moreover have "\<lparr>pk_Version = pk_Version packet, pk_Community = pk_Community packet, pk_PDUType = GetResponse,
      pk_RequestID = pk_RequestID packet, pk_Variables = vs\<rparr> = packet\<lparr>pk_PDUType := GetResponse, pk_Variables := vs\<rparr>"
    by (cases packet) simp
  ultimately show ?thesis using p read_variables_within [OF assms(2-4,1) r] by auto
qed

section \<open>The fractions of the virtual machines\<close>

fun fraction :: "float64 \<Rightarrow> bool" where
  "fraction (Fin x) = (0 \<le> x \<and> x \<le> 1)"
| "fraction _ = False"

text \<open>The total of the weights is at least one and at least each weight, or has overflowed.\<close>

definition total_above :: "float64 \<Rightarrow> rat \<Rightarrow> bool" where
  "total_above t x \<longleftrightarrow> t = PosInf \<or> (\<exists>y. t = Fin y \<and> x \<le> y \<and> 1 \<le> y \<and> is_float64 t)"

lemma total_above_add:
  assumes "total_above t x" and "within lo hi v" and "0 \<le> lo"
  shows "total_above (f_add t v) x" "\<exists>y. v = Fin y \<and> 0 \<le> y \<and> total_above (f_add t v) y"
proof -
  obtain y where y: "v = Fin y" "0 \<le> y" "is_float64 (Fin y)" using assms(2,3) by (cases v) auto
  have "t = PosInf \<or> (\<exists>z. t = Fin z \<and> x \<le> z \<and> 1 \<le> z \<and> is_float64 (Fin z))"
    using assms(1) by (auto simp: total_above_def simp del: is_float64.simps)
  then have "f_add t v = PosInf \<or> (\<exists>u. f_add t v = Fin u \<and> x \<le> u \<and> 1 \<le> u \<and> y \<le> u \<and> is_float64 (Fin u))"
  proof
    assume "\<exists>z. t = Fin z \<and> x \<le> z \<and> 1 \<le> z \<and> is_float64 (Fin z)"
    then obtain z where z: "t = Fin z" "x \<le> z" "1 \<le> z" "is_float64 (Fin z)" by blast
    have "is_float64 (f_add t v)" using z(1,4) y(1,3) by (simp only: f_add_is)
    with f_add_ge [OF z(4) y(3)] z y show ?thesis by (auto simp del: is_float64.simps f_add.simps f_add_is)
  qed (simp add: y(1))
  then show "total_above (f_add t v) x" "\<exists>y. v = Fin y \<and> 0 \<le> y \<and> total_above (f_add t v) y"
    using y(1,2) by (auto simp: total_above_def simp del: is_float64.simps f_add.simps)
qed

lemma total_above_fold:
  assumes "0 \<le> lo"
  shows "list_all (within lo hi) vals \<Longrightarrow> total_above t x \<Longrightarrow>
    total_above (fold (\<lambda>v total. f_add total v) vals t) x \<and>
    list_all (\<lambda>v. \<exists>y. v = Fin y \<and> 0 \<le> y \<and> total_above (fold (\<lambda>v total. f_add total v) vals t) y) vals"
proof (induction vals arbitrary: t x)
  case (Cons v vals)
  from Cons.prems have v: "within lo hi v" "list_all (within lo hi) vals" by simp_all
  obtain y where y: "v = Fin y" "0 \<le> y" "total_above (f_add t v) y" using total_above_add(2) [OF Cons.prems(2) v(1) assms] by blast
  from Cons.IH [OF v(2) total_above_add(1) [OF Cons.prems(2) v(1) assms]] Cons.IH [OF v(2) y(3)] y(1,2)
  show ?case by simp
qed simp

lemma fraction_of_total: "v = Fin y \<Longrightarrow> 0 \<le> y \<Longrightarrow> total_above t y \<Longrightarrow> fraction (f_div v t)"
  using f_div_fraction [of y] by (fastforce simp: total_above_def simp del: is_float64.simps f_div.simps(1))

text \<open>
  Property C39: the exporter publishes one line per configured machine, in their order, and each coefficient is a
  fraction: between zero and one, however the weights have walked and whatever rounding adds.
\<close>

theorem vm_attribution_fractions:
  assumes "walk_inv lo hi w" and "0 \<le> lo" and "sane_draws draw"
  shows "\<exists>cs w'. metrics M draw ''GET'' (w, n) =
      (\<lparr>ans_status = 200, ans_type = ''text/plain; version=0.0.4; charset=utf-8'',
        ans_body = vmAttributionBase @ concat (map2 (attribution_line (hostName M)) (vmIDs M) cs)\<rparr>,
       w', n + length (vmIDs M))
    \<and> length cs = length (vmIDs M) \<and> list_all fraction cs \<and> walk_inv lo hi w'"
proof -
  obtain vals w' n' where nx: "Next_all draw (map strconv_Itoa (vmIDs M)) (w, n) = (vals, w', n')" by (metis prod_cases3)
  note all = Next_all_within [OF assms(1,3) nx]
  define t where "t = fold (\<lambda>v total. f_add total v) vals (Fin 1)"
  have "total_above (Fin 1) 1" by (simp add: total_above_def)
  from total_above_fold [OF assms(2), of hi vals "Fin 1" 1] this all
  have "list_all (\<lambda>v. \<exists>y. v = Fin y \<and> 0 \<le> y \<and> total_above t y) vals" by (simp add: t_def)
  then have "list_all fraction (map (\<lambda>v. f_div v t) vals)" by (auto simp: list_all_iff dest: fraction_of_total)
  moreover have "map (\<lambda>(vmID, weight). attribution_line (hostName M) vmID (f_div weight t)) (zip (vmIDs M) vals) =
      map2 (attribution_line (hostName M)) (vmIDs M) (map (\<lambda>v. f_div v t) vals)"
    by (simp add: zip_map2 case_prod_beta)
  ultimately show ?thesis using nx all
    by (intro exI [of _ "map (\<lambda>v. f_div v t) vals"] exI [of _ w']) (simp add: metrics_def simulateVMAttribution_def t_def Let_def)
qed

section \<open>The list of machines\<close>

text \<open>Digits are no white space, so a list of numbers joined with commas is read back.\<close>

lemma digit_no_space:
  assumes "is_digit c"
  shows "\<not> is_space c" "c \<noteq> CHR 0xC2" "c \<noteq> CHR 0xE1" "c \<noteq> CHR 0xE2" "c \<noteq> CHR 0xE3" "c \<noteq> CHR '',''"
  using assms by (auto simp: is_digit_def is_space_def)

lemma space_len_digit: "is_digit c \<Longrightarrow> space_len (c # s) = 0"
  by (cases s; cases "tl s") (simp_all add: digit_no_space)

lemma space_len_blank: "space_len (CHR '' '' # s) = 1"
  by (cases s; cases "tl s") (simp_all add: is_space_def)

lemma split_spaces_word:
  "list_all is_digit w \<Longrightarrow> split_spaces (w @ CHR '' '' # s) = w # split_spaces s"
  "list_all is_digit w \<Longrightarrow> split_spaces w = [w]"
  by (induction w) (simp_all add: space_len_digit space_len_blank)

lemma Itoa_digits: "0 \<le> i \<Longrightarrow> list_all is_digit (strconv_Itoa i) \<and> strconv_Itoa i \<noteq> []"
  by (simp add: strconv_Itoa_def nat_decimal_digits)

lemma Itoa_no_comma: "0 \<le> i \<Longrightarrow> map (\<lambda>c. if c = CHR '','' then CHR '' '' else c) (strconv_Itoa i) = strconv_Itoa i"
  using Itoa_digits [of i] by (intro map_idI) (auto simp: list_all_iff dest: digit_no_space)

lemma Fields_joined:
  assumes "list_all (\<lambda>i. 0 \<le> i) xs"
  shows "strings_Fields (map (\<lambda>c. if c = CHR '','' then CHR '' '' else c) (strings_Join (map strconv_Itoa xs) '','')) =
    map strconv_Itoa xs"
  using assms
proof (induction xs rule: induct_list012)
  case 1
  then show ?case by (simp add: strings_Fields_def)
next
  case (2 i)
  then show ?case using Itoa_digits [of i] by (simp add: strings_Fields_def Itoa_no_comma split_spaces_word(2))
next
  case (3 i j xs)
  then show ?case using Itoa_digits [of i] by (simp add: strings_Fields_def Itoa_no_comma split_spaces_word(1))
qed

lemma env_ints_Itoa:
  "list_all (\<lambda>i. 0 \<le> i \<and> i < 2 ^ 63) xs \<Longrightarrow> env_ints (map strconv_Itoa xs) acc = Some (acc @ xs)"
  by (induction xs arbitrary: acc) (simp_all add: strconv_Atoi_def strconv_ParseInt_Itoa)

theorem EnvInts_reads_list:
  assumes "list_all (\<lambda>i. 0 \<le> i \<and> i < 2 ^ 63) xs" and "xs \<noteq> []" and "get name = strings_Join (map strconv_Itoa xs) '',''"
  shows "EnvInts get name d = xs"
proof -
  have "list_all (\<lambda>i. 0 \<le> i) xs" using assms(1) by (auto simp: list_all_iff)
  note fields = Fields_joined [OF this]
  have "strings_Join (map strconv_Itoa xs) '','' \<noteq> []"
  proof
    assume "strings_Join (map strconv_Itoa xs) '','' = []"
    with fields have "map strconv_Itoa xs = []" by (simp add: strings_Fields_def)
    with assms(2) show False by simp
  qed
  with fields env_ints_Itoa [OF assms(1), of "[]"] assms(2,3) show ?thesis by (simp add: EnvInts_def Let_def)
qed

section \<open>Examples\<close>

definition ex_draw :: "nat \<Rightarrow> float64" where
  "ex_draw n = Fin (if even n then 1 / 2 else 0)"

lemma ex_draw_sane: "sane_draws ex_draw"
  by (simp add: sane_draws_def ex_draw_def)

theorem walk_stays_in_bounds_witness:
  "list_all (within 200 800) (fst (Next_all ex_draw [''.1.3'', ''.1.4'', ''.1.3''] (NewWalk MOCK_SNMP_bounds, 0)))"
proof (rule walk_stays_in_bounds [OF _ ex_draw_sane])
  show "sane_bounds MOCK_SNMP_bounds 200 800"
    using is_float64_nat [of 200] is_float64_nat [of 500] is_float64_nat [of 800]
    by (simp add: sane_bounds_def MOCK_SNMP_bounds_def)
qed

definition ex_vm_mock :: vm_mock where
  "ex_vm_mock = \<lparr>hostName = ''bm-1'', vmIDs = [120, 121], vm_port = ''9090''\<rparr>"

lemma MOCK_VM_ATTR_sane: "sane_bounds MOCK_VM_ATTR_bounds (nearest (2 / 10)) 1"
  using nearest_mono [of "2 / 10" 1] to_float64_is [of "2 / 10"] to_float64_is [of "6 / 10"]
  by (simp add: sane_bounds_def MOCK_VM_ATTR_bounds_def to_float64_small)

theorem vm_attribution_fractions_witness:
  "\<exists>cs w'. metrics ex_vm_mock ex_draw ''GET'' (NewWalk MOCK_VM_ATTR_bounds, 0) =
      (\<lparr>ans_status = 200, ans_type = ''text/plain; version=0.0.4; charset=utf-8'',
        ans_body = vmAttributionBase @ concat (map2 (attribution_line ''bm-1'') [120, 121] cs)\<rparr>, w', 2)
    \<and> length cs = 2 \<and> list_all fraction cs"
proof -
  have "0 \<le> nearest (2 / 10)" by (rule nearest_nonneg) simp
  from vm_attribution_fractions [OF NewWalk_inv [OF MOCK_VM_ATTR_sane] this ex_draw_sane, of ex_vm_mock 0]
  show ?thesis by (auto simp: ex_vm_mock_def)
qed

end
