(* ===== verification/Heap_Copy.thy ===== *)
theory Heap_Copy
  imports Prelude "HOL-Library.Monad_Syntax"
begin

text \<open>
  Go's memory as far as copying goes: cells at addresses, pointers and slices that lead to cells, and what it
  means to copy a value with everything it leads to. A value in memory has a deep value (what is seen by
  following its pointers, if none dangles) and a footprint (the cells seen on the way). The locale \<open>copyable\<close>
  is the contract of a copying function: it succeeds, the copy has the same deep value, its footprint is
  new, and no existing cell is changed. The lemmas build copying functions of structs, pointers, slices and maps
  from those of their parts.
\<close>

type_synonym addr = nat
type_synonym 'c heap = "(addr, 'c) fmap"
type_synonym ('a, 'c) copier = "'a \<Rightarrow> 'c heap \<Rightarrow> ('a \<times> 'c heap) option"

section \<open>Allocation\<close>

definition fresh :: "'c heap \<Rightarrow> addr" where
  "fresh h = Suc (Max (insert 0 (fset (fmdom h))))"

definition alloc :: "'c \<Rightarrow> 'c heap \<Rightarrow> addr \<times> 'c heap" where
  "alloc c h = (fresh h, fmupd (fresh h) c h)"

lemma fresh_notin [simp]: "fresh h \<notin> fset (fmdom h)"
proof
  assume "fresh h \<in> fset (fmdom h)"
  then have "fresh h \<le> Max (insert 0 (fset (fmdom h)))" by (intro Max_ge) auto
  then show False by (simp add: fresh_def)
qed

lemma fresh_lookup [simp]: "fmlookup h (fresh h) = None"
  by (rule fmdom_notD [OF fresh_notin])

text \<open>Nothing that was there has changed.\<close>

definition extends :: "'c heap \<Rightarrow> 'c heap \<Rightarrow> bool" where
  "extends h h' \<longleftrightarrow> (\<forall>a c. fmlookup h a = Some c \<longrightarrow> fmlookup h' a = Some c)"

lemma extends_refl [simp]: "extends h h"
  by (simp add: extends_def)

lemma extends_trans: "extends h h' \<Longrightarrow> extends h' h'' \<Longrightarrow> extends h h''"
  by (simp add: extends_def)

lemma extends_dom: "extends h h' \<Longrightarrow> fset (fmdom h) \<subseteq> fset (fmdom h')"
  by (auto simp: extends_def fmlookup_dom_iff)

lemma extends_lookup: "extends h h' \<Longrightarrow> a \<in> fset (fmdom h) \<Longrightarrow> fmlookup h' a = fmlookup h a"
  by (auto simp: extends_def fmlookup_dom_iff)

lemma extends_alloc [simp]: "extends h (fmupd (fresh h) c h)"
  by (auto simp: extends_def)

section \<open>The contract of a copying function\<close>

text \<open>
  A copy of a value \<open>x\<close> with deep value \<open>v\<close> that shares nothing with it: it is made without changing a cell, it keeps its
  value under every later change of the cells there were, and \<open>x\<close> under every change of the new ones.
\<close>

definition independent_copy ::
    "('c heap \<Rightarrow> 'a \<Rightarrow> 'v option) \<Rightarrow> ('a, 'c) copier \<Rightarrow> 'a \<Rightarrow> 'v \<Rightarrow> 'c heap \<Rightarrow> bool" where
  "independent_copy view copy x v h \<longleftrightarrow>
     (\<exists>y h'. copy x h = Some (y, h') \<and> extends h h'
        \<and> (\<forall>h''. (\<forall>a. a |\<notin>| fmdom h \<longrightarrow> fmlookup h'' a = fmlookup h' a) \<longrightarrow> view h'' y = Some v)
        \<and> (\<forall>h''. (\<forall>a. a |\<in>| fmdom h \<longrightarrow> fmlookup h'' a = fmlookup h' a) \<longrightarrow> view h'' x = Some v))"

locale copyable =
  fixes view :: "'c heap \<Rightarrow> 'a \<Rightarrow> 'v option" and foot :: "'c heap \<Rightarrow> 'a \<Rightarrow> addr set" and copy :: "('a, 'c) copier"
  assumes foot_alloc: "view h x = Some v \<Longrightarrow> foot h x \<subseteq> fset (fmdom h)"
    and view_local: "view h x = Some v \<Longrightarrow> (\<And>a. a \<in> foot h x \<Longrightarrow> fmlookup h' a = fmlookup h a) \<Longrightarrow>
      view h' x = Some v \<and> foot h' x = foot h x"
    and copy_ok: "view h x = Some v \<Longrightarrow>
      \<exists>y h'. copy x h = Some (y, h') \<and> view h' y = Some v \<and> foot h' y \<inter> fset (fmdom h) = {} \<and> extends h h'"
begin

lemma view_extends: "view h x = Some v \<Longrightarrow> extends h h' \<Longrightarrow> view h' x = Some v \<and> foot h' x = foot h x"
  using view_local [of h x v h'] foot_alloc [of h x v] extends_lookup [of h h'] by blast

text \<open>
  The copy and the original go separate ways: whatever is done to the cells there were before, the copy keeps its
  value, and whatever is done to the new cells, the original does.
\<close>

lemma copy_independent:
  assumes "view h x = Some v"
  shows "independent_copy view copy x v h"
proof -
  obtain y h' where c: "copy x h = Some (y, h')" "view h' y = Some v" "foot h' y \<inter> fset (fmdom h) = {}" "extends h h'"
    using copy_ok [OF assms] by blast
  have "view h'' y = Some v" if "\<forall>a. a |\<notin>| fmdom h \<longrightarrow> fmlookup h'' a = fmlookup h' a" for h''
    using view_local [OF c(2), of h''] that c(3) by blast
  moreover have "view h'' x = Some v" if "\<forall>a. a |\<in>| fmdom h \<longrightarrow> fmlookup h'' a = fmlookup h' a" for h''
    using view_local [OF assms, of h''] that foot_alloc [OF assms] extends_lookup [OF c(4)] by (metis subsetD)
  ultimately show ?thesis unfolding independent_copy_def using c(1,4) by blast
qed

end

section \<open>Structs\<close>

text \<open>A field without pointers is copied by the assignment.\<close>

definition copy_plain :: "('a, 'c) copier" where
  "copy_plain x h = Some (x, h)"

interpretation plain: copyable "\<lambda>h. Some" "\<lambda>h x. {}" copy_plain
  by unfold_locales (simp_all add: copy_plain_def)

definition view_pair :: "('c heap \<Rightarrow> 'a \<Rightarrow> 'v option) \<Rightarrow> ('c heap \<Rightarrow> 'b \<Rightarrow> 'w option) \<Rightarrow> 'c heap \<Rightarrow> 'a \<times> 'b \<Rightarrow> ('v \<times> 'w) option"
  where "view_pair V W h p = do { v \<leftarrow> V h (fst p); w \<leftarrow> W h (snd p); Some (v, w) }"

definition foot_pair :: "('c heap \<Rightarrow> 'a \<Rightarrow> addr set) \<Rightarrow> ('c heap \<Rightarrow> 'b \<Rightarrow> addr set) \<Rightarrow> 'c heap \<Rightarrow> 'a \<times> 'b \<Rightarrow> addr set"
  where "foot_pair F G h p = F h (fst p) \<union> G h (snd p)"

definition copy_pair :: "('a, 'c) copier \<Rightarrow> ('b, 'c) copier \<Rightarrow> ('a \<times> 'b, 'c) copier" where
  "copy_pair f g p h = do { (x, h1) \<leftarrow> f (fst p) h; (y, h2) \<leftarrow> g (snd p) h1; Some ((x, y), h2) }"

lemma view_pair_Some: "view_pair V W h p = Some r \<longleftrightarrow> V h (fst p) = Some (fst r) \<and> W h (snd p) = Some (snd r)"
  by (cases r) (auto simp: view_pair_def bind_eq_Some_conv)

lemma copyable_pair:
  assumes A: "copyable V F f" and B: "copyable W G g"
  shows "copyable (view_pair V W) (foot_pair F G) (copy_pair f g)"
proof
  fix h p r assume r: "view_pair V W h p = Some r"
  then have V: "V h (fst p) = Some (fst r)" and W: "W h (snd p) = Some (snd r)" by (simp_all add: view_pair_Some)
  show "foot_pair F G h p \<subseteq> fset (fmdom h)"
    using copyable.foot_alloc [OF A V] copyable.foot_alloc [OF B W] by (simp add: foot_pair_def)
  show "view_pair V W h' p = Some r \<and> foot_pair F G h' p = foot_pair F G h p"
    if "\<And>a. a \<in> foot_pair F G h p \<Longrightarrow> fmlookup h' a = fmlookup h a" for h'
    using copyable.view_local [OF A V, of h'] copyable.view_local [OF B W, of h'] that
    by (simp add: view_pair_Some foot_pair_def)
  obtain x h1 where x: "f (fst p) h = Some (x, h1)" "V h1 x = Some (fst r)" "F h1 x \<inter> fset (fmdom h) = {}" "extends h h1"
    using copyable.copy_ok [OF A V] by blast
  have W1: "W h1 (snd p) = Some (snd r)" using copyable.view_extends [OF B W x(4)] by simp
  obtain y h2 where y: "g (snd p) h1 = Some (y, h2)" "W h2 y = Some (snd r)" "G h2 y \<inter> fset (fmdom h1) = {}" "extends h1 h2"
    using copyable.copy_ok [OF B W1] by blast
  have "V h2 x = Some (fst r)" "F h2 x = F h1 x" using copyable.view_extends [OF A x(2) y(4)] by simp_all
  then show "\<exists>q h'. copy_pair f g p h = Some (q, h') \<and> view_pair V W h' q = Some r
      \<and> foot_pair F G h' q \<inter> fset (fmdom h) = {} \<and> extends h h'"
    using x y extends_trans [OF x(4) y(4)] extends_dom [OF x(4)]
    by (intro exI [of _ "(x, y)"] exI [of _ h2]) (auto simp: copy_pair_def view_pair_Some foot_pair_def)
qed

text \<open>A struct is copied as the tuple of its fields.\<close>

definition copy_struct :: "('a \<Rightarrow> 'b) \<Rightarrow> ('b \<Rightarrow> 'a) \<Rightarrow> ('b, 'c) copier \<Rightarrow> ('a, 'c) copier" where
  "copy_struct parts build f x h = do { (y, h') \<leftarrow> f (parts x) h; Some (build y, h') }"

lemma copyable_struct:
  assumes A: "copyable V F f" and parts: "\<And>y. parts (build y) = y"
  shows "copyable (\<lambda>h x. V h (parts x)) (\<lambda>h x. F h (parts x)) (copy_struct parts build f)"
proof
  fix h x v assume v: "V h (parts x) = Some v"
  show "F h (parts x) \<subseteq> fset (fmdom h)" using copyable.foot_alloc [OF A v] .
  show "V h' (parts x) = Some v \<and> F h' (parts x) = F h (parts x)"
    if "\<And>a. a \<in> F h (parts x) \<Longrightarrow> fmlookup h' a = fmlookup h a" for h'
    using copyable.view_local [OF A v that] .
  show "\<exists>y h'. copy_struct parts build f x h = Some (y, h') \<and> V h' (parts y) = Some v
      \<and> F h' (parts y) \<inter> fset (fmdom h) = {} \<and> extends h h'"
    using copyable.copy_ok [OF A v] by (force simp: copy_struct_def parts)
qed

section \<open>Pointers\<close>

text \<open>A pointer is nil or leads to a cell of its type; \<open>test\<close> and \<open>content\<close> recognise the type's cells.\<close>

definition read_cell :: "('c \<Rightarrow> bool) \<Rightarrow> ('c \<Rightarrow> 'a) \<Rightarrow> 'c heap \<Rightarrow> addr \<Rightarrow> 'a option" where
  "read_cell test content h a =
     do { c \<leftarrow> fmlookup h a; if test c then Some (content c) else None }"

fun view_ptr :: "('c \<Rightarrow> bool) \<Rightarrow> ('c \<Rightarrow> 'a) \<Rightarrow> ('c heap \<Rightarrow> 'a \<Rightarrow> 'v option) \<Rightarrow> 'c heap \<Rightarrow> addr option \<Rightarrow> 'v option option" where
  "view_ptr test content V h None = Some None"
| "view_ptr test content V h (Some a) = do { x \<leftarrow> read_cell test content h a; v \<leftarrow> V h x; Some (Some v) }"

fun foot_ptr :: "('c \<Rightarrow> bool) \<Rightarrow> ('c \<Rightarrow> 'a) \<Rightarrow> ('c heap \<Rightarrow> 'a \<Rightarrow> addr set) \<Rightarrow> 'c heap \<Rightarrow> addr option \<Rightarrow> addr set" where
  "foot_ptr test content F h None = {}"
| "foot_ptr test content F h (Some a) =
     insert a (case read_cell test content h a of None \<Rightarrow> {} | Some x \<Rightarrow> F h x)"

text \<open>
  \<open>if in != nil { *out = new(T); (*in).DeepCopyInto(*out) }\<close>. The new cell is entered when its content is
  complete: where it lies means nothing.
\<close>

fun copy_ptr :: "('a \<Rightarrow> 'c) \<Rightarrow> ('c \<Rightarrow> bool) \<Rightarrow> ('c \<Rightarrow> 'a) \<Rightarrow> ('a, 'c) copier \<Rightarrow> (addr option, 'c) copier" where
  "copy_ptr cell test content f None h = Some (None, h)"
| "copy_ptr cell test content f (Some a) h =
     do { x \<leftarrow> read_cell test content h a;
          (y, h1) \<leftarrow> f x h;
          Some (apfst Some (alloc (cell y) h1)) }"

lemma read_cell_alloc [simp]:
  "test (cell y) \<Longrightarrow> read_cell test content (fmupd a (cell y) h) a = Some (content (cell y))"
  by (simp add: read_cell_def)

lemma read_cell_dom: "read_cell test content h a = Some x \<Longrightarrow> a \<in> fset (fmdom h)"
  by (auto simp: read_cell_def fmlookup_dom_iff bind_eq_Some_conv)

lemma read_cell_same: "fmlookup h' a = fmlookup h a \<Longrightarrow> read_cell test content h' a = read_cell test content h a"
  by (simp add: read_cell_def)

lemma copyable_ptr:
  assumes A: "copyable V F f" and cell: "\<And>y. test (cell y)" "\<And>y. content (cell y) = y"
  shows "copyable (view_ptr test content V) (foot_ptr test content F) (copy_ptr cell test content f)"
proof
  fix h p r assume r: "view_ptr test content V h p = Some r"
  have obs: "p = None \<and> r = None \<or> (\<exists>a x v. p = Some a \<and> read_cell test content h a = Some x \<and> V h x = Some v \<and> r = Some v)"
    using r by (cases p) (auto simp: bind_eq_Some_conv)
  then show "foot_ptr test content F h p \<subseteq> fset (fmdom h)"
    using copyable.foot_alloc [OF A] read_cell_dom by fastforce
  show "view_ptr test content V h' p = Some r \<and> foot_ptr test content F h' p = foot_ptr test content F h p"
    if "\<And>a. a \<in> foot_ptr test content F h p \<Longrightarrow> fmlookup h' a = fmlookup h a" for h'
    using obs
  proof
    assume "\<exists>a x v. p = Some a \<and> read_cell test content h a = Some x \<and> V h x = Some v \<and> r = Some v"
    then obtain a x v where o: "p = Some a" "read_cell test content h a = Some x" "V h x = Some v" "r = Some v" by blast
    have "fmlookup h' a = fmlookup h a" using that [of a] o(1) by simp
    from read_cell_same [OF this, of test content] o(2) have "read_cell test content h' a = Some x" by simp
    then show ?thesis using copyable.view_local [OF A o(3), of h'] o that by simp
  qed simp
  show "\<exists>q h'. copy_ptr cell test content f p h = Some (q, h') \<and> view_ptr test content V h' q = Some r
      \<and> foot_ptr test content F h' q \<inter> fset (fmdom h) = {} \<and> extends h h'"
    using obs
  proof
    assume "\<exists>a x v. p = Some a \<and> read_cell test content h a = Some x \<and> V h x = Some v \<and> r = Some v"
    then obtain a x v where o: "p = Some a" "read_cell test content h a = Some x" "V h x = Some v" "r = Some v" by blast
    obtain y h1 where y: "f x h = Some (y, h1)" "V h1 y = Some v" "F h1 y \<inter> fset (fmdom h) = {}" "extends h h1"
      using copyable.copy_ok [OF A o(3)] by blast
    let ?h = "fmupd (fresh h1) (cell y) h1"
    have "V ?h y = Some v" "F ?h y = F h1 y" using copyable.view_extends [OF A y(2) extends_alloc] by simp_all
    then show ?thesis using o y extends_trans [OF y(4) extends_alloc] extends_dom [OF y(4)] fresh_notin [of h1]
      by (intro exI [of _ "Some (fresh h1)"] exI [of _ ?h]) (auto simp: alloc_def cell)
  qed simp
qed

section \<open>Slices and maps\<close>

text \<open>A slice is nil or a part of an array: where the array lies, the first element and the length.\<close>

type_synonym slice = "(addr \<times> nat \<times> nat) option"

definition slice_elems :: "('c \<Rightarrow> bool) \<Rightarrow> ('c \<Rightarrow> 'a list) \<Rightarrow> 'c heap \<Rightarrow> addr \<times> nat \<times> nat \<Rightarrow> 'a list option" where
  "slice_elems test content h s =
     (case s of (a, off, n) \<Rightarrow>
        do { xs \<leftarrow> read_cell test content h a;
             if off + n \<le> length xs then Some (take n (drop off xs)) else None })"

fun view_all :: "('c heap \<Rightarrow> 'a \<Rightarrow> 'v option) \<Rightarrow> 'c heap \<Rightarrow> 'a list \<Rightarrow> 'v list option" where
  "view_all V h [] = Some []"
| "view_all V h (x # xs) = do { v \<leftarrow> V h x; vs \<leftarrow> view_all V h xs; Some (v # vs) }"

definition foot_all :: "('c heap \<Rightarrow> 'a \<Rightarrow> addr set) \<Rightarrow> 'c heap \<Rightarrow> 'a list \<Rightarrow> addr set" where
  "foot_all F h xs = (\<Union>x\<in>set xs. F h x)"

text \<open>\<open>for i := range *in { (*in)[i].DeepCopyInto(&(*out)[i]) }\<close>\<close>

fun copy_all :: "('a, 'c) copier \<Rightarrow> ('a list, 'c) copier" where
  "copy_all f [] h = Some ([], h)"
| "copy_all f (x # xs) h = do { (y, h1) \<leftarrow> f x h; (ys, h2) \<leftarrow> copy_all f xs h1; Some (y # ys, h2) }"

lemma foot_all_simps [simp]: "foot_all F h [] = {}" "foot_all F h (x # xs) = F h x \<union> foot_all F h xs"
  by (simp_all add: foot_all_def)

text \<open>A list of elements is copied like a nest of pairs.\<close>

lemma copyable_all:
  assumes A: "copyable V F f"
  shows "copyable (view_all V) (foot_all F) (copy_all f)"
proof
  fix h xs vs assume "view_all V h xs = Some vs"
  then show "foot_all F h xs \<subseteq> fset (fmdom h)"
    by (induction xs arbitrary: vs) (auto simp: bind_eq_Some_conv dest: copyable.foot_alloc [OF A])
next
  fix h xs vs h' assume "view_all V h xs = Some vs" "\<And>a. a \<in> foot_all F h xs \<Longrightarrow> fmlookup h' a = fmlookup h a"
  then show "view_all V h' xs = Some vs \<and> foot_all F h' xs = foot_all F h xs"
  proof (induction xs arbitrary: vs)
    case (Cons x xs)
    then obtain v ws where v: "V h x = Some v" "view_all V h xs = Some ws" "vs = v # ws" by (auto simp: bind_eq_Some_conv)
    with Cons.IH [OF v(2)] Cons.prems(2) copyable.view_local [OF A v(1), of h'] show ?case by simp
  qed simp
next
  fix h xs vs assume "view_all V h xs = Some vs"
  then show "\<exists>ys h'. copy_all f xs h = Some (ys, h') \<and> view_all V h' ys = Some vs
      \<and> foot_all F h' ys \<inter> fset (fmdom h) = {} \<and> extends h h'"
  proof (induction xs arbitrary: h vs)
    case (Cons x xs)
    then obtain v ws where v: "V h x = Some v" "view_all V h xs = Some ws" "vs = v # ws" by (auto simp: bind_eq_Some_conv)
    obtain y h1 where y: "f x h = Some (y, h1)" "V h1 y = Some v" "F h1 y \<inter> fset (fmdom h) = {}" "extends h h1"
      using copyable.copy_ok [OF A v(1)] by blast
    have "view_all V h1 xs = Some ws"
      using v(2) extends_lookup [OF y(4)]
    proof (induction xs arbitrary: ws)
      case (Cons z zs)
      then show ?case using copyable.view_extends [OF A _ y(4)] by (auto simp: bind_eq_Some_conv)
    qed simp
    from Cons.IH [OF this] obtain ys h2 where ys: "copy_all f xs h1 = Some (ys, h2)" "view_all V h2 ys = Some ws"
      "foot_all F h2 ys \<inter> fset (fmdom h1) = {}" "extends h1 h2" by blast
    have "V h2 y = Some v" "F h2 y = F h1 y" using copyable.view_extends [OF A y(2) ys(4)] by simp_all
    then show ?case using v y ys extends_trans [OF y(4) ys(4)] extends_dom [OF y(4)]
      by (intro exI [of _ "y # ys"] exI [of _ h2]) auto
  qed simp
qed

fun view_slice ::
    "('c \<Rightarrow> bool) \<Rightarrow> ('c \<Rightarrow> 'a list) \<Rightarrow> ('c heap \<Rightarrow> 'a \<Rightarrow> 'v option) \<Rightarrow> 'c heap \<Rightarrow> slice \<Rightarrow> 'v list option option" where
  "view_slice test content V h None = Some None"
| "view_slice test content V h (Some s) =
     do { xs \<leftarrow> slice_elems test content h s; vs \<leftarrow> view_all V h xs; Some (Some vs) }"

fun foot_slice ::
    "('c \<Rightarrow> bool) \<Rightarrow> ('c \<Rightarrow> 'a list) \<Rightarrow> ('c heap \<Rightarrow> 'a \<Rightarrow> addr set) \<Rightarrow> 'c heap \<Rightarrow> slice \<Rightarrow> addr set" where
  "foot_slice test content F h None = {}"
| "foot_slice test content F h (Some s) =
     insert (fst s) (case slice_elems test content h s of None \<Rightarrow> {} | Some xs \<Rightarrow> foot_all F h xs)"

text \<open>\<open>if in != nil { *out = make([]T, len(*in)); \<dots> }\<close>\<close>

fun copy_slice :: "('a list \<Rightarrow> 'c) \<Rightarrow> ('c \<Rightarrow> bool) \<Rightarrow> ('c \<Rightarrow> 'a list) \<Rightarrow> ('a, 'c) copier \<Rightarrow> (slice, 'c) copier" where
  "copy_slice cell test content f None h = Some (None, h)"
| "copy_slice cell test content f (Some s) h =
     do { xs \<leftarrow> slice_elems test content h s;
          (ys, h1) \<leftarrow> copy_all f xs h;
          Some (case alloc (cell ys) h1 of (a, h2) \<Rightarrow> (Some (a, 0, length ys), h2)) }"

lemma copy_all_length: "copy_all f xs h = Some (ys, h') \<Longrightarrow> length ys = length xs"
  by (induction xs arbitrary: h ys) (auto simp: bind_eq_Some_conv)

lemma slice_elems_dom: "slice_elems test content h s = Some xs \<Longrightarrow> fst s \<in> fset (fmdom h)"
  by (cases s) (auto simp: slice_elems_def bind_eq_Some_conv dest: read_cell_dom)

lemma slice_elems_same:
  "fmlookup h' (fst s) = fmlookup h (fst s) \<Longrightarrow> slice_elems test content h' s = slice_elems test content h s"
  using read_cell_same [of h' "fst s" h test content] by (cases s) (simp add: slice_elems_def)

lemma copyable_slice:
  assumes E: "copyable V F f" and cell: "\<And>ys. test (cell ys)" "\<And>ys. content (cell ys) = ys"
  shows "copyable (view_slice test content V) (foot_slice test content F) (copy_slice cell test content f)"
proof
  note A = copyable_all [OF E]
  fix h p r assume r: "view_slice test content V h p = Some r"
  have obs: "p = None \<and> r = None \<or>
      (\<exists>s xs vs. p = Some s \<and> slice_elems test content h s = Some xs \<and> view_all V h xs = Some vs \<and> r = Some vs)"
    using r by (cases p) (auto simp: bind_eq_Some_conv)
  then show "foot_slice test content F h p \<subseteq> fset (fmdom h)"
    using copyable.foot_alloc [OF A] slice_elems_dom by fastforce
  show "view_slice test content V h' p = Some r \<and> foot_slice test content F h' p = foot_slice test content F h p"
    if same: "\<And>a. a \<in> foot_slice test content F h p \<Longrightarrow> fmlookup h' a = fmlookup h a" for h'
    using obs
  proof
    assume "\<exists>s xs vs. p = Some s \<and> slice_elems test content h s = Some xs \<and> view_all V h xs = Some vs \<and> r = Some vs"
    then obtain s xs vs where o: "p = Some s" "slice_elems test content h s = Some xs" "view_all V h xs = Some vs" "r = Some vs" by blast
    have "fmlookup h' (fst s) = fmlookup h (fst s)" using same [of "fst s"] o(1) by simp
    from slice_elems_same [OF this, of test content] o(2) have "slice_elems test content h' s = Some xs" by simp
    then show ?thesis using copyable.view_local [OF A o(3), of h'] o same by simp
  qed simp
  show "\<exists>q h'. copy_slice cell test content f p h = Some (q, h') \<and> view_slice test content V h' q = Some r
      \<and> foot_slice test content F h' q \<inter> fset (fmdom h) = {} \<and> extends h h'"
    using obs
  proof
    assume "\<exists>s xs vs. p = Some s \<and> slice_elems test content h s = Some xs \<and> view_all V h xs = Some vs \<and> r = Some vs"
    then obtain s xs vs where o: "p = Some s" "slice_elems test content h s = Some xs" "view_all V h xs = Some vs" "r = Some vs" by blast
    obtain ys h1 where y: "copy_all f xs h = Some (ys, h1)" "view_all V h1 ys = Some vs"
      "foot_all F h1 ys \<inter> fset (fmdom h) = {}" "extends h h1" using copyable.copy_ok [OF A o(3)] by blast
    let ?h = "fmupd (fresh h1) (cell ys) h1" and ?q = "(fresh h1, 0, length ys)"
    have "view_all V ?h ys = Some vs" "foot_all F ?h ys = foot_all F h1 ys"
      using copyable.view_extends [OF A y(2) extends_alloc] by simp_all
    moreover have "slice_elems test content ?h ?q = Some ys" by (simp add: slice_elems_def cell)
    ultimately show ?thesis using o y extends_trans [OF y(4) extends_alloc] extends_dom [OF y(4)] fresh_notin [of h1]
      by (intro exI [of _ "Some ?q"] exI [of _ ?h]) (auto simp: alloc_def)
  qed simp
qed

text \<open>
  \<open>*out = make(map[string]string, len(*in)); for key, val := range *in { (*out)[key] = val }\<close>, entry by entry in
  some order of the keys.
\<close>

definition copy_entries :: "((string, 'v) fmap, 'c) copier" where
  "copy_entries m h = Some (fold (\<lambda>key out. case fmlookup m key of None \<Rightarrow> out | Some val \<Rightarrow> fmupd key val out) (key_order m) fmempty, h)"

lemma copy_entries_fold:
  "fmlookup (fold (\<lambda>key out. case fmlookup m key of None \<Rightarrow> out | Some val \<Rightarrow> fmupd key val out) ks acc) k =
    (if k \<in> set ks \<and> fmlookup m k \<noteq> None then fmlookup m k else fmlookup acc k)"
  by (induction ks arbitrary: acc) (auto split: option.splits)

lemma copy_entries_eq: "copy_entries = copy_plain"
proof (intro ext)
  fix m :: "(string, 'v) fmap" and h :: "'c heap"
  have "fold (\<lambda>key out. case fmlookup m key of None \<Rightarrow> out | Some val \<Rightarrow> fmupd key val out) (key_order m) fmempty = m"
  proof (rule fmap_ext)
    show "fmlookup (fold (\<lambda>key out. case fmlookup m key of None \<Rightarrow> out | Some val \<Rightarrow> fmupd key val out) (key_order m) fmempty) k =
        fmlookup m k" for k
      using fmdomI [of m k] by (cases "fmlookup m k") (simp_all add: copy_entries_fold key_order_set)
  qed
  then show "copy_entries m h = copy_plain m h" by (simp add: copy_entries_def copy_plain_def)
qed

interpretation entries: copyable "\<lambda>h. Some" "\<lambda>h x. {}" copy_entries
  unfolding copy_entries_eq by unfold_locales

end
