(* ===== verification/Deep_Copy.thy ===== *)
theory Deep_Copy
  imports Heap_Copy
begin

text \<open>
  The generated copying functions, \<open>api/v1alpha1/zz_generated.deepcopy.go\<close> and
  \<open>internal/k8s/zz_generated.deepcopy.go\<close>, over the memory of \<open>Heap_Copy\<close>. A struct is a
      record as it lies in memory:
  pointers and maps are addresses, slices lead to arrays. \<open>DeepCopyInto\<close> returns what it leaves in
      \<open>*out\<close>;
  \<^const>\<open>None\<close> would be a pointer that leads nowhere. The types of other modules (metadata,
      conditions, key
  selectors) are a type parameter \<open>'x\<close> with the copying functions of record \<open>imported\<close>.
\<close>

section \<open>Structs in memory\<close>

type_synonym TypeMeta = "string \<times> string"

record ValueSource_mem =
  vs_ConfigMapKeyRef :: "addr option"
  vs_SecretKeyRef :: "addr option"

record SecretConfigMapSelector_mem =
  sm_Value :: string
  sm_ValueFrom :: "addr option"

record TemplateParameter_mem =
  tpm_Name :: string
  tpm_Selector :: SecretConfigMapSelector_mem

record TemplateFrom_mem =
  tfm_Selector :: SecretConfigMapSelector_mem
  tfm_Parameters :: slice

record ParentRef_mem =
  prm_Name :: string
  prm_Coefficient :: string
  prm_CoefficientFrom :: "addr option"

record DataCenterResourceSpec_mem =
  dsm_Type :: string
  dsm_PhysicalMeasurements :: slice
  dsm_Parents :: slice
  dsm_EnergyMetric :: string
  dsm_EnergyMetricFrom :: "addr option"
  dsm_AdditionalLabels :: "addr option"

record DataCenterResourceStatus_mem =
  dtm_ObservedGeneration :: int64
  dtm_InvolvedResource :: string
  dtm_Conditions :: slice

record 'x DataCenterResource_mem =
  dcm_TypeMeta :: TypeMeta
  dcm_ObjectMeta :: "'x"
  dcm_Spec :: DataCenterResourceSpec_mem
  dcm_Status :: DataCenterResourceStatus_mem

record 'x DataCenterResourceList_mem =
  dlm_TypeMeta :: TypeMeta
  dlm_ListMeta :: "'x"
  dlm_Items :: slice

record MeasurementDeviceSpec_mem =
  msm_Walks :: slice
  msm_AuthFrom :: "addr option"

record MeasurementDeviceStatus_mem =
  mtm_ObservedGeneration :: int64
  mtm_ConfigHash :: string
  mtm_Conditions :: slice

record 'x MeasurementDevice_mem =
  mdm_TypeMeta :: TypeMeta
  mdm_ObjectMeta :: "'x"
  mdm_Spec :: MeasurementDeviceSpec_mem
  mdm_Status :: MeasurementDeviceStatus_mem

record 'x MeasurementDeviceList_mem =
  mlm_TypeMeta :: TypeMeta
  mlm_ListMeta :: "'x"
  mlm_Items :: slice

record PhysicalMeasurementSpec_mem =
  psm_Type :: string
  psm_Ip :: string
  psm_MeasurementDevice :: string
  psm_AdditionalLabels :: "addr option"

record PhysicalMeasurementStatus_mem =
  ptm_ObservedGeneration :: int64
  ptm_Conditions :: slice

record 'x PhysicalMeasurement_mem =
  pmm_TypeMeta :: TypeMeta
  pmm_ObjectMeta :: "'x"
  pmm_Spec :: PhysicalMeasurementSpec_mem
  pmm_Status :: PhysicalMeasurementStatus_mem

record 'x PhysicalMeasurementList_mem =
  plm_TypeMeta :: TypeMeta
  plm_ListMeta :: "'x"
  plm_Items :: slice

section \<open>Cells\<close>

datatype 'x cell =
    is_Strings: StringsCell (un_Strings: "string list")
  | is_Labels: LabelsCell (un_Labels: labels)
  | is_ConfigMapKeySelector: ConfigMapKeySelectorCell (un_ConfigMapKeySelector: "'x")
  | is_SecretKeySelector: SecretKeySelectorCell (un_SecretKeySelector: "'x")
  | is_Conditions: ConditionsCell (un_Conditions: "'x list")
  | is_Imported: ImportedCell (un_Imported: "'x")
  | is_ValueSource: ValueSourceCell (un_ValueSource: ValueSource_mem)
  | is_SecretConfigMapSelector: SecretConfigMapSelectorCell (un_SecretConfigMapSelector: SecretConfigMapSelector_mem)
  | is_TemplateParameter: TemplateParameterCell (un_TemplateParameter: TemplateParameter_mem)
  | is_TemplateFrom: TemplateFromCell (un_TemplateFrom: TemplateFrom_mem)
  | is_ParentRef: ParentRefCell (un_ParentRef: ParentRef_mem)
  | is_DataCenterResourceSpec: DataCenterResourceSpecCell (un_DataCenterResourceSpec: DataCenterResourceSpec_mem)
  | is_DataCenterResourceStatus: DataCenterResourceStatusCell (un_DataCenterResourceStatus:
      DataCenterResourceStatus_mem)
  | is_DataCenterResource: DataCenterResourceCell (un_DataCenterResource: "'x DataCenterResource_mem")
  | is_DataCenterResourceList: DataCenterResourceListCell (un_DataCenterResourceList: "'x DataCenterResourceList_mem")
  | is_MeasurementDeviceSpec: MeasurementDeviceSpecCell (un_MeasurementDeviceSpec: MeasurementDeviceSpec_mem)
  | is_MeasurementDeviceStatus: MeasurementDeviceStatusCell (un_MeasurementDeviceStatus: MeasurementDeviceStatus_mem)
  | is_MeasurementDevice: MeasurementDeviceCell (un_MeasurementDevice: "'x MeasurementDevice_mem")
  | is_MeasurementDeviceList: MeasurementDeviceListCell (un_MeasurementDeviceList: "'x MeasurementDeviceList_mem")
  | is_PhysicalMeasurementSpec: PhysicalMeasurementSpecCell (un_PhysicalMeasurementSpec: PhysicalMeasurementSpec_mem)
  | is_PhysicalMeasurementStatus: PhysicalMeasurementStatusCell (un_PhysicalMeasurementStatus:
      PhysicalMeasurementStatus_mem)
  | is_PhysicalMeasurement: PhysicalMeasurementCell (un_PhysicalMeasurement: "'x PhysicalMeasurement_mem")
  | is_PhysicalMeasurementList: PhysicalMeasurementListCell (un_PhysicalMeasurementList: "'x
      PhysicalMeasurementList_mem")
  | is_TemplateParameters: TemplateParametersCell (un_TemplateParameters: "TemplateParameter_mem list")
  | is_ParentRefs: ParentRefsCell (un_ParentRefs: "ParentRef_mem list")
  | is_DataCenterResources: DataCenterResourcesCell (un_DataCenterResources: "'x DataCenterResource_mem list")
  | is_MeasurementDevices: MeasurementDevicesCell (un_MeasurementDevices: "'x MeasurementDevice_mem list")
  | is_PhysicalMeasurements: PhysicalMeasurementsCell (un_PhysicalMeasurements: "'x PhysicalMeasurement_mem list")

record 'x imported =
  ObjectMeta_DeepCopyInto :: "('x, 'x cell) copier"
  ListMeta_DeepCopyInto :: "('x, 'x cell) copier"
  Condition_DeepCopyInto :: "('x, 'x cell) copier"
  ConfigMapKeySelector_DeepCopyInto :: "('x, 'x cell) copier"
  SecretKeySelector_DeepCopyInto :: "('x, 'x cell) copier"

text \<open>Copying through a pointer, a slice or a map, by the type it leads to.\<close>

abbreviation "ptr_ConfigMapKeySelector \<equiv> copy_ptr ConfigMapKeySelectorCell is_ConfigMapKeySelector
    un_ConfigMapKeySelector"
abbreviation "ptr_SecretKeySelector \<equiv> copy_ptr SecretKeySelectorCell is_SecretKeySelector un_SecretKeySelector"
abbreviation "ptr_ValueSource \<equiv> copy_ptr ValueSourceCell is_ValueSource un_ValueSource"
abbreviation "ptr_SecretConfigMapSelector \<equiv> copy_ptr SecretConfigMapSelectorCell is_SecretConfigMapSelector
    un_SecretConfigMapSelector"
abbreviation "ptr_TemplateParameter \<equiv> copy_ptr TemplateParameterCell is_TemplateParameter un_TemplateParameter"
abbreviation "ptr_TemplateFrom \<equiv> copy_ptr TemplateFromCell is_TemplateFrom un_TemplateFrom"
abbreviation "ptr_ParentRef \<equiv> copy_ptr ParentRefCell is_ParentRef un_ParentRef"
abbreviation "ptr_DataCenterResourceSpec \<equiv> copy_ptr DataCenterResourceSpecCell is_DataCenterResourceSpec
    un_DataCenterResourceSpec"
abbreviation "ptr_DataCenterResourceStatus \<equiv> copy_ptr DataCenterResourceStatusCell is_DataCenterResourceStatus
    un_DataCenterResourceStatus"
abbreviation "ptr_DataCenterResource \<equiv> copy_ptr DataCenterResourceCell is_DataCenterResource
    un_DataCenterResource"
abbreviation "ptr_DataCenterResourceList \<equiv> copy_ptr DataCenterResourceListCell is_DataCenterResourceList
    un_DataCenterResourceList"
abbreviation "ptr_MeasurementDeviceSpec \<equiv> copy_ptr MeasurementDeviceSpecCell is_MeasurementDeviceSpec
    un_MeasurementDeviceSpec"
abbreviation "ptr_MeasurementDeviceStatus \<equiv> copy_ptr MeasurementDeviceStatusCell is_MeasurementDeviceStatus
    un_MeasurementDeviceStatus"
abbreviation "ptr_MeasurementDevice \<equiv> copy_ptr MeasurementDeviceCell is_MeasurementDevice un_MeasurementDevice"
abbreviation "ptr_MeasurementDeviceList \<equiv> copy_ptr MeasurementDeviceListCell is_MeasurementDeviceList
    un_MeasurementDeviceList"
abbreviation "ptr_PhysicalMeasurementSpec \<equiv> copy_ptr PhysicalMeasurementSpecCell is_PhysicalMeasurementSpec
    un_PhysicalMeasurementSpec"
abbreviation "ptr_PhysicalMeasurementStatus \<equiv> copy_ptr PhysicalMeasurementStatusCell
    is_PhysicalMeasurementStatus un_PhysicalMeasurementStatus"
abbreviation "ptr_PhysicalMeasurement \<equiv> copy_ptr PhysicalMeasurementCell is_PhysicalMeasurement
    un_PhysicalMeasurement"
abbreviation "ptr_PhysicalMeasurementList \<equiv> copy_ptr PhysicalMeasurementListCell is_PhysicalMeasurementList
    un_PhysicalMeasurementList"
abbreviation "ptr_labels \<equiv> copy_ptr LabelsCell is_Labels un_Labels"
abbreviation "slice_string \<equiv> copy_slice StringsCell is_Strings un_Strings"
abbreviation "slice_Condition \<equiv> copy_slice ConditionsCell is_Conditions un_Conditions"
abbreviation "slice_TemplateParameter \<equiv> copy_slice TemplateParametersCell is_TemplateParameters
    un_TemplateParameters"
abbreviation "slice_ParentRef \<equiv> copy_slice ParentRefsCell is_ParentRefs un_ParentRefs"
abbreviation "slice_DataCenterResource \<equiv> copy_slice DataCenterResourcesCell is_DataCenterResources
    un_DataCenterResources"
abbreviation "slice_MeasurementDevice \<equiv> copy_slice MeasurementDevicesCell is_MeasurementDevices
    un_MeasurementDevices"
abbreviation "slice_PhysicalMeasurement \<equiv> copy_slice PhysicalMeasurementsCell is_PhysicalMeasurements
    un_PhysicalMeasurements"

section \<open>DeepCopyInto, DeepCopy\<close>

definition ValueSource_DeepCopyInto :: "'x imported \<Rightarrow> (ValueSource_mem, 'x cell) copier" where
  "ValueSource_DeepCopyInto I src h =
     do { (configMapKeyRef, h1) \<leftarrow> ptr_ConfigMapKeySelector (ConfigMapKeySelector_DeepCopyInto I)
         (vs_ConfigMapKeyRef src) h;
          (secretKeyRef, h2) \<leftarrow> ptr_SecretKeySelector (SecretKeySelector_DeepCopyInto I) (vs_SecretKeyRef
              src) h1;
          Some (src\<lparr>vs_ConfigMapKeyRef := configMapKeyRef, vs_SecretKeyRef := secretKeyRef\<rparr>, h2) }"

definition ValueSource_DeepCopy :: "'x imported \<Rightarrow> (addr option, 'x cell) copier" where
  "ValueSource_DeepCopy I = ptr_ValueSource (ValueSource_DeepCopyInto I)"

definition SecretConfigMapSelector_DeepCopyInto :: "'x imported \<Rightarrow> (SecretConfigMapSelector_mem, 'x cell)
    copier" where
  "SecretConfigMapSelector_DeepCopyInto I src h =
     do { (valueFrom, h1) \<leftarrow> ptr_ValueSource (ValueSource_DeepCopyInto I) (sm_ValueFrom src) h;
          Some (src\<lparr>sm_ValueFrom := valueFrom\<rparr>, h1) }"

definition SecretConfigMapSelector_DeepCopy :: "'x imported \<Rightarrow> (addr option, 'x cell) copier" where
  "SecretConfigMapSelector_DeepCopy I = ptr_SecretConfigMapSelector (SecretConfigMapSelector_DeepCopyInto I)"

definition TemplateParameter_DeepCopyInto :: "'x imported \<Rightarrow> (TemplateParameter_mem, 'x cell) copier" where
  "TemplateParameter_DeepCopyInto I src h =
     do { (selector, h1) \<leftarrow> SecretConfigMapSelector_DeepCopyInto I (tpm_Selector src) h;
          Some (src\<lparr>tpm_Selector := selector\<rparr>, h1) }"

definition TemplateParameter_DeepCopy :: "'x imported \<Rightarrow> (addr option, 'x cell) copier" where
  "TemplateParameter_DeepCopy I = ptr_TemplateParameter (TemplateParameter_DeepCopyInto I)"

definition TemplateFrom_DeepCopyInto :: "'x imported \<Rightarrow> (TemplateFrom_mem, 'x cell) copier" where
  "TemplateFrom_DeepCopyInto I src h =
     do { (selector, h1) \<leftarrow> SecretConfigMapSelector_DeepCopyInto I (tfm_Selector src) h;
          (parameters, h2) \<leftarrow> slice_TemplateParameter (TemplateParameter_DeepCopyInto I) (tfm_Parameters
              src) h1;
          Some (src\<lparr>tfm_Selector := selector, tfm_Parameters := parameters\<rparr>, h2) }"

definition TemplateFrom_DeepCopy :: "'x imported \<Rightarrow> (addr option, 'x cell) copier" where
  "TemplateFrom_DeepCopy I = ptr_TemplateFrom (TemplateFrom_DeepCopyInto I)"

definition ParentRef_DeepCopyInto :: "'x imported \<Rightarrow> (ParentRef_mem, 'x cell) copier" where
  "ParentRef_DeepCopyInto I src h =
     do { (coefficientFrom, h1) \<leftarrow> ptr_TemplateFrom (TemplateFrom_DeepCopyInto I) (prm_CoefficientFrom src)
         h;
          Some (src\<lparr>prm_CoefficientFrom := coefficientFrom\<rparr>, h1) }"

definition ParentRef_DeepCopy :: "'x imported \<Rightarrow> (addr option, 'x cell) copier" where
  "ParentRef_DeepCopy I = ptr_ParentRef (ParentRef_DeepCopyInto I)"

definition DataCenterResourceSpec_DeepCopyInto :: "'x imported \<Rightarrow> (DataCenterResourceSpec_mem, 'x cell)
    copier" where
  "DataCenterResourceSpec_DeepCopyInto I src h =
     do { (physicalMeasurements, h1) \<leftarrow> slice_string copy_plain (dsm_PhysicalMeasurements src) h;
          (parents, h2) \<leftarrow> slice_ParentRef (ParentRef_DeepCopyInto I) (dsm_Parents src) h1;
          (energyMetricFrom, h3) \<leftarrow> ptr_TemplateFrom (TemplateFrom_DeepCopyInto I) (dsm_EnergyMetricFrom
              src) h2;
          (additionalLabels, h4) \<leftarrow> ptr_labels copy_entries (dsm_AdditionalLabels src) h3;
          Some (src\<lparr>dsm_PhysicalMeasurements := physicalMeasurements, dsm_Parents := parents,
              dsm_EnergyMetricFrom := energyMetricFrom, dsm_AdditionalLabels := additionalLabels\<rparr>, h4) }"

definition DataCenterResourceSpec_DeepCopy :: "'x imported \<Rightarrow> (addr option, 'x cell) copier" where
  "DataCenterResourceSpec_DeepCopy I = ptr_DataCenterResourceSpec (DataCenterResourceSpec_DeepCopyInto I)"

definition DataCenterResourceStatus_DeepCopyInto :: "'x imported \<Rightarrow> (DataCenterResourceStatus_mem, 'x
    cell) copier" where
  "DataCenterResourceStatus_DeepCopyInto I src h =
     do { (conditions, h1) \<leftarrow> slice_Condition (Condition_DeepCopyInto I) (dtm_Conditions src) h;
          Some (src\<lparr>dtm_Conditions := conditions\<rparr>, h1) }"

definition DataCenterResourceStatus_DeepCopy :: "'x imported \<Rightarrow> (addr option, 'x cell) copier" where
  "DataCenterResourceStatus_DeepCopy I = ptr_DataCenterResourceStatus (DataCenterResourceStatus_DeepCopyInto I)"

definition DataCenterResource_DeepCopyInto :: "'x imported \<Rightarrow> ('x DataCenterResource_mem, 'x cell) copier"
    where
  "DataCenterResource_DeepCopyInto I src h =
     do { (objectMeta, h1) \<leftarrow> ObjectMeta_DeepCopyInto I (dcm_ObjectMeta src) h;
          (spec, h2) \<leftarrow> DataCenterResourceSpec_DeepCopyInto I (dcm_Spec src) h1;
          (status, h3) \<leftarrow> DataCenterResourceStatus_DeepCopyInto I (dcm_Status src) h2;
          Some (src\<lparr>dcm_ObjectMeta := objectMeta, dcm_Spec := spec, dcm_Status := status\<rparr>, h3) }"

definition DataCenterResource_DeepCopy :: "'x imported \<Rightarrow> (addr option, 'x cell) copier" where
  "DataCenterResource_DeepCopy I = ptr_DataCenterResource (DataCenterResource_DeepCopyInto I)"

definition DataCenterResourceList_DeepCopyInto :: "'x imported \<Rightarrow> ('x DataCenterResourceList_mem, 'x cell)
    copier" where
  "DataCenterResourceList_DeepCopyInto I src h =
     do { (listMeta, h1) \<leftarrow> ListMeta_DeepCopyInto I (dlm_ListMeta src) h;
          (items, h2) \<leftarrow> slice_DataCenterResource (DataCenterResource_DeepCopyInto I) (dlm_Items src) h1;
          Some (src\<lparr>dlm_ListMeta := listMeta, dlm_Items := items\<rparr>, h2) }"

definition DataCenterResourceList_DeepCopy :: "'x imported \<Rightarrow> (addr option, 'x cell) copier" where
  "DataCenterResourceList_DeepCopy I = ptr_DataCenterResourceList (DataCenterResourceList_DeepCopyInto I)"

definition MeasurementDeviceSpec_DeepCopyInto :: "'x imported \<Rightarrow> (MeasurementDeviceSpec_mem, 'x cell)
    copier" where
  "MeasurementDeviceSpec_DeepCopyInto I src h =
     do { (walks, h1) \<leftarrow> slice_string copy_plain (msm_Walks src) h;
          (authFrom, h2) \<leftarrow> ptr_SecretConfigMapSelector (SecretConfigMapSelector_DeepCopyInto I)
              (msm_AuthFrom src) h1;
          Some (src\<lparr>msm_Walks := walks, msm_AuthFrom := authFrom\<rparr>, h2) }"

definition MeasurementDeviceSpec_DeepCopy :: "'x imported \<Rightarrow> (addr option, 'x cell) copier" where
  "MeasurementDeviceSpec_DeepCopy I = ptr_MeasurementDeviceSpec (MeasurementDeviceSpec_DeepCopyInto I)"

definition MeasurementDeviceStatus_DeepCopyInto :: "'x imported \<Rightarrow> (MeasurementDeviceStatus_mem, 'x cell)
    copier" where
  "MeasurementDeviceStatus_DeepCopyInto I src h =
     do { (conditions, h1) \<leftarrow> slice_Condition (Condition_DeepCopyInto I) (mtm_Conditions src) h;
          Some (src\<lparr>mtm_Conditions := conditions\<rparr>, h1) }"

definition MeasurementDeviceStatus_DeepCopy :: "'x imported \<Rightarrow> (addr option, 'x cell) copier" where
  "MeasurementDeviceStatus_DeepCopy I = ptr_MeasurementDeviceStatus (MeasurementDeviceStatus_DeepCopyInto I)"

definition MeasurementDevice_DeepCopyInto :: "'x imported \<Rightarrow> ('x MeasurementDevice_mem, 'x cell) copier"
    where
  "MeasurementDevice_DeepCopyInto I src h =
     do { (objectMeta, h1) \<leftarrow> ObjectMeta_DeepCopyInto I (mdm_ObjectMeta src) h;
          (spec, h2) \<leftarrow> MeasurementDeviceSpec_DeepCopyInto I (mdm_Spec src) h1;
          (status, h3) \<leftarrow> MeasurementDeviceStatus_DeepCopyInto I (mdm_Status src) h2;
          Some (src\<lparr>mdm_ObjectMeta := objectMeta, mdm_Spec := spec, mdm_Status := status\<rparr>, h3) }"

definition MeasurementDevice_DeepCopy :: "'x imported \<Rightarrow> (addr option, 'x cell) copier" where
  "MeasurementDevice_DeepCopy I = ptr_MeasurementDevice (MeasurementDevice_DeepCopyInto I)"

definition MeasurementDeviceList_DeepCopyInto :: "'x imported \<Rightarrow> ('x MeasurementDeviceList_mem, 'x cell)
    copier" where
  "MeasurementDeviceList_DeepCopyInto I src h =
     do { (listMeta, h1) \<leftarrow> ListMeta_DeepCopyInto I (mlm_ListMeta src) h;
          (items, h2) \<leftarrow> slice_MeasurementDevice (MeasurementDevice_DeepCopyInto I) (mlm_Items src) h1;
          Some (src\<lparr>mlm_ListMeta := listMeta, mlm_Items := items\<rparr>, h2) }"

definition MeasurementDeviceList_DeepCopy :: "'x imported \<Rightarrow> (addr option, 'x cell) copier" where
  "MeasurementDeviceList_DeepCopy I = ptr_MeasurementDeviceList (MeasurementDeviceList_DeepCopyInto I)"

definition PhysicalMeasurementSpec_DeepCopyInto :: "'x imported \<Rightarrow> (PhysicalMeasurementSpec_mem, 'x cell)
    copier" where
  "PhysicalMeasurementSpec_DeepCopyInto I src h =
     do { (additionalLabels, h1) \<leftarrow> ptr_labels copy_entries (psm_AdditionalLabels src) h;
          Some (src\<lparr>psm_AdditionalLabels := additionalLabels\<rparr>, h1) }"

definition PhysicalMeasurementSpec_DeepCopy :: "'x imported \<Rightarrow> (addr option, 'x cell) copier" where
  "PhysicalMeasurementSpec_DeepCopy I = ptr_PhysicalMeasurementSpec (PhysicalMeasurementSpec_DeepCopyInto I)"

definition PhysicalMeasurementStatus_DeepCopyInto :: "'x imported \<Rightarrow> (PhysicalMeasurementStatus_mem, 'x
    cell) copier" where
  "PhysicalMeasurementStatus_DeepCopyInto I src h =
     do { (conditions, h1) \<leftarrow> slice_Condition (Condition_DeepCopyInto I) (ptm_Conditions src) h;
          Some (src\<lparr>ptm_Conditions := conditions\<rparr>, h1) }"

definition PhysicalMeasurementStatus_DeepCopy :: "'x imported \<Rightarrow> (addr option, 'x cell) copier" where
  "PhysicalMeasurementStatus_DeepCopy I = ptr_PhysicalMeasurementStatus (PhysicalMeasurementStatus_DeepCopyInto I)"

definition PhysicalMeasurement_DeepCopyInto :: "'x imported \<Rightarrow> ('x PhysicalMeasurement_mem, 'x cell)
    copier" where
  "PhysicalMeasurement_DeepCopyInto I src h =
     do { (objectMeta, h1) \<leftarrow> ObjectMeta_DeepCopyInto I (pmm_ObjectMeta src) h;
          (spec, h2) \<leftarrow> PhysicalMeasurementSpec_DeepCopyInto I (pmm_Spec src) h1;
          (status, h3) \<leftarrow> PhysicalMeasurementStatus_DeepCopyInto I (pmm_Status src) h2;
          Some (src\<lparr>pmm_ObjectMeta := objectMeta, pmm_Spec := spec, pmm_Status := status\<rparr>, h3) }"

definition PhysicalMeasurement_DeepCopy :: "'x imported \<Rightarrow> (addr option, 'x cell) copier" where
  "PhysicalMeasurement_DeepCopy I = ptr_PhysicalMeasurement (PhysicalMeasurement_DeepCopyInto I)"

definition PhysicalMeasurementList_DeepCopyInto :: "'x imported \<Rightarrow> ('x PhysicalMeasurementList_mem, 'x
    cell) copier" where
  "PhysicalMeasurementList_DeepCopyInto I src h =
     do { (listMeta, h1) \<leftarrow> ListMeta_DeepCopyInto I (plm_ListMeta src) h;
          (items, h2) \<leftarrow> slice_PhysicalMeasurement (PhysicalMeasurement_DeepCopyInto I) (plm_Items src) h1;
          Some (src\<lparr>plm_ListMeta := listMeta, plm_Items := items\<rparr>, h2) }"

definition PhysicalMeasurementList_DeepCopy :: "'x imported \<Rightarrow> (addr option, 'x cell) copier" where
  "PhysicalMeasurementList_DeepCopy I = ptr_PhysicalMeasurementList (PhysicalMeasurementList_DeepCopyInto I)"

section \<open>DeepCopyObject\<close>

text \<open>An interface value: nil without a type, or a pointer with its type.\<close>

datatype runtime_Object = NilObject | DataCenterResourceObject addr | DataCenterResourceListObject addr |
    MeasurementDeviceObject addr | MeasurementDeviceListObject addr | PhysicalMeasurementObject addr |
    PhysicalMeasurementListObject addr

definition object_of :: "(addr \<Rightarrow> runtime_Object) \<Rightarrow> (addr option \<times> 'c heap) option
    \<Rightarrow> (runtime_Object \<times> 'c heap) option" where
  "object_of wrap r =
     do { (c, h) \<leftarrow> r; Some (case c of None \<Rightarrow> NilObject | Some a \<Rightarrow> wrap a, h) }"

definition DataCenterResource_DeepCopyObject ::
    "'x imported \<Rightarrow> addr option \<Rightarrow> 'x cell heap \<Rightarrow> (runtime_Object \<times> 'x cell
        heap) option" where
  "DataCenterResource_DeepCopyObject I src h = object_of DataCenterResourceObject (DataCenterResource_DeepCopy I src
      h)"

definition DataCenterResourceList_DeepCopyObject ::
    "'x imported \<Rightarrow> addr option \<Rightarrow> 'x cell heap \<Rightarrow> (runtime_Object \<times> 'x cell
        heap) option" where
  "DataCenterResourceList_DeepCopyObject I src h = object_of DataCenterResourceListObject
      (DataCenterResourceList_DeepCopy I src h)"

definition MeasurementDevice_DeepCopyObject ::
    "'x imported \<Rightarrow> addr option \<Rightarrow> 'x cell heap \<Rightarrow> (runtime_Object \<times> 'x cell
        heap) option" where
  "MeasurementDevice_DeepCopyObject I src h = object_of MeasurementDeviceObject (MeasurementDevice_DeepCopy I src h)"

definition MeasurementDeviceList_DeepCopyObject ::
    "'x imported \<Rightarrow> addr option \<Rightarrow> 'x cell heap \<Rightarrow> (runtime_Object \<times> 'x cell
        heap) option" where
  "MeasurementDeviceList_DeepCopyObject I src h = object_of MeasurementDeviceListObject
      (MeasurementDeviceList_DeepCopy I src h)"

definition PhysicalMeasurement_DeepCopyObject ::
    "'x imported \<Rightarrow> addr option \<Rightarrow> 'x cell heap \<Rightarrow> (runtime_Object \<times> 'x cell
        heap) option" where
  "PhysicalMeasurement_DeepCopyObject I src h = object_of PhysicalMeasurementObject (PhysicalMeasurement_DeepCopy I
      src h)"

definition PhysicalMeasurementList_DeepCopyObject ::
    "'x imported \<Rightarrow> addr option \<Rightarrow> 'x cell heap \<Rightarrow> (runtime_Object \<times> 'x cell
        heap) option" where
  "PhysicalMeasurementList_DeepCopyObject I src h = object_of PhysicalMeasurementListObject
      (PhysicalMeasurementList_DeepCopy I src h)"

end
