(* ===== verification/Deep_Copy_Props.thy ===== *)
theory Deep_Copy_Props
  imports Deep_Copy
begin

text \<open>
  What the generated copies promise. For every type, the deep value of a struct (the tuple of the deep values of its
  fields: nil, empty and filled are told apart) and its footprint; inside the locale \<open>imported_types\<close>,
      the contract the
  copying functions of other modules have to keep, each generated function is shown to be \<open>copyable\<close>.
      The model
  of the reconcilers relies on it when it passes objects as values.
\<close>

lemma copyable_structI:
  assumes "copyable V F f" and "C = copy_struct parts build f" and "\<And>y. parts (build y) = y"
    and "\<And>h x. W h x = V h (parts x)" and "\<And>h x. G h x = F h (parts x)"
  shows "copyable W G C"
proof -
  have "W = (\<lambda>h x. V h (parts x))" "G = (\<lambda>h x. F h (parts x))" by (intro ext, rule assms)+
  then show ?thesis using copyable_struct [OF assms(1), of parts build, OF assms(3)] assms(2) by simp
qed

lemma bind_case_prod: "Option.bind r (\<lambda>p. case p of (x, y) \<Rightarrow> f x y) = (case r of None
    \<Rightarrow> None | Some (x, y) \<Rightarrow> f x y)"
  by (cases r) auto

lemmas copy_unfold = copy_struct_def copy_pair_def copy_plain_def bind_case_prod

section \<open>Deep values and footprints\<close>

definition "ValueSource_parts x = (vs_ConfigMapKeyRef x, vs_SecretKeyRef x)"

definition "ValueSource_value V h x = view_pair (view_ptr is_ConfigMapKeySelector un_ConfigMapKeySelector V)
    (view_ptr is_SecretKeySelector un_SecretKeySelector V) h (ValueSource_parts x)"

definition "ValueSource_foot F h x = foot_pair (foot_ptr is_ConfigMapKeySelector un_ConfigMapKeySelector F) (foot_ptr
    is_SecretKeySelector un_SecretKeySelector F) h (ValueSource_parts x)"

definition "SecretConfigMapSelector_parts x = (sm_Value x, sm_ValueFrom x)"

definition "SecretConfigMapSelector_value V h x = view_pair (\<lambda>h. Some) (view_ptr is_ValueSource
    un_ValueSource (ValueSource_value V)) h (SecretConfigMapSelector_parts x)"

definition "SecretConfigMapSelector_foot F h x = foot_pair (\<lambda>h x. {}) (foot_ptr is_ValueSource un_ValueSource
    (ValueSource_foot F)) h (SecretConfigMapSelector_parts x)"

definition "TemplateParameter_parts x = (tpm_Name x, tpm_Selector x)"

definition "TemplateParameter_value V h x = view_pair (\<lambda>h. Some) (SecretConfigMapSelector_value V) h
    (TemplateParameter_parts x)"

definition "TemplateParameter_foot F h x = foot_pair (\<lambda>h x. {}) (SecretConfigMapSelector_foot F) h
    (TemplateParameter_parts x)"

definition "TemplateFrom_parts x = (tfm_Selector x, tfm_Parameters x)"

definition "TemplateFrom_value V h x = view_pair (SecretConfigMapSelector_value V) (view_slice is_TemplateParameters
    un_TemplateParameters (TemplateParameter_value V)) h (TemplateFrom_parts x)"

definition "TemplateFrom_foot F h x = foot_pair (SecretConfigMapSelector_foot F) (foot_slice is_TemplateParameters
    un_TemplateParameters (TemplateParameter_foot F)) h (TemplateFrom_parts x)"

definition "ParentRef_parts x = (prm_Name x, prm_Coefficient x, prm_CoefficientFrom x)"

definition "ParentRef_value V h x = view_pair (\<lambda>h. Some) (view_pair (\<lambda>h. Some) (view_ptr
    is_TemplateFrom un_TemplateFrom (TemplateFrom_value V))) h (ParentRef_parts x)"

definition "ParentRef_foot F h x = foot_pair (\<lambda>h x. {}) (foot_pair (\<lambda>h x. {}) (foot_ptr
    is_TemplateFrom un_TemplateFrom (TemplateFrom_foot F))) h (ParentRef_parts x)"

definition "DataCenterResourceSpec_parts x = (dsm_Type x, dsm_PhysicalMeasurements x, dsm_Parents x, dsm_EnergyMetric
    x, dsm_EnergyMetricFrom x, dsm_AdditionalLabels x)"

definition "DataCenterResourceSpec_value V h x = view_pair (\<lambda>h. Some) (view_pair (view_slice is_Strings
    un_Strings (\<lambda>h. Some)) (view_pair (view_slice is_ParentRefs un_ParentRefs (ParentRef_value V)) (view_pair
    (\<lambda>h. Some) (view_pair (view_ptr is_TemplateFrom un_TemplateFrom (TemplateFrom_value V)) (view_ptr
    is_Labels un_Labels (\<lambda>h. Some)))))) h (DataCenterResourceSpec_parts x)"

definition "DataCenterResourceSpec_foot F h x = foot_pair (\<lambda>h x. {}) (foot_pair (foot_slice is_Strings
    un_Strings (\<lambda>h x. {})) (foot_pair (foot_slice is_ParentRefs un_ParentRefs (ParentRef_foot F)) (foot_pair
    (\<lambda>h x. {}) (foot_pair (foot_ptr is_TemplateFrom un_TemplateFrom (TemplateFrom_foot F)) (foot_ptr
    is_Labels un_Labels (\<lambda>h x. {})))))) h (DataCenterResourceSpec_parts x)"

definition "DataCenterResourceStatus_parts x = (dtm_ObservedGeneration x, dtm_InvolvedResource x, dtm_Conditions x)"

definition "DataCenterResourceStatus_value V h x = view_pair (\<lambda>h. Some) (view_pair (\<lambda>h. Some)
    (view_slice is_Conditions un_Conditions V)) h (DataCenterResourceStatus_parts x)"

definition "DataCenterResourceStatus_foot F h x = foot_pair (\<lambda>h x. {}) (foot_pair (\<lambda>h x. {})
    (foot_slice is_Conditions un_Conditions F)) h (DataCenterResourceStatus_parts x)"

definition "DataCenterResource_parts x = (dcm_TypeMeta x, dcm_ObjectMeta x, dcm_Spec x, dcm_Status x)"

definition "DataCenterResource_value V h x = view_pair (\<lambda>h. Some) (view_pair V (view_pair
    (DataCenterResourceSpec_value V) (DataCenterResourceStatus_value V))) h (DataCenterResource_parts x)"

definition "DataCenterResource_foot F h x = foot_pair (\<lambda>h x. {}) (foot_pair F (foot_pair
    (DataCenterResourceSpec_foot F) (DataCenterResourceStatus_foot F))) h (DataCenterResource_parts x)"

definition "DataCenterResourceList_parts x = (dlm_TypeMeta x, dlm_ListMeta x, dlm_Items x)"

definition "DataCenterResourceList_value V h x = view_pair (\<lambda>h. Some) (view_pair V (view_slice
    is_DataCenterResources un_DataCenterResources (DataCenterResource_value V))) h (DataCenterResourceList_parts x)"

definition "DataCenterResourceList_foot F h x = foot_pair (\<lambda>h x. {}) (foot_pair F (foot_slice
    is_DataCenterResources un_DataCenterResources (DataCenterResource_foot F))) h (DataCenterResourceList_parts x)"

definition "MeasurementDeviceSpec_parts x = (msm_Walks x, msm_AuthFrom x)"

definition "MeasurementDeviceSpec_value V h x = view_pair (view_slice is_Strings un_Strings (\<lambda>h. Some))
    (view_ptr is_SecretConfigMapSelector un_SecretConfigMapSelector (SecretConfigMapSelector_value V)) h
    (MeasurementDeviceSpec_parts x)"

definition "MeasurementDeviceSpec_foot F h x = foot_pair (foot_slice is_Strings un_Strings (\<lambda>h x. {}))
    (foot_ptr is_SecretConfigMapSelector un_SecretConfigMapSelector (SecretConfigMapSelector_foot F)) h
    (MeasurementDeviceSpec_parts x)"

definition "MeasurementDeviceStatus_parts x = (mtm_ObservedGeneration x, mtm_ConfigHash x, mtm_Conditions x)"

definition "MeasurementDeviceStatus_value V h x = view_pair (\<lambda>h. Some) (view_pair (\<lambda>h. Some)
    (view_slice is_Conditions un_Conditions V)) h (MeasurementDeviceStatus_parts x)"

definition "MeasurementDeviceStatus_foot F h x = foot_pair (\<lambda>h x. {}) (foot_pair (\<lambda>h x. {})
    (foot_slice is_Conditions un_Conditions F)) h (MeasurementDeviceStatus_parts x)"

definition "MeasurementDevice_parts x = (mdm_TypeMeta x, mdm_ObjectMeta x, mdm_Spec x, mdm_Status x)"

definition "MeasurementDevice_value V h x = view_pair (\<lambda>h. Some) (view_pair V (view_pair
    (MeasurementDeviceSpec_value V) (MeasurementDeviceStatus_value V))) h (MeasurementDevice_parts x)"

definition "MeasurementDevice_foot F h x = foot_pair (\<lambda>h x. {}) (foot_pair F (foot_pair
    (MeasurementDeviceSpec_foot F) (MeasurementDeviceStatus_foot F))) h (MeasurementDevice_parts x)"

definition "MeasurementDeviceList_parts x = (mlm_TypeMeta x, mlm_ListMeta x, mlm_Items x)"

definition "MeasurementDeviceList_value V h x = view_pair (\<lambda>h. Some) (view_pair V (view_slice
    is_MeasurementDevices un_MeasurementDevices (MeasurementDevice_value V))) h (MeasurementDeviceList_parts x)"

definition "MeasurementDeviceList_foot F h x = foot_pair (\<lambda>h x. {}) (foot_pair F (foot_slice
    is_MeasurementDevices un_MeasurementDevices (MeasurementDevice_foot F))) h (MeasurementDeviceList_parts x)"

definition "PhysicalMeasurementSpec_parts x = (psm_Type x, psm_Ip x, psm_MeasurementDevice x, psm_AdditionalLabels x)"

definition "PhysicalMeasurementSpec_value V h x = view_pair (\<lambda>h. Some) (view_pair (\<lambda>h. Some)
    (view_pair (\<lambda>h. Some) (view_ptr is_Labels un_Labels (\<lambda>h. Some)))) h
    (PhysicalMeasurementSpec_parts x)"

definition "PhysicalMeasurementSpec_foot F h x = foot_pair (\<lambda>h x. {}) (foot_pair (\<lambda>h x. {})
    (foot_pair (\<lambda>h x. {}) (foot_ptr is_Labels un_Labels (\<lambda>h x. {})))) h
    (PhysicalMeasurementSpec_parts x)"

definition "PhysicalMeasurementStatus_parts x = (ptm_ObservedGeneration x, ptm_Conditions x)"

definition "PhysicalMeasurementStatus_value V h x = view_pair (\<lambda>h. Some) (view_slice is_Conditions
    un_Conditions V) h (PhysicalMeasurementStatus_parts x)"

definition "PhysicalMeasurementStatus_foot F h x = foot_pair (\<lambda>h x. {}) (foot_slice is_Conditions
    un_Conditions F) h (PhysicalMeasurementStatus_parts x)"

definition "PhysicalMeasurement_parts x = (pmm_TypeMeta x, pmm_ObjectMeta x, pmm_Spec x, pmm_Status x)"

definition "PhysicalMeasurement_value V h x = view_pair (\<lambda>h. Some) (view_pair V (view_pair
    (PhysicalMeasurementSpec_value V) (PhysicalMeasurementStatus_value V))) h (PhysicalMeasurement_parts x)"

definition "PhysicalMeasurement_foot F h x = foot_pair (\<lambda>h x. {}) (foot_pair F (foot_pair
    (PhysicalMeasurementSpec_foot F) (PhysicalMeasurementStatus_foot F))) h (PhysicalMeasurement_parts x)"

definition "PhysicalMeasurementList_parts x = (plm_TypeMeta x, plm_ListMeta x, plm_Items x)"

definition "PhysicalMeasurementList_value V h x = view_pair (\<lambda>h. Some) (view_pair V (view_slice
    is_PhysicalMeasurements un_PhysicalMeasurements (PhysicalMeasurement_value V))) h (PhysicalMeasurementList_parts
    x)"

definition "PhysicalMeasurementList_foot F h x = foot_pair (\<lambda>h x. {}) (foot_pair F (foot_slice
    is_PhysicalMeasurements un_PhysicalMeasurements (PhysicalMeasurement_foot F))) h (PhysicalMeasurementList_parts
    x)"

section \<open>Every generated function keeps the contract\<close>

locale imported_types =
  fixes I :: "'x imported" and V :: "'x cell heap \<Rightarrow> 'x \<Rightarrow> 'v option" and F :: "'x cell heap
      \<Rightarrow> 'x \<Rightarrow> addr set"
  assumes objectMeta: "copyable V F (ObjectMeta_DeepCopyInto I)"
    and listMeta: "copyable V F (ListMeta_DeepCopyInto I)"
    and condition: "copyable V F (Condition_DeepCopyInto I)"
    and configMapKeySelector: "copyable V F (ConfigMapKeySelector_DeepCopyInto I)"
    and secretKeySelector: "copyable V F (SecretKeySelector_DeepCopyInto I)"
begin

lemmas parts_copyable = copyable_pair copyable_ptr copyable_slice plain.copyable_axioms entries.copyable_axioms
  objectMeta listMeta condition configMapKeySelector secretKeySelector

lemma ValueSource_copyable: "copyable (ValueSource_value V) (ValueSource_foot F) (ValueSource_DeepCopyInto I)"
proof (rule copyable_structI [where parts = ValueSource_parts])
  show "ValueSource_DeepCopyInto I = copy_struct ValueSource_parts
      (\<lambda>(a, b). \<lparr>vs_ConfigMapKeyRef = a, vs_SecretKeyRef = b\<rparr>)
      (copy_pair (ptr_ConfigMapKeySelector (ConfigMapKeySelector_DeepCopyInto I)) (ptr_SecretKeySelector
          (SecretKeySelector_DeepCopyInto I)))"
    by (intro ext) (simp add: ValueSource_DeepCopyInto_def ValueSource_parts_def copy_unfold split: option.split
        prod.split)
qed (auto intro!: parts_copyable simp: ValueSource_parts_def ValueSource_value_def ValueSource_foot_def)

lemma SecretConfigMapSelector_copyable: "copyable (SecretConfigMapSelector_value V) (SecretConfigMapSelector_foot F)
    (SecretConfigMapSelector_DeepCopyInto I)"
proof (rule copyable_structI [where parts = SecretConfigMapSelector_parts])
  show "SecretConfigMapSelector_DeepCopyInto I = copy_struct SecretConfigMapSelector_parts
      (\<lambda>(a, b). \<lparr>sm_Value = a, sm_ValueFrom = b\<rparr>)
      (copy_pair copy_plain (ptr_ValueSource (ValueSource_DeepCopyInto I)))"
    by (intro ext) (simp add: SecretConfigMapSelector_DeepCopyInto_def SecretConfigMapSelector_parts_def copy_unfold
        split: option.split prod.split)
qed (auto intro!: parts_copyable ValueSource_copyable simp: SecretConfigMapSelector_parts_def
    SecretConfigMapSelector_value_def SecretConfigMapSelector_foot_def)

lemma TemplateParameter_copyable: "copyable (TemplateParameter_value V) (TemplateParameter_foot F)
    (TemplateParameter_DeepCopyInto I)"
proof (rule copyable_structI [where parts = TemplateParameter_parts])
  show "TemplateParameter_DeepCopyInto I = copy_struct TemplateParameter_parts
      (\<lambda>(a, b). \<lparr>tpm_Name = a, tpm_Selector = b\<rparr>)
      (copy_pair copy_plain (SecretConfigMapSelector_DeepCopyInto I))"
    by (intro ext) (simp add: TemplateParameter_DeepCopyInto_def TemplateParameter_parts_def copy_unfold split:
        option.split prod.split)
qed (auto intro!: parts_copyable SecretConfigMapSelector_copyable simp: TemplateParameter_parts_def
    TemplateParameter_value_def TemplateParameter_foot_def)

lemma TemplateFrom_copyable: "copyable (TemplateFrom_value V) (TemplateFrom_foot F) (TemplateFrom_DeepCopyInto I)"
proof (rule copyable_structI [where parts = TemplateFrom_parts])
  show "TemplateFrom_DeepCopyInto I = copy_struct TemplateFrom_parts
      (\<lambda>(a, b). \<lparr>tfm_Selector = a, tfm_Parameters = b\<rparr>)
      (copy_pair (SecretConfigMapSelector_DeepCopyInto I) (slice_TemplateParameter (TemplateParameter_DeepCopyInto
          I)))"
    by (intro ext) (simp add: TemplateFrom_DeepCopyInto_def TemplateFrom_parts_def copy_unfold split: option.split
        prod.split)
qed (auto intro!: parts_copyable SecretConfigMapSelector_copyable TemplateParameter_copyable simp:
    TemplateFrom_parts_def TemplateFrom_value_def TemplateFrom_foot_def)

lemma ParentRef_copyable: "copyable (ParentRef_value V) (ParentRef_foot F) (ParentRef_DeepCopyInto I)"
proof (rule copyable_structI [where parts = ParentRef_parts])
  show "ParentRef_DeepCopyInto I = copy_struct ParentRef_parts
      (\<lambda>(a, b, c). \<lparr>prm_Name = a, prm_Coefficient = b, prm_CoefficientFrom = c\<rparr>)
      (copy_pair copy_plain (copy_pair copy_plain (ptr_TemplateFrom (TemplateFrom_DeepCopyInto I))))"
    by (intro ext) (simp add: ParentRef_DeepCopyInto_def ParentRef_parts_def copy_unfold split: option.split
        prod.split)
qed (auto intro!: parts_copyable TemplateFrom_copyable simp: ParentRef_parts_def ParentRef_value_def
    ParentRef_foot_def)

lemma DataCenterResourceSpec_copyable: "copyable (DataCenterResourceSpec_value V) (DataCenterResourceSpec_foot F)
    (DataCenterResourceSpec_DeepCopyInto I)"
proof (rule copyable_structI [where parts = DataCenterResourceSpec_parts])
  show "DataCenterResourceSpec_DeepCopyInto I = copy_struct DataCenterResourceSpec_parts
      (\<lambda>(a, b, c, d, e, f). \<lparr>dsm_Type = a, dsm_PhysicalMeasurements = b, dsm_Parents = c,
          dsm_EnergyMetric = d, dsm_EnergyMetricFrom = e, dsm_AdditionalLabels = f\<rparr>)
      (copy_pair copy_plain (copy_pair (slice_string copy_plain) (copy_pair (slice_ParentRef (ParentRef_DeepCopyInto
          I)) (copy_pair copy_plain (copy_pair (ptr_TemplateFrom (TemplateFrom_DeepCopyInto I)) (ptr_labels
          copy_entries))))))"
    by (intro ext) (simp add: DataCenterResourceSpec_DeepCopyInto_def DataCenterResourceSpec_parts_def copy_unfold
        split: option.split prod.split)
qed (auto intro!: parts_copyable ParentRef_copyable TemplateFrom_copyable simp: DataCenterResourceSpec_parts_def
    DataCenterResourceSpec_value_def DataCenterResourceSpec_foot_def)

lemma DataCenterResourceStatus_copyable: "copyable (DataCenterResourceStatus_value V) (DataCenterResourceStatus_foot
    F) (DataCenterResourceStatus_DeepCopyInto I)"
proof (rule copyable_structI [where parts = DataCenterResourceStatus_parts])
  show "DataCenterResourceStatus_DeepCopyInto I = copy_struct DataCenterResourceStatus_parts
      (\<lambda>(a, b, c). \<lparr>dtm_ObservedGeneration = a, dtm_InvolvedResource = b, dtm_Conditions = c\<rparr>)
      (copy_pair copy_plain (copy_pair copy_plain (slice_Condition (Condition_DeepCopyInto I))))"
    by (intro ext) (simp add: DataCenterResourceStatus_DeepCopyInto_def DataCenterResourceStatus_parts_def
        copy_unfold split: option.split prod.split)
qed (auto intro!: parts_copyable simp: DataCenterResourceStatus_parts_def DataCenterResourceStatus_value_def
    DataCenterResourceStatus_foot_def)

lemma DataCenterResource_copyable: "copyable (DataCenterResource_value V) (DataCenterResource_foot F)
    (DataCenterResource_DeepCopyInto I)"
proof (rule copyable_structI [where parts = DataCenterResource_parts])
  show "DataCenterResource_DeepCopyInto I = copy_struct DataCenterResource_parts
      (\<lambda>(a, b, c, d). \<lparr>dcm_TypeMeta = a, dcm_ObjectMeta = b, dcm_Spec = c, dcm_Status = d\<rparr>)
      (copy_pair copy_plain (copy_pair (ObjectMeta_DeepCopyInto I) (copy_pair (DataCenterResourceSpec_DeepCopyInto I)
          (DataCenterResourceStatus_DeepCopyInto I))))"
    by (intro ext) (simp add: DataCenterResource_DeepCopyInto_def DataCenterResource_parts_def copy_unfold split:
        option.split prod.split)
qed (auto intro!: parts_copyable DataCenterResourceSpec_copyable DataCenterResourceStatus_copyable simp:
    DataCenterResource_parts_def DataCenterResource_value_def DataCenterResource_foot_def)

lemma DataCenterResourceList_copyable: "copyable (DataCenterResourceList_value V) (DataCenterResourceList_foot F)
    (DataCenterResourceList_DeepCopyInto I)"
proof (rule copyable_structI [where parts = DataCenterResourceList_parts])
  show "DataCenterResourceList_DeepCopyInto I = copy_struct DataCenterResourceList_parts
      (\<lambda>(a, b, c). \<lparr>dlm_TypeMeta = a, dlm_ListMeta = b, dlm_Items = c\<rparr>)
      (copy_pair copy_plain (copy_pair (ListMeta_DeepCopyInto I) (slice_DataCenterResource
          (DataCenterResource_DeepCopyInto I))))"
    by (intro ext) (simp add: DataCenterResourceList_DeepCopyInto_def DataCenterResourceList_parts_def copy_unfold
        split: option.split prod.split)
qed (auto intro!: parts_copyable DataCenterResource_copyable simp: DataCenterResourceList_parts_def
    DataCenterResourceList_value_def DataCenterResourceList_foot_def)

lemma MeasurementDeviceSpec_copyable: "copyable (MeasurementDeviceSpec_value V) (MeasurementDeviceSpec_foot F)
    (MeasurementDeviceSpec_DeepCopyInto I)"
proof (rule copyable_structI [where parts = MeasurementDeviceSpec_parts])
  show "MeasurementDeviceSpec_DeepCopyInto I = copy_struct MeasurementDeviceSpec_parts
      (\<lambda>(a, b). \<lparr>msm_Walks = a, msm_AuthFrom = b\<rparr>)
      (copy_pair (slice_string copy_plain) (ptr_SecretConfigMapSelector (SecretConfigMapSelector_DeepCopyInto I)))"
    by (intro ext) (simp add: MeasurementDeviceSpec_DeepCopyInto_def MeasurementDeviceSpec_parts_def copy_unfold
        split: option.split prod.split)
qed (auto intro!: parts_copyable SecretConfigMapSelector_copyable simp: MeasurementDeviceSpec_parts_def
    MeasurementDeviceSpec_value_def MeasurementDeviceSpec_foot_def)

lemma MeasurementDeviceStatus_copyable: "copyable (MeasurementDeviceStatus_value V) (MeasurementDeviceStatus_foot F)
    (MeasurementDeviceStatus_DeepCopyInto I)"
proof (rule copyable_structI [where parts = MeasurementDeviceStatus_parts])
  show "MeasurementDeviceStatus_DeepCopyInto I = copy_struct MeasurementDeviceStatus_parts
      (\<lambda>(a, b, c). \<lparr>mtm_ObservedGeneration = a, mtm_ConfigHash = b, mtm_Conditions = c\<rparr>)
      (copy_pair copy_plain (copy_pair copy_plain (slice_Condition (Condition_DeepCopyInto I))))"
    by (intro ext) (simp add: MeasurementDeviceStatus_DeepCopyInto_def MeasurementDeviceStatus_parts_def copy_unfold
        split: option.split prod.split)
qed (auto intro!: parts_copyable simp: MeasurementDeviceStatus_parts_def MeasurementDeviceStatus_value_def
    MeasurementDeviceStatus_foot_def)

lemma MeasurementDevice_copyable: "copyable (MeasurementDevice_value V) (MeasurementDevice_foot F)
    (MeasurementDevice_DeepCopyInto I)"
proof (rule copyable_structI [where parts = MeasurementDevice_parts])
  show "MeasurementDevice_DeepCopyInto I = copy_struct MeasurementDevice_parts
      (\<lambda>(a, b, c, d). \<lparr>mdm_TypeMeta = a, mdm_ObjectMeta = b, mdm_Spec = c, mdm_Status = d\<rparr>)
      (copy_pair copy_plain (copy_pair (ObjectMeta_DeepCopyInto I) (copy_pair (MeasurementDeviceSpec_DeepCopyInto I)
          (MeasurementDeviceStatus_DeepCopyInto I))))"
    by (intro ext) (simp add: MeasurementDevice_DeepCopyInto_def MeasurementDevice_parts_def copy_unfold split:
        option.split prod.split)
qed (auto intro!: parts_copyable MeasurementDeviceSpec_copyable MeasurementDeviceStatus_copyable simp:
    MeasurementDevice_parts_def MeasurementDevice_value_def MeasurementDevice_foot_def)

lemma MeasurementDeviceList_copyable: "copyable (MeasurementDeviceList_value V) (MeasurementDeviceList_foot F)
    (MeasurementDeviceList_DeepCopyInto I)"
proof (rule copyable_structI [where parts = MeasurementDeviceList_parts])
  show "MeasurementDeviceList_DeepCopyInto I = copy_struct MeasurementDeviceList_parts
      (\<lambda>(a, b, c). \<lparr>mlm_TypeMeta = a, mlm_ListMeta = b, mlm_Items = c\<rparr>)
      (copy_pair copy_plain (copy_pair (ListMeta_DeepCopyInto I) (slice_MeasurementDevice
          (MeasurementDevice_DeepCopyInto I))))"
    by (intro ext) (simp add: MeasurementDeviceList_DeepCopyInto_def MeasurementDeviceList_parts_def copy_unfold
        split: option.split prod.split)
qed (auto intro!: parts_copyable MeasurementDevice_copyable simp: MeasurementDeviceList_parts_def
    MeasurementDeviceList_value_def MeasurementDeviceList_foot_def)

lemma PhysicalMeasurementSpec_copyable: "copyable (PhysicalMeasurementSpec_value V) (PhysicalMeasurementSpec_foot F)
    (PhysicalMeasurementSpec_DeepCopyInto I)"
proof (rule copyable_structI [where parts = PhysicalMeasurementSpec_parts])
  show "PhysicalMeasurementSpec_DeepCopyInto I = copy_struct PhysicalMeasurementSpec_parts
      (\<lambda>(a, b, c, d). \<lparr>psm_Type = a, psm_Ip = b, psm_MeasurementDevice = c, psm_AdditionalLabels =
          d\<rparr>)
      (copy_pair copy_plain (copy_pair copy_plain (copy_pair copy_plain (ptr_labels copy_entries))))"
    by (intro ext) (simp add: PhysicalMeasurementSpec_DeepCopyInto_def PhysicalMeasurementSpec_parts_def copy_unfold
        split: option.split prod.split)
qed (auto intro!: parts_copyable simp: PhysicalMeasurementSpec_parts_def PhysicalMeasurementSpec_value_def
    PhysicalMeasurementSpec_foot_def)

lemma PhysicalMeasurementStatus_copyable: "copyable (PhysicalMeasurementStatus_value V)
    (PhysicalMeasurementStatus_foot F) (PhysicalMeasurementStatus_DeepCopyInto I)"
proof (rule copyable_structI [where parts = PhysicalMeasurementStatus_parts])
  show "PhysicalMeasurementStatus_DeepCopyInto I = copy_struct PhysicalMeasurementStatus_parts
      (\<lambda>(a, b). \<lparr>ptm_ObservedGeneration = a, ptm_Conditions = b\<rparr>)
      (copy_pair copy_plain (slice_Condition (Condition_DeepCopyInto I)))"
    by (intro ext) (simp add: PhysicalMeasurementStatus_DeepCopyInto_def PhysicalMeasurementStatus_parts_def
        copy_unfold split: option.split prod.split)
qed (auto intro!: parts_copyable simp: PhysicalMeasurementStatus_parts_def PhysicalMeasurementStatus_value_def
    PhysicalMeasurementStatus_foot_def)

lemma PhysicalMeasurement_copyable: "copyable (PhysicalMeasurement_value V) (PhysicalMeasurement_foot F)
    (PhysicalMeasurement_DeepCopyInto I)"
proof (rule copyable_structI [where parts = PhysicalMeasurement_parts])
  show "PhysicalMeasurement_DeepCopyInto I = copy_struct PhysicalMeasurement_parts
      (\<lambda>(a, b, c, d). \<lparr>pmm_TypeMeta = a, pmm_ObjectMeta = b, pmm_Spec = c, pmm_Status = d\<rparr>)
      (copy_pair copy_plain (copy_pair (ObjectMeta_DeepCopyInto I) (copy_pair (PhysicalMeasurementSpec_DeepCopyInto
          I) (PhysicalMeasurementStatus_DeepCopyInto I))))"
    by (intro ext) (simp add: PhysicalMeasurement_DeepCopyInto_def PhysicalMeasurement_parts_def copy_unfold split:
        option.split prod.split)
qed (auto intro!: parts_copyable PhysicalMeasurementSpec_copyable PhysicalMeasurementStatus_copyable simp:
    PhysicalMeasurement_parts_def PhysicalMeasurement_value_def PhysicalMeasurement_foot_def)

lemma PhysicalMeasurementList_copyable: "copyable (PhysicalMeasurementList_value V) (PhysicalMeasurementList_foot F)
    (PhysicalMeasurementList_DeepCopyInto I)"
proof (rule copyable_structI [where parts = PhysicalMeasurementList_parts])
  show "PhysicalMeasurementList_DeepCopyInto I = copy_struct PhysicalMeasurementList_parts
      (\<lambda>(a, b, c). \<lparr>plm_TypeMeta = a, plm_ListMeta = b, plm_Items = c\<rparr>)
      (copy_pair copy_plain (copy_pair (ListMeta_DeepCopyInto I) (slice_PhysicalMeasurement
          (PhysicalMeasurement_DeepCopyInto I))))"
    by (intro ext) (simp add: PhysicalMeasurementList_DeepCopyInto_def PhysicalMeasurementList_parts_def copy_unfold
        split: option.split prod.split)
qed (auto intro!: parts_copyable PhysicalMeasurement_copyable simp: PhysicalMeasurementList_parts_def
    PhysicalMeasurementList_value_def PhysicalMeasurementList_foot_def)

end

section \<open>Pointers to whole objects\<close>

text \<open>The deep value of a pointer to an object, and that its copy is independent, once for all types.\<close>

definition "pointer_value test content W h p = view_ptr test content W h p"

lemma DeepCopy_independent:
  assumes "copyable W G f" and "\<And>y. test (cell y)" and "\<And>y. content (cell y) = y"
    and "pointer_value test content W h p = Some v"
  shows "independent_copy (pointer_value test content W) (copy_ptr cell test content f) p v h"
proof -
  have eq: "pointer_value test content W = view_ptr test content W" by (intro ext) (simp add: pointer_value_def)
  from copyable_ptr [OF assms(1), of test cell content, OF assms(2,3)] assms(4) show ?thesis unfolding eq by (rule
      copyable.copy_independent)
qed

text \<open>
  Property C22: a copied resource shares nothing with the original. \<open>DeepCopy\<close> of a data center resource
      (its metadata,
  measurements, parents with their templates, labels and conditions included) succeeds and returns a pointer of the
      same
  deep value; whatever is written through the original afterwards, the copy stays as it is, and the other way round.
\<close>

theorem DataCenterResource_DeepCopy_independent:
  assumes "imported_types I V F"
    and "pointer_value is_DataCenterResource un_DataCenterResource (DataCenterResource_value V) h p = Some v"
  shows "independent_copy (pointer_value is_DataCenterResource un_DataCenterResource (DataCenterResource_value V))
    (DataCenterResource_DeepCopy I) p v h"
  unfolding DataCenterResource_DeepCopy_def
  by (rule DeepCopy_independent [OF imported_types.DataCenterResource_copyable [OF assms(1)] _ _ assms(2)]) simp_all

text \<open>The same holds of the other objects and of the lists the client hands out.\<close>

theorem MeasurementDevice_DeepCopy_independent:
  assumes "imported_types I V F"
    and "pointer_value is_MeasurementDevice un_MeasurementDevice (MeasurementDevice_value V) h p = Some v"
  shows "independent_copy (pointer_value is_MeasurementDevice un_MeasurementDevice (MeasurementDevice_value V))
    (MeasurementDevice_DeepCopy I) p v h"
  unfolding MeasurementDevice_DeepCopy_def
  by (rule DeepCopy_independent [OF imported_types.MeasurementDevice_copyable [OF assms(1)] _ _ assms(2)]) simp_all

theorem PhysicalMeasurement_DeepCopy_independent:
  assumes "imported_types I V F"
    and "pointer_value is_PhysicalMeasurement un_PhysicalMeasurement (PhysicalMeasurement_value V) h p = Some v"
  shows "independent_copy (pointer_value is_PhysicalMeasurement un_PhysicalMeasurement (PhysicalMeasurement_value V))
    (PhysicalMeasurement_DeepCopy I) p v h"
  unfolding PhysicalMeasurement_DeepCopy_def
  by (rule DeepCopy_independent [OF imported_types.PhysicalMeasurement_copyable [OF assms(1)] _ _ assms(2)]) simp_all

theorem DataCenterResourceList_DeepCopy_independent:
  assumes "imported_types I V F"
    and "pointer_value is_DataCenterResourceList un_DataCenterResourceList (DataCenterResourceList_value V) h p =
        Some v"
  shows "independent_copy (pointer_value is_DataCenterResourceList un_DataCenterResourceList
      (DataCenterResourceList_value V))
    (DataCenterResourceList_DeepCopy I) p v h"
  unfolding DataCenterResourceList_DeepCopy_def
  by (rule DeepCopy_independent [OF imported_types.DataCenterResourceList_copyable [OF assms(1)] _ _ assms(2)])
      simp_all

theorem MeasurementDeviceList_DeepCopy_independent:
  assumes "imported_types I V F"
    and "pointer_value is_MeasurementDeviceList un_MeasurementDeviceList (MeasurementDeviceList_value V) h p = Some v"
  shows "independent_copy (pointer_value is_MeasurementDeviceList un_MeasurementDeviceList
      (MeasurementDeviceList_value V))
    (MeasurementDeviceList_DeepCopy I) p v h"
  unfolding MeasurementDeviceList_DeepCopy_def
  by (rule DeepCopy_independent [OF imported_types.MeasurementDeviceList_copyable [OF assms(1)] _ _ assms(2)])
      simp_all

theorem PhysicalMeasurementList_DeepCopy_independent:
  assumes "imported_types I V F"
    and "pointer_value is_PhysicalMeasurementList un_PhysicalMeasurementList (PhysicalMeasurementList_value V) h p =
        Some v"
  shows "independent_copy (pointer_value is_PhysicalMeasurementList un_PhysicalMeasurementList
      (PhysicalMeasurementList_value V))
    (PhysicalMeasurementList_DeepCopy I) p v h"
  unfolding PhysicalMeasurementList_DeepCopy_def
  by (rule DeepCopy_independent [OF imported_types.PhysicalMeasurementList_copyable [OF assms(1)] _ _ assms(2)])
      simp_all

text \<open>
  \<open>DeepCopyObject\<close> on a nil pointer is the nil interface, without the type of the pointer; on any other
      pointer it
  carries the copy.
\<close>

theorem DeepCopyObject_nil:
  "DataCenterResource_DeepCopyObject I None h = Some (NilObject, h)"
  "MeasurementDevice_DeepCopyObject I None h = Some (NilObject, h)"
  "PhysicalMeasurement_DeepCopyObject I None h = Some (NilObject, h)"
  by (simp_all add: DataCenterResource_DeepCopyObject_def DataCenterResource_DeepCopy_def
      MeasurementDevice_DeepCopyObject_def MeasurementDevice_DeepCopy_def
      PhysicalMeasurement_DeepCopyObject_def PhysicalMeasurement_DeepCopy_def object_of_def)

section \<open>An example\<close>

text \<open>An imported struct with a text and an optional pointer, as a key selector with its \<open>Optional
    *bool\<close>.\<close>

type_synonym ex_struct = "string \<times> addr option"

definition ex_copy :: "(ex_struct, ex_struct cell) copier" where
  "ex_copy = copy_pair copy_plain (copy_ptr ImportedCell is_Imported un_Imported copy_plain)"

definition ex_imported :: "ex_struct imported" where
  "ex_imported = \<lparr>ObjectMeta_DeepCopyInto = ex_copy, ListMeta_DeepCopyInto = ex_copy, Condition_DeepCopyInto =
      ex_copy,
     ConfigMapKeySelector_DeepCopyInto = ex_copy, SecretKeySelector_DeepCopyInto = ex_copy\<rparr>"

definition "ex_value = view_pair (\<lambda>h. Some) (view_ptr is_Imported un_Imported (\<lambda>h. Some))"

definition "ex_foot = foot_pair (\<lambda>h x. {}) (foot_ptr is_Imported un_Imported (\<lambda>h x. {}))"

lemma ex_copyable: "copyable ex_value ex_foot ex_copy"
  unfolding ex_value_def ex_foot_def ex_copy_def
  by (intro copyable_pair copyable_ptr plain.copyable_axioms) simp_all

interpretation ex_types: imported_types ex_imported ex_value ex_foot
  by (rule imported_types.intro) (simp_all add: ex_imported_def ex_copyable)

definition ex_resource_mem :: "ex_struct DataCenterResource_mem" where
  "ex_resource_mem =
     \<lparr>dcm_TypeMeta = (''DataCenterResource'', ''v1alpha1''), dcm_ObjectMeta = (''pdu-1'', None),
      dcm_Spec = \<lparr>dsm_Type = ''pdu'', dsm_PhysicalMeasurements = Some (1, 0, 1), dsm_Parents = Some (8, 0, 1),
        dsm_EnergyMetric = [], dsm_EnergyMetricFrom = Some 7, dsm_AdditionalLabels = Some 2\<rparr>,
      dcm_Status = \<lparr>dtm_ObservedGeneration = 1, dtm_InvolvedResource = [], dtm_Conditions =
          None\<rparr>\<rparr>"

definition ex_memory :: "ex_struct cell heap" where
  "ex_memory = fmap_of_list
     [(1, StringsCell [''pm-1'', ''pm-2'']), (2, LabelsCell (fmap_of_list [(''rack'', ''r1'')])),
      (3, ConfigMapKeySelectorCell (''templates'', Some 4)), (4, ImportedCell (''true'', None)),
      (5, ValueSourceCell \<lparr>vs_ConfigMapKeyRef = Some 3, vs_SecretKeyRef = None\<rparr>),
      (6, TemplateParametersCell []),
      (7, TemplateFromCell \<lparr>tfm_Selector = \<lparr>sm_Value = [], sm_ValueFrom = Some 5\<rparr>,
          tfm_Parameters = Some (6, 0, 0)\<rparr>),
      (8, ParentRefsCell [\<lparr>prm_Name = ''grid'', prm_Coefficient = ''0.5'', prm_CoefficientFrom =
          None\<rparr>]),
      (9, DataCenterResourceCell ex_resource_mem)]"

text \<open>The labels of the original are emptied after the copy: the copy still reads the deep value of
    before.\<close>

theorem DataCenterResource_DeepCopy_independent_witness:
  "\<exists>v q h'. pointer_value is_DataCenterResource un_DataCenterResource (DataCenterResource_value ex_value)
      ex_memory (Some 9) = Some v
     \<and> DataCenterResource_DeepCopy ex_imported (Some 9) ex_memory = Some (q, h')
     \<and> pointer_value is_DataCenterResource un_DataCenterResource (DataCenterResource_value ex_value)
         (fmupd 2 (LabelsCell fmempty) h') q = Some v"
proof -
  let ?view = "pointer_value is_DataCenterResource un_DataCenterResource (DataCenterResource_value ex_value)"
  have "\<exists>v. ?view ex_memory (Some 9) = Some v"
    by (simp add: pointer_value_def read_cell_def ex_memory_def ex_resource_mem_def DataCenterResource_value_def
        DataCenterResource_parts_def DataCenterResourceSpec_value_def DataCenterResourceSpec_parts_def
        DataCenterResourceStatus_value_def DataCenterResourceStatus_parts_def TemplateFrom_value_def
            TemplateFrom_parts_def
        SecretConfigMapSelector_value_def SecretConfigMapSelector_parts_def ValueSource_value_def
            ValueSource_parts_def
        ParentRef_value_def ParentRef_parts_def view_pair_def slice_elems_def ex_value_def)
  then obtain v where v: "?view ex_memory (Some 9) = Some v" by blast
  from DataCenterResource_DeepCopy_independent [OF ex_types.imported_types_axioms v] obtain q h' where
    copy: "DataCenterResource_DeepCopy ex_imported (Some 9) ex_memory = Some (q, h')"
    and keep: "\<And>h''. (\<forall>a. a |\<notin>| fmdom ex_memory \<longrightarrow> fmlookup h'' a = fmlookup h' a)
        \<Longrightarrow> ?view h'' q = Some v"
    unfolding independent_copy_def by blast
  have "2 |\<in>| fmdom ex_memory" by (simp add: ex_memory_def)
  then have "?view (fmupd 2 (LabelsCell fmempty) h') q = Some v" by (intro keep) auto
  with v copy show ?thesis by blast
qed

end
