(* ===== verification/Wiring.thy ===== *)
theory Wiring
  imports Operator Dcr_Watch Deep_Copy
begin

text \<open>
  What the program registers with its libraries: the types of the API group (\<open>groupversion_info.go\<close> and the \<open>init\<close>
  functions of the type files) and what each controller watches (\<open>SetupWithManager\<close>). The scheme and the controller
  manager are parameters. The locale \<open>watch_source\<close> states what controller-runtime documents of the watches a builder
  asks for; under it the theorems say which changes wake which reconciler.
\<close>

section \<open>The API group\<close>

datatype go_type =
    DataCenterResource_t | DataCenterResourceList_t
  | MeasurementDevice_t | MeasurementDeviceList_t
  | PhysicalMeasurement_t | PhysicalMeasurementList_t
  | Job_t | ConfigMap_t

record scheme_builder =
  sb_GroupVersion :: "string \<times> string"
  sb_types :: "go_type list"

definition GroupVersion :: "string \<times> string" where
  "GroupVersion = (''chantico-project.github.io'', ''v1alpha1'')"

definition SchemeBuilder :: scheme_builder where
  "SchemeBuilder = \<lparr>sb_GroupVersion = GroupVersion, sb_types = []\<rparr>"

definition Register :: "go_type list \<Rightarrow> scheme_builder \<Rightarrow> scheme_builder" where
  "Register ts b = b\<lparr>sb_types := sb_types b @ ts\<rparr>"

definition datacenterresource_init :: "scheme_builder \<Rightarrow> scheme_builder" where
  "datacenterresource_init = Register [DataCenterResource_t, DataCenterResourceList_t]"

definition measurementdevice_init :: "scheme_builder \<Rightarrow> scheme_builder" where
  "measurementdevice_init = Register [MeasurementDevice_t, MeasurementDeviceList_t]"

definition physicalmeasurement_init :: "scheme_builder \<Rightarrow> scheme_builder" where
  "physicalmeasurement_init = Register [PhysicalMeasurement_t, PhysicalMeasurementList_t]"

text \<open>The \<open>init\<close> functions of a package run before \<open>main\<close>, in the order of its files.\<close>

definition registered :: scheme_builder where
  "registered = physicalmeasurement_init (measurementdevice_init (datacenterresource_init SchemeBuilder))"

text \<open>\<open>init\<close> of the operator: \<open>utilruntime.Must\<close> panics when a library call fails.\<close>

definition operator_init ::
    "('s \<Rightarrow> sys_error + 's) \<Rightarrow> (scheme_builder \<Rightarrow> 's \<Rightarrow> sys_error + 's) \<Rightarrow> 's \<Rightarrow> 's go" where
  "operator_init clientgo_AddToScheme AddToScheme scheme =
     (case clientgo_AddToScheme scheme of
        Inl err \<Rightarrow> Panic (sys_error_Error err)
      | Inr s1 \<Rightarrow>
          (case AddToScheme registered s1 of
             Inl err \<Rightarrow> Panic (sys_error_Error err)
           | Inr s2 \<Rightarrow> Ret s2))"

section \<open>The controllers\<close>

type_synonym map_func = "NamespacedName \<Rightarrow> NamespacedName list"

record builder =
  bld_For :: go_type
  bld_Owns :: "go_type list"
  bld_Watches :: "(go_type \<times> map_func) list"
  bld_MaxConcurrentReconciles :: "nat option"
  bld_LogConstructor :: "NamespacedName option \<Rightarrow> string \<times> (string \<times> string) list"

definition log_constructor :: "string \<Rightarrow> NamespacedName option \<Rightarrow> string \<times> (string \<times> string) list" where
  "log_constructor name req = (name, (case req of None \<Rightarrow> [] | Some r \<Rightarrow> [(''resource'', req_Name r)]))"

definition md_builder :: builder where
  "md_builder = \<lparr>bld_For = MeasurementDevice_t, bld_Owns = [Job_t], bld_Watches = [], bld_MaxConcurrentReconciles = Some 1,
     bld_LogConstructor = log_constructor ''MeasurementDeviceController''\<rparr>"

definition pm_builder :: builder where
  "pm_builder = \<lparr>bld_For = PhysicalMeasurement_t, bld_Owns = [], bld_Watches = [], bld_MaxConcurrentReconciles = None,
     bld_LogConstructor = log_constructor ''PhysicalMeasurementController''\<rparr>"

text \<open>The map function reads the cluster when an event arrives: \<open>k\<close> is the state at that time.\<close>

definition dcr_builder :: "('k, 'a) dcr_env_scheme \<Rightarrow> 'k \<Rightarrow> builder" where
  "dcr_builder E k = \<lparr>bld_For = DataCenterResource_t, bld_Owns = [Job_t],
     bld_Watches = [(ConfigMap_t, \<lambda>cm. dataCenterResourcesForConfigMap E cm k)], bld_MaxConcurrentReconciles = Some 1,
     bld_LogConstructor = log_constructor ''DataCenterResourceController''\<rparr>"

text \<open>Each \<open>SetupWithManager\<close> ends in \<open>Complete\<close>, whose error it returns: the calls of \<open>operator_main\<close> on the manager.\<close>

definition setup_error ::
    "('k, 'a) dcr_env_scheme \<Rightarrow> 'k \<Rightarrow> (builder \<Rightarrow> sys_error option) \<Rightarrow> reconciler \<Rightarrow> sys_error option" where
  "setup_error E k Complete r =
     (case r of
        MeasurementDeviceReconciler root \<Rightarrow> Complete md_builder
      | PhysicalMeasurementReconciler \<Rightarrow> Complete pm_builder
      | DataCenterResourceReconciler \<Rightarrow> Complete (dcr_builder E k))"

text \<open>Every type a controller is for is registered with the scheme, and registered types can be copied as objects.\<close>

fun copied_type :: "runtime_Object \<Rightarrow> go_type option" where
  "copied_type NilObject = None"
| "copied_type (DataCenterResourceObject a) = Some DataCenterResource_t"
| "copied_type (DataCenterResourceListObject a) = Some DataCenterResourceList_t"
| "copied_type (MeasurementDeviceObject a) = Some MeasurementDevice_t"
| "copied_type (MeasurementDeviceListObject a) = Some MeasurementDeviceList_t"
| "copied_type (PhysicalMeasurementObject a) = Some PhysicalMeasurement_t"
| "copied_type (PhysicalMeasurementListObject a) = Some PhysicalMeasurementList_t"

theorem registered_types:
  "bld_For ` {md_builder, pm_builder, dcr_builder E k} \<subseteq> set (sb_types registered)"
  "Some ` set (sb_types registered) = range copied_type - {None}"
proof -
  show "bld_For ` {md_builder, pm_builder, dcr_builder E k} \<subseteq> set (sb_types registered)"
    by (simp add: registered_def physicalmeasurement_init_def measurementdevice_init_def datacenterresource_init_def
        Register_def SchemeBuilder_def md_builder_def pm_builder_def dcr_builder_def)
  have "copied_type ob \<in> {None, Some DataCenterResource_t, Some DataCenterResourceList_t, Some MeasurementDevice_t,
      Some MeasurementDeviceList_t, Some PhysicalMeasurement_t, Some PhysicalMeasurementList_t}" for ob
    by (cases ob) simp_all
  moreover have "Some ` set (sb_types registered) = {Some DataCenterResource_t, Some DataCenterResourceList_t,
      Some MeasurementDevice_t, Some MeasurementDeviceList_t, Some PhysicalMeasurement_t, Some PhysicalMeasurementList_t}"
    by (simp add: registered_def physicalmeasurement_init_def measurementdevice_init_def datacenterresource_init_def
        Register_def SchemeBuilder_def insert_commute)
  moreover have "Some DataCenterResource_t \<in> range copied_type" "Some DataCenterResourceList_t \<in> range copied_type"
    "Some MeasurementDevice_t \<in> range copied_type" "Some MeasurementDeviceList_t \<in> range copied_type"
    "Some PhysicalMeasurement_t \<in> range copied_type" "Some PhysicalMeasurementList_t \<in> range copied_type"
    using copied_type.simps by (metis rangeI)+
  ultimately show "Some ` set (sb_types registered) = range copied_type - {None}" by auto
qed

section \<open>Which events wake which reconciler\<close>

text \<open>A change of an object: its type, its name, and the types and names of its controlling owners.\<close>

record change =
  ch_type :: go_type
  ch_object :: NamespacedName
  ch_controllers :: "(go_type \<times> string) list"

locale watch_source =
  fixes requests :: "builder \<Rightarrow> change \<Rightarrow> NamespacedName list"
  assumes for_requests: "ch_type c = bld_For b \<Longrightarrow> ch_object c \<in> set (requests b c)"
    and owns_requests: "ch_type c \<in> set (bld_Owns b) \<Longrightarrow> (bld_For b, n) \<in> set (ch_controllers c) \<Longrightarrow>
      \<lparr>req_Namespace = req_Namespace (ch_object c), req_Name = n\<rparr> \<in> set (requests b c)"
    and watch_requests: "(ch_type c, f) \<in> set (bld_Watches b) \<Longrightarrow> r \<in> set (f (ch_object c)) \<Longrightarrow> r \<in> set (requests b c)"
    and only_requests: "r \<in> set (requests b c) \<Longrightarrow>
      ch_type c = bld_For b \<and> r = ch_object c
      \<or> ch_type c \<in> set (bld_Owns b) \<and> req_Namespace r = req_Namespace (ch_object c) \<and> (bld_For b, req_Name r) \<in> set (ch_controllers c)
      \<or> (\<exists>f. (ch_type c, f) \<in> set (bld_Watches b) \<and> r \<in> set (f (ch_object c)))"
begin

text \<open>A type that a controller neither reconciles, owns nor watches never wakes it.\<close>

lemma unwatched_silent:
  "ch_type c \<noteq> bld_For b \<Longrightarrow> ch_type c \<notin> set (bld_Owns b) \<Longrightarrow> ch_type c \<notin> fst ` set (bld_Watches b) \<Longrightarrow> requests b c = []"
  using only_requests [of _ b c] by (cases "requests b c") (force simp: image_iff)+

end

definition requests_reference :: "builder \<Rightarrow> change \<Rightarrow> NamespacedName list" where
  "requests_reference b c =
     (if ch_type c = bld_For b then [ch_object c] else []) @
     (if ch_type c \<in> set (bld_Owns b)
      then map (\<lambda>(t, n). \<lparr>req_Namespace = req_Namespace (ch_object c), req_Name = n\<rparr>)
        (filter (\<lambda>(t, n). t = bld_For b) (ch_controllers c)) else []) @
     concat (map (\<lambda>(t, f). if t = ch_type c then f (ch_object c) else []) (bld_Watches b))"

interpretation ref_watch: watch_source requests_reference
  by unfold_locales (auto simp: requests_reference_def image_iff split: if_splits)

text \<open>A change of a generator job, its end for one, wakes the device that controls it.\<close>

theorem job_change_wakes_device:
  assumes "watch_source requests" and "ch_type c = Job_t" and "(MeasurementDevice_t, n) \<in> set (ch_controllers c)"
  shows "\<lparr>req_Namespace = req_Namespace (ch_object c), req_Name = n\<rparr> \<in> set (requests md_builder c)"
  by (rule watch_source.owns_requests [OF assms(1)]) (use assms(2,3) in \<open>simp_all add: md_builder_def\<close>)

text \<open>
  Nothing but a change of its own object wakes the reconciler of measurements: it learns of a new device by asking
  again after thirty seconds, and of a deleted one only when its own object changes.
\<close>

theorem measurement_not_woken_by_device:
  "watch_source requests \<Longrightarrow> ch_type c = MeasurementDevice_t \<Longrightarrow> requests pm_builder c = []"
  by (rule watch_source.unwatched_silent) (simp_all add: pm_builder_def)

definition configmap_change :: "string \<Rightarrow> string \<Rightarrow> change" where
  "configmap_change ns cm = \<lparr>ch_type = ConfigMap_t, ch_object = \<lparr>req_Namespace = ns, req_Name = cm\<rparr>, ch_controllers = []\<rparr>"

lemma configmap_change_wakes:
  assumes "watch_source requests" and "list_DCR E k ns [] = (items, None)"
  shows "set (requests (dcr_builder E k) (configmap_change ns cm)) =
    (\<lambda>d. \<lparr>req_Namespace = meta_Namespace (dcr_Meta d), req_Name = dcr_Name d\<rparr>) `
      {d \<in> set items. dataCenterResourceReferencesConfigMap d cm}" (is "?L = ?R")
proof
  have R: "set (dataCenterResourcesForConfigMap E (ch_object (configmap_change ns cm)) k) = ?R"
    using assms(2) by (simp add: dataCenterResourcesForConfigMap_def configmap_change_def)
  show "?L \<subseteq> ?R"
  proof
    fix r assume "r \<in> ?L"
    from watch_source.only_requests [OF assms(1) this] R show "r \<in> ?R"
      by (auto simp: dcr_builder_def configmap_change_def)
  qed
  show "?R \<subseteq> ?L"
    using watch_source.watch_requests [OF assms(1), of "configmap_change ns cm" "\<lambda>cm. dataCenterResourcesForConfigMap E cm k"
        "dcr_builder E k"] R by (auto simp: dcr_builder_def configmap_change_def)
qed


section \<open>An example\<close>

text \<open>A cluster whose state is the text of one ConfigMap, with one resource that does not refer to it.\<close>

definition ex_wired :: "string dcr_env" where
  "ex_wired = \<lparr>get_ConfigMap = get_ConfigMap ex_cm_env, get_Secret = get_Secret ex_cm_env,
     parse_template = parse_template ex_cm_env, kube = klib_reference, VolumeLocation = ''/data'',
     PrometheusServiceHost = ''prometheus'', PrometheusServicePort = ''9090'',
     http_Post = (\<lambda>u fs k. (Inr 200, k)),
     get_DCR = (\<lambda>k req. (ex_pdu, None)), list_DCR = (\<lambda>k ns fields. ([ex_pdu], None)),
     list_PM = (\<lambda>k ns. ([], None)), NewHelper_DCR = (\<lambda>d. None), Patch_DCR = (\<lambda>d d' k. (None, k)),
     yaml_Marshal_RuleFile = (\<lambda>rf. Inr ''groups''), IsValidLabelName = (\<lambda>l. l \<noteq> []),
     range_labels = key_order, range_resources = key_order\<rparr>"

lemma ex_pdu_unreferenced: "\<not> dataCenterResourceReferencesConfigMap ex_pdu ''cm''"
  by (simp add: ex_watch_defs)


end
