(* ===== verification/Stored.thy ===== *)
theory Stored
  imports Dcr_Watch Md_Run
begin

text \<open>
  Whole reconciliations of data center resources, \<open>Reconcile\<close> with its fetch and its deferred patch, against a cluster that
  stores the resources. The locale \<open>resource_store\<close> is what the reconciler relies on in the API server and the patch
  helper: a fetch returns what is stored, a patch changes one object, and of that object only what differs between
  the two versions it is given, conditions and finalizers as wholes. The reconciler patches other resources too (the ones whose validation it clears),
  so the stored objects are followed through the whole run.
\<close>

definition dcr_key :: "DataCenterResource \<Rightarrow> NamespacedName" where
  "dcr_key d = \<lparr>req_Namespace = meta_Namespace (dcr_Meta d), req_Name = dcr_Name d\<rparr>"

text \<open>What a patch leaves of an object: gone once it is being deleted and has no finalizer.\<close>

definition kept_object :: "DataCenterResource \<Rightarrow> DataCenterResource option" where
  "kept_object d =
     (if meta_DeletionTimestamp (dcr_Meta d) \<noteq> None \<and> meta_Finalizers (dcr_Meta d) = [] then None else Some d)"

text \<open>Of what is stored, nothing but statuses changes, and of them not the conditions.\<close>

definition only_statuses :: "('k \<Rightarrow> NamespacedName \<Rightarrow> DataCenterResource option) \<Rightarrow> 'k \<Rightarrow> 'k \<Rightarrow> bool" where
  "only_statuses stored k k' \<longleftrightarrow>
     (\<forall>n. (stored k n = None \<longrightarrow> stored k' n = None) \<and>
        (\<forall>d. stored k n = Some d \<longrightarrow>
          (\<exists>st. stored k' n = Some (d\<lparr>dcr_Status := st\<rparr>) \<and> dstat_Conditions st = dstat_Conditions (dcr_Status d))))"

lemma same_status: "\<exists>st. (d :: DataCenterResource) = d\<lparr>dcr_Status := st\<rparr> \<and> dstat_Conditions st = dstat_Conditions (dcr_Status d)"
  by (rule exI [of _ "dcr_Status d"]) simp

lemma only_statuses_refl: "only_statuses stored k k"
  by (simp add: only_statuses_def same_status)

lemma only_statuses_trans: "only_statuses stored k k' \<Longrightarrow> only_statuses stored k' k'' \<Longrightarrow> only_statuses stored k k''"
  by (fastforce simp: only_statuses_def)

text \<open>
  What every step of a run keeps: the metadata of the object apart from its finalizers, and of the stored objects
  all but the statuses.
\<close>

definition run_keeps ::
    "('k \<Rightarrow> NamespacedName \<Rightarrow> DataCenterResource option) \<Rightarrow> DataCenterResource \<times> 'k world
      \<Rightarrow> DataCenterResource \<times> 'k world \<Rightarrow> bool" where
  "run_keeps stored x y \<longleftrightarrow>
     (dcr_Meta (fst y))\<lparr>meta_Finalizers := []\<rparr> = (dcr_Meta (fst x))\<lparr>meta_Finalizers := []\<rparr>
   \<and> only_statuses stored (w_k (snd x)) (w_k (snd y))"

locale resource_store =
  fixes E :: "'k dcr_env" and stored :: "'k \<Rightarrow> NamespacedName \<Rightarrow> DataCenterResource option"
  assumes lib: "kube_lib (kube E)"
    and get_stored: "stored k n = Some d \<Longrightarrow> get_DCR E k n = (d, None)"
    and get_missing: "stored k n = None \<Longrightarrow> \<exists>d err. get_DCR E k n = (d, Some err) \<and> sys_is_api_not_found err"
    and stored_key: "stored k n = Some d \<Longrightarrow> dcr_key d = n"
    and patch_other: "n \<noteq> dcr_key d \<Longrightarrow> stored (snd (Patch_DCR E d d' k)) n = stored k n"
    and patch_missing: "stored k (dcr_key d) = None \<Longrightarrow> stored (snd (Patch_DCR E d d' k)) (dcr_key d) = None"
    and patch_status: "stored k (dcr_key d) = Some d0 \<Longrightarrow> dcr_Meta d' = dcr_Meta d \<Longrightarrow>
      dcr_GetConditions d' = dcr_GetConditions d \<Longrightarrow>
      \<exists>st. stored (snd (Patch_DCR E d d' k)) (dcr_key d) = Some (d0\<lparr>dcr_Status := st\<rparr>)
        \<and> dstat_Conditions st = dcr_GetConditions d0"
    and patch_applied: "stored k (dcr_key d) = Some d0 \<Longrightarrow> dcr_Meta d0 = dcr_Meta d \<Longrightarrow>
      dcr_GetConditions d0 = dcr_GetConditions d \<Longrightarrow> dcr_Meta d' = (dcr_Meta d)\<lparr>meta_Finalizers := fs\<rparr> \<Longrightarrow> Patch_DCR E d d' k = (None, k') \<Longrightarrow>
      \<exists>st. stored k' (dcr_key d) = kept_object (d0\<lparr>dcr_Meta := dcr_Meta d', dcr_Status := st\<rparr>)
        \<and> dstat_Conditions st = dcr_GetConditions d'"
    and post_stored: "stored (snd (http_Post E u vol k)) = stored k"
begin

lemma only_statuses_post: "only_statuses stored k (snd (http_Post E u vol k))"
  using only_statuses_refl [of stored k] by (simp add: only_statuses_def post_stored)

lemma only_statuses_clear: "only_statuses stored k (clearReferencedValidation E d referenced k)"
proof -
  let ?p = "referenced\<lparr>dcr_Status := (dcr_Status referenced)\<lparr>dstat_InvolvedResource := []\<rparr>\<rparr>"
  have "only_statuses stored k (snd (Patch_DCR E referenced ?p k))"
    unfolding only_statuses_def
  proof (intro allI)
    fix n
    show "(stored k n = None \<longrightarrow> stored (snd (Patch_DCR E referenced ?p k)) n = None) \<and>
        (\<forall>d. stored k n = Some d \<longrightarrow> (\<exists>st. stored (snd (Patch_DCR E referenced ?p k)) n = Some (d\<lparr>dcr_Status := st\<rparr>)
          \<and> dstat_Conditions st = dstat_Conditions (dcr_Status d)))"
    proof (cases "n = dcr_key referenced")
      case True
      then show ?thesis using patch_missing [of k referenced ?p] patch_status [of k referenced _ ?p]
        by (auto simp: dcr_GetConditions_def)
    next
      case False
      then show ?thesis using patch_other [of n referenced ?p k] only_statuses_refl [of stored k] by (simp add: only_statuses_def)
    qed
  qed
  then show ?thesis by (auto simp: clearReferencedValidation_def only_statuses_refl split: option.split)
qed

lemma only_statuses_fold: "only_statuses stored k (fold (clearReferencedValidation E d) items k)"
proof (induction items arbitrary: k)
  case (Cons x items)
  show ?case using only_statuses_trans [OF only_statuses_clear Cons.IH] by simp
qed (simp add: only_statuses_refl)

lemma only_statuses_reload: "only_statuses stored (w_k w) (w_k (snd (reloadPrometheus E w)))"
proof -
  obtain r k where p: "http_Post E (reload_url E) (w_fs w) (w_k w) = (r, k)" by fastforce
  have "only_statuses stored (w_k w) k" using only_statuses_post [of "w_k w" "reload_url E" "w_fs w"] p by simp
  then show ?thesis using p by (cases r) (simp_all add: reloadPrometheus_def post_def)
qed

lemma deletion_keeps: "run_keeps stored (d, w) (snd (dcr_reconcileDeletion E d w))"
  using only_statuses_reload [of "snd (deleteRuleFile E d w)"]
  by (auto simp: run_keeps_def dcr_reconcileDeletion_def dcr_finalizers_def deleteRuleFile_def only_statuses_refl Let_def
      case_prod_beta split: option.splits)

lemma validation_keeps: "run_keeps stored (d, w) (snd (dcr_reconcileValidation E d w))"
  using only_statuses_fold
  by (auto simp: run_keeps_def dcr_reconcileValidation_def set_involved_def only_statuses_refl Let_def case_prod_beta
      split: option.splits)

lemma write_keeps:
  assumes "dcr_reconcileWriteRuleFile E d w = (res, d', w')"
  shows "run_keeps stored (d, w) (d', w')"
proof -
  have reload: "only_statuses stored (w_k w0) (w_k w1)" if "reloadPrometheus E w0 = (r, w1)" for w0 r w1
    using only_statuses_reload [of w0] that by simp
  have delete: "w_k w1 = w_k w0" if "deleteRuleFile E d w0 = (r, w1)" for w0 r w1
    using that by (auto simp: deleteRuleFile_def Let_def split: prod.splits option.splits)
  show ?thesis
    using assms
    by (auto simp: run_keeps_def dcr_reconcileWriteRuleFile_def apply_failed_def only_statuses_refl Let_def
        split: go.splits sum.splits option.splits prod.splits dest!: reload delete)
qed

end

sublocale resource_store \<subseteq> keeps: step_frame "dcr_steps E" "run_keeps stored"
proof
  show "run_keeps stored x x" for x by (simp add: run_keeps_def only_statuses_refl)
  show "run_keeps stored x z" if "run_keeps stored x y" "run_keeps stored y z" for x y z
    using that by (auto simp: run_keeps_def intro: only_statuses_trans)
  show "run_keeps stored (d, w) (d', w')" if "step \<in> set (dcr_steps E)" "step d w = (res, d', w')" for step d w res d' w'
    using that deletion_keeps [of d w] validation_keeps [of d w] write_keeps [of d w]
    by (auto simp: dcr_steps_def dcr_ensureFinalizerIsSet_def dcr_reconcileReady_def run_keeps_def dcr_finalizers_def
        only_statuses_refl split: if_splits)
qed

context resource_store
begin

lemma Reconcile_missing:
  "stored (w_k w) n = None \<Longrightarrow> dcr_Reconcile E n w = (Ret (empty_Result, None), w)"
  using get_missing [of "w_k w" n] by (auto simp: dcr_Reconcile_def)

text \<open>
  A reconciliation whose patch is accepted: it returns what the run returned, and the conditions and finalizers of
  the run are stored, however the run ended.
\<close>

lemma Reconcile_stores:
  assumes "stored (w_k w) n = Some d0" and "NewHelper_DCR E (normalizeDataCenterResource d0) = None"
    and "dcr_run E (normalizeDataCenterResource d0) w = (out, d', w1)"
    and "fst (Patch_DCR E (normalizeDataCenterResource d0) d' (w_k w1)) = None"
  obtains w2 st where "dcr_Reconcile E n w = (out, w2)" "w_fs w2 = w_fs w1"
    "stored (w_k w2) n = kept_object (d0\<lparr>dcr_Meta := dcr_Meta d', dcr_Status := st\<rparr>)"
    "dstat_Conditions st = dcr_GetConditions d'"
    "dcr_Meta d' = (dcr_Meta d0)\<lparr>meta_Finalizers := meta_Finalizers (dcr_Meta d')\<rparr>"
proof -
  let ?d = "normalizeDataCenterResource d0"
  have key: "dcr_key ?d = n" using stored_key [OF assms(1)] by (simp add: dcr_key_def)
  from keeps.Run_R [OF assms(3) [unfolded dcr_run_def]]
  have meta: "(dcr_Meta d')\<lparr>meta_Finalizers := []\<rparr> = (dcr_Meta d0)\<lparr>meta_Finalizers := []\<rparr>"
    and only: "only_statuses stored (w_k w) (w_k w1)" by (simp_all add: run_keeps_def)
  then obtain st1 where d1: "stored (w_k w1) n = Some (d0\<lparr>dcr_Status := st1\<rparr>)"
      and conds: "dstat_Conditions st1 = dcr_GetConditions d0"
    using assms(1) by (auto simp: only_statuses_def dcr_GetConditions_def)
  have meta': "dcr_Meta d' = (dcr_Meta ?d)\<lparr>meta_Finalizers := meta_Finalizers (dcr_Meta d')\<rparr>"
    using meta by (cases "dcr_Meta d'"; cases "dcr_Meta d0") simp
  obtain k2 where patch: "Patch_DCR E ?d d' (w_k w1) = (None, k2)" using assms(4) by (metis prod.collapse)
  obtain st where st: "stored k2 n = kept_object (d0\<lparr>dcr_Meta := dcr_Meta d', dcr_Status := st\<rparr>)"
      "dstat_Conditions st = dcr_GetConditions d'"
    using patch_applied [OF d1 [folded key] _ _ meta' patch] key conds by (auto simp: dcr_GetConditions_def)
  have "dcr_Reconcile E n w = (out, w1\<lparr>w_k := k2\<rparr>)"
    using get_stored [OF assms(1)] assms(2,3) patch
    by (cases out) (auto simp: dcr_Reconcile_def Let_def)
  with that [of "w1\<lparr>w_k := k2\<rparr>" st] st meta' show thesis by simp
qed

text \<open>The first run of a resource adds the finalizer and stops.\<close>

lemma first_run:
  assumes "meta_DeletionTimestamp (dcr_Meta d) = None"
    and "DataCenterResourceGraphFinalizer \<notin> set (meta_Finalizers (dcr_Meta d))"
  shows "dcr_run E d w = (Ret (empty_Result, None),
    dcr_finalizers (\<lambda>fs. AddFinalizer (kube E) fs DataCenterResourceGraphFinalizer) (started E d), w)"
  using assms lib
  by (simp add: dcr_run_def dcr_steps_def started_def [symmetric] dcr_reconcileDeletion_def dcr_ensureFinalizerIsSet_def
      kube_lib.ContainsFinalizer_iff)

lemma kept_alive: "meta_DeletionTimestamp (dcr_Meta d) = None \<Longrightarrow> kept_object d = Some d"
  by (simp add: kept_object_def)

end

section \<open>Properties of whole reconciliations\<close>



section \<open>A cluster that keeps a list of resources\<close>

text \<open>
  An instance of the store: the resources as a list, one under each key, with a patch that writes the status, and the
  metadata when the two versions differ there. Listing by a field fails, since no index is registered for one.
\<close>

definition list_stored :: "DataCenterResource list \<Rightarrow> NamespacedName \<Rightarrow> DataCenterResource option" where
  "list_stored k n = Option.bind (find (\<lambda>d. dcr_key d = n) k) kept_object"

definition patched_meta :: "DataCenterResource \<Rightarrow> DataCenterResource \<Rightarrow> DataCenterResource \<Rightarrow> ObjectMeta" where
  "patched_meta d d' d0 = (if dcr_Meta d' = dcr_Meta d then dcr_Meta d0
     else (dcr_Meta d')\<lparr>meta_Name := meta_Name (dcr_Meta d0), meta_Namespace := meta_Namespace (dcr_Meta d0)\<rparr>)"

definition patched :: "DataCenterResource \<Rightarrow> DataCenterResource \<Rightarrow> DataCenterResource \<Rightarrow> DataCenterResource" where
  "patched d d' d0 = d0\<lparr>dcr_Meta := patched_meta d d' d0,
     dcr_Status := (dcr_Status d')\<lparr>dstat_Conditions :=
       (if dcr_GetConditions d' = dcr_GetConditions d then dcr_GetConditions d0 else dcr_GetConditions d')\<rparr>\<rparr>"

definition list_patch :: "DataCenterResource \<Rightarrow> DataCenterResource \<Rightarrow> DataCenterResource list \<Rightarrow> DataCenterResource list" where
  "list_patch d d' k = (case list_stored k (dcr_key d) of
      None \<Rightarrow> k
    | Some d0 \<Rightarrow> (case kept_object (patched d d' d0) of None \<Rightarrow> [] | Some d1 \<Rightarrow> [d1]) @ filter (\<lambda>x. dcr_key x \<noteq> dcr_key d) k)"

definition list_env :: "DataCenterResource list dcr_env" where
  "list_env = \<lparr>get_ConfigMap = (\<lambda>k ns n. Inl (ApiNotFound n)), get_Secret = (\<lambda>k ns n. Inl (ApiNotFound n)),
     parse_template = (\<lambda>t. Inr (\<lambda>ps. Inr t)), kube = klib_reference, VolumeLocation = ''/data'',
     PrometheusServiceHost = ''prometheus'', PrometheusServicePort = ''9090'',
     http_Post = (\<lambda>u fs k. (Inr 200, k)),
     get_DCR = (\<lambda>k n. case list_stored k n of
         None \<Rightarrow> (zero_DataCenterResource, Some (ApiNotFound (req_Name n)))
       | Some d \<Rightarrow> (d, None)),
     list_DCR = (\<lambda>k ns fields. if fields = [] then (filter (\<lambda>d. meta_Namespace (dcr_Meta d) = ns) k, None)
       else ([], Some (ApiError ''no index''))),
     list_PM = (\<lambda>k ns. ([], None)), NewHelper_DCR = (\<lambda>d. None), Patch_DCR = (\<lambda>d d' k. (None, list_patch d d' k)),
     yaml_Marshal_RuleFile = (\<lambda>rf. Inr ''groups''), IsValidLabelName = (\<lambda>l. l \<noteq> []),
     range_labels = key_order, range_resources = key_order\<rparr>"

lemma kept_object_Some: "kept_object d = Some d' \<Longrightarrow> d' = d"
  by (simp add: kept_object_def split: if_splits)

lemma list_stored_Some: "list_stored k n = Some d \<Longrightarrow> dcr_key d = n \<and> kept_object d = Some d"
  by (auto simp: list_stored_def find_Some_iff bind_eq_Some_conv dest: kept_object_Some)

lemma patched_key: "dcr_key (patched d d' d0) = dcr_key d0"
  by (simp add: dcr_key_def patched_def patched_meta_def)

lemma find_other: "n \<noteq> m \<Longrightarrow> find (\<lambda>d. dcr_key d = n) (filter (\<lambda>x. dcr_key x \<noteq> m) k) = find (\<lambda>d. dcr_key d = n) k"
  by (induction k) auto

lemma find_same: "find (\<lambda>d. dcr_key d = n) (filter (\<lambda>x. dcr_key x \<noteq> n) k) = None"
  by (auto simp: find_None_iff)

lemma list_patch_stored:
  assumes "list_stored k (dcr_key d) = Some d0"
  shows "list_stored (list_patch d d' k) n =
    (if n = dcr_key d then kept_object (patched d d' d0) else list_stored k n)"
proof -
  have "dcr_key (patched d d' d0) = dcr_key d" using list_stored_Some [OF assms] by (simp add: patched_key)
  then show ?thesis
    by (cases "kept_object (patched d d' d0)")
      (auto simp: list_patch_def assms list_stored_def [of "filter _ _"] list_stored_def [of "_ # _"] find_same find_other
        list_stored_def [of k n] dest: kept_object_Some)
qed

lemma list_stored_other: "n \<noteq> dcr_key d \<Longrightarrow> list_stored (list_patch d d' k) n = list_stored k n"
  by (cases "list_stored k (dcr_key d)") (simp_all add: list_patch_stored, simp add: list_patch_def)

interpretation listed: resource_store list_env list_stored
proof (rule resource_store.intro)
  show "kube_lib (kube list_env)" by (simp add: list_env_def klib_ref.kube_lib_axioms)
  show "get_DCR list_env k n = (d, None)" if "list_stored k n = Some d" for k n d
    using that by (simp add: list_env_def)
  show "\<exists>d err. get_DCR list_env k n = (d, Some err) \<and> sys_is_api_not_found err" if "list_stored k n = None" for k n
    using that by (simp add: list_env_def)
  show "dcr_key d = n" if "list_stored k n = Some d" for k n d using list_stored_Some [OF that] by simp
  show "list_stored (snd (Patch_DCR list_env d d' k)) n = list_stored k n" if "n \<noteq> dcr_key d" for n d d' k
    using list_stored_other [OF that] by (simp add: list_env_def)
  show "list_stored (snd (Patch_DCR list_env d d' k)) (dcr_key d) = None" if "list_stored k (dcr_key d) = None" for d d' k
    using that by (simp add: list_env_def list_patch_def)
  show "\<exists>st. list_stored (snd (Patch_DCR list_env d d' k)) (dcr_key d) = Some (d0\<lparr>dcr_Status := st\<rparr>)
      \<and> dstat_Conditions st = dcr_GetConditions d0"
    if "list_stored k (dcr_key d) = Some d0" "dcr_Meta d' = dcr_Meta d" "dcr_GetConditions d' = dcr_GetConditions d"
    for k d d0 d'
    using list_patch_stored [OF that(1), of d' "dcr_key d"] list_stored_Some [OF that(1)] that(2,3)
    by (simp add: list_env_def patched_def patched_meta_def kept_object_def split: if_splits) force+
  show "\<exists>st. list_stored k' (dcr_key d) = kept_object (d0\<lparr>dcr_Meta := dcr_Meta d', dcr_Status := st\<rparr>)
      \<and> dstat_Conditions st = dcr_GetConditions d'"
    if "list_stored k (dcr_key d) = Some d0" "dcr_Meta d0 = dcr_Meta d" "dcr_GetConditions d0 = dcr_GetConditions d"
      "dcr_Meta d' = (dcr_Meta d)\<lparr>meta_Finalizers := fs\<rparr>" "Patch_DCR list_env d d' k = (None, k')"
    for k d d0 d' fs k'
  proof -
    have "patched_meta d d' d0 = dcr_Meta d'" using that(2,4) by (simp add: patched_meta_def)
    then show ?thesis
      using that(3,5) list_patch_stored [OF that(1), of d' "dcr_key d"]
      by (auto simp: list_env_def patched_def)
  qed
  show "list_stored (snd (http_Post list_env u vol k)) = list_stored k" for u vol k by (simp add: list_env_def)
qed

definition ex_listed :: "DataCenterResource list world" where
  "ex_listed = \<lparr>w_fs = ex_fs, w_k = [ex_server, ex_pdu]\<rparr>"

lemma ex_listed_pdu: "list_stored (w_k ex_listed) (dcr_key ex_pdu) = Some ex_pdu"
  by (simp add: ex_listed_def list_stored_def dcr_key_def kept_object_def ex_defs)

lemma list_env_total [simp]:
  "NewHelper_DCR list_env d = None" "fst (Patch_DCR list_env d d' k) = None"
  "yaml_Marshal_RuleFile list_env rf = Inr ''groups''" "fst (http_Post list_env u fs k) = Inr 200"
  by (simp_all add: list_env_def)

lemma ex_pdu_spec:
  assumes "dcr_Spec d = dcr_Spec (normalizeDataCenterResource ex_pdu)"
  shows "dspec_Parents (dcr_Spec d) = []" "dspec_Type (dcr_Spec d) = ''pdu''"
    "dspec_EnergyMetricFrom (dcr_Spec d) = Some (literal_template ''pdu_energy'')"
    "dspec_AdditionalLabels (dcr_Spec d) = None"
  by (simp_all add: assms ex_defs normalizeDataCenterResource_def)

lemma listed_pdu_valid:
  assumes "dcr_Spec d = dcr_Spec (normalizeDataCenterResource ex_pdu)"
  shows "snd (snd (validation list_env d w)) = None"
  by (simp add: Validate_def validateGraph_def graph_loop.simps validators_def validateResourceType_def
      validateAdditionalLabelNames_def DataCenterResourceTypePDU_def ex_pdu_spec [OF assms])

lemma listed_pdu_renders:
  assumes "dcr_Spec d = dcr_Spec (normalizeDataCenterResource ex_pdu)"
  shows "resolve_Expressions list_env k ns d = Ret (Inr \<lparr>re_EnergyMetric = ''pdu_energy'', re_Parents = []\<rparr>)"
  by (simp add: resolve_Expressions_def resolveEnergyMetric_def resolveParentExpressions_def
      TemplateFrom_Render_literal literal_template_def ex_pdu_spec [OF assms])

lemma listed_volume: "volume_ready list_env ''pdu-1'' ex_fs"
  by (simp add: volume_ready_def ex_fs_def is_file_def [abs_def] is_dir_def list_ex_iff rule_key_dir)

lemma ex_pdu_meta:
  "meta_DeletionTimestamp (dcr_Meta ex_pdu) = None" "meta_Finalizers (dcr_Meta ex_pdu) = []" "dcr_Name ex_pdu = ''pdu-1''"
  by (simp_all add: ex_defs)



end
