(* ===== verification/Spec2Isabelle.thy ===== *)
theory Spec2Isabelle
  imports Store_Spec Graph_Walk Md_Live Volume_Type Operator Webapp Postmortem Stress_Run Observe Mocks Deep_Copy_Props Wiring Stored
begin

text \<open>
  A verification development for chantico, a Kubernetes operator that accounts for the energy of
  a data centre, and its web application.

  \<^bold>\<open>The program.\<close> Three custom resources (\<open>src/api/v1alpha1\<close>) describe a data centre: a
  MeasurementDevice is a kind of SNMP device with the way to log in to it, a PhysicalMeasurement is
  one endpoint to be scraped, and a DataCenterResource is a node of the graph along which energy is
  attributed, with its parents and coefficients. One reconciler per resource
  (\<open>src/internal/controller\<close>) brings files on a shared data volume in line with the object: the SNMP
  exporter's configuration (built by a job per device and merged), the target files of
  Prometheus' file discovery, and recording rules. Each reconciler is a list of steps
  (\<open>src/internal/steps\<close>) over the object, which carries a finalizer while there is something to clean
  up and status conditions that say how far it got. \<open>src/cmd/operator\<close> validates the environment
  and registers the reconcilers; \<open>src/cmd/webapp\<close> draws the graph.

  \<^bold>\<open>The theories\<close>, in the order of their imports, with the sources they model.

  \<^item> \<open>Prelude\<close>, \<open>Errors\<close>, \<open>Paths\<close>, \<open>Os_Files\<close>: the parts of Go's library the sources use (strings,
    numbers, sorting, error chains, \<open>path/filepath\<close>, files), and the error types of
    \<open>internal/errors\<close>, \<open>internal/datacenterresource\<close> and \<open>internal/configuration\<close>. Files live in a
    record indexed by normal forms of paths, with a schedule of faults: every operation
    may fail, and a plain write may stop half way.
  \<^item> \<open>File_Store\<close>, \<open>Store_Spec\<close>: \<open>internal/filestore\<close>. The locale \<open>file_store\<close> is what its clients
    rely on, \<open>renameio_api\<close> the documented contract of the atomic write; a sublocale derives
    the first from the second. \<open>Store_Spec\<close> states the abstract store (a map) and the refinement.
  \<^item> \<open>Kube_Values\<close>, \<open>Api\<close>, \<open>Steps\<close>, \<open>Cluster\<close>: \<open>internal/k8s\<close>, the resource types with their
    conditions, the step runner (locale \<open>step_frame\<close>), and the state the reconcilers share: the volume
    and a state \<open>'k\<close> of everything behind the network.
  \<^item> \<open>Lifecycle\<close>: the finalizer protocol as a transition system (created, edited, deleted,
    reconciled with a patch that may be lost, other actors in between). The locale \<open>life_cycle\<close> states
    what one run has to guarantee; its theorem says that an object that is gone has left nothing behind.
    Each reconciler interprets it.
  \<^item> \<open>Dcr_Validate\<close>, \<open>Dcr_Rules\<close>, \<open>Dcr_Controller\<close>, \<open>Dcr_Watch\<close>: \<open>internal/datacenterresource\<close>
    (\<open>validate.go\<close>, \<open>rules_pure.go\<close>, \<open>template.go\<close>) and \<open>datacenterresource_controller.go\<close>. The graph
    walk decides reachability and keeps the graph free of cycles; the rule file of a resource is
    given exactly; \<open>Ready\<close> means validated, written and loaded; a valid resource becomes ready; the
    watch on ConfigMaps wakes the right resources, template parameters excepted. \<open>Graph_Walk\<close> takes the
    walk apart into iterations and bounds their number.
  \<^item> \<open>Json\<close>, \<open>Targets\<close>, \<open>Phys_Meas\<close>: \<open>encoding/json\<close> as far as it is used,
    \<open>internal/physicalmeasurement\<close> and \<open>physicalmeasurement_controller.go\<close>: the round trip of target files,
    whole files for their readers, no file left behind while the type stays.
  \<^item> \<open>Sha256\<close>, \<open>Snmp\<close>, \<open>Meas_Device\<close>, \<open>Md_Run\<close>, \<open>Md_Props\<close>, \<open>Md_Examples\<close>: \<open>internal/snmp\<close>,
    \<open>internal/measurementdevice\<close>, \<open>internal/volumes\<close>, \<open>internal/images\<close> and
    \<open>measurementdevice_controller.go\<close>: the merged configuration of a volume, the life of the generator job,
    what \<open>Ready\<close> and the release of the finalizer mean, which files a run may change. \<open>Store_Live\<close>,
    \<open>Merge_Live\<close> and \<open>Md_Live\<close> show progress: over a volume without faults every step succeeds, and under
    the laws of the locale \<open>device_cluster\<close> (jobs finish, the generator writes its file, the exporter can be patched) a
    device is ready after four runs at most.
  \<^item> \<open>Interleaving\<close>: the three reconcilers on one volume in any order: every file but the
    merged SNMP configuration has one writer. \<open>Volume_Type\<close>: the volume stays a tree; the locales \<open>typed_store\<close> and
    \<open>typed_device\<close> carry a property that a store's operations keep to the runs of its client.
  \<^item> \<open>Regex\<close>, \<open>Configuration\<close>, \<open>Operator\<close>: the environment check of \<open>internal/configuration\<close> and
    \<open>cmd/operator/main.go\<close>: exactly which environments pass, and what has happened when the manager
    starts.
  \<^item> \<open>Webapp\<close>: \<open>internal/webapp\<close> and \<open>cmd/webapp\<close>: configuration, pages, and the diagram.
  \<^item> \<open>Postmortem\<close>: \<open>internal/postmortem\<close>.
  \<^item> \<open>Stresstest\<close>, \<open>Stress_Run\<close>, \<open>Observe\<close>: the load generator \<open>dev/stresstest\<close> and its exporter
    \<open>dev/stresstest-observability\<close>: whatever is drawn, the generated resources are what the flags ask for and pass
    the operator's validation; the clean-up undoes a run; the gauges count what is reconciled.
  \<^item> \<open>Float64\<close>, \<open>Mocks\<close>: the mock devices \<open>dev/mocks\<close>, over IEEE 754 arithmetic with its rounding: the walk stays
    within its bounds, the SNMP answers carry such readings, the exported coefficients are fractions.
  \<^item> \<open>Heap_Copy\<close>, \<open>Deep_Copy\<close>, \<open>Deep_Copy_Props\<close>: the generated \<open>zz_generated.deepcopy.go\<close> of both packages over an explicit
    memory of cells. The locale \<open>copyable\<close> is the contract of a copying function (same deep value, only new cells, no old cell
    touched); structs, pointers, slices and maps pass it on, so every generated function keeps it as soon as the
    imported ones do (locale \<open>imported_types\<close>). This is what entitles the other theories to treat objects as values.
  \<^item> \<open>Wiring\<close>: the registration of the API types and the three \<open>SetupWithManager\<close>; under the documented behaviour of
    watches (locale \<open>watch_source\<close>), which change wakes which reconciler.
  \<^item> \<open>Stored\<close>: whole reconciliations of data center resources, fetch and deferred patch included, against a cluster that keeps
    the resources (locale \<open>resource_store\<close>: what fetches and patches promise): the outcome of a run is stored, and two
    reconciliations make a new resource Ready.

  \<^bold>\<open>How code becomes definitions.\<close> A struct is a record, a function with results \<open>(T, error)\<close>
  returns a sum, a pointer that may be nil an option. A step of a reconciler takes the object and
  the world and returns them next to its result; a nil pointer that is dereferenced is the outcome
  \<open>Panic\<close>. The body of \<open>Reconcile\<close> is \<open>dcr_run\<close>, \<open>pm_run\<close>, \<open>md_run\<close>; the fetch before it and the
  deferred patch after it are in \<open>dcr_Reconcile\<close>, \<open>pm_Reconcile\<close>, \<open>md_Reconcile\<close>. Loops are recursive
  functions with termination proofs (the graph walk by the unvisited names and the rest of the
  queue, the JSON lexer by the rest of the text), so no definition needs fuel. Generations are 64-bit words.

  \<^bold>\<open>Parameters.\<close> Code outside of the repository is an argument of the definitions: the Kubernetes
  client and the patch helper (functions of the state \<open>'k\<close>, with errors), the helpers for conditions and
  finalizers (record \<open>klib\<close>, contract \<open>kube_lib\<close>), \<open>renameio\<close> (contract \<open>renameio_api\<close>), YAML,
  \<open>text/template\<close>, \<open>http.Post\<close>, the resolver and the dialer, the controller manager, client-go, the copying functions of imported types, and
  the order in which Go enumerates a map. Each contract has a reference instance
  (\<open>klib_reference\<close>, \<open>rio_reference\<close>) on which the witnesses run.

  \<^bold>\<open>Not modelled.\<close> The parsing of command lines, the embedded HTML templates, logging, the sockets and HTTP servers under
  the programs, and signal handling: calls into libraries with no logic of their own. The constants of
  \<open>internal/k8s/parameters.go\<close> are used nowhere. Charts, manifests and documents carry no code.
\<close>

end
